(* ===== verification/Prelude.thy ===== *)
theory Prelude
  imports Main "HOL-Library.AList"
begin

text \<open>
  Shared vocabulary of the development: the exceptions the Python code raises, as values of a
  sum type; Python dictionaries, which iterate in insertion order, as association lists updated
  with the library's \<open>AList.update\<close> (in place, or at the end when the key is new); instants and
  durations as integers (microseconds since an epoch in UTC); and the generic lemmas on
  those that the component theories share.
\<close>

section \<open>Errors as values\<close>

datatype py_error =
    ValueError string
  | TypeError string
  | KeyError string
  | AttributeError string
  | IndexError
  | RuntimeError string
  | DecimalDivision
  | ZeroDivision
  | NotImplementedError string
  | DatabaseError string

type_synonym 'a result = "py_error + 'a"

named_theorems model_defs \<open>definitions unfolded by the component proofs\<close>
named_theorems dec_simps \<open>order facts about rounded decimal operations\<close>

definition bind_result :: "'a result \<Rightarrow> ('a \<Rightarrow> 'b result) \<Rightarrow> 'b result" where
  "bind_result r f = (case r of Inl e \<Rightarrow> Inl e | Inr x \<Rightarrow> f x)"

lemma bind_result_simps [simp]:
  "bind_result (Inl e) f = Inl e"
  "bind_result (Inr x) f = f x"
  by (simp_all add: bind_result_def)

lemma bind_result_Inr_iff:
  "bind_result r f = Inr y \<longleftrightarrow> (\<exists>x. r = Inr x \<and> f x = Inr y)"
  by (cases r) simp_all

lemma bind_result_InrE [elim]:
  assumes "bind_result r f = Inr y"
  obtains x where "r = Inr x" and "f x = Inr y"
  using assms by (auto simp: bind_result_Inr_iff)

text \<open>A loop whose body may raise: the first exception ends it.\<close>

primrec fold_result :: "('a \<Rightarrow> 's \<Rightarrow> 's result) \<Rightarrow> 'a list \<Rightarrow> 's \<Rightarrow> 's result" where
  "fold_result f [] s = Inr s"
| "fold_result f (x # xs) s = bind_result (f x s) (fold_result f xs)"

lemma bind_result_Inr [simp]: "bind_result r Inr = r"
  by (cases r) simp_all

lemma fold_result_Nil_fun: "fold_result f [] = Inr"
  by (intro ext) simp

lemma fold_result_append:
  "fold_result f (xs @ ys) s = bind_result (fold_result f xs s) (fold_result f ys)"
proof (induction xs arbitrary: s)
  case (Cons x xs)
  then show ?case by (cases "f x s") simp_all
qed simp

lemma fold_result_invariant:
  assumes "fold_result f xs s = Inr s'" "P s"
    "\<And>x s s'. x \<in> set xs \<Longrightarrow> P s \<Longrightarrow> f x s = Inr s' \<Longrightarrow> P s'"
  shows "P s'"
  using assms
proof (induction xs arbitrary: s)
  case (Cons x xs)
  obtain s1 where s1: "f x s = Inr s1" "fold_result f xs s1 = Inr s'"
    using Cons.prems(1) by auto
  have "P s1" using Cons.prems(2,3) s1(1) by auto
  with Cons.IH [OF s1(2)] Cons.prems(3) show ?case by auto
qed simp

lemma fold_result_total:
  assumes "P s" "\<And>x s. x \<in> set xs \<Longrightarrow> P s \<Longrightarrow> \<exists>s'. f x s = Inr s' \<and> P s'"
  shows "\<exists>s'. fold_result f xs s = Inr s' \<and> P s'"
  using assms
proof (induction xs arbitrary: s)
  case (Cons x xs)
  obtain s1 where s1: "f x s = Inr s1" "P s1" using Cons.prems by (meson list.set_intros(1))
  with Cons.IH [OF s1(2)] Cons.prems(2) show ?case by simp
qed simp

lemma fold_result_cong:
  "(\<And>x s. x \<in> set xs \<Longrightarrow> f x s = g x s) \<Longrightarrow> fold_result f xs s = fold_result g xs s"
proof (induction xs arbitrary: s)
  case (Cons x xs)
  then have "fold_result f xs = fold_result g xs" by (intro ext) simp
  with Cons.prems show ?case by simp
qed simp

text \<open>
  A loop over mutable state whose body may raise: the first exception ends it, and what the earlier
  iterations did to the state stays done.
\<close>

primrec try_fold :: "('a \<Rightarrow> 's \<Rightarrow> py_error option \<times> 's) \<Rightarrow> 'a list \<Rightarrow> 's \<Rightarrow> py_error option \<times> 's" where
  "try_fold f [] s = (None, s)"
| "try_fold f (x # xs) s =
     (case f x s of (Some e, s') \<Rightarrow> (Some e, s') | (None, s') \<Rightarrow> try_fold f xs s')"

lemma try_fold_invariant:
  assumes "P s" "\<And>x s. x \<in> set xs \<Longrightarrow> P s \<Longrightarrow> P (snd (f x s))"
  shows "P (snd (try_fold f xs s))"
  using assms
proof (induction xs arbitrary: s)
  case (Cons x xs)
  obtain e s1 where s1: "f x s = (e, s1)" by force
  have "P s1" using Cons.prems(2) [of x s] Cons.prems(1) s1 by simp
  with Cons.IH [of s1] Cons.prems(2) s1 show ?case by (cases e) auto
qed simp

section \<open>Instants and durations\<close>

type_synonym timestamp = int

definition seconds :: "int \<Rightarrow> int" where
  "seconds n = n * 1000000"

definition days :: "int \<Rightarrow> int" where
  "days n = seconds (n * 86400)"

lemma days_mono: "days m \<le> days n \<longleftrightarrow> m \<le> n"
  by (simp add: days_def seconds_def)

lemma days_pos: "0 < days n \<longleftrightarrow> 0 < n"
  by (simp add: days_def seconds_def)

section \<open>Insertion-ordered dictionaries\<close>

type_synonym 'v dict = "(string \<times> 'v) list"

definition dict_wf :: "'v dict \<Rightarrow> bool" where
  "dict_wf d \<longleftrightarrow> distinct (map fst d)"

lemma dict_wf_Nil [simp]: "dict_wf []"
  by (simp add: dict_wf_def)

lemma dict_wf_update [simp]: "dict_wf d \<Longrightarrow> dict_wf (AList.update k v d)"
  by (simp add: dict_wf_def distinct_update)

lemma dict_wf_delete [simp]: "dict_wf d \<Longrightarrow> dict_wf (AList.delete k d)"
  by (simp add: dict_wf_def distinct_delete)

lemma dict_get_update [simp]:
  "map_of (AList.update k v d) k' = (if k' = k then Some v else map_of d k')"
  by (simp add: update_conv)

lemma dict_get_delete [simp]:
  "map_of (AList.delete k d) k' = (if k' = k then None else map_of d k')"
  by (simp add: delete_conv)

lemma dict_vals_update:
  "snd ` set (AList.update k v d) \<subseteq> insert v (snd ` set d)"
  by (induction d) auto

lemma dict_vals_delete:
  "snd ` set (AList.delete k d) \<subseteq> snd ` set d"
  by (auto simp: AList.delete_eq)

lemma dict_all_update:
  assumes "\<forall>(k', v') \<in> set d. P k' v'" and "P k v"
  shows "\<forall>(k', v') \<in> set (AList.update k v d). P k' v'"
  using assms by (induction d) auto

lemma dict_all_delete:
  assumes "\<forall>(k', v') \<in> set d. P k' v'"
  shows "\<forall>(k', v') \<in> set (AList.delete k d). P k' v'"
  using assms by (auto simp: AList.delete_eq)

lemma dict_allD:
  "\<forall>(k', v') \<in> set d. P k' v' \<Longrightarrow> map_of d k = Some v \<Longrightarrow> P k v"
  by (auto dest: map_of_SomeD)

lemma dict_keys_update:
  "fst ` set (AList.update k v d) = insert k (fst ` set d)"
  by (simp flip: dom_map_of_conv_image_fst add: update_conv')

lemma dict_keys_delete:
  "fst ` set (AList.delete k d) = fst ` set d - {k}"
  by (simp flip: dom_map_of_conv_image_fst add: delete_conv')

lemma dict_length_update_old:
  "map_of d k \<noteq> None \<Longrightarrow> length (AList.update k v d) = length d"
  by (induction d) auto

lemma dict_length_update_new:
  "map_of d k = None \<Longrightarrow> length (AList.update k v d) = Suc (length d)"
  by (induction d) auto

section \<open>Strings\<close>

text \<open>\<open>str.lower\<close> and \<open>str.upper\<close> on ASCII text.\<close>

definition lower_char :: "char \<Rightarrow> char" where
  "lower_char c = (let n = of_char c :: nat in if 65 \<le> n \<and> n \<le> 90 then char_of (n + 32) else c)"

definition upper_char :: "char \<Rightarrow> char" where
  "upper_char c = (let n = of_char c :: nat in if 97 \<le> n \<and> n \<le> 122 then char_of (n - 32) else c)"

definition str_lower :: "string \<Rightarrow> string" where
  "str_lower s = map lower_char s"

definition str_upper :: "string \<Rightarrow> string" where
  "str_upper s = map upper_char s"

text \<open>Decimal digits: \<open>str(n)\<close>, the zero-padded \<open>f"{n:0wd}"\<close>, and reading them back.\<close>

definition digit_char :: "nat \<Rightarrow> char" where
  "digit_char d = char_of (48 + d)"

fun nat_string :: "nat \<Rightarrow> string" where
  "nat_string n =
     (if n < 10 then [digit_char n] else nat_string (n div 10) @ [digit_char (n mod 10)])"

declare nat_string.simps [simp del]

definition zero_pad :: "nat \<Rightarrow> nat \<Rightarrow> string" where
  "zero_pad w n = replicate (w - length (nat_string n)) (digit_char 0) @ nat_string n"

definition read_nat :: "string \<Rightarrow> nat" where
  "read_nat s = foldl (\<lambda>a c. 10 * a + (of_char c - 48)) 0 s"

lemma of_char_digit_char: "d < 10 \<Longrightarrow> of_char (digit_char d) = (48 + d :: nat)"
  by (simp add: digit_char_def)

lemma read_nat_snoc: "d < 10 \<Longrightarrow> read_nat (s @ [digit_char d]) = 10 * read_nat s + d"
  by (simp add: read_nat_def of_char_digit_char)

lemma read_nat_string: "read_nat (nat_string n) = n"
proof (induction n rule: nat_string.induct)
  case (1 n)
  show ?case
  proof (cases "n < 10")
    case True
    then show ?thesis
      using read_nat_snoc [of n "[]"] by (simp add: nat_string.simps [of n] read_nat_def)
  next
    case False
    with 1 show ?thesis by (simp add: nat_string.simps [of n] read_nat_snoc)
  qed
qed

lemma read_nat_zeros: "read_nat (replicate k (digit_char 0) @ s) = read_nat s"
  by (induction k) (simp_all add: read_nat_def of_char_digit_char)

lemma read_zero_pad [simp]: "read_nat (zero_pad w n) = n"
  by (simp add: zero_pad_def read_nat_zeros read_nat_string)

lemma zero_pad_inject [simp]: "zero_pad w m = zero_pad w n \<longleftrightarrow> m = n"
  by (metis read_zero_pad)

definition int_string :: "int \<Rightarrow> string" where
  "int_string i = (if i < 0 then CHR ''-'' # nat_string (nat (- i)) else nat_string (nat i))"

lemma digit_char_colon: "d < 10 \<Longrightarrow> digit_char d \<noteq> CHR '':''"
  using of_char_digit_char [of d] by auto

lemma nat_string_no_colon: "CHR '':'' \<notin> set (nat_string n)"
proof (induction n rule: nat_string.induct)
  case (1 n)
  then show ?case by (simp add: nat_string.simps [of n] digit_char_colon [symmetric] not_sym)
qed

lemma nat_string_inject [simp]: "nat_string m = nat_string n \<longleftrightarrow> m = n"
  by (metis read_nat_string)

lemma digit_char_minus: "d < 10 \<Longrightarrow> digit_char d \<noteq> CHR ''-''"
  using of_char_digit_char [of d] by auto

lemma nat_string_no_minus: "CHR ''-'' \<notin> set (nat_string n)"
proof (induction n rule: nat_string.induct)
  case (1 n)
  then show ?case by (simp add: nat_string.simps [of n] digit_char_minus [symmetric])
qed

lemma int_string_no_colon: "CHR '':'' \<notin> set (int_string i)"
  by (simp add: int_string_def nat_string_no_colon)

lemma int_string_inject [simp]: "int_string i = int_string j \<longleftrightarrow> i = j"
proof
  assume eq: "int_string i = int_string j"
  have m: "CHR ''-'' # xs \<noteq> nat_string n" "nat_string n \<noteq> CHR ''-'' # xs" for xs n
    using nat_string_no_minus [of n] by (metis list.set_intros(1))+
  show "i = j"
  proof (cases "i < 0 \<longleftrightarrow> j < 0")
    case True
    with eq have "nat (if i < 0 then - i else i) = nat (if j < 0 then - j else j)"
      by (simp add: int_string_def split: if_splits)
    with True show ?thesis by (simp split: if_splits)
  next
    case False
    with eq m show ?thesis by (simp add: int_string_def split: if_splits)
  qed
qed simp

text \<open>A separator splits a text uniquely after a part that does not contain it.\<close>

lemma split_at_separator:
  assumes "xs @ c # ys = xs' @ c # ys'" "c \<notin> set xs" "c \<notin> set xs'"
  shows "xs = xs' \<and> ys = ys'"
proof -
  have "takeWhile (\<lambda>x. x \<noteq> c) (us @ c # vs) = us" "dropWhile (\<lambda>x. x \<noteq> c) (us @ c # vs) = c # vs"
    if "c \<notin> set us" for us vs
    using that by (induction us) auto
  from this [OF assms(2), of ys] this [OF assms(3), of ys'] assms(1) show ?thesis by (metis list.inject)
qed

section \<open>Python lists\<close>

text \<open>\<open>xs[-n:]\<close> for a positive \<open>n\<close>, and the slice \<open>xs[n:]\<close> is \<open>drop n xs\<close>.\<close>

definition last_n :: "nat \<Rightarrow> 'a list \<Rightarrow> 'a list" where
  "last_n n xs = drop (length xs - n) xs"

lemma length_last_n [simp]: "length (last_n n xs) = min n (length xs)"
  by (simp add: last_n_def)

lemma set_last_n: "set (last_n n xs) \<subseteq> set xs"
  by (simp add: last_n_def set_drop_subset)

lemma last_n_append_one: "0 < n \<Longrightarrow> last_n n (xs @ [x]) = last_n (n - 1) xs @ [x]"
  by (cases n) (auto simp: last_n_def)

lemma last_n_last_n: "m \<le> n \<Longrightarrow> last_n m (last_n n xs) = last_n m xs"
  by (auto simp: last_n_def min_def intro!: arg_cong2 [where f = drop])

lemma last_n_all: "length xs \<le> n \<Longrightarrow> last_n n xs = xs"
  by (simp add: last_n_def)

end
