(* ===== verification/Decimal.thy ===== *)
theory Decimal
  imports Prelude Complex_Main
begin

text \<open>
  Python's \<open>decimal.Decimal\<close> under the default context the program runs in: a finite decimal is
  its rational value, and every arithmetic operator computes the exact result and rounds it to 28
  significant digits, ties to even (\<open>prec=28\<close>, \<open>ROUND_HALF_EVEN\<close>). Comparisons, \<open>max\<close> and
  \<open>min\<close> are exact; unary minus and \<open>abs\<close> round, as they do in Python. Division by zero
  raises. Not modelled: NaN and infinities, the sign of zero, and the exponent range (values
  beyond 10 to the power of plus or minus 999999). The contract of a rounding is the locale
  \<open>rounding\<close>, interpreted by the function \<open>rnd\<close> of the default context.
\<close>

section \<open>Rounding to 28 significant digits\<close>

type_synonym decimal = rat

definition precision :: int where
  "precision = 28"

definition round_half_even :: "rat \<Rightarrow> int" where
  "round_half_even x =
     (let f = \<lfloor>x\<rfloor>; r = x - of_int f
      in if r < 1 / 2 then f
         else if 1 / 2 < r then f + 1
         else if even f then f else f + 1)"

text \<open>The exponent of the most significant digit of a positive number.\<close>

function log10_floor :: "int \<Rightarrow> nat" where
  "log10_floor n = (if n < 10 then 0 else Suc (log10_floor (n div 10)))"
  by pat_completeness auto
termination
  by (relation "measure nat") auto

declare log10_floor.simps [simp del]

definition adjusted :: "rat \<Rightarrow> int" where
  "adjusted x =
     (if 1 \<le> x then int (log10_floor \<lfloor>x\<rfloor>)
      else - int (Suc (log10_floor (\<lceil>1 / x\<rceil> - 1))))"

definition ulp :: "rat \<Rightarrow> rat" where
  "ulp x = 10 powi (adjusted \<bar>x\<bar> - (precision - 1))"

definition rnd :: "rat \<Rightarrow> decimal" where
  "rnd x = (if x = 0 then 0 else of_int (round_half_even (x / ulp x)) * ulp x)"

subsection \<open>Rounding to an integer\<close>

lemma round_half_even_of_int [simp]: "round_half_even (of_int n) = n"
  by (simp add: round_half_even_def)

lemma round_half_even_error: "\<bar>of_int (round_half_even x) - x\<bar> \<le> 1 / 2"
proof -
  have "of_int \<lfloor>x\<rfloor> \<le> x" "x < of_int \<lfloor>x\<rfloor> + 1" by linarith+
  then show ?thesis by (auto simp: round_half_even_def Let_def abs_le_iff)
qed

lemma round_half_even_cases:
  "round_half_even x = \<lfloor>x\<rfloor> \<and> x - of_int \<lfloor>x\<rfloor> \<le> 1 / 2 \<or>
   round_half_even x = \<lfloor>x\<rfloor> + 1 \<and> 1 / 2 \<le> x - of_int \<lfloor>x\<rfloor>"
  by (auto simp: round_half_even_def Let_def)

lemma round_half_even_mono:
  assumes "x \<le> y" shows "round_half_even x \<le> round_half_even y"
proof (cases "\<lfloor>x\<rfloor> = \<lfloor>y\<rfloor>")
  case True
  with assms show ?thesis by (simp add: round_half_even_def Let_def)
next
  case False
  with assms have "\<lfloor>x\<rfloor> + 1 \<le> \<lfloor>y\<rfloor>" using floor_mono [OF assms] by linarith
  then show ?thesis using round_half_even_cases [of x] round_half_even_cases [of y] by linarith
qed

lemma round_half_even_minus: "round_half_even (- x) = - round_half_even x"
proof (cases "x = of_int \<lfloor>x\<rfloor>")
  case True
  then show ?thesis by (metis of_int_minus round_half_even_of_int)
next
  case False
  then have lt: "of_int \<lfloor>x\<rfloor> < x" "x < of_int \<lfloor>x\<rfloor> + 1"
    using of_int_floor_le [of x] by linarith+
  have fl: "\<lfloor>- x\<rfloor> = - \<lfloor>x\<rfloor> - 1" using lt by (intro floor_unique) simp_all
  show ?thesis unfolding round_half_even_def fl Let_def by (auto simp: algebra_simps)
qed

subsection \<open>The leading digit\<close>

lemma log10_floor_bounds:
  "0 < n \<Longrightarrow> 10 ^ log10_floor n \<le> n \<and> n < 10 ^ Suc (log10_floor n)"
proof (induction n rule: log10_floor.induct)
  case (1 n)
  show ?case
  proof (cases "n < 10")
    case True
    with 1 show ?thesis by (simp add: log10_floor.simps [of n])
  next
    case False
    with 1 have "10 ^ log10_floor (n div 10) \<le> n div 10" "n div 10 < 10 ^ Suc (log10_floor (n div 10))"
      by simp_all
    then have "10 * 10 ^ log10_floor (n div 10) \<le> n" "n < 10 * 10 ^ Suc (log10_floor (n div 10))"
      by linarith+
    with False show ?thesis by (simp add: log10_floor.simps [of n])
  qed
qed

lemma log10_floor_bounds_rat:
  assumes "0 < n"
  shows "(10 ^ log10_floor n :: rat) \<le> of_int n" "of_int n + 1 \<le> (10 ^ Suc (log10_floor n) :: rat)"
proof -
  have "10 ^ log10_floor n \<le> n" "n + 1 \<le> 10 ^ Suc (log10_floor n)"
    using log10_floor_bounds [OF assms] by simp_all
  then have "(of_int (10 ^ log10_floor n) :: rat) \<le> of_int n"
      "(of_int (n + 1) :: rat) \<le> of_int (10 ^ Suc (log10_floor n))"
    by (simp_all only: of_int_le_iff)
  then show "(10 ^ log10_floor n :: rat) \<le> of_int n"
      "of_int n + 1 \<le> (10 ^ Suc (log10_floor n) :: rat)" by simp_all
qed

lemma adjusted_bounds:
  assumes "0 < x" shows "10 powi adjusted x \<le> x \<and> x < 10 powi (adjusted x + 1)"
proof (cases "1 \<le> x")
  case True
  define k where "k = log10_floor \<lfloor>x\<rfloor>"
  have "0 < \<lfloor>x\<rfloor>" using True by linarith
  then have b: "(10 ^ k :: rat) \<le> of_int \<lfloor>x\<rfloor>" "of_int \<lfloor>x\<rfloor> + 1 \<le> (10 ^ Suc k :: rat)"
    unfolding k_def by (rule log10_floor_bounds_rat)+
  have "10 ^ k \<le> x" "x < 10 ^ Suc k" using b by linarith+
  moreover have "adjusted x = int k" "adjusted x + 1 = int (Suc k)"
    using True by (simp_all add: adjusted_def k_def)
  ultimately show ?thesis by (metis power_int_of_nat)
next
  case False
  define m where "m = \<lceil>1 / x\<rceil> - 1"
  define k where "k = log10_floor m"
  have "1 < 1 / x" using assms False by simp
  then have m: "0 < m" "of_int m < 1 / x" "1 / x \<le> of_int m + 1"
    by (simp_all add: m_def) linarith+
  have b: "(10 ^ k :: rat) \<le> of_int m" "of_int m + 1 \<le> (10 ^ Suc k :: rat)"
    unfolding k_def by (rule log10_floor_bounds_rat [OF m(1)])+
  have adj: "adjusted x = - int (Suc k)" "adjusted x + 1 = - int k"
    using False by (simp_all add: adjusted_def m_def k_def)
  have "1 / x \<le> 10 ^ Suc k" "10 ^ k < 1 / x" using b m by linarith+
  then have "1 / 10 ^ Suc k \<le> x" "x < 1 / 10 ^ k"
    using assms by (simp_all add: field_simps)
  then show ?thesis unfolding adj(2) unfolding adj(1)
    by (simp only: power_int_minus power_int_of_nat inverse_eq_divide)
qed

lemma powi10_pos [simp]: "0 < (10 powi e :: rat)"
  by (simp add: zero_less_power_int)

lemma powi10_mono: "d \<le> e \<Longrightarrow> (10 powi d :: rat) \<le> 10 powi e"
  by (rule power_int_increasing) simp_all

lemma powi10_less_iff: "(10 powi d :: rat) < 10 powi e \<longleftrightarrow> d < e"
  by (metis linorder_not_le powi10_mono order_less_le one_less_numeral_iff power_int_strict_increasing semiring_norm(76))

lemma adjusted_mono:
  assumes "0 < x" "x \<le> y" shows "adjusted x \<le> adjusted y"
proof -
  have "0 < y" using assms by simp
  then have "10 powi adjusted x < (10 powi (adjusted y + 1) :: rat)"
    using adjusted_bounds [OF assms(1)] adjusted_bounds [of y] assms(2) by linarith
  then show ?thesis by (simp add: powi10_less_iff)
qed

subsection \<open>The rounded value\<close>

lemma ulp_pos [simp]: "0 < ulp x"
  by (simp add: ulp_def)

lemma ulp_neq_0 [simp]: "ulp x \<noteq> 0"
  by (simp add: ulp_def)

lemma rnd_0 [simp]: "rnd 0 = 0"
  by (simp add: rnd_def)

lemma rnd_minus: "rnd (- x) = - rnd x"
  by (simp add: rnd_def ulp_def round_half_even_minus)

lemma rnd_error_ulp: "\<bar>rnd x - x\<bar> \<le> ulp x / 2"
proof (cases "x = 0")
  case False
  have "rnd x - x = (of_int (round_half_even (x / ulp x)) - x / ulp x) * ulp x"
    using False by (simp add: rnd_def left_diff_distrib)
  moreover have "\<bar>of_int (round_half_even (x / ulp x)) - x / ulp x\<bar> * ulp x \<le> 1 / 2 * ulp x"
    using round_half_even_error ulp_pos [of x] by (intro mult_right_mono) (auto simp: less_imp_le)
  moreover have "\<bar>ulp x\<bar> = ulp x" using ulp_pos [of x] by linarith
  ultimately show ?thesis by (simp add: abs_mult)
qed (simp add: less_imp_le)

lemma ulp_le: "x \<noteq> 0 \<Longrightarrow> ulp x \<le> \<bar>x\<bar> / 10 ^ 27"
  using adjusted_bounds [of "\<bar>x\<bar>"]
  by (simp add: ulp_def precision_def power_int_diff field_simps)

lemma rnd_error: "\<bar>rnd x - x\<bar> \<le> \<bar>x\<bar> / (2 * 10 ^ 27)"
proof (cases "x = 0")
  case False
  then show ?thesis using rnd_error_ulp [of x] ulp_le [of x] by (simp add: field_simps)
qed simp

lemma rnd_exact:
  assumes "x = of_int m * 10 powi k" and "\<bar>m\<bar> < 10 ^ 28"
  shows "rnd x = x"
proof (cases "m = 0")
  case False
  then have "x \<noteq> 0" using assms(1) by (simp add: less_imp_neq [symmetric])
  have "\<bar>x\<bar> = of_int \<bar>m\<bar> * 10 powi k" using assms(1) by (simp add: abs_mult)
  moreover have "(of_int \<bar>m\<bar> :: rat) < 10 powi 28" using assms(2) by (simp flip: of_int_less_iff)
  ultimately have "\<bar>x\<bar> < 10 powi 28 * 10 powi k"
    by (simp only: mult_less_cancel_right_pos [OF powi10_pos])
  then have "10 powi adjusted \<bar>x\<bar> < (10 powi (28 + k) :: rat)"
    using adjusted_bounds [of "\<bar>x\<bar>"] \<open>x \<noteq> 0\<close> by (simp add: power_int_add)
  then have "adjusted \<bar>x\<bar> < 28 + k" by (simp add: powi10_less_iff)
  then have nonneg: "0 \<le> k - (adjusted \<bar>x\<bar> - 27)" by simp
  have "x / ulp x = of_int m * 10 powi (k - (adjusted \<bar>x\<bar> - 27))"
    unfolding ulp_def precision_def by (subst assms(1)) (simp add: power_int_diff)
  also have "\<dots> = of_int (m * 10 ^ nat (k - (adjusted \<bar>x\<bar> - 27)))"
    using nonneg by (simp add: power_int_def)
  finally have "x / ulp x = of_int (m * 10 ^ nat (k - (adjusted \<bar>x\<bar> - 27)))" .
  moreover have "x = x / ulp x * ulp x" using less_imp_neq [OF ulp_pos [of x]] by simp
  ultimately show ?thesis using \<open>x \<noteq> 0\<close> unfolding rnd_def by (metis round_half_even_of_int)
qed (use assms in simp)

lemma rnd_powi: "rnd (10 powi e) = 10 powi e"
  by (rule rnd_exact [of _ 1 e]) simp_all

lemma rnd_scaled_mono:
  assumes "x \<le> y" "0 < u"
  shows "of_int (round_half_even (x / u)) * u \<le> of_int (round_half_even (y / u)) * u"
  using assms by (intro mult_right_mono) (auto intro!: round_half_even_mono divide_right_mono)

lemma rnd_same_ulp_mono:
  assumes "0 < x" "x \<le> y" "adjusted x = adjusted y" shows "rnd x \<le> rnd y"
  using assms rnd_scaled_mono [of x y "ulp y"] by (simp add: rnd_def ulp_def)

text \<open>A value is never rounded past a power of ten.\<close>

lemma rnd_le_next_power:
  assumes "0 < x" shows "rnd x \<le> 10 powi (adjusted x + 1)"
proof -
  have "rnd x = of_int (round_half_even (x / ulp x)) * ulp x"
    using assms by (simp add: rnd_def)
  also have "\<dots> \<le> of_int (round_half_even (10 powi (adjusted x + 1) / ulp x)) * ulp x"
    using adjusted_bounds [OF assms] by (intro rnd_scaled_mono) simp_all
  also have "10 powi (adjusted x + 1) / ulp x = (of_int (10 ^ 28) :: rat)"
    using assms by (simp add: ulp_def precision_def power_int_diff power_int_add)
  also have "of_int (round_half_even (of_int (10 ^ 28))) * ulp x = 10 powi (adjusted x + 1)"
    using assms by (simp only: round_half_even_of_int)
      (simp add: ulp_def precision_def power_int_diff power_int_add)
  finally show ?thesis .
qed

lemma rnd_ge_power:
  assumes "0 < x" shows "10 powi adjusted x \<le> rnd x"
proof -
  have "10 powi adjusted x = of_int (round_half_even (of_int (10 ^ 27))) * ulp x"
    using assms by (simp only: round_half_even_of_int)
      (simp add: ulp_def precision_def power_int_diff power_int_add)
  also have "(of_int (10 ^ 27) :: rat) = 10 powi adjusted x / ulp x"
    using assms by (simp add: ulp_def precision_def power_int_diff power_int_add)
  also have "of_int (round_half_even (10 powi adjusted x / ulp x)) * ulp x
      \<le> of_int (round_half_even (x / ulp x)) * ulp x"
    using adjusted_bounds [OF assms] by (intro rnd_scaled_mono) simp_all
  finally show ?thesis using assms by (simp add: rnd_def)
qed

lemma rnd_mono_pos:
  assumes "0 < x" "x \<le> y" shows "rnd x \<le> rnd y"
proof (cases "adjusted x = adjusted y")
  case True
  with assms show ?thesis by (rule rnd_same_ulp_mono)
next
  case False
  then have "adjusted x + 1 \<le> adjusted y" using adjusted_mono [OF assms] by simp
  then have "10 powi (adjusted x + 1) \<le> (10 powi adjusted y :: rat)" by (rule powi10_mono)
  then show ?thesis using rnd_le_next_power [OF assms(1)] rnd_ge_power [of y] assms by linarith
qed

lemma rnd_pos: "0 < x \<Longrightarrow> 0 < rnd x"
  using rnd_ge_power [of x] powi10_pos [of "adjusted x"] by linarith

lemma rnd_mono: "x \<le> y \<Longrightarrow> rnd x \<le> rnd y"
proof (cases "0 < x")
  case False
  assume le: "x \<le> y"
  show ?thesis
  proof (cases "y < 0")
    case True
    with rnd_mono_pos [of "- y" "- x"] le show ?thesis by (simp add: rnd_minus)
  next
    case ynn: False
    have "rnd x \<le> 0" using False rnd_pos [of "- x"] by (cases "x = 0") (simp_all add: rnd_minus)
    moreover have "0 \<le> rnd y" using ynn rnd_pos [of y] by (cases "y = 0") (simp_all add: less_imp_le)
    ultimately show ?thesis by simp
  qed
qed (rule rnd_mono_pos)

lemma rnd_nonneg: "0 \<le> x \<Longrightarrow> 0 \<le> rnd x"
  using rnd_mono [of 0 x] by simp

lemma rnd_abs: "rnd \<bar>x\<bar> = \<bar>rnd x\<bar>"
  using rnd_nonneg [of x] rnd_nonneg [of "- x"] by (cases "0 \<le> x") (simp_all add: rnd_minus)

text \<open>A rounded value has at most 28 digits, so rounding again changes nothing.\<close>

lemma rnd_idem: "rnd (rnd x) = rnd x"
proof (cases "x = 0")
  case False
  define m where "m = round_half_even (x / ulp x)"
  define k where "k = adjusted \<bar>x\<bar> - 27"
  have r: "rnd x = of_int m * 10 powi k"
    using False by (simp add: rnd_def m_def k_def ulp_def precision_def)
  have "rnd \<bar>x\<bar> = of_int \<bar>m\<bar> * 10 powi k"
    unfolding rnd_abs r by (simp add: abs_mult)
  moreover have "10 powi (adjusted \<bar>x\<bar> + 1) = (of_int (10 ^ 28) * 10 powi k :: rat)"
    by (simp add: k_def power_int_add power_int_diff)
  ultimately have "of_int \<bar>m\<bar> * 10 powi k \<le> (of_int (10 ^ 28) * 10 powi k :: rat)"
    using rnd_le_next_power [of "\<bar>x\<bar>"] False by (metis zero_less_abs_iff)
  then have "(of_int \<bar>m\<bar> :: rat) \<le> of_int (10 ^ 28)"
    by (simp only: mult_le_cancel_right_pos [OF powi10_pos])
  then have "\<bar>m\<bar> \<le> 10 ^ 28" by (simp only: of_int_le_iff)
  then consider "\<bar>m\<bar> < 10 ^ 28" | "m = 10 ^ 28" | "m = - (10 ^ 28)" by linarith
  then show ?thesis
  proof cases
    case 1
    with r show ?thesis by (rule rnd_exact)
  next
    case 2
    with r have "rnd x = 10 powi (28 + k)" by (simp add: power_int_add)
    then show ?thesis by (simp add: rnd_powi)
  next
    case 3
    with r have "rnd x = - (10 powi (28 + k))" by (simp add: power_int_add)
    then show ?thesis by (simp add: rnd_powi rnd_minus)
  qed
qed simp

section \<open>The contract of a rounding\<close>

text \<open>
  What the rest of the development relies on: a rounding is monotone, leaves rounded values
  alone, is symmetric and has a relative error of at most half a unit in the 28th digit.
\<close>

locale rounding =
  fixes r :: "rat \<Rightarrow> rat"
  assumes mono: "x \<le> y \<Longrightarrow> r x \<le> r y"
    and idem: "r (r x) = r x"
    and zero: "r 0 = 0"
    and neg: "r (- x) = - r x"
    and close: "\<bar>r x - x\<bar> \<le> \<bar>x\<bar> / (2 * 10 ^ 27)"
begin

lemma nonneg: "0 \<le> x \<Longrightarrow> 0 \<le> r x"
  using mono [of 0 x] zero by simp

lemma pos: "0 < x \<Longrightarrow> 0 < r x"
  using close [of x] by (simp add: abs_if field_simps split: if_splits)

lemma nonpos: "x \<le> 0 \<Longrightarrow> r x \<le> 0"
  using mono [of x 0] zero by simp

lemma pos_iff: "0 < r x \<longleftrightarrow> 0 < x"
  using pos nonpos [of x] by force

lemma nonneg_iff: "0 \<le> r x \<longleftrightarrow> 0 \<le> x"
  using nonneg pos [of "- x"] neg [of x] by force

lemma nonpos_iff: "r x \<le> 0 \<longleftrightarrow> x \<le> 0"
  using pos_iff [of x] by linarith

lemma neg_iff: "r x < 0 \<longleftrightarrow> x < 0"
  using nonneg_iff [of x] by linarith

lemma eq_0_iff: "r x = 0 \<longleftrightarrow> x = 0"
  using pos_iff [of x] neg_iff [of x] zero by (cases x "0 :: rat" rule: linorder_cases) auto

lemma le_fixed: "x \<le> y \<Longrightarrow> r y = y \<Longrightarrow> r x \<le> y"
  using mono [of x y] by simp

lemma fixed_le: "y \<le> x \<Longrightarrow> r y = y \<Longrightarrow> y \<le> r x"
  using mono [of y x] by simp

lemma upper: "0 \<le> x \<Longrightarrow> r x \<le> x * (1 + 1 / (2 * 10 ^ 27))"
  using close [of x] unfolding abs_le_iff abs_of_nonneg by (simp add: distrib_left)

lemma lower: "0 \<le> x \<Longrightarrow> x * (1 - 1 / (2 * 10 ^ 27)) \<le> r x"
  using close [of x] unfolding abs_le_iff abs_of_nonneg by (simp add: right_diff_distrib)

end

interpretation ctx: rounding rnd
  by unfold_locales (rule rnd_mono, assumption, rule rnd_idem, rule rnd_0, rule rnd_minus, rule rnd_error)

section \<open>The operators\<close>

definition dadd :: "decimal \<Rightarrow> decimal \<Rightarrow> decimal" where
  "dadd x y = rnd (x + y)"

definition dsub :: "decimal \<Rightarrow> decimal \<Rightarrow> decimal" where
  "dsub x y = rnd (x - y)"

definition dmul :: "decimal \<Rightarrow> decimal \<Rightarrow> decimal" where
  "dmul x y = rnd (x * y)"

definition ddiv :: "decimal \<Rightarrow> decimal \<Rightarrow> decimal" where
  "ddiv x y = rnd (x / y)"

text \<open>Division where the source does not exclude a zero divisor first: it raises.\<close>

definition ddiv_or_raise :: "decimal \<Rightarrow> decimal \<Rightarrow> decimal result" where
  "ddiv_or_raise x y = (if y = 0 then Inl DecimalDivision else Inr (ddiv x y))"

definition dneg :: "decimal \<Rightarrow> decimal" where
  "dneg x = rnd (- x)"

definition dabs :: "decimal \<Rightarrow> decimal" where
  "dabs x = rnd \<bar>x\<bar>"

text \<open>\<open>sum(xs, Decimal("0"))\<close>: left to right, one rounding per addition.\<close>

definition dsum :: "decimal list \<Rightarrow> decimal" where
  "dsum xs = foldl dadd 0 xs"

text \<open>\<open>Decimal(n)\<close> of a Python integer is exact.\<close>

definition dec_of_nat :: "nat \<Rightarrow> decimal" where
  "dec_of_nat n = of_nat n"

lemmas decimal_ops = dadd_def dsub_def dmul_def ddiv_def dneg_def dabs_def

lemma dadd_nonneg [simp, intro]: "0 \<le> x \<Longrightarrow> 0 \<le> y \<Longrightarrow> 0 \<le> dadd x y"
  by (simp add: dadd_def ctx.nonneg)

lemma dadd_pos: "0 < x \<Longrightarrow> 0 \<le> y \<Longrightarrow> 0 < dadd x y"
  by (simp add: dadd_def ctx.pos)

lemma dadd_pos': "0 \<le> x \<Longrightarrow> 0 < y \<Longrightarrow> 0 < dadd x y"
  by (simp add: dadd_def ctx.pos)

lemma dadd_mono: "x \<le> x' \<Longrightarrow> y \<le> y' \<Longrightarrow> dadd x y \<le> dadd x' y'"
  by (simp add: dadd_def rnd_mono)

lemma dsub_nonneg_iff [simp]: "0 \<le> dsub x y \<longleftrightarrow> y \<le> x"
  by (simp add: dsub_def ctx.nonneg_iff)

lemma dsub_pos_iff [simp]: "0 < dsub x y \<longleftrightarrow> y < x"
  by (simp add: dsub_def ctx.pos_iff)

lemma dsub_nonpos_iff [simp]: "dsub x y \<le> 0 \<longleftrightarrow> x \<le> y"
  by (simp add: dsub_def ctx.nonpos_iff)

lemma dsub_neg_iff [simp]: "dsub x y < 0 \<longleftrightarrow> x < y"
  by (simp add: dsub_def ctx.neg_iff)

lemma dsub_eq_0_iff [simp]: "dsub x y = 0 \<longleftrightarrow> x = y"
  by (simp add: dsub_def ctx.eq_0_iff)

lemma dsub_self [simp]: "dsub x x = 0"
  by simp

lemma dmul_nonneg [simp, intro]: "0 \<le> x \<Longrightarrow> 0 \<le> y \<Longrightarrow> 0 \<le> dmul x y"
  by (simp add: dmul_def ctx.nonneg)

lemma dmul_pos [simp, intro]: "0 < x \<Longrightarrow> 0 < y \<Longrightarrow> 0 < dmul x y"
  by (simp add: dmul_def ctx.pos)

lemma dmul_mono: "x \<le> x' \<Longrightarrow> y \<le> y' \<Longrightarrow> 0 \<le> x' \<Longrightarrow> 0 \<le> y \<Longrightarrow> dmul x y \<le> dmul x' y'"
  by (simp add: dmul_def rnd_mono mult_mono)

lemma dmul_zero [simp]: "dmul 0 x = 0" "dmul x 0 = 0"
  by (simp_all add: dmul_def)

lemma ddiv_nonneg [simp, intro]: "0 \<le> x \<Longrightarrow> 0 \<le> y \<Longrightarrow> 0 \<le> ddiv x y"
  by (simp add: ddiv_def ctx.nonneg)

lemma ddiv_pos [simp, intro]: "0 < x \<Longrightarrow> 0 < y \<Longrightarrow> 0 < ddiv x y"
  by (simp add: ddiv_def ctx.pos)

lemma ddiv_mono: "x \<le> x' \<Longrightarrow> 0 < y \<Longrightarrow> ddiv x y \<le> ddiv x' y"
  by (simp add: ddiv_def rnd_mono divide_right_mono)

lemma ddiv_zero [simp]: "ddiv 0 y = 0"
  by (simp add: ddiv_def)

lemma ddiv_or_raise_Inr_iff: "ddiv_or_raise x y = Inr z \<longleftrightarrow> y \<noteq> 0 \<and> z = ddiv x y"
  by (auto simp: ddiv_or_raise_def)

lemma dneg_simps [simp]: "0 \<le> dneg x \<longleftrightarrow> x \<le> 0" "dneg x \<le> 0 \<longleftrightarrow> 0 \<le> x"
  "0 < dneg x \<longleftrightarrow> x < 0" "dneg x < 0 \<longleftrightarrow> 0 < x"
  by (simp_all add: dneg_def ctx.nonneg_iff ctx.nonpos_iff ctx.pos_iff ctx.neg_iff)

lemma dabs_nonneg [simp]: "0 \<le> dabs x"
  by (simp add: dabs_def ctx.nonneg)

lemma dabs_pos_iff [simp]: "0 < dabs x \<longleftrightarrow> x \<noteq> 0"
  by (simp add: dabs_def ctx.pos_iff)

lemma dabs_eq_0_iff [simp]: "dabs x = 0 \<longleftrightarrow> x = 0"
  by (simp add: dabs_def ctx.eq_0_iff)

lemma dsum_Nil [simp]: "dsum [] = 0"
  by (simp add: dsum_def)

lemma dsum_snoc: "dsum (xs @ [x]) = dadd (dsum xs) x"
  by (simp add: dsum_def)

lemma dsum_nonneg: "\<forall>x \<in> set xs. 0 \<le> x \<Longrightarrow> 0 \<le> dsum xs"
  by (induction xs rule: rev_induct) (simp_all add: dsum_snoc)

lemma dsum_pos: "\<forall>x \<in> set xs. 0 < x \<Longrightarrow> xs \<noteq> [] \<Longrightarrow> 0 < dsum xs"
proof (induction xs rule: rev_induct)
  case (snoc x xs)
  then have "0 \<le> dsum xs" by (intro dsum_nonneg) (auto intro: less_imp_le)
  with snoc show ?case by (simp add: dsum_snoc dadd_pos')
qed simp

lemma dsum_nonpos: "\<forall>x \<in> set xs. x \<le> 0 \<Longrightarrow> dsum xs \<le> 0"
  by (induction xs rule: rev_induct) (auto simp: dsum_snoc dadd_def ctx.nonpos_iff)

subsection \<open>A weighted average, rounded at every step\<close>

text \<open>The relative error of one operation.\<close>

definition half_ulp :: rat where
  "half_ulp = 1 / (2 * 10 ^ 27)"

lemma half_ulp_bounds: "0 < half_ulp" "half_ulp < 1 / 100"
  by (simp_all add: half_ulp_def)

lemma rnd_upper: "0 \<le> x \<Longrightarrow> rnd x \<le> x * (1 + half_ulp)"
  unfolding half_ulp_def by (rule ctx.upper)

lemma rnd_lower: "0 \<le> x \<Longrightarrow> x * (1 - half_ulp) \<le> rnd x"
  unfolding half_ulp_def by (rule ctx.lower)

lemma half_ulp_lower_factor: "(1 - 4 * half_ulp) * (1 + half_ulp) \<le> (1 - half_ulp) ^ 3"
proof -
  have "half_ulp * (half_ulp * half_ulp) \<le> 1 * (half_ulp * half_ulp)"
    using half_ulp_bounds by (intro mult_right_mono) simp_all
  then show ?thesis using half_ulp_bounds(1) by (simp add: power3_eq_cube algebra_simps)
qed

lemma half_ulp_upper_factor: "(1 + half_ulp) ^ 3 \<le> (1 + 5 * half_ulp) * (1 - half_ulp)"
proof -
  have "half_ulp * half_ulp \<le> 1 / 100 * half_ulp"
    using half_ulp_bounds by (intro mult_right_mono) simp_all
  moreover have "half_ulp * (half_ulp * half_ulp) \<le> 1 * (half_ulp * half_ulp)"
    using half_ulp_bounds by (intro mult_right_mono) simp_all
  ultimately have "half_ulp * (half_ulp * half_ulp) + half_ulp * (half_ulp * 8) \<le> half_ulp"
    using half_ulp_bounds(1) by linarith
  then show ?thesis by (simp add: power3_eq_cube algebra_simps)
qed

lemma weighted_average_lower:
  assumes "0 < m" "m \<le> e" "m \<le> p" "0 < q" "0 < q'"
  shows "m * (1 - 4 * half_ulp) \<le> ddiv (dadd (dmul e q) (dmul p q')) (dadd q q')"
proof -
  define c where "c = 1 - half_ulp"
  have c: "0 < c" "c < 1" using half_ulp_bounds by (simp_all add: c_def)
  have low: "y * c \<le> rnd x" if "y \<le> x" "0 \<le> x" for x y
  proof -
    have "y * c \<le> x * c" using that(1) c by (intro mult_right_mono) simp_all
    also have "\<dots> \<le> rnd x" using rnd_lower [OF that(2)] by (simp add: c_def)
    finally show ?thesis .
  qed
  have "m * q * c \<le> dmul e q" "m * q' * c \<le> dmul p q'"
    unfolding dmul_def using assms by (auto intro!: low mult_right_mono)
  then have "m * (q + q') * c \<le> dmul e q + dmul p q'" by (simp add: algebra_simps)
  then have num: "m * (q + q') * c * c \<le> dadd (dmul e q) (dmul p q')"
    unfolding dadd_def using assms by (intro low) (auto intro!: add_nonneg_nonneg dmul_nonneg)
  have den: "0 < dadd q q'" "dadd q q' \<le> (q + q') * (1 + half_ulp)"
    using assms rnd_upper [of "q + q'"] by (auto simp: dadd_def ctx.pos)
  have "m * (1 - 4 * half_ulp) * (dadd q q') \<le> m * (1 - 4 * half_ulp) * ((q + q') * (1 + half_ulp))"
    using den assms half_ulp_bounds by (intro mult_left_mono) simp_all
  also have "\<dots> = m * (q + q') * ((1 - 4 * half_ulp) * (1 + half_ulp))" by simp
  also have "\<dots> \<le> m * (q + q') * (c ^ 3)"
    using half_ulp_lower_factor assms unfolding c_def by (intro mult_left_mono) simp_all
  also have "\<dots> = m * (q + q') * c * c * c" by (simp add: power3_eq_cube)
  also have "\<dots> \<le> dadd (dmul e q) (dmul p q') * c" using num c by (intro mult_right_mono) simp_all
  finally have "m * (1 - 4 * half_ulp) \<le> dadd (dmul e q) (dmul p q') / dadd q q' * c"
    using den(1) by (simp add: field_simps)
  also have "\<dots> \<le> ddiv (dadd (dmul e q) (dmul p q')) (dadd q q')"
    unfolding ddiv_def using assms den(1)
    by (intro low) (auto intro!: divide_nonneg_pos dadd_nonneg dmul_nonneg)
  finally show ?thesis .
qed

lemma weighted_average_upper:
  assumes "0 < e" "0 < p" "e \<le> M" "p \<le> M" "0 < q" "0 < q'"
  shows "ddiv (dadd (dmul e q) (dmul p q')) (dadd q q') \<le> M * (1 + 5 * half_ulp)"
proof -
  define c where "c = 1 + half_ulp"
  have c: "1 < c" using half_ulp_bounds by (simp add: c_def)
  have up: "rnd x \<le> y * c" if "x \<le> y" "0 \<le> x" for x y
  proof -
    have "rnd x \<le> x * c" using rnd_upper [OF that(2)] by (simp add: c_def)
    also have "\<dots> \<le> y * c" using that(1) c by (intro mult_right_mono) simp_all
    finally show ?thesis .
  qed
  have M: "0 < M" using assms by simp
  have "dmul e q \<le> M * q * c" "dmul p q' \<le> M * q' * c"
    unfolding dmul_def using assms by (auto intro!: up mult_right_mono)
  then have "dmul e q + dmul p q' \<le> M * (q + q') * c" by (simp add: algebra_simps)
  then have num: "dadd (dmul e q) (dmul p q') \<le> M * (q + q') * c * c"
    unfolding dadd_def using assms by (intro up) (auto intro!: add_nonneg_nonneg dmul_nonneg)
  have den: "0 < dadd q q'" "(q + q') * (1 - half_ulp) \<le> dadd q q'"
    using assms rnd_lower [of "q + q'"] by (auto simp: dadd_def ctx.pos)
  have "dadd (dmul e q) (dmul p q') * c \<le> M * (q + q') * c * c * c"
    using num c by (intro mult_right_mono) simp_all
  also have "\<dots> = M * (q + q') * (c ^ 3)" by (simp add: power3_eq_cube)
  also have "\<dots> \<le> M * (q + q') * ((1 + 5 * half_ulp) * (1 - half_ulp))"
    using half_ulp_upper_factor assms M unfolding c_def by (intro mult_left_mono) simp_all
  also have "\<dots> = M * (1 + 5 * half_ulp) * ((q + q') * (1 - half_ulp))" by simp
  also have "\<dots> \<le> M * (1 + 5 * half_ulp) * dadd q q'"
    using den M half_ulp_bounds by (intro mult_left_mono) simp_all
  finally have b: "dadd (dmul e q) (dmul p q') / dadd q q' * c \<le> M * (1 + 5 * half_ulp)"
    using den(1) by (simp add: field_simps)
  have "ddiv (dadd (dmul e q) (dmul p q')) (dadd q q')
      \<le> dadd (dmul e q) (dmul p q') / dadd q q' * c"
    unfolding ddiv_def using assms den(1)
    by (intro up) (auto intro!: divide_nonneg_pos dadd_nonneg dmul_nonneg)
  with b show ?thesis by simp
qed

subsection \<open>Evaluating rounded constants\<close>

text \<open>Constants with at most 18 decimal places and few enough digits are not changed.\<close>

lemma rnd_numeral [simp]: "(numeral n :: int) < 10 ^ 28 \<Longrightarrow> rnd (numeral n) = numeral n"
  using rnd_exact [of _ "numeral n" 0] by simp

lemma rnd_1 [simp]: "rnd 1 = 1"
  using rnd_exact [of _ 1 0] by simp

lemma rnd_scaled_down:
  assumes "(10 :: int) ^ 18 mod d = 0" "n * (10 ^ 18 div d) < (10 :: int) ^ 28" "0 < d" "0 \<le> n"
  shows "rnd (of_int n / of_int d) = of_int n / of_int d"
proof (rule rnd_exact [of _ "n * (10 ^ 18 div d)" "- 18"])
  have "(10 :: int) ^ 18 = 10 ^ 18 div d * d" using assms(1) by (metis dvd_div_mult_self mod_eq_0_iff_dvd)
  then have "(of_int (10 ^ 18) :: rat) = of_int (10 ^ 18 div d) * of_int d"
    by (metis of_int_mult)
  then show "of_int n / of_int d = (of_int (n * (10 ^ 18 div d)) * 10 powi - 18 :: rat)"
    using assms(3) by (simp add: field_simps power_int_minus)
  show "\<bar>n * (10 ^ 18 div d)\<bar> < 10 ^ 28"
    using assms by (simp add: pos_imp_zdiv_nonneg_iff)
qed

lemma rnd_frac [simp]:
  assumes "(10 :: int) ^ 18 mod numeral d = 0" "numeral n * (10 ^ 18 div numeral d) < (10 :: int) ^ 28"
  shows "rnd (numeral n / numeral d) = numeral n / numeral d"
  using rnd_scaled_down [of "numeral d" "numeral n"] assms by simp

lemma rnd_unit_frac [simp]:
  assumes "(10 :: int) ^ 18 mod numeral d = 0"
  shows "rnd (1 / numeral d) = 1 / numeral d"
proof (cases "(10 :: int) ^ 18 div numeral d < 10 ^ 28")
  case True
  then show ?thesis using rnd_scaled_down [of "numeral d" 1] assms by simp
next
  case False
  have "(10 :: int) ^ 18 div numeral d \<le> 10 ^ 18" using zdiv_mono2 [of "10 ^ 18" 1 "numeral d"] by simp
  with False show ?thesis by simp
qed

declare rnd_minus [simp]

end
