(* ===== verification/Models.thy ===== *)
theory Models
  imports Decimal
begin

text \<open>
  The typed contracts of \<open>app/models/trading.py\<close>: signals, orders, risk decisions, fills and
  long-only spot positions. A Python dictionary with fixed keys is a record whose optional keys
  have type \<open>option\<close>; the free-form \<open>metadata\<close> dictionary is an insertion-ordered dictionary of
  tagged values. Time stamps keep their value where the code serialises them with \<open>isoformat\<close>,
  and decimals theirs where the code writes \<open>str(x)\<close>: both serialisations are read back exactly.
  An identifier drawn with \<open>uuid4\<close> is an argument of the operation that draws it.
\<close>

section \<open>Signals\<close>

datatype signal_action = BUY | SELL | OPEN_LONG | CLOSE

text \<open>\<open>SignalAction(str(action))\<close>: the enum member with that value, or \<open>ValueError\<close>.\<close>

definition parse_signal_action :: "string \<Rightarrow> signal_action result" where
  "parse_signal_action s =
     (if s = ''buy'' then Inr BUY
      else if s = ''sell'' then Inr SELL
      else if s = ''open_long'' then Inr OPEN_LONG
      else if s = ''close'' then Inr CLOSE
      else Inl (ValueError ''not a valid SignalAction''))"

datatype meta_value = MInt int | MDec decimal | MStr string | MTime timestamp | MNone

record indicators =
  ema_20 :: "decimal option"
  ema_50 :: "decimal option"
  ema_200 :: "decimal option"
  rsi :: "decimal option"
  regime :: "string option"
  volatility :: "decimal option"
  ema200_slope_10 :: "decimal option"

definition no_indicators :: indicators where
  "no_indicators = \<lparr>ema_20 = None, ema_50 = None, ema_200 = None, rsi = None, regime = None,
     volatility = None, ema200_slope_10 = None\<rparr>"

record signal =
  sig_action :: string
  sig_symbol :: string
  sig_price :: decimal
  sig_quantity :: decimal
  sig_timestamp :: timestamp
  sig_reason :: string
  sig_stop_loss :: "decimal option"
  sig_take_profit :: "decimal option"
  sig_strategy :: string
  sig_parameters_version :: string
  sig_indicators :: indicators
  sig_regime :: "string option"
  sig_metadata :: "meta_value dict"
  sig_signal_id :: string
  sig_run_id :: string

section \<open>Orders, decisions and fills\<close>

record order =
  ord_order_id :: string
  ord_signal :: signal
  ord_side :: string
  ord_quantity :: decimal
  ord_requested_price :: decimal
  ord_created_at :: timestamp
  ord_run_id :: string
  ord_signal_id :: string

definition order_symbol :: "order \<Rightarrow> string" where
  "order_symbol o1 = sig_symbol (ord_signal o1)"

record fill =
  fill_fill_id :: string
  fill_order_id :: string
  fill_symbol :: string
  fill_side :: string
  fill_quantity :: decimal
  fill_price :: decimal
  fill_commission :: decimal
  fill_timestamp :: timestamp
  fill_run_id :: string
  fill_signal_id :: string

section \<open>Positions\<close>

record position =
  pos_symbol :: string
  pos_side :: string
  pos_entry_price :: decimal
  pos_quantity :: decimal
  pos_entry_time :: timestamp
  pos_stop_loss :: "decimal option"
  pos_take_profit :: "decimal option"
  pos_trailing_stop :: "decimal option"
  pos_unrealized_pnl :: decimal
  pos_current_price :: "decimal option"
  pos_entry_commission :: decimal
  pos_high_water_mark :: "decimal option"
  pos_holding_periods :: int

text \<open>
  \<open>x or default\<close> on an optional decimal: both \<open>None\<close> and a zero decimal are false in Python.
\<close>

definition py_or :: "decimal option \<Rightarrow> decimal \<Rightarrow> decimal" where
  "py_or x d = (case x of None \<Rightarrow> d | Some v \<Rightarrow> if v = 0 then d else v)"

definition position_value :: "position \<Rightarrow> decimal" where
  "position_value p = dmul (py_or (pos_current_price p) (pos_entry_price p)) (pos_quantity p)"

definition update_market :: "decimal \<Rightarrow> decimal option \<Rightarrow> position \<Rightarrow> position" where
  "update_market current_price high_price p =
     (let observed_high = py_or high_price current_price
      in p\<lparr>pos_current_price := Some current_price,
           pos_unrealized_pnl := dmul (dsub current_price (pos_entry_price p)) (pos_quantity p),
           pos_high_water_mark :=
             Some (max (py_or (pos_high_water_mark p) observed_high) observed_high),
           pos_holding_periods := pos_holding_periods p + 1\<rparr>)"

lemma py_or_pos: "0 < d \<Longrightarrow> (\<And>v. x = Some v \<Longrightarrow> 0 \<le> v) \<Longrightarrow> 0 < py_or x d"
  by (cases x) (auto simp: py_or_def less_le)

lemma py_or_nonneg: "0 \<le> d \<Longrightarrow> (\<And>v. x = Some v \<Longrightarrow> 0 \<le> v) \<Longrightarrow> 0 \<le> py_or x d"
  by (auto simp: py_or_def split: option.splits)

lemma update_market_keeps [simp]:
  "pos_symbol (update_market c h p) = pos_symbol p"
  "pos_side (update_market c h p) = pos_side p"
  "pos_entry_price (update_market c h p) = pos_entry_price p"
  "pos_quantity (update_market c h p) = pos_quantity p"
  "pos_entry_time (update_market c h p) = pos_entry_time p"
  "pos_stop_loss (update_market c h p) = pos_stop_loss p"
  "pos_take_profit (update_market c h p) = pos_take_profit p"
  "pos_entry_commission (update_market c h p) = pos_entry_commission p"
  "pos_current_price (update_market c h p) = Some c"
  "pos_holding_periods (update_market c h p) = pos_holding_periods p + 1"
  by (simp_all add: update_market_def Let_def)

text \<open>The high-water mark covers every observed high, and never falls while prices are positive.\<close>

lemma update_market_high_water:
  assumes "0 < c" and "\<And>v. h = Some v \<Longrightarrow> 0 < v"
  shows "\<exists>w. pos_high_water_mark (update_market c h p) = Some w \<and> py_or h c \<le> w
     \<and> (\<forall>v. pos_high_water_mark p = Some v \<longrightarrow> 0 < v \<longrightarrow> v \<le> w)"
  by (auto simp: update_market_def Let_def py_or_def split: option.splits)

end
