(* ===== verification/Costs.thy ===== *)
theory Costs
  imports Models
begin

text \<open>
  The cost models of the backtest: \<open>CommissionModel\<close> (\<open>app/backtest/commission_model.py\<close>) and
  \<open>SlippageModel\<close> (\<open>app/backtest/slippage_model.py\<close>). The generator \<open>random.Random(seed)\<close> is
  an argument: a function from the number of draws made so far and the two bounds to the value of
  \<open>uniform\<close>, whose documented law (the value lies between the bounds) is a hypothesis where it is
  used.
\<close>

section \<open>Commission\<close>

record commission_config =
  maker_fee :: decimal
  taker_fee :: decimal
  minimum_fee :: decimal

definition default_commission_config :: commission_config where
  "default_commission_config =
     \<lparr>maker_fee = 1 / 1000, taker_fee = 1 / 1000, minimum_fee = 1 / 10000\<rparr>"

definition calculate_commission ::
    "commission_config \<Rightarrow> decimal \<Rightarrow> decimal \<Rightarrow> bool \<Rightarrow> decimal" where
  "calculate_commission cfg quantity price is_maker =
     (let trade_value = dmul quantity price;
          fee_rate = (if is_maker then maker_fee cfg else taker_fee cfg);
          commission = dmul trade_value fee_rate
      in max commission (minimum_fee cfg))"

definition calculate_total_cost ::
    "commission_config \<Rightarrow> decimal \<Rightarrow> decimal \<Rightarrow> bool \<Rightarrow> decimal" where
  "calculate_total_cost cfg quantity price is_maker =
     dadd (dmul quantity price) (calculate_commission cfg quantity price is_maker)"

definition calculate_net_proceeds ::
    "commission_config \<Rightarrow> decimal \<Rightarrow> decimal \<Rightarrow> bool \<Rightarrow> decimal" where
  "calculate_net_proceeds cfg quantity price is_maker =
     dsub (dmul quantity price) (calculate_commission cfg quantity price is_maker)"

lemma commission_ge_minimum: "minimum_fee cfg \<le> calculate_commission cfg q p m"
  by (simp add: calculate_commission_def Let_def)

lemma commission_nonneg: "0 \<le> minimum_fee cfg \<Longrightarrow> 0 \<le> calculate_commission cfg q p m"
  using commission_ge_minimum [of cfg q p m] by simp

lemma commission_mono:
  assumes "0 \<le> q" "q \<le> q'" "0 \<le> p" "p \<le> p'" "0 \<le> maker_fee cfg" "0 \<le> taker_fee cfg"
  shows "calculate_commission cfg q p m \<le> calculate_commission cfg q' p' m"
proof -
  have le: "dmul q p \<le> dmul q' p'" "0 \<le> dmul q p" "0 \<le> dmul q' p'"
    using assms by (auto intro: dmul_mono)
  have "dmul (dmul q p) f \<le> dmul (dmul q' p') f" if "0 \<le> f" for f
    by (rule dmul_mono) (use le that in auto)
  with assms show ?thesis
    by (auto simp: calculate_commission_def Let_def intro: max.coboundedI1 split: if_splits)
qed

text \<open>Buying costs at least what selling the same trade returns.\<close>

lemma net_proceeds_le_total_cost:
  assumes "0 \<le> minimum_fee cfg"
  shows "calculate_net_proceeds cfg q p m \<le> calculate_total_cost cfg q p m"
  using commission_nonneg [OF assms, of q p m]
  by (auto simp: calculate_net_proceeds_def calculate_total_cost_def dadd_def dsub_def intro: rnd_mono)

section \<open>Slippage\<close>

record slippage_config =
  fixed_slippage :: decimal
  random_slippage_min :: decimal
  random_slippage_max :: decimal
  volume_impact_threshold :: decimal
  volume_impact_factor :: decimal

definition default_slippage_config :: slippage_config where
  "default_slippage_config =
     \<lparr>fixed_slippage = 5 / 10000, random_slippage_min = 0, random_slippage_max = 1 / 1000,
      volume_impact_threshold = 1 / 100, volume_impact_factor = 1 / 10\<rparr>"

type_synonym uniform_source = "nat \<Rightarrow> decimal \<Rightarrow> decimal \<Rightarrow> decimal"

record slippage_model =
  slip_config :: slippage_config
  slip_rng :: uniform_source
  slip_draws :: nat

definition uniform_ok :: "uniform_source \<Rightarrow> bool" where
  "uniform_ok u \<longleftrightarrow> (\<forall>n lo hi. lo \<le> hi \<longrightarrow> lo \<le> u n lo hi \<and> u n lo hi \<le> hi)"

definition random_part :: "slippage_model \<Rightarrow> decimal \<times> slippage_model" where
  "random_part m =
     (let cfg = slip_config m
      in if random_slippage_min cfg < random_slippage_max cfg
         then (dadd (fixed_slippage cfg)
                 (slip_rng m (slip_draws m) (random_slippage_min cfg) (random_slippage_max cfg)),
               m\<lparr>slip_draws := Suc (slip_draws m)\<rparr>)
         else (fixed_slippage cfg, m))"

definition volume_part ::
    "slippage_config \<Rightarrow> decimal \<Rightarrow> decimal \<Rightarrow> decimal option \<Rightarrow> decimal result" where
  "volume_part cfg slippage quantity average_volume =
     (case average_volume of
        None \<Rightarrow> Inr slippage
      | Some v \<Rightarrow>
          if v \<le> 0 then Inr slippage
          else let volume_ratio = ddiv quantity v
               in if volume_ratio \<le> volume_impact_threshold cfg then Inr slippage
                  else bind_result
                         (ddiv_or_raise (dsub volume_ratio (volume_impact_threshold cfg))
                            (volume_impact_threshold cfg))
                         (\<lambda>excess_ratio.
                            Inr (dadd slippage (dmul excess_ratio (volume_impact_factor cfg)))))"

definition calculate_slippage ::
    "slippage_model \<Rightarrow> decimal \<Rightarrow> decimal \<Rightarrow> decimal option \<Rightarrow> bool
     \<Rightarrow> (decimal \<times> slippage_model) result" where
  "calculate_slippage m price quantity average_volume is_buy =
     (case random_part m of
        (slippage0, m') \<Rightarrow>
          bind_result (volume_part (slip_config m) slippage0 quantity average_volume)
            (\<lambda>slippage.
               Inr (if is_buy then dmul price (dadd 1 slippage) else dmul price (dsub 1 slippage), m')))"

definition calculate_slippage_cost :: "decimal \<Rightarrow> decimal \<Rightarrow> decimal \<Rightarrow> decimal" where
  "calculate_slippage_cost reference_price execution_price quantity =
     dmul (dabs (dsub execution_price reference_price)) quantity"

definition slippage_config_ok :: "slippage_config \<Rightarrow> bool" where
  "slippage_config_ok cfg \<longleftrightarrow>
     0 \<le> fixed_slippage cfg \<and> 0 \<le> random_slippage_min cfg \<and>
     0 < volume_impact_threshold cfg \<and> 0 \<le> volume_impact_factor cfg"

lemma default_slippage_config_ok: "slippage_config_ok default_slippage_config"
  by (simp add: slippage_config_ok_def default_slippage_config_def)

lemma random_part_nonneg:
  assumes "slippage_config_ok (slip_config m)" "uniform_ok (slip_rng m)" "random_part m = (s, m')"
  shows "0 \<le> s"
proof -
  have "0 \<le> slip_rng m (slip_draws m) (random_slippage_min (slip_config m))
              (random_slippage_max (slip_config m))"
    if "random_slippage_min (slip_config m) < random_slippage_max (slip_config m)"
    using assms(1,2) that unfolding uniform_ok_def slippage_config_ok_def
    by (meson less_imp_le order_trans)
  with assms(1,3) show ?thesis
    by (auto simp: random_part_def Let_def slippage_config_ok_def split: if_splits)
qed

lemma random_part_keeps:
  "random_part m = (s, m') \<Longrightarrow> slip_config m' = slip_config m \<and> slip_rng m' = slip_rng m"
  by (auto simp: random_part_def Let_def split: if_splits)

lemma volume_part_total:
  assumes "slippage_config_ok cfg"
  shows "\<exists>s'. volume_part cfg s q v = Inr s'"
  using assms by (auto simp: volume_part_def Let_def slippage_config_ok_def ddiv_or_raise_def
      split: option.splits)

lemma volume_part_ge:
  assumes "slippage_config_ok cfg" "volume_part cfg s q v = Inr s'" "rnd s = s" "0 \<le> s"
  shows "s \<le> s'"
proof -
  have "s \<le> dadd s (dmul (ddiv a b) c)" if "0 \<le> a" "0 < b" "0 \<le> c" for a b c
    using that assms(3) unfolding dadd_def by (intro ctx.fixed_le) (simp_all add: dmul_nonneg)
  with assms show ?thesis
    by (auto simp: volume_part_def Let_def slippage_config_ok_def ddiv_or_raise_Inr_iff
        split: option.splits if_splits)
qed

lemma volume_part_nonneg:
  assumes "slippage_config_ok cfg" "volume_part cfg s q v = Inr s'" "0 \<le> s"
  shows "0 \<le> s'"
proof -
  have "0 \<le> dadd s (dmul (ddiv a b) c)" if "0 \<le> a" "0 < b" "0 \<le> c" for a b c
    using that assms(3) by auto
  with assms show ?thesis
    by (auto simp: volume_part_def Let_def slippage_config_ok_def ddiv_or_raise_Inr_iff
        split: option.splits if_splits)
qed

lemma calculate_slippage_total:
  "slippage_config_ok (slip_config m) \<Longrightarrow> \<exists>r. calculate_slippage m p q v b = Inr r"
  using volume_part_total [of "slip_config m" _ q v]
  by (auto simp: calculate_slippage_def split: prod.splits) (metis bind_result_simps(2))

lemma calculate_slippage_keeps:
  "calculate_slippage m p q v b = Inr (e, m') \<Longrightarrow>
     slip_config m' = slip_config m \<and> slip_rng m' = slip_rng m"
  by (auto simp: calculate_slippage_def split: prod.splits dest: random_part_keeps)

lemma calculate_slippage_adverse:
  assumes "slippage_config_ok (slip_config m)" "uniform_ok (slip_rng m)"
    "calculate_slippage m p q v b = Inr (e, m')" "0 \<le> p" "rnd p = p"
  shows "if b then p \<le> e else e \<le> p"
proof -
  obtain s0 s where s: "random_part m = (s0, m')"
      "volume_part (slip_config m) s0 q v = Inr s"
      "e = (if b then dmul p (dadd 1 s) else dmul p (dsub 1 s))"
    using assms(3) by (auto simp: calculate_slippage_def split: prod.splits)
  have "0 \<le> s"
    using volume_part_nonneg [OF assms(1) s(2)] random_part_nonneg [OF assms(1,2) s(1)] .
  have "1 \<le> dadd 1 s" using \<open>0 \<le> s\<close> unfolding dadd_def by (intro ctx.fixed_le) simp_all
  moreover have "dsub 1 s \<le> 1" using \<open>0 \<le> s\<close> unfolding dsub_def by (intro ctx.le_fixed) simp_all
  ultimately have "p * 1 \<le> p * dadd 1 s" "p * dsub 1 s \<le> p * 1"
    by (auto intro!: mult_left_mono assms(4) simp del: mult_1_right)
  then have "p \<le> dmul p (dadd 1 s)" "dmul p (dsub 1 s) \<le> p"
    unfolding dmul_def using assms(5) by (auto intro: ctx.fixed_le ctx.le_fixed)
  then show ?thesis using s(3) by simp
qed

text \<open>
  The volume impact is not capped: from twelve percent of the average volume on, the default
  configuration subtracts more than the whole price from a sell.
\<close>

lemma large_sell_slippage:
  assumes "slip_config m = default_slippage_config" "uniform_ok (slip_rng m)" "0 < price" "0 < v"
    "12 / 100 * v \<le> q"
  shows "\<exists>e m'. calculate_slippage m price q (Some v) False = Inr (e, m') \<and> e < 0"
proof -
  obtain s0 m' where s0: "random_part m = (s0, m')" by force
  have "0 \<le> s0"
    using random_part_nonneg [OF _ assms(2) s0] assms(1) by (simp add: default_slippage_config_ok)
  define ratio where "ratio = ddiv q v"
  have "12 / 100 \<le> q / v" using assms(4,5) by (simp add: field_simps)
  then have ratio: "12 / 100 \<le> ratio"
    unfolding ratio_def ddiv_def by (rule ctx.fixed_le) simp
  then have "11 / 100 \<le> dsub ratio (1 / 100)"
    unfolding dsub_def by (intro ctx.fixed_le) simp_all
  then have "11 \<le> ddiv (dsub ratio (1 / 100)) (1 / 100)"
    unfolding ddiv_def [of "dsub ratio (1 / 100)"] by (intro ctx.fixed_le) simp_all
  then have "11 / 10 \<le> dmul (ddiv (dsub ratio (1 / 100)) (1 / 100)) (1 / 10)"
    unfolding dmul_def by (intro ctx.fixed_le) simp_all
  then have s: "11 / 10 \<le> dadd s0 (dmul (ddiv (dsub ratio (1 / 100)) (1 / 100)) (1 / 10))"
    (is "_ \<le> ?s") using \<open>0 \<le> s0\<close> unfolding dadd_def by (intro ctx.fixed_le) simp_all
  have "volume_part (slip_config m) s0 q (Some v) = Inr ?s"
    using assms(1,4) ratio
    by (simp add: volume_part_def Let_def default_slippage_config_def ddiv_or_raise_def
        flip: ratio_def)
  then have "calculate_slippage m price q (Some v) False = Inr (dmul price (dsub 1 ?s), m')"
    using s0 by (simp add: calculate_slippage_def)
  moreover have "dmul price (dsub 1 ?s) < 0"
  proof -
    have "dsub 1 ?s < 0" using s by simp
    then have "price * dsub 1 ?s < 0" using assms(3) by (simp add: mult_pos_neg)
    then show ?thesis by (simp add: dmul_def ctx.neg_iff)
  qed
  ultimately show ?thesis by blast
qed

end
