(* ===== verification/Portfolio.thy ===== *)
theory Portfolio
  imports Costs
begin

text \<open>
  The virtual portfolio of the backtest, \<open>app/backtest/portfolio.py\<close>: one operation per method,
  the portfolio passed and returned. The invariant \<open>pf_ok\<close> says that positions are stored under
  their own symbol, are long, and have a positive quantity and entry price; every operation keeps
  it. The weighted-average entry price of a repeated buy is bounded together with its rounding.
\<close>

section \<open>State\<close>

record open_trade =
  ot_symbol :: string
  ot_side :: string
  ot_price :: decimal
  ot_quantity :: decimal
  ot_timestamp :: timestamp
  ot_commission :: decimal

record close_trade =
  ct_symbol :: string
  ct_side :: string
  ct_entry_price :: decimal
  ct_exit_price :: decimal
  ct_quantity :: decimal
  ct_pnl :: decimal
  ct_commission :: decimal
  ct_entry_time :: timestamp
  ct_exit_time :: timestamp
  ct_duration :: int

datatype trade = TradeOpen open_trade | TradeClose close_trade

record portfolio =
  pf_initial_balance :: decimal
  pf_balance :: decimal
  pf_positions :: "position dict"
  pf_closed_positions :: "position list"
  pf_trade_history :: "trade list"
  pf_equity_history :: "(timestamp \<times> decimal) list"
  pf_max_drawdown :: decimal

definition new_portfolio :: "decimal \<Rightarrow> portfolio" where
  "new_portfolio initial_balance =
     \<lparr>pf_initial_balance = initial_balance, pf_balance = initial_balance, pf_positions = [],
      pf_closed_positions = [], pf_trade_history = [], pf_equity_history = [],
      pf_max_drawdown = 0\<rparr>"

definition total_equity :: "portfolio \<Rightarrow> decimal" where
  "total_equity pf = dadd (pf_balance pf) (dsum (map (position_value \<circ> snd) (pf_positions pf)))"

definition unrealized_pnl :: "portfolio \<Rightarrow> decimal" where
  "unrealized_pnl pf = dsum (map (pos_unrealized_pnl \<circ> snd) (pf_positions pf))"

text \<open>\<open>Decimal(str(trade.get("pnl", "0")))\<close>: an opening trade has no \<open>pnl\<close> entry.\<close>

fun trade_pnl :: "trade \<Rightarrow> decimal" where
  "trade_pnl (TradeOpen t) = 0"
| "trade_pnl (TradeClose t) = ct_pnl t"

definition realized_pnl :: "portfolio \<Rightarrow> decimal" where
  "realized_pnl pf = dsum (map trade_pnl (pf_trade_history pf))"

section \<open>Opening and adding\<close>

definition add_to_position ::
    "position \<Rightarrow> decimal \<Rightarrow> decimal \<Rightarrow> decimal option \<Rightarrow> decimal option \<Rightarrow> decimal
     \<Rightarrow> position result" where
  "add_to_position p price quantity stop_loss take_profit commission =
     (let total_quantity = dadd (pos_quantity p) quantity
      in bind_result
           (ddiv_or_raise (dadd (dmul (pos_entry_price p) (pos_quantity p)) (dmul price quantity))
              total_quantity)
           (\<lambda>entry_price.
              Inr (update_market price (Some price)
                (p\<lparr>pos_entry_price := entry_price,
                   pos_quantity := total_quantity,
                   pos_entry_commission := dadd (pos_entry_commission p) commission,
                   pos_current_price := Some price,
                   pos_stop_loss := (if stop_loss \<noteq> None then stop_loss else pos_stop_loss p),
                   pos_take_profit :=
                     (if take_profit \<noteq> None then take_profit else pos_take_profit p)\<rparr>))))"

definition new_position ::
    "string \<Rightarrow> string \<Rightarrow> decimal \<Rightarrow> decimal \<Rightarrow> timestamp \<Rightarrow> decimal option \<Rightarrow> decimal option
     \<Rightarrow> decimal \<Rightarrow> position" where
  "new_position symbol side price quantity timestamp stop_loss take_profit commission =
     \<lparr>pos_symbol = symbol, pos_side = side, pos_entry_price = price, pos_quantity = quantity,
      pos_entry_time = timestamp, pos_stop_loss = stop_loss, pos_take_profit = take_profit,
      pos_trailing_stop = None, pos_unrealized_pnl = 0, pos_current_price = Some price,
      pos_entry_commission = commission, pos_high_water_mark = Some price,
      pos_holding_periods = 0\<rparr>"

definition open_position ::
    "portfolio \<Rightarrow> string \<Rightarrow> string \<Rightarrow> decimal \<Rightarrow> decimal \<Rightarrow> timestamp \<Rightarrow> decimal option
     \<Rightarrow> decimal option \<Rightarrow> decimal \<Rightarrow> (bool \<times> portfolio) result" where
  "open_position pf symbol side price quantity timestamp stop_loss take_profit commission =
     (if side \<noteq> ''long'' \<or> quantity \<le> 0 then Inr (False, pf)
      else let cost = dadd (dmul price quantity) commission
           in if pf_balance pf < cost then Inr (False, pf)
              else bind_result
                (case map_of (pf_positions pf) symbol of
                   None \<Rightarrow> Inr (new_position symbol side price quantity timestamp stop_loss
                                  take_profit commission)
                 | Some p \<Rightarrow> add_to_position p price quantity stop_loss take_profit commission)
                (\<lambda>p. Inr (True,
                   pf\<lparr>pf_balance := dsub (pf_balance pf) cost,
                      pf_positions := AList.update symbol p (pf_positions pf),
                      pf_trade_history := pf_trade_history pf @
                        [TradeOpen \<lparr>ot_symbol = symbol, ot_side = side, ot_price = price,
                           ot_quantity = quantity, ot_timestamp = timestamp,
                           ot_commission = commission\<rparr>]\<rparr>)))"

section \<open>Closing\<close>

definition close_pnl :: "position \<Rightarrow> decimal \<Rightarrow> decimal \<Rightarrow> decimal" where
  "close_pnl p price commission =
     dsub (dsub (dmul (dsub price (pos_entry_price p)) (pos_quantity p)) (pos_entry_commission p))
       commission"

definition close_position ::
    "portfolio \<Rightarrow> string \<Rightarrow> decimal \<Rightarrow> timestamp \<Rightarrow> decimal \<Rightarrow> decimal option \<times> portfolio" where
  "close_position pf symbol price timestamp commission =
     (case map_of (pf_positions pf) symbol of
        None \<Rightarrow> (None, pf)
      | Some p \<Rightarrow>
          let pnl = close_pnl p price commission;
              proceeds = dsub (dmul price (pos_quantity p)) commission
          in (Some pnl,
              pf\<lparr>pf_balance := dadd (pf_balance pf) proceeds,
                 pf_positions := AList.delete symbol (pf_positions pf),
                 pf_trade_history := pf_trade_history pf @
                   [TradeClose \<lparr>ct_symbol = symbol, ct_side = pos_side p,
                      ct_entry_price = pos_entry_price p, ct_exit_price = price,
                      ct_quantity = pos_quantity p, ct_pnl = pnl, ct_commission = commission,
                      ct_entry_time = pos_entry_time p, ct_exit_time = timestamp,
                      ct_duration = timestamp - pos_entry_time p\<rparr>],
                 pf_closed_positions := pf_closed_positions pf @ [p\<lparr>pos_unrealized_pnl := pnl\<rparr>]\<rparr>))"

section \<open>Marking to market and exits inside a candle\<close>

definition update_positions ::
    "portfolio \<Rightarrow> decimal dict \<Rightarrow> timestamp \<Rightarrow> decimal dict option \<Rightarrow> portfolio" where
  "update_positions pf prices timestamp highs =
     (let pf' = pf\<lparr>pf_positions :=
            map (\<lambda>(symbol, p).
                   (symbol,
                    case map_of prices symbol of
                      None \<Rightarrow> p
                    | Some price \<Rightarrow>
                        update_market price
                          (case highs of None \<Rightarrow> None | Some h \<Rightarrow> map_of h symbol) p))
              (pf_positions pf)\<rparr>
      in pf'\<lparr>pf_equity_history := pf_equity_history pf' @ [(timestamp, total_equity pf')]\<rparr>)"

record ohl =
  ohl_open :: decimal
  ohl_high :: decimal
  ohl_low :: decimal

record exit_level_event =
  ev_symbol :: string
  ev_reference_price :: decimal
  ev_reason :: string

definition intrabar_exit :: "string \<Rightarrow> position \<Rightarrow> ohl option \<Rightarrow> exit_level_event option" where
  "intrabar_exit symbol p candle =
     (case candle of
        None \<Rightarrow> None
      | Some c \<Rightarrow>
          if pos_side p \<noteq> ''long'' then None
          else let take =
                 (case pos_take_profit p of
                    None \<Rightarrow> None
                  | Some tp \<Rightarrow>
                      if tp \<le> ohl_high c
                      then Some \<lparr>ev_symbol = symbol, ev_reference_price = tp,
                             ev_reason = ''Take-profit hit''\<rparr>
                      else None)
               in (case pos_stop_loss p of
                     None \<Rightarrow> take
                   | Some sl \<Rightarrow>
                       if ohl_low c \<le> sl
                       then let gap_down = ohl_open c \<le> sl
                            in Some \<lparr>ev_symbol = symbol,
                                 ev_reference_price = (if gap_down then ohl_open c else sl),
                                 ev_reason = (if gap_down then ''Stop-loss hit on gap''
                                              else ''Stop-loss hit'')\<rparr>
                       else take))"

definition check_intrabar_exits :: "portfolio \<Rightarrow> ohl dict \<Rightarrow> exit_level_event list" where
  "check_intrabar_exits pf candles =
     List.map_filter (\<lambda>(symbol, p). intrabar_exit symbol p (map_of candles symbol))
       (pf_positions pf)"

definition check_stops :: "portfolio \<Rightarrow> decimal dict \<Rightarrow> string list" where
  "check_stops pf prices =
     concat (map (\<lambda>(symbol, p).
        case map_of prices symbol of
          None \<Rightarrow> []
        | Some price \<Rightarrow>
            (case pos_stop_loss p of
               None \<Rightarrow> []
             | Some sl \<Rightarrow> if pos_side p = ''long'' \<and> price \<le> sl then [symbol] else []) @
            (case pos_take_profit p of
               None \<Rightarrow> []
             | Some tp \<Rightarrow> if pos_side p = ''long'' \<and> tp \<le> price then [symbol] else []))
       (pf_positions pf))"

definition get_position :: "portfolio \<Rightarrow> string \<Rightarrow> position option" where
  "get_position pf symbol = map_of (pf_positions pf) symbol"

definition has_position :: "portfolio \<Rightarrow> string \<Rightarrow> bool" where
  "has_position pf symbol \<longleftrightarrow> map_of (pf_positions pf) symbol \<noteq> None"

definition get_position_value :: "portfolio \<Rightarrow> string \<Rightarrow> decimal \<Rightarrow> decimal" where
  "get_position_value pf symbol current_price =
     (case map_of (pf_positions pf) symbol of
        None \<Rightarrow> 0
      | Some p \<Rightarrow> dmul current_price (pos_quantity p))"

section \<open>The invariant of a portfolio\<close>

definition position_ok :: "position \<Rightarrow> bool" where
  "position_ok p \<longleftrightarrow>
     pos_side p = ''long'' \<and> 0 < pos_quantity p \<and> 0 < pos_entry_price p \<and>
     0 \<le> pos_entry_commission p \<and> (\<forall>v. pos_current_price p = Some v \<longrightarrow> 0 \<le> v)"

definition pf_ok :: "portfolio \<Rightarrow> bool" where
  "pf_ok pf \<longleftrightarrow>
     dict_wf (pf_positions pf) \<and>
     (\<forall>(symbol, p) \<in> set (pf_positions pf). pos_symbol p = symbol \<and> position_ok p)"

lemma pf_ok_get:
  "pf_ok pf \<Longrightarrow> map_of (pf_positions pf) s = Some p \<Longrightarrow> pos_symbol p = s \<and> position_ok p"
  by (auto simp: pf_ok_def dest: map_of_SomeD)

lemma pf_ok_new [simp]: "pf_ok (new_portfolio b)"
  by (simp add: pf_ok_def new_portfolio_def)

lemma position_value_nonneg: "position_ok p \<Longrightarrow> 0 \<le> position_value p"
  by (auto simp: position_ok_def position_value_def intro!: dmul_nonneg py_or_nonneg)

lemma total_equity_nonneg:
  assumes "pf_ok pf" "0 \<le> pf_balance pf" shows "0 \<le> total_equity pf"
proof -
  have "0 \<le> dsum (map (position_value \<circ> snd) (pf_positions pf))"
    using assms(1) by (intro dsum_nonneg) (fastforce simp: pf_ok_def intro: position_value_nonneg)
  with assms(2) show ?thesis by (simp add: total_equity_def)
qed

lemma update_market_ok: "position_ok p \<Longrightarrow> 0 \<le> c \<Longrightarrow> position_ok (update_market c h p)"
  by (simp add: position_ok_def)

lemma add_to_position_ok:
  assumes "position_ok p" "0 < price" "0 < quantity" "0 \<le> commission"
  shows "\<exists>p'. add_to_position p price quantity sl tp commission = Inr p' \<and> position_ok p'
     \<and> pos_symbol p' = pos_symbol p"
proof -
  have q: "0 < dadd (pos_quantity p) quantity"
    using assms by (auto simp: position_ok_def intro!: dadd_pos)
  have "0 < dadd (dmul (pos_entry_price p) (pos_quantity p)) (dmul price quantity)"
    using assms by (auto simp: position_ok_def intro!: dadd_pos less_imp_le)
  then have "0 < ddiv (dadd (dmul (pos_entry_price p) (pos_quantity p)) (dmul price quantity))
      (dadd (pos_quantity p) quantity)"
    using q by (rule ddiv_pos)
  then show ?thesis using assms q
    by (auto simp: add_to_position_def Let_def ddiv_or_raise_def position_ok_def)
qed

lemma new_position_ok:
  "0 < price \<Longrightarrow> 0 < quantity \<Longrightarrow> 0 \<le> commission \<Longrightarrow>
     position_ok (new_position s ''long'' price quantity t sl tp commission)"
  by (simp add: position_ok_def new_position_def)

lemma pf_ok_update:
  assumes "pf_ok pf" "pos_symbol p = s" "position_ok p"
  shows "pf_ok (pf\<lparr>pf_balance := b, pf_positions := AList.update s p (pf_positions pf),
     pf_trade_history := h\<rparr>)"
  using assms dict_all_update [of "pf_positions pf" "\<lambda>s p. pos_symbol p = s \<and> position_ok p" s p]
  by (simp add: pf_ok_def)

text \<open>Opening never raises on a well-formed portfolio, and keeps it well-formed.\<close>

lemma open_position_ok:
  assumes "pf_ok pf" "0 < price" "0 \<le> commission"
  shows "\<exists>b pf'. open_position pf s side price q t sl tp commission = Inr (b, pf') \<and> pf_ok pf'"
proof (cases "side \<noteq> ''long'' \<or> q \<le> 0 \<or> pf_balance pf < dadd (dmul price q) commission")
  case True
  with assms show ?thesis by (auto simp: open_position_def Let_def)
next
  case False
  then have q: "0 < q" by simp
  have "\<exists>p. (case map_of (pf_positions pf) s of
              None \<Rightarrow> Inr (new_position s side price q t sl tp commission)
            | Some p \<Rightarrow> add_to_position p price q sl tp commission) = Inr p
      \<and> position_ok p \<and> pos_symbol p = s"
  proof (cases "map_of (pf_positions pf) s")
    case None
    with False assms q show ?thesis by (simp add: new_position_ok) (simp add: new_position_def)
  next
    case (Some p)
    with pf_ok_get [OF assms(1)] add_to_position_ok [of p price q commission sl tp] assms q
    show ?thesis by auto
  qed
  then obtain p where p: "(case map_of (pf_positions pf) s of
              None \<Rightarrow> Inr (new_position s side price q t sl tp commission)
            | Some p \<Rightarrow> add_to_position p price q sl tp commission) = Inr p"
      "position_ok p" "pos_symbol p = s" by blast
  with False show ?thesis
    by (auto simp: open_position_def Let_def intro: pf_ok_update [OF assms(1)])
qed

lemma open_position_Inr_ok:
  "pf_ok pf \<Longrightarrow> 0 < price \<Longrightarrow> 0 \<le> commission \<Longrightarrow>
   open_position pf s side price q t sl tp commission = Inr (b, pf') \<Longrightarrow> pf_ok pf'"
  using open_position_ok [of pf price commission s side q t sl tp] by auto

lemma open_position_refused:
  "open_position pf s side price q t sl tp c = Inr (False, pf') \<Longrightarrow> pf' = pf"
  by (auto simp: open_position_def Let_def split: if_splits)

lemma open_position_accepted:
  assumes "open_position pf s side price q t sl tp c = Inr (True, pf')"
  shows "side = ''long''" "0 < q" "dadd (dmul price q) c \<le> pf_balance pf"
    "pf_balance pf' = dsub (pf_balance pf) (dadd (dmul price q) c)"
    "has_position pf' s"
    "\<And>s'. s' \<noteq> s \<Longrightarrow> get_position pf' s' = get_position pf s'"
    "pf_closed_positions pf' = pf_closed_positions pf"
    "pf_trade_history pf' = pf_trade_history pf @ [TradeOpen \<lparr>ot_symbol = s, ot_side = side,
       ot_price = price, ot_quantity = q, ot_timestamp = t, ot_commission = c\<rparr>]"
  using assms
  by (auto simp: open_position_def Let_def has_position_def get_position_def
      bind_result_Inr_iff split: if_splits)

lemma close_position_ok: "pf_ok pf \<Longrightarrow> pf_ok (snd (close_position pf s price t c))"
  using dict_all_delete [of "pf_positions pf" "\<lambda>s p. pos_symbol p = s \<and> position_ok p" s]
  by (auto simp: close_position_def Let_def pf_ok_def split: option.splits)

lemma close_position_None_iff:
  "fst (close_position pf s price t c) = None \<longleftrightarrow> \<not> has_position pf s"
  by (auto simp: close_position_def has_position_def Let_def split: option.splits)

lemma close_position_absent:
  "\<not> has_position pf s \<Longrightarrow> close_position pf s price t c = (None, pf)"
  by (simp add: close_position_def has_position_def)

lemma close_position_removes:
  assumes "close_position pf s price t c = (Some pnl, pf')"
  shows "\<not> has_position pf' s" "\<And>s'. s' \<noteq> s \<Longrightarrow> get_position pf' s' = get_position pf s'"
  using assms by (auto simp: close_position_def has_position_def get_position_def Let_def
      split: option.splits)

lemma update_positions_ok:
  assumes "pf_ok pf" "\<forall>(s, c) \<in> set prices. 0 \<le> c"
  shows "pf_ok (update_positions pf prices t highs)"
proof -
  have "\<And>s c. map_of prices s = Some c \<Longrightarrow> 0 \<le> c"
    using assms(2) by (metis (no_types, lifting) case_prodD map_of_SomeD)
  with assms(1) show ?thesis
    by (auto simp: update_positions_def Let_def pf_ok_def dict_wf_def comp_def case_prod_beta
        intro!: update_market_ok split: option.splits)
qed

section \<open>Realized profit\<close>

lemma rnd_dsum [simp]: "rnd (dsum xs) = dsum xs"
  by (cases xs rule: rev_cases) (simp_all add: dsum_snoc dadd_def rnd_idem)

lemma realized_pnl_open:
  "open_position pf s side price q t sl tp c = Inr (b, pf') \<Longrightarrow> realized_pnl pf' = realized_pnl pf"
  using open_position_refused [of pf s side price q t sl tp c pf']
    open_position_accepted(8) [of pf s side price q t sl tp c pf']
  by (cases b) (simp_all add: realized_pnl_def dsum_snoc dadd_def)

lemma realized_pnl_close:
  "close_position pf s price t c = (Some pnl, pf') \<Longrightarrow>
     realized_pnl pf' = dadd (realized_pnl pf) pnl"
  by (auto simp: close_position_def Let_def realized_pnl_def dsum_snoc split: option.splits)

section \<open>Exits inside a candle\<close>

lemma intrabar_exit_symbol: "intrabar_exit s p c = Some e \<Longrightarrow> ev_symbol e = s"
  by (auto simp: intrabar_exit_def Let_def split: option.splits if_splits)

text \<open>A touched stop always wins, and is priced at the worse of the stop and the open.\<close>

lemma intrabar_exit_stop:
  assumes "pos_side p = ''long''" "pos_stop_loss p = Some sl" "ohl_low c \<le> sl"
  shows "\<exists>e. intrabar_exit s p (Some c) = Some e \<and>
     ev_reference_price e = min (ohl_open c) sl \<and> ev_reason e \<noteq> ''Take-profit hit''"
  using assms by (auto simp: intrabar_exit_def Let_def min_def)

lemma intrabar_exit_take:
  assumes "pos_side p = ''long''" "\<And>sl. pos_stop_loss p = Some sl \<Longrightarrow> sl < ohl_low c"
    "pos_take_profit p = Some tp" "tp \<le> ohl_high c"
  shows "intrabar_exit s p (Some c) =
     Some \<lparr>ev_symbol = s, ev_reference_price = tp, ev_reason = ''Take-profit hit''\<rparr>"
  using assms by (auto simp: intrabar_exit_def Let_def split: option.splits)

lemma intrabar_exit_none_iff:
  "intrabar_exit s p (Some c) = None \<longleftrightarrow>
     pos_side p \<noteq> ''long'' \<or>
     (\<forall>sl. pos_stop_loss p = Some sl \<longrightarrow> sl < ohl_low c) \<and>
     (\<forall>tp. pos_take_profit p = Some tp \<longrightarrow> ohl_high c < tp)"
  by (auto simp: intrabar_exit_def Let_def not_le split: option.splits)

lemma in_check_intrabar_exits:
  "e \<in> set (check_intrabar_exits pf candles) \<longleftrightarrow>
     (\<exists>s p. (s, p) \<in> set (pf_positions pf) \<and> intrabar_exit s p (map_of candles s) = Some e)"
  by (force simp: check_intrabar_exits_def map_filter_def)

end
