(* ===== verification/Risk.thy ===== *)
theory Risk
  imports Portfolio
begin

text \<open>
  The pre-trade risk engine, \<open>app/risk/risk_engine.py\<close>, with its persistence adapter
  \<open>app/risk/persistence.py\<close> as the one-row table its statements maintain. The checks of
  \<open>check_trade\<close> are the list \<open>risk_guards\<close>, in source order, folded by \<open>apply_guards\<close> as the
  local function \<open>reject\<close> accumulates them; the message texts are constructors carrying the
  values the code formats. The clock is an argument.
\<close>

section \<open>Levels, events and reasons\<close>

datatype risk_level = LOW | MEDIUM | HIGH | CRITICAL

fun risk_level_index :: "risk_level \<Rightarrow> nat" where
  "risk_level_index LOW = 0"
| "risk_level_index MEDIUM = 1"
| "risk_level_index HIGH = 2"
| "risk_level_index CRITICAL = 3"

instantiation risk_level :: linorder
begin

definition less_eq_risk_level :: "risk_level \<Rightarrow> risk_level \<Rightarrow> bool" where
  "less_eq_risk_level a b \<longleftrightarrow> risk_level_index a \<le> risk_level_index b"

definition less_risk_level :: "risk_level \<Rightarrow> risk_level \<Rightarrow> bool" where
  "less_risk_level a b \<longleftrightarrow> risk_level_index a < risk_level_index b"

instance
proof
  fix x y :: risk_level
  show "x \<le> y \<Longrightarrow> y \<le> x \<Longrightarrow> x = y"
    by (cases x; cases y) (simp_all add: less_eq_risk_level_def)
qed (auto simp: less_eq_risk_level_def less_risk_level_def)

end

datatype risk_event =
    MAX_RISK_PER_TRADE | MAX_POSITION_SIZE | MAX_ASSET_EXPOSURE | MAX_CAPITAL_UTILIZATION
  | INSUFFICIENT_BALANCE | DAILY_LOSS_LIMIT | WEEKLY_LOSS_LIMIT | MAX_DRAWDOWN | EMERGENCY_STOP
  | STALE_DATA | API_UNAVAILABLE | DATABASE_UNAVAILABLE | RECONCILIATION_FAILED
  | UNKNOWN_ORDER_STATUS | INVALID_TRADE | BALANCE_MISMATCH

datatype risk_reason =
    ReasonInvalidTrade | ReasonEmergencyStop | ReasonDatabase | ReasonApi | ReasonReconciliation
  | ReasonUnknownStatus "string set" | ReasonStale int | ReasonPositionSize decimal decimal
  | ReasonBalance decimal decimal | ReasonTradeRisk decimal decimal | ReasonAsset decimal decimal
  | ReasonUtilization decimal decimal | ReasonDailyLoss | ReasonWeeklyLoss | ReasonDrawdown
  | ReasonOpenPositions nat | ReasonAdjusted decimal

section \<open>Configuration, durable state and engine\<close>

record risk_config =
  max_risk_per_trade :: decimal
  max_position_size :: decimal
  max_asset_exposure :: decimal
  max_capital_utilization :: decimal
  daily_loss_limit :: decimal
  weekly_loss_limit :: decimal
  max_drawdown :: decimal
  max_open_positions :: int
  stale_data_threshold_minutes :: int

definition default_risk_config :: risk_config where
  "default_risk_config =
     \<lparr>max_risk_per_trade = 5 / 1000, max_position_size = 1 / 10, max_asset_exposure = 1 / 4,
      max_capital_utilization = 6 / 10, daily_loss_limit = 2 / 100, weekly_loss_limit = 5 / 100,
      max_drawdown = 1 / 10, max_open_positions = 5, stale_data_threshold_minutes = 5\<rparr>"

record risk_check_result =
  rc_approved :: bool
  rc_risk_level :: risk_level
  rc_reasons :: "risk_reason list"
  rc_events :: "risk_event list"
  rc_adjusted_quantity :: "decimal option"

record risk_state =
  rs_daily_pnl :: decimal
  rs_weekly_pnl :: decimal
  rs_peak_equity :: decimal
  rs_current_equity :: decimal
  rs_is_emergency_stop :: bool
  rs_emergency_stop_reason :: string
  rs_consecutive_errors :: int

record risk_event_row =
  row_event_type :: risk_event
  row_risk_level :: risk_level
  row_symbol :: string
  row_side :: string
  row_quantity :: decimal
  row_price :: decimal
  row_reasons :: "risk_reason list"
  row_occurred_at :: timestamp

text \<open>The tables \<open>risk_engine_state\<close> (one row, upserted) and \<open>risk_events\<close> (append only).\<close>

record risk_store =
  st_state :: "risk_state option"
  st_events :: "risk_event_row list"

definition load_state :: "risk_store \<Rightarrow> risk_state option" where
  "load_state s = st_state s"

definition save_state :: "risk_store \<Rightarrow> risk_state \<Rightarrow> risk_store" where
  "save_state s x = s\<lparr>st_state := Some x\<rparr>"

definition save_event :: "risk_store \<Rightarrow> risk_event_row \<Rightarrow> risk_store" where
  "save_event s e = s\<lparr>st_events := st_events s @ [e]\<rparr>"

record risk_engine =
  re_config :: risk_config
  re_state_store :: "risk_store option"
  re_daily_pnl :: decimal
  re_weekly_pnl :: decimal
  re_peak_equity :: decimal
  re_current_equity :: decimal
  re_is_emergency_stop :: bool
  re_emergency_stop_reason :: string
  re_last_data_time :: "timestamp option"
  re_consecutive_errors :: int
  re_database_available :: bool
  re_api_available :: bool
  re_reconciliation_ok :: bool

definition risk_state_of :: "risk_engine \<Rightarrow> risk_state" where
  "risk_state_of re =
     \<lparr>rs_daily_pnl = re_daily_pnl re, rs_weekly_pnl = re_weekly_pnl re,
      rs_peak_equity = re_peak_equity re, rs_current_equity = re_current_equity re,
      rs_is_emergency_stop = re_is_emergency_stop re,
      rs_emergency_stop_reason = re_emergency_stop_reason re,
      rs_consecutive_errors = re_consecutive_errors re\<rparr>"

definition restore_risk_state :: "risk_engine \<Rightarrow> risk_state \<Rightarrow> risk_engine" where
  "restore_risk_state re s =
     re\<lparr>re_daily_pnl := rs_daily_pnl s, re_weekly_pnl := rs_weekly_pnl s,
        re_peak_equity := rs_peak_equity s, re_current_equity := rs_current_equity s,
        re_is_emergency_stop := rs_is_emergency_stop s,
        re_emergency_stop_reason := rs_emergency_stop_reason s,
        re_consecutive_errors := rs_consecutive_errors s\<rparr>"

definition fresh_risk_engine :: "risk_config \<Rightarrow> risk_store option \<Rightarrow> risk_engine" where
  "fresh_risk_engine cfg store =
     \<lparr>re_config = cfg, re_state_store = store, re_daily_pnl = 0, re_weekly_pnl = 0,
      re_peak_equity = 0, re_current_equity = 0, re_is_emergency_stop = False,
      re_emergency_stop_reason = '''', re_last_data_time = None, re_consecutive_errors = 0,
      re_database_available = True, re_api_available = True, re_reconciliation_ok = True\<rparr>"

definition new_risk_engine :: "risk_config \<Rightarrow> risk_store option \<Rightarrow> risk_engine" where
  "new_risk_engine cfg store =
     (case store of
        None \<Rightarrow> fresh_risk_engine cfg store
      | Some st \<Rightarrow>
          (case load_state st of
             None \<Rightarrow> fresh_risk_engine cfg store
           | Some s \<Rightarrow> restore_risk_state (fresh_risk_engine cfg store) s))"

definition re_save_state :: "risk_engine \<Rightarrow> risk_engine" where
  "re_save_state re =
     re\<lparr>re_state_store := map_option (\<lambda>st. save_state st (risk_state_of re)) (re_state_store re)\<rparr>"

section \<open>State operations\<close>

definition update_system_health :: "risk_engine \<Rightarrow> bool \<Rightarrow> bool \<Rightarrow> risk_engine" where
  "update_system_health re database_available api_available =
     re\<lparr>re_database_available := database_available, re_api_available := api_available\<rparr>"

definition update_reconciliation :: "risk_engine \<Rightarrow> bool \<Rightarrow> risk_engine" where
  "update_reconciliation re successful = re\<lparr>re_reconciliation_ok := successful\<rparr>"

definition update_pnl :: "risk_engine \<Rightarrow> decimal \<Rightarrow> decimal \<Rightarrow> risk_engine" where
  "update_pnl re daily_pnl weekly_pnl =
     re_save_state (re\<lparr>re_daily_pnl := daily_pnl, re_weekly_pnl := weekly_pnl\<rparr>)"

definition update_equity :: "risk_engine \<Rightarrow> decimal \<Rightarrow> risk_engine" where
  "update_equity re equity =
     re_save_state (re\<lparr>re_current_equity := equity, re_peak_equity := max (re_peak_equity re) equity\<rparr>)"

definition set_emergency_stop :: "risk_engine \<Rightarrow> bool \<Rightarrow> string \<Rightarrow> risk_engine" where
  "set_emergency_stop re active reason =
     re_save_state (re\<lparr>re_is_emergency_stop := active,
       re_emergency_stop_reason := (if active then reason else '''')\<rparr>)"

definition update_data_time :: "risk_engine \<Rightarrow> timestamp \<Rightarrow> risk_engine" where
  "update_data_time re t = re\<lparr>re_last_data_time := Some t\<rparr>"

definition record_error :: "risk_engine \<Rightarrow> risk_engine" where
  "record_error re =
     (let re' = re\<lparr>re_consecutive_errors := re_consecutive_errors re + 1\<rparr>
      in if 5 \<le> re_consecutive_errors re'
         then set_emergency_stop re' True ''Too many consecutive errors''
         else re_save_state re')"

definition reset_errors :: "risk_engine \<Rightarrow> risk_engine" where
  "reset_errors re = re_save_state (re\<lparr>re_consecutive_errors := 0\<rparr>)"

definition reset_daily :: "risk_engine \<Rightarrow> risk_engine" where
  "reset_daily re = re_save_state (re\<lparr>re_daily_pnl := 0\<rparr>)"

definition reset_weekly :: "risk_engine \<Rightarrow> risk_engine" where
  "reset_weekly re = re_save_state (re\<lparr>re_weekly_pnl := 0\<rparr>)"

section \<open>Checking a trade\<close>

record position_view =
  pv_symbol :: "string option"
  pv_side :: "string option"
  pv_value :: "decimal option"

record trade_check =
  tc_symbol :: string
  tc_side :: string
  tc_quantity :: decimal
  tc_price :: decimal
  tc_current_balance :: decimal
  tc_current_positions :: "position_view dict"
  tc_total_capital :: decimal
  tc_stop_loss_price :: "decimal option"
  tc_database_available :: "bool option"
  tc_api_available :: "bool option"
  tc_reconciliation_ok :: "bool option"
  tc_order_statuses :: "string list"

definition known_order_statuses :: "string list" where
  "known_order_statuses =
     [''new'', ''created'', ''open'', ''partially_filled'', ''filled'', ''cancelled'', ''canceled'',
      ''rejected'']"

definition position_signed_value :: "position_view \<Rightarrow> decimal" where
  "position_signed_value p =
     (let value = (case pv_value p of None \<Rightarrow> 0 | Some v \<Rightarrow> v);
          side = str_lower (case pv_side p of None \<Rightarrow> ''buy'' | Some s \<Rightarrow> s)
      in if side = ''sell'' \<or> side = ''short'' then dneg (dabs value) else dabs value)"

definition exposure_before :: "trade_check \<Rightarrow> decimal" where
  "exposure_before tc =
     dsum (map position_signed_value
       (filter (\<lambda>p. pv_symbol p = Some (tc_symbol tc)) (map snd (tc_current_positions tc))))"

definition order_value :: "trade_check \<Rightarrow> decimal" where
  "order_value tc = dmul (tc_quantity tc) (tc_price tc)"

definition exposure_after :: "trade_check \<Rightarrow> decimal" where
  "exposure_after tc =
     dadd (exposure_before tc)
       (if str_lower (tc_side tc) = ''buy'' then order_value tc else dneg (order_value tc))"

definition exposure_increase :: "trade_check \<Rightarrow> decimal" where
  "exposure_increase tc =
     max (dsub (dabs (exposure_after tc)) (dabs (exposure_before tc))) 0"

definition reducing :: "trade_check \<Rightarrow> bool" where
  "reducing tc \<longleftrightarrow> exposure_increase tc = 0"

definition other_exposure :: "trade_check \<Rightarrow> decimal" where
  "other_exposure tc =
     dsum (map (\<lambda>p. dabs (position_signed_value p))
       (filter (\<lambda>p. pv_symbol p \<noteq> Some (tc_symbol tc)) (map snd (tc_current_positions tc))))"

definition unknown_statuses :: "trade_check \<Rightarrow> string list" where
  "unknown_statuses tc =
     filter (\<lambda>s. str_lower s \<notin> set known_order_statuses) (tc_order_statuses tc)"

definition override :: "bool \<Rightarrow> bool option \<Rightarrow> bool" where
  "override own given = (case given of None \<Rightarrow> own | Some b \<Rightarrow> b)"

type_synonym guard = "bool \<times> risk_reason \<times> risk_event \<times> risk_level"

definition risk_guards :: "risk_engine \<Rightarrow> trade_check \<Rightarrow> timestamp \<Rightarrow> guard list" where
  "risk_guards re tc now =
     (let cfg = re_config re;
          opening = \<not> reducing tc;
          capital = tc_total_capital tc;
          increase = exposure_increase tc;
          position_pct = ddiv (dabs (exposure_after tc)) capital;
          utilization = ddiv (dadd (other_exposure tc) (dabs (exposure_after tc))) capital;
          stale = (case re_last_data_time re of
                     None \<Rightarrow> False
                   | Some t \<Rightarrow> seconds (60 * stale_data_threshold_minutes cfg) < now - t);
          age = (case re_last_data_time re of None \<Rightarrow> 0 | Some t \<Rightarrow> now - t);
          risk_pct = (case tc_stop_loss_price tc of
                        None \<Rightarrow> 0
                      | Some stop \<Rightarrow>
                          ddiv (dmul (ddiv increase (tc_price tc)) (dabs (dsub (tc_price tc) stop)))
                            capital)
      in [(opening \<and> re_is_emergency_stop re, ReasonEmergencyStop, EMERGENCY_STOP, CRITICAL),
          (opening \<and> \<not> override (re_database_available re) (tc_database_available tc),
             ReasonDatabase, DATABASE_UNAVAILABLE, CRITICAL),
          (opening \<and> \<not> override (re_api_available re) (tc_api_available tc),
             ReasonApi, API_UNAVAILABLE, CRITICAL),
          (opening \<and> \<not> override (re_reconciliation_ok re) (tc_reconciliation_ok tc),
             ReasonReconciliation, RECONCILIATION_FAILED, CRITICAL),
          (opening \<and> unknown_statuses tc \<noteq> [],
             ReasonUnknownStatus (set (unknown_statuses tc)), UNKNOWN_ORDER_STATUS, CRITICAL),
          (opening \<and> stale, ReasonStale age, STALE_DATA, HIGH),
          (opening \<and> max_position_size cfg < position_pct,
             ReasonPositionSize position_pct (max_position_size cfg), MAX_POSITION_SIZE, HIGH),
          (opening \<and> tc_current_balance tc < increase,
             ReasonBalance (tc_current_balance tc) increase, INSUFFICIENT_BALANCE, HIGH),
          (opening \<and> tc_stop_loss_price tc \<noteq> None \<and> max_risk_per_trade cfg < risk_pct,
             ReasonTradeRisk risk_pct (max_risk_per_trade cfg), MAX_RISK_PER_TRADE, HIGH),
          (opening \<and> max_asset_exposure cfg < position_pct,
             ReasonAsset position_pct (max_asset_exposure cfg), MAX_ASSET_EXPOSURE, HIGH),
          (opening \<and> max_capital_utilization cfg < utilization,
             ReasonUtilization utilization (max_capital_utilization cfg),
             MAX_CAPITAL_UTILIZATION, HIGH),
          (opening \<and> re_daily_pnl re < 0 \<and>
             daily_loss_limit cfg < ddiv (dabs (re_daily_pnl re)) capital,
             ReasonDailyLoss, DAILY_LOSS_LIMIT, CRITICAL),
          (opening \<and> re_weekly_pnl re < 0 \<and>
             weekly_loss_limit cfg < ddiv (dabs (re_weekly_pnl re)) capital,
             ReasonWeeklyLoss, WEEKLY_LOSS_LIMIT, CRITICAL),
          (opening \<and> 0 < re_peak_equity re \<and>
             max_drawdown cfg
               < ddiv (dsub (re_peak_equity re) (re_current_equity re)) (re_peak_equity re),
             ReasonDrawdown, MAX_DRAWDOWN, CRITICAL),
          (opening \<and> Some (tc_symbol tc) \<notin> set (map (pv_symbol \<circ> snd) (tc_current_positions tc)) \<and>
             max_open_positions cfg \<le> int (length (tc_current_positions tc)),
             ReasonOpenPositions (length (tc_current_positions tc)), MAX_POSITION_SIZE, MEDIUM)])"

type_synonym verdict = "risk_reason list \<times> risk_event list \<times> risk_level"

fun reject :: "verdict \<Rightarrow> guard \<Rightarrow> verdict" where
  "reject (reasons, events, level) (b, r, e, l) =
     (if b then (reasons @ [r], events @ [e], if level < l then l else level)
      else (reasons, events, level))"

definition apply_guards :: "guard list \<Rightarrow> verdict" where
  "apply_guards gs = foldl reject ([], [], LOW) gs"

definition invalid_trade :: "trade_check \<Rightarrow> bool" where
  "invalid_trade tc \<longleftrightarrow>
     str_lower (tc_side tc) \<notin> {''buy'', ''sell''} \<or> tc_quantity tc \<le> 0 \<or> tc_price tc \<le> 0 \<or>
     tc_total_capital tc \<le> 0"

definition adjusted_quantity :: "risk_engine \<Rightarrow> trade_check \<Rightarrow> risk_event list \<Rightarrow> decimal option" where
  "adjusted_quantity re tc events =
     (if MAX_POSITION_SIZE \<in> set events
      then let available_position_value =
                 max (dsub (dmul (tc_total_capital tc) (max_position_size (re_config re)))
                        (dabs (exposure_before tc))) 0
           in if 0 < available_position_value
              then Some (ddiv available_position_value (tc_price tc)) else None
      else None)"

definition persist_events ::
    "risk_engine \<Rightarrow> trade_check \<Rightarrow> risk_check_result \<Rightarrow> timestamp \<Rightarrow> risk_engine" where
  "persist_events re tc result now =
     re\<lparr>re_state_store := map_option
       (\<lambda>st. foldl save_event st
          (map (\<lambda>e. \<lparr>row_event_type = e, row_risk_level = rc_risk_level result,
                      row_symbol = tc_symbol tc, row_side = str_lower (tc_side tc),
                      row_quantity = tc_quantity tc, row_price = tc_price tc,
                      row_reasons = rc_reasons result, row_occurred_at = now\<rparr>)
             (rc_events result)))
       (re_state_store re)\<rparr>"

definition check_trade ::
    "risk_engine \<Rightarrow> trade_check \<Rightarrow> timestamp \<Rightarrow> risk_check_result \<times> risk_engine" where
  "check_trade re tc now =
     (if invalid_trade tc
      then let result = \<lparr>rc_approved = False, rc_risk_level = CRITICAL,
                  rc_reasons = [ReasonInvalidTrade], rc_events = [INVALID_TRADE],
                  rc_adjusted_quantity = None\<rparr>
           in (result, persist_events re tc result now)
      else
        (case apply_guards (risk_guards re tc now) of
           (reasons, events, level) \<Rightarrow>
             let adjusted = adjusted_quantity re tc events;
                 reasons' = (case adjusted of None \<Rightarrow> reasons
                             | Some q \<Rightarrow> reasons @ [ReasonAdjusted q]);
                 result = \<lparr>rc_approved = (reasons' = []), rc_risk_level = level,
                    rc_reasons = reasons', rc_events = events, rc_adjusted_quantity = adjusted\<rparr>
             in (result, if events \<noteq> [] then persist_events re tc result now else re)))"

section \<open>What the guards decide\<close>

definition fired :: "guard list \<Rightarrow> guard list" where
  "fired gs = filter fst gs"

lemma foldl_reject:
  "foldl reject (rs, es, l) gs =
     (rs @ map (fst \<circ> snd) (fired gs), es @ map (fst \<circ> snd \<circ> snd) (fired gs),
      foldl max l (map (snd \<circ> snd \<circ> snd) (fired gs)))"
proof (induction gs arbitrary: rs es l)
  case (Cons g gs)
  then show ?case by (cases g) (auto simp: fired_def max_def)
qed (simp add: fired_def)

lemma apply_guards_fired:
  "apply_guards gs =
     (map (fst \<circ> snd) (fired gs), map (fst \<circ> snd \<circ> snd) (fired gs),
      foldl max LOW (map (snd \<circ> snd \<circ> snd) (fired gs)))"
  by (simp add: apply_guards_def foldl_reject)

lemma adjusted_quantity_Nil [simp]: "adjusted_quantity re tc [] = None"
  by (simp add: adjusted_quantity_def)

lemma check_trade_approved_fired:
  "rc_approved (fst (check_trade re tc now)) \<longleftrightarrow>
     \<not> invalid_trade tc \<and> fired (risk_guards re tc now) = []"
  by (auto simp: check_trade_def apply_guards_fired Let_def split: option.splits)

text \<open>The limits new exposure has to respect, as the module promises them.\<close>

definition operational :: "risk_engine \<Rightarrow> trade_check \<Rightarrow> timestamp \<Rightarrow> bool" where
  "operational re tc now \<longleftrightarrow>
     \<not> re_is_emergency_stop re \<and>
     override (re_database_available re) (tc_database_available tc) \<and>
     override (re_api_available re) (tc_api_available tc) \<and>
     override (re_reconciliation_ok re) (tc_reconciliation_ok tc) \<and>
     (\<forall>s \<in> set (tc_order_statuses tc). str_lower s \<in> set known_order_statuses) \<and>
     (\<forall>t. re_last_data_time re = Some t \<longrightarrow>
        now - t \<le> seconds (60 * stale_data_threshold_minutes (re_config re)))"

definition within_limits :: "risk_engine \<Rightarrow> trade_check \<Rightarrow> bool" where
  "within_limits re tc \<longleftrightarrow>
     (let cfg = re_config re; capital = tc_total_capital tc;
          position_pct = ddiv (dabs (exposure_after tc)) capital
      in position_pct \<le> max_position_size cfg \<and>
         exposure_increase tc \<le> tc_current_balance tc \<and>
         (\<forall>stop. tc_stop_loss_price tc = Some stop \<longrightarrow>
            ddiv (dmul (ddiv (exposure_increase tc) (tc_price tc)) (dabs (dsub (tc_price tc) stop)))
              capital \<le> max_risk_per_trade cfg) \<and>
         position_pct \<le> max_asset_exposure cfg \<and>
         ddiv (dadd (other_exposure tc) (dabs (exposure_after tc))) capital
           \<le> max_capital_utilization cfg \<and>
         (re_daily_pnl re < 0 \<longrightarrow>
            ddiv (dabs (re_daily_pnl re)) capital \<le> daily_loss_limit cfg) \<and>
         (re_weekly_pnl re < 0 \<longrightarrow>
            ddiv (dabs (re_weekly_pnl re)) capital \<le> weekly_loss_limit cfg) \<and>
         (0 < re_peak_equity re \<longrightarrow>
            ddiv (dsub (re_peak_equity re) (re_current_equity re)) (re_peak_equity re)
              \<le> max_drawdown cfg) \<and>
         (Some (tc_symbol tc) \<in> set (map (pv_symbol \<circ> snd) (tc_current_positions tc)) \<or>
            int (length (tc_current_positions tc)) < max_open_positions cfg))"

lemma unknown_statuses_Nil:
  "unknown_statuses tc = [] \<longleftrightarrow>
     (\<forall>s \<in> set (tc_order_statuses tc). str_lower s \<in> set known_order_statuses)"
  by (simp add: unknown_statuses_def filter_empty_conv)

lemma fired_Nil_iff:
  "fired (risk_guards re tc now) = [] \<longleftrightarrow>
     reducing tc \<or> operational re tc now \<and> within_limits re tc"
proof (cases "reducing tc")
  case True
  then show ?thesis by (simp add: fired_def risk_guards_def Let_def)
next
  case False
  then show ?thesis
    by (cases "re_last_data_time re"; cases "tc_stop_loss_price tc")
      (auto simp: fired_def risk_guards_def Let_def operational_def within_limits_def
        unknown_statuses_Nil not_less not_le)
qed

lemma check_trade_approved_iff:
  "rc_approved (fst (check_trade re tc now)) \<longleftrightarrow>
     \<not> invalid_trade tc \<and> (reducing tc \<or> operational re tc now \<and> within_limits re tc)"
  by (simp add: check_trade_approved_fired fired_Nil_iff)

lemma check_trade_approved_pos:
  "rc_approved (fst (check_trade re tc now)) \<Longrightarrow> 0 < tc_quantity tc \<and> 0 < tc_price tc"
  by (simp add: check_trade_approved_fired invalid_trade_def)

lemma check_trade_rejected_events:
  "\<not> rc_approved (fst (check_trade re tc now)) \<longleftrightarrow> rc_events (fst (check_trade re tc now)) \<noteq> []"
  by (auto simp: check_trade_def apply_guards_fired Let_def split: option.splits)

lemma check_trade_adjusted:
  assumes "rc_adjusted_quantity (fst (check_trade re tc now)) = Some q"
  shows "\<not> rc_approved (fst (check_trade re tc now)) \<and> 0 < q \<and>
     MAX_POSITION_SIZE \<in> set (rc_events (fst (check_trade re tc now)))"
  using assms
  by (auto simp: check_trade_def apply_guards_fired Let_def adjusted_quantity_def invalid_trade_def
      intro!: ddiv_pos split: if_splits)

lemma check_trade_engine:
  "snd (check_trade re tc now) =
     re\<lparr>re_state_store := re_state_store (snd (check_trade re tc now))\<rparr>"
  by (auto simp: check_trade_def Let_def persist_events_def split: prod.splits)

text \<open>A sell worth at most twice the exposure held never increases it.\<close>

lemma sell_reducing:
  assumes "str_lower (tc_side tc) = ''sell''" "0 \<le> order_value tc"
    "order_value tc \<le> 2 * exposure_before tc"
  shows "reducing tc"
proof -
  have "\<bar>exposure_before tc - order_value tc\<bar> \<le> exposure_before tc" using assms(2,3) by linarith
  moreover have "0 \<le> exposure_before tc" using assms(2,3) by linarith
  moreover have "dneg (order_value tc) = - order_value tc"
    by (simp add: dneg_def order_value_def dmul_def rnd_idem)
  ultimately have "dabs (exposure_after tc) \<le> dabs (exposure_before tc)"
    using assms(1) by (simp add: exposure_after_def dadd_def dabs_def rnd_abs [symmetric]
        rnd_idem rnd_mono)
  then show ?thesis by (simp add: reducing_def exposure_increase_def max_def)
qed

section \<open>Durable state\<close>

text \<open>
  The contract of \<open>RiskStateStore\<close>: what was saved is loaded, and recording an event does not
  disturb it.
\<close>

locale state_store =
  fixes load :: "'st \<Rightarrow> 's option"
    and save :: "'st \<Rightarrow> 's \<Rightarrow> 'st"
    and put :: "'st \<Rightarrow> 'e \<Rightarrow> 'st"
  assumes load_save: "load (save st s) = Some s"
    and load_put: "load (put st e) = load st"
begin

lemma load_puts: "load (foldl put st es) = load st"
  by (induction es arbitrary: st) (simp_all add: load_put)

lemma durable: "load (foldl put (save st s) es) = Some s"
  by (simp add: load_puts load_save)

end

interpretation risk_table: state_store load_state save_state save_event
  by unfold_locales (simp_all add: load_state_def save_state_def save_event_def)

datatype risk_op =
    OpHealth bool bool | OpReconciliation bool | OpPnl decimal decimal | OpEquity decimal
  | OpEmergency bool string | OpDataTime timestamp | OpError | OpResetErrors | OpResetDaily
  | OpResetWeekly | OpCheck trade_check timestamp

fun apply_risk_op :: "risk_engine \<Rightarrow> risk_op \<Rightarrow> risk_engine" where
  "apply_risk_op re (OpHealth d a) = update_system_health re d a"
| "apply_risk_op re (OpReconciliation b) = update_reconciliation re b"
| "apply_risk_op re (OpPnl d w) = update_pnl re d w"
| "apply_risk_op re (OpEquity e) = update_equity re e"
| "apply_risk_op re (OpEmergency b r) = set_emergency_stop re b r"
| "apply_risk_op re (OpDataTime t) = update_data_time re t"
| "apply_risk_op re OpError = record_error re"
| "apply_risk_op re OpResetErrors = reset_errors re"
| "apply_risk_op re OpResetDaily = reset_daily re"
| "apply_risk_op re OpResetWeekly = reset_weekly re"
| "apply_risk_op re (OpCheck tc now) = snd (check_trade re tc now)"

text \<open>The stored row is the engine's state, or there is no row and nothing has changed yet.\<close>

definition initial_risk_state :: risk_state where
  "initial_risk_state = \<lparr>rs_daily_pnl = 0, rs_weekly_pnl = 0, rs_peak_equity = 0,
     rs_current_equity = 0, rs_is_emergency_stop = False, rs_emergency_stop_reason = '''',
     rs_consecutive_errors = 0\<rparr>"

lemma risk_state_of_fresh [simp]: "risk_state_of (fresh_risk_engine cfg store) = initial_risk_state"
  by (simp add: risk_state_of_def fresh_risk_engine_def initial_risk_state_def)

lemma risk_state_of_restore [simp]: "risk_state_of (restore_risk_state re s) = s"
  by (simp add: risk_state_of_def restore_risk_state_def)

lemma risk_state_of_persist [simp]: "risk_state_of (persist_events re tc r now) = risk_state_of re"
  by (simp add: risk_state_of_def persist_events_def)

definition synced :: "risk_engine \<Rightarrow> bool" where
  "synced re \<longleftrightarrow>
     (\<forall>st. re_state_store re = Some st \<longrightarrow>
        (case load_state st of
           None \<Rightarrow> risk_state_of re = initial_risk_state
         | Some s \<Rightarrow> s = risk_state_of re))"

lemma risk_state_of_save [simp]: "risk_state_of (re_save_state re) = risk_state_of re"
  by (simp add: risk_state_of_def re_save_state_def)

lemma synced_save [simp]: "synced (re_save_state re)"
  unfolding synced_def risk_state_of_save by (auto simp: re_save_state_def risk_table.load_save)

lemma synced_persist: "synced re \<Longrightarrow> synced (persist_events re tc r now)"
  unfolding synced_def risk_state_of_persist
  by (auto simp: persist_events_def risk_table.load_puts)

lemma synced_check: "synced re \<Longrightarrow> synced (snd (check_trade re tc now))"
  by (auto simp: check_trade_def Let_def intro: synced_persist split: prod.splits)

lemma synced_new: "synced (new_risk_engine cfg store)"
  by (auto simp: synced_def new_risk_engine_def split: option.splits)
    (simp_all add: fresh_risk_engine_def restore_risk_state_def)

lemma synced_unstored:
  "synced (re\<lparr>re_database_available := d, re_api_available := a\<rparr>) = synced re"
  "synced (re\<lparr>re_reconciliation_ok := b\<rparr>) = synced re"
  "synced (re\<lparr>re_last_data_time := t\<rparr>) = synced re"
  by (simp_all add: synced_def risk_state_of_def split: option.split)

lemma synced_op: "synced re \<Longrightarrow> synced (apply_risk_op re op)"
  by (cases op) (simp_all add: update_pnl_def update_equity_def set_emergency_stop_def
      record_error_def reset_errors_def reset_daily_def reset_weekly_def Let_def
      update_system_health_def update_reconciliation_def update_data_time_def
      synced_unstored synced_check)

lemma synced_ops: "synced re \<Longrightarrow> synced (foldl apply_risk_op re ops)"
  by (induction ops arbitrary: re) (simp_all add: synced_op)

lemma risk_state_of_restart:
  assumes "synced re" "re_state_store re = Some st"
  shows "risk_state_of (new_risk_engine cfg (Some st)) = risk_state_of re"
  using assms by (auto simp: synced_def new_risk_engine_def split: option.splits)

section \<open>Errors and equity\<close>

lemma record_error_count:
  "re_consecutive_errors (record_error re) = re_consecutive_errors re + 1"
  by (simp add: record_error_def Let_def set_emergency_stop_def re_save_state_def)

lemma record_error_stop_iff:
  "re_is_emergency_stop (record_error re) \<longleftrightarrow>
     re_is_emergency_stop re \<or> 5 \<le> re_consecutive_errors re + 1"
  by (simp add: record_error_def Let_def set_emergency_stop_def re_save_state_def)

lemma record_errors_count:
  "re_consecutive_errors ((record_error ^^ n) re) = re_consecutive_errors re + int n"
  by (induction n) (simp_all add: record_error_count)

lemma record_errors_stop_iff:
  "re_is_emergency_stop ((record_error ^^ n) re) \<longleftrightarrow>
     re_is_emergency_stop re \<or> 0 < n \<and> 5 \<le> re_consecutive_errors re + int n"
proof (induction n)
  case (Suc n)
  then show ?case
    by (cases "n = 0") (auto simp: record_error_stop_iff record_errors_count)
qed simp

lemma update_equity_peak:
  "re_peak_equity (update_equity re e) = max (re_peak_equity re) e"
  by (simp add: update_equity_def re_save_state_def)

lemma update_equities_peak:
  "re_peak_equity (foldl update_equity re es) = Max (set (re_peak_equity re # es))"
proof (induction es arbitrary: re)
  case (Cons e es)
  then show ?case by (cases "es = []") (simp_all add: update_equity_peak ac_simps max.assoc)
qed simp

section \<open>Events and proposals of a rejected trade\<close>

lemma emergency_stop_event:
  assumes "re_is_emergency_stop re" "\<not> invalid_trade tc" "\<not> reducing tc"
  shows "EMERGENCY_STOP \<in> set (rc_events (fst (check_trade re tc now)))"
proof -
  have "(True, ReasonEmergencyStop, EMERGENCY_STOP, CRITICAL) \<in> set (fired (risk_guards re tc now))"
    using assms by (simp add: fired_def risk_guards_def Let_def)
  then have "EMERGENCY_STOP \<in> set (map (fst \<circ> snd \<circ> snd) (fired (risk_guards re tc now)))"
    by force
  with assms(2) show ?thesis
    by (simp add: check_trade_def apply_guards_fired Let_def)
qed

lemma check_trade_adjusted_value:
  assumes "rc_adjusted_quantity (fst (check_trade re tc now)) = Some q"
  shows "q * tc_price tc \<le> (1 + half_ulp) *
     dsub (dmul (tc_total_capital tc) (max_position_size (re_config re))) (dabs (exposure_before tc))"
proof -
  let ?room = "dsub (dmul (tc_total_capital tc) (max_position_size (re_config re)))
    (dabs (exposure_before tc))"
  have q: "0 < ?room" "q = ddiv ?room (tc_price tc)" "0 < tc_price tc"
    using assms by (auto simp: check_trade_def apply_guards_fired Let_def adjusted_quantity_def
        invalid_trade_def max_def split: if_splits)
  then have "0 \<le> ?room / tc_price tc" by (intro divide_nonneg_pos less_imp_le)
  then have "q \<le> ?room / tc_price tc * (1 + half_ulp)"
    unfolding q(2) ddiv_def by (rule rnd_upper)
  with q(3) show ?thesis by (simp add: field_simps)
qed

lemma apply_risk_op_store:
  "re_state_store (apply_risk_op re op) = None \<longleftrightarrow> re_state_store re = None"
  by (cases op) (auto simp: update_pnl_def update_equity_def set_emergency_stop_def
      record_error_def reset_errors_def reset_daily_def reset_weekly_def Let_def
      update_system_health_def update_reconciliation_def update_data_time_def re_save_state_def
      check_trade_def persist_events_def split: prod.splits)

lemma apply_risk_ops_store:
  "re_state_store (foldl apply_risk_op re ops) = None \<longleftrightarrow> re_state_store re = None"
  by (induction ops arbitrary: re) (simp_all add: apply_risk_op_store)

lemma new_risk_engine_store: "re_state_store (new_risk_engine cfg store) = store"
  by (simp add: new_risk_engine_def fresh_risk_engine_def restore_risk_state_def
      split: option.splits)

end
