(* ===== verification/Strategy_Base.thy ===== *)
theory Strategy_Base
  imports Models
begin

text \<open>
  What \<open>app/strategies/base_strategy.py\<close> fixes about a strategy: the data its methods see and
  the methods the backtest calls. A strategy is a record of functions over its own state; the
  \<open>uuid4\<close> a new signal draws for its id is an argument. The locale \<open>spot_strategy\<close> states what the
  engine relies on, and every strategy of the program interprets it.
\<close>

section \<open>The data a strategy sees\<close>

record candle =
  cd_symbol :: string
  cd_open_time :: timestamp
  cd_open :: "decimal option"
  cd_high :: "decimal option"
  cd_low :: "decimal option"
  cd_close :: decimal
  cd_volume :: "decimal option"
  cd_indicators :: "indicators option"

text \<open>\<open>candle.get("high", close)\<close>\<close>

definition candle_get :: "decimal option \<Rightarrow> decimal \<Rightarrow> decimal" where
  "candle_get x d = (case x of None \<Rightarrow> d | Some v \<Rightarrow> v)"

record portfolio_state =
  ps_has_position :: bool
  ps_capital :: decimal
  ps_available_balance :: decimal

record position_state =
  po_symbol :: string
  po_side :: string
  po_entry_price :: decimal
  po_quantity :: decimal
  po_unrealized_pnl_pct :: decimal
  po_holding_periods :: int
  po_capital :: decimal
  po_high_water_mark :: "decimal option"

definition TREND_UP :: string where "TREND_UP = ''TREND_UP''"
definition TREND_DOWN :: string where "TREND_DOWN = ''TREND_DOWN''"

text \<open>\<open>calculate_position_size\<close>: risk budget over the distance to the stop.\<close>

definition calculate_position_size :: "decimal \<Rightarrow> decimal \<Rightarrow> decimal \<Rightarrow> decimal \<Rightarrow> decimal" where
  "calculate_position_size capital risk_per_trade entry_price stop_loss =
     (let risk_amount = dmul capital risk_per_trade;
          price_risk = dabs (dsub entry_price stop_loss)
      in if price_risk = 0 then 0 else ddiv risk_amount price_risk)"

lemma calculate_position_size_nonneg:
  "0 \<le> capital \<Longrightarrow> 0 \<le> risk \<Longrightarrow> 0 \<le> calculate_position_size capital risk e s"
  by (auto simp: calculate_position_size_def Let_def)

section \<open>The interface\<close>

record 's strategy =
  st_should_enter ::
    "'s \<Rightarrow> string \<Rightarrow> candle \<Rightarrow> indicators \<Rightarrow> portfolio_state \<Rightarrow> (signal option \<times> 's) result"
  st_should_exit ::
    "'s \<Rightarrow> string \<Rightarrow> candle \<Rightarrow> indicators \<Rightarrow> position_state \<Rightarrow> (signal option \<times> 's) result"
  st_should_add_dca ::
    "('s \<Rightarrow> string \<Rightarrow> candle \<Rightarrow> indicators \<Rightarrow> position_state \<Rightarrow> (signal option \<times> 's) result) option"
  st_on_fill :: "'s \<Rightarrow> signal \<Rightarrow> fill \<Rightarrow> 's result"

text \<open>
  An entry or addition is an \<open>open_long\<close> and an exit a \<open>close\<close>, for the candle's own symbol and
  time, with the id drawn for it; an entry is priced at the close and never made while a position
  is held; and no operation leaves the strategy's own invariant.
\<close>

locale spot_strategy =
  fixes ops :: "'s strategy"
    and inv :: "'s \<Rightarrow> bool"
  assumes enter_signal:
      "st_should_enter ops s u c i p = Inr (Some g, s') \<Longrightarrow>
         sig_action g = ''open_long'' \<and> sig_symbol g = cd_symbol c \<and>
         sig_timestamp g = cd_open_time c \<and> sig_signal_id g = u \<and> sig_price g = cd_close c \<and>
         \<not> ps_has_position p"
    and exit_signal:
      "st_should_exit ops s u c i q = Inr (Some g, s') \<Longrightarrow>
         sig_action g = ''close'' \<and> sig_symbol g = cd_symbol c \<and>
         sig_timestamp g = cd_open_time c \<and> sig_signal_id g = u"
    and dca_signal:
      "st_should_add_dca ops = Some f \<Longrightarrow> f s u c i q = Inr (Some g, s') \<Longrightarrow>
         sig_action g = ''open_long'' \<and> sig_symbol g = cd_symbol c \<and>
         sig_timestamp g = cd_open_time c \<and> sig_signal_id g = u"
    and enter_inv: "inv s \<Longrightarrow> st_should_enter ops s u c i p = Inr (r, s') \<Longrightarrow> inv s'"
    and exit_inv: "inv s \<Longrightarrow> st_should_exit ops s u c i q = Inr (r, s') \<Longrightarrow> inv s'"
    and dca_inv:
      "inv s \<Longrightarrow> st_should_add_dca ops = Some f \<Longrightarrow> f s u c i q = Inr (r, s') \<Longrightarrow> inv s'"
    and fill_inv: "inv s \<Longrightarrow> st_on_fill ops s g fl = Inr s' \<Longrightarrow> inv s'"

end
