(* ===== verification/Backtest.thy ===== *)
theory Backtest
  imports Risk Strategy_Base
begin

text \<open>
  The backtest engine, \<open>app/backtest/backtest_engine.py\<close>: candle, strategy, risk engine, order,
  fill and portfolio in the order the code runs them. The engine is the record
  \<open>backtest_engine\<close>, passed and returned; \<open>uuid4\<close> and the clock are read through a counter of the
  draws made. A signal is queued by the candle that produced it and executed at the open of the
  next one; the audit lists grow by appending.
\<close>

section \<open>Configuration, decisions and the engine\<close>

record backtest_config =
  bc_initial_balance :: decimal
  bc_commission_config :: commission_config
  bc_slippage_config :: slippage_config
  bc_end_position_policy :: string

definition check_backtest_config :: "backtest_config \<Rightarrow> backtest_config result" where
  "check_backtest_config cfg =
     (if bc_end_position_policy cfg \<notin> {''liquidate'', ''mark_to_market''}
      then Inl (ValueError ''end_position_policy must be liquidate or mark_to_market'')
      else Inr cfg)"

definition default_backtest_config :: backtest_config where
  "default_backtest_config =
     \<lparr>bc_initial_balance = 5000, bc_commission_config = default_commission_config,
      bc_slippage_config = default_slippage_config, bc_end_position_policy = ''liquidate''\<rparr>"

datatype decision_code = NO_POSITION | RiskCode risk_event

datatype decision_reason = NoOpenSpotPosition | RiskReason risk_reason

record risk_decision =
  rd_order_id :: string
  rd_approved :: bool
  rd_risk_level :: risk_level
  rd_codes :: "decision_code list"
  rd_reasons :: "decision_reason list"
  rd_requested_quantity :: decimal
  rd_approved_quantity :: "decimal option"
  rd_run_id :: string
  rd_signal_id :: string

record backtest_engine =
  be_config :: backtest_config
  be_portfolio :: portfolio
  be_slippage_model :: slippage_model
  be_risk_engine :: risk_engine
  be_signals :: "signal list"
  be_risk_decisions :: "risk_decision list"
  be_orders :: "order list"
  be_fills :: "fill list"
  be_sequence :: nat
  be_uuid :: "nat \<Rightarrow> string"
  be_clock :: "nat \<Rightarrow> timestamp"
  be_draws :: nat

definition new_backtest_engine ::
    "backtest_config \<Rightarrow> risk_engine \<Rightarrow> uniform_source \<Rightarrow> (nat \<Rightarrow> string) \<Rightarrow> (nat \<Rightarrow> timestamp)
     \<Rightarrow> backtest_engine" where
  "new_backtest_engine cfg re rng uuid clock =
     \<lparr>be_config = cfg, be_portfolio = new_portfolio (bc_initial_balance cfg),
      be_slippage_model =
        \<lparr>slip_config = bc_slippage_config cfg, slip_rng = rng, slip_draws = 0\<rparr>,
      be_risk_engine = re, be_signals = [], be_risk_decisions = [], be_orders = [],
      be_fills = [], be_sequence = 0, be_uuid = uuid, be_clock = clock, be_draws = 0\<rparr>"

definition draw_uuid :: "backtest_engine \<Rightarrow> string \<times> backtest_engine" where
  "draw_uuid be = (be_uuid be (be_draws be), be\<lparr>be_draws := Suc (be_draws be)\<rparr>)"

definition read_clock :: "backtest_engine \<Rightarrow> timestamp \<times> backtest_engine" where
  "read_clock be = (be_clock be (be_draws be), be\<lparr>be_draws := Suc (be_draws be)\<rparr>)"

definition next_id :: "string \<Rightarrow> backtest_engine \<Rightarrow> string \<times> backtest_engine" where
  "next_id prefix be =
     (let n = Suc (be_sequence be)
      in (''bt-'' @ prefix @ ''-'' @ zero_pad 8 n, be\<lparr>be_sequence := n\<rparr>))"

section \<open>Risk check and decision\<close>

definition position_views :: "portfolio \<Rightarrow> position_view dict" where
  "position_views pf =
     map (\<lambda>(key, p). (key, \<lparr>pv_symbol = Some (pos_symbol p), pv_side = Some (pos_side p),
                             pv_value = Some (position_value p)\<rparr>)) (pf_positions pf)"

definition bt_trade_check :: "backtest_engine \<Rightarrow> order \<Rightarrow> decimal \<Rightarrow> trade_check" where
  "bt_trade_check be o1 execution_price =
     \<lparr>tc_symbol = order_symbol o1, tc_side = ord_side o1, tc_quantity = ord_quantity o1,
      tc_price = execution_price, tc_current_balance = pf_balance (be_portfolio be),
      tc_current_positions = position_views (be_portfolio be),
      tc_total_capital = total_equity (be_portfolio be),
      tc_stop_loss_price = sig_stop_loss (ord_signal o1),
      tc_database_available = None, tc_api_available = None, tc_reconciliation_ok = None,
      tc_order_statuses = []\<rparr>"

definition check_risk ::
    "backtest_engine \<Rightarrow> order \<Rightarrow> decimal \<Rightarrow> risk_check_result \<times> backtest_engine" where
  "check_risk be o1 execution_price =
     (let (now, be1) = read_clock be;
          (result, re) = check_trade (be_risk_engine be1) (bt_trade_check be1 o1 execution_price) now
      in (result, be1\<lparr>be_risk_engine := re\<rparr>))"

definition make_risk_decision :: "order \<Rightarrow> risk_check_result \<Rightarrow> decimal \<Rightarrow> risk_decision" where
  "make_risk_decision o1 result approved_quantity =
     \<lparr>rd_order_id = ord_order_id o1, rd_approved = rc_approved result,
      rd_risk_level = rc_risk_level result, rd_codes = map RiskCode (rc_events result),
      rd_reasons = map RiskReason (rc_reasons result),
      rd_requested_quantity = ord_quantity o1,
      rd_approved_quantity = (if rc_approved result then Some approved_quantity else None),
      rd_run_id = ord_run_id o1, rd_signal_id = ord_signal_id o1\<rparr>"

definition no_position_decision :: "signal \<Rightarrow> risk_decision" where
  "no_position_decision g =
     \<lparr>rd_order_id = '''', rd_approved = False, rd_risk_level = HIGH, rd_codes = [NO_POSITION],
      rd_reasons = [NoOpenSpotPosition], rd_requested_quantity = sig_quantity g,
      rd_approved_quantity = None, rd_run_id = sig_run_id g, rd_signal_id = sig_signal_id g\<rparr>"

section \<open>Executing an order\<close>

text \<open>\<open>SlippageModel.calculate_slippage\<close> on the engine's own model.\<close>

definition bt_slippage ::
    "backtest_engine \<Rightarrow> order \<Rightarrow> decimal option \<Rightarrow> (decimal \<times> backtest_engine) result" where
  "bt_slippage be o1 average_volume =
     bind_result (calculate_slippage (be_slippage_model be) (ord_requested_price o1)
         (ord_quantity o1) average_volume (ord_side o1 = ''buy''))
       (\<lambda>(price, m). Inr (price, be\<lparr>be_slippage_model := m\<rparr>))"

text \<open>
  The risk check, repeated on the quantity the risk engine proposes when it rejected the requested
  one; the copy of the order made for the second check carries no run or signal id.
\<close>

definition decide_order ::
    "backtest_engine \<Rightarrow> order \<Rightarrow> decimal option
     \<Rightarrow> (risk_check_result \<times> decimal \<times> decimal \<times> backtest_engine) result" where
  "decide_order be o1 average_volume =
     bind_result (bt_slippage be o1 average_volume)
       (\<lambda>(execution_price, be1).
          case check_risk be1 o1 execution_price of
            (result, be2) \<Rightarrow>
              (case rc_adjusted_quantity result of
                 Some q \<Rightarrow>
                   if \<not> rc_approved result
                   then let adjusted = o1\<lparr>ord_quantity := q, ord_run_id := '''', ord_signal_id := ''''\<rparr>
                        in bind_result (bt_slippage be2 adjusted average_volume)
                             (\<lambda>(price, be3).
                                case check_risk be3 adjusted price of
                                  (result2, be4) \<Rightarrow> Inr (result2, price, q, be4))
                   else Inr (result, execution_price, ord_quantity o1, be2)
               | None \<Rightarrow> Inr (result, execution_price, ord_quantity o1, be2)))"

text \<open>The portfolio side of a fill: \<open>None\<close> when the portfolio refuses it.\<close>

definition settle ::
    "backtest_engine \<Rightarrow> order \<Rightarrow> decimal \<Rightarrow> decimal \<Rightarrow> decimal \<Rightarrow> backtest_engine option result" where
  "settle be o1 execution_price quantity commission =
     (if ord_side o1 = ''buy''
      then bind_result
             (open_position (be_portfolio be) (order_symbol o1) ''long'' execution_price quantity
                (ord_created_at o1) (sig_stop_loss (ord_signal o1))
                (sig_take_profit (ord_signal o1)) commission)
             (\<lambda>(opened, pf).
                Inr (if opened then Some (be\<lparr>be_portfolio := pf\<rparr>) else None))
      else (case close_position (be_portfolio be) (order_symbol o1) execution_price
                   (ord_created_at o1) commission of
              (None, _) \<Rightarrow> Inr None
            | (Some pnl, pf) \<Rightarrow> Inr (Some (be\<lparr>be_portfolio := pf\<rparr>))))"

definition make_fill :: "string \<Rightarrow> order \<Rightarrow> decimal \<Rightarrow> decimal \<Rightarrow> decimal \<Rightarrow> fill" where
  "make_fill fid o1 quantity execution_price commission =
     \<lparr>fill_fill_id = fid, fill_order_id = ord_order_id o1, fill_symbol = order_symbol o1,
      fill_side = ord_side o1, fill_quantity = quantity, fill_price = execution_price,
      fill_commission = commission, fill_timestamp = ord_created_at o1,
      fill_run_id = ord_run_id o1, fill_signal_id = ord_signal_id o1\<rparr>"

definition execute_order ::
    "backtest_engine \<Rightarrow> order \<Rightarrow> decimal option \<Rightarrow> (fill option \<times> backtest_engine) result" where
  "execute_order be o1 average_volume =
     bind_result (decide_order be o1 average_volume)
       (\<lambda>(result, execution_price, approved_quantity, be1).
          let decision = make_risk_decision o1 result approved_quantity;
              be2 = be1\<lparr>be_risk_decisions := be_risk_decisions be1 @ [decision]\<rparr>
          in (case rd_approved_quantity decision of
                None \<Rightarrow> Inr (None, be2)
              | Some quantity \<Rightarrow>
                  let commission = calculate_commission (bc_commission_config (be_config be2))
                                     quantity execution_price False
                  in bind_result (settle be2 o1 execution_price quantity commission)
                       (\<lambda>settled.
                          case settled of
                            None \<Rightarrow> Inr (None, be2)
                          | Some be3 \<Rightarrow>
                              (case next_id ''fill'' be3 of
                                 (fid, be4) \<Rightarrow>
                                   let f = make_fill fid o1 quantity execution_price commission
                                   in Inr (Some f, be4\<lparr>be_fills := be_fills be4 @ [f]\<rparr>)))))"

definition is_entry :: "signal_action \<Rightarrow> bool" where
  "is_entry a \<longleftrightarrow> a = BUY \<or> a = OPEN_LONG"

definition place_order ::
    "backtest_engine \<Rightarrow> signal \<Rightarrow> string \<Rightarrow> decimal \<Rightarrow> decimal \<Rightarrow> timestamp \<Rightarrow> order \<times> backtest_engine"
    where
  "place_order be g side quantity requested_price t =
     (case next_id ''order'' be of
        (oid, be1) \<Rightarrow>
          let o1 = \<lparr>ord_order_id = oid, ord_signal = g, ord_side = side, ord_quantity = quantity,
                    ord_requested_price = requested_price, ord_created_at = t,
                    ord_run_id = sig_run_id g, ord_signal_id = sig_signal_id g\<rparr>
          in (o1, be1\<lparr>be_orders := be_orders be1 @ [o1]\<rparr>))"

definition create_and_execute_order ::
    "backtest_engine \<Rightarrow> signal \<Rightarrow> decimal \<Rightarrow> timestamp \<Rightarrow> decimal option
     \<Rightarrow> (fill option \<times> backtest_engine) result" where
  "create_and_execute_order be g requested_price t average_volume =
     bind_result (parse_signal_action (sig_action g))
       (\<lambda>action.
          if is_entry action
          then (case place_order be g ''buy'' (sig_quantity g) requested_price t of
                  (o1, be1) \<Rightarrow> execute_order be1 o1 average_volume)
          else (case get_position (be_portfolio be) (sig_symbol g) of
                  None \<Rightarrow>
                    Inr (None, be\<lparr>be_risk_decisions := be_risk_decisions be @ [no_position_decision g]\<rparr>)
                | Some p \<Rightarrow>
                    (case place_order be g ''sell'' (pos_quantity p) requested_price t of
                       (o1, be1) \<Rightarrow> execute_order be1 o1 average_volume)))"

section \<open>Signals of a strategy\<close>

text \<open>
  What a strategy may return: nothing, one signal or a list; each a \<open>Signal\<close>, a dictionary or
  something else. The \<open>Decimal(str(value))\<close> of a dictionary entry is the decimal itself.
\<close>

record raw_dict =
  raw_action :: "string option"
  raw_symbol :: "string option"
  raw_price :: "decimal option"
  raw_quantity :: "decimal option"
  raw_reason :: "string option"
  raw_stop_loss :: "decimal option"
  raw_take_profit :: "decimal option"
  raw_strategy :: "string option"
  raw_parameters_version :: "string option"
  raw_indicators :: "indicators option"
  raw_regime :: "string option"
  raw_metadata :: "meta_value dict option"

datatype raw_signal = RawSignal signal | RawDict raw_dict | RawOther

datatype raw_signals = RawNone | RawOne raw_signal | RawMany "raw_signal list"

fun as_signal_list :: "raw_signals \<Rightarrow> raw_signal list result" where
  "as_signal_list RawNone = Inr []"
| "as_signal_list (RawOne RawOther) = Inl (TypeError ''object is not iterable'')"
| "as_signal_list (RawOne r) = Inr [r]"
| "as_signal_list (RawMany rs) = Inr rs"

definition dict_get_or :: "'a option \<Rightarrow> 'a \<Rightarrow> 'a" where
  "dict_get_or x d = (case x of None \<Rightarrow> d | Some v \<Rightarrow> v)"

definition normalize_signal ::
    "raw_signal \<Rightarrow> candle \<Rightarrow> timestamp \<Rightarrow> string \<Rightarrow> backtest_engine
     \<Rightarrow> (signal \<times> backtest_engine) result" where
  "normalize_signal raw c t run_id be =
     (case raw of
        RawSignal g \<Rightarrow> Inr (g, be)
      | RawOther \<Rightarrow> Inl (TypeError ''Strategy signals must be mappings or app.models.Signal'')
      | RawDict d \<Rightarrow>
          (case raw_action d of
             None \<Rightarrow> Inl (KeyError ''action'')
           | Some action \<Rightarrow>
               (case draw_uuid be of
                  (u, be1) \<Rightarrow>
                    Inr (\<lparr>sig_action = action,
                          sig_symbol = dict_get_or (raw_symbol d) (cd_symbol c),
                          sig_price = dict_get_or (raw_price d) (cd_close c),
                          sig_quantity = dict_get_or (raw_quantity d) 0,
                          sig_timestamp = t, sig_reason = dict_get_or (raw_reason d) '''',
                          sig_stop_loss = raw_stop_loss d, sig_take_profit = raw_take_profit d,
                          sig_strategy = dict_get_or (raw_strategy d) '''',
                          sig_parameters_version = dict_get_or (raw_parameters_version d) '''',
                          sig_indicators = dict_get_or (raw_indicators d) no_indicators,
                          sig_regime = raw_regime d,
                          sig_metadata = dict_get_or (raw_metadata d) [],
                          sig_signal_id = u, sig_run_id = run_id\<rparr>, be1))))"

text \<open>
  A legacy strategy is a callable with its own state and no \<open>on_fill\<close>; a \<open>BaseStrategy\<close> is the
  record of its methods.
\<close>

datatype 's bt_strategy =
    LegacyStrategy "candle \<Rightarrow> portfolio \<Rightarrow> 's \<Rightarrow> (raw_signals \<times> 's) result"
  | BaseStrategy "'s strategy"

definition entry_view :: "portfolio \<Rightarrow> portfolio_state" where
  "entry_view pf =
     \<lparr>ps_has_position = False, ps_capital = total_equity pf, ps_available_balance = pf_balance pf\<rparr>"

definition unrealized_pct :: "position \<Rightarrow> decimal result" where
  "unrealized_pct p =
     (case pos_current_price p of
        None \<Rightarrow> Inr 0
      | Some v \<Rightarrow> ddiv_or_raise (dsub v (pos_entry_price p)) (pos_entry_price p))"

definition held_view :: "portfolio \<Rightarrow> position \<Rightarrow> decimal \<Rightarrow> position_state" where
  "held_view pf p pct =
     \<lparr>po_symbol = pos_symbol p, po_side = pos_side p, po_entry_price = pos_entry_price p,
      po_quantity = pos_quantity p, po_unrealized_pnl_pct = pct,
      po_holding_periods = pos_holding_periods p, po_capital = total_equity pf,
      po_high_water_mark = pos_high_water_mark p\<rparr>"

definition raw_of_option :: "signal option \<Rightarrow> raw_signals" where
  "raw_of_option g = (case g of None \<Rightarrow> RawNone | Some g \<Rightarrow> RawOne (RawSignal g))"

definition base_strategy_signals ::
    "'s strategy \<Rightarrow> candle \<Rightarrow> indicators \<Rightarrow> 's \<Rightarrow> backtest_engine
     \<Rightarrow> (signal option \<times> 's \<times> backtest_engine) result" where
  "base_strategy_signals ops c ind s be =
     (let pf = be_portfolio be; (u, be1) = draw_uuid be
      in (case get_position pf (cd_symbol c) of
            None \<Rightarrow>
              bind_result (st_should_enter ops s u c ind (entry_view pf))
                (\<lambda>(g, s'). Inr (g, s', be1))
          | Some p \<Rightarrow>
              bind_result (unrealized_pct p)
                (\<lambda>pct. bind_result (st_should_exit ops s u c ind (held_view pf p pct))
                   (\<lambda>(g, s1).
                      case (g, st_should_add_dca ops) of
                        (None, Some add_dca) \<Rightarrow>
                          (case draw_uuid be1 of
                             (u2, be2) \<Rightarrow>
                               bind_result (add_dca s1 u2 c ind (held_view pf p pct))
                                 (\<lambda>(g2, s2). Inr (g2, s2, be2)))
                      | _ \<Rightarrow> Inr (g, s1, be1)))))"

definition strategy_signals ::
    "'s bt_strategy \<Rightarrow> candle \<Rightarrow> indicators \<Rightarrow> 's \<Rightarrow> backtest_engine
     \<Rightarrow> (raw_signals \<times> 's \<times> backtest_engine) result" where
  "strategy_signals strategy c ind s be =
     (case strategy of
        LegacyStrategy f \<Rightarrow>
          bind_result (f c (be_portfolio be) s) (\<lambda>(raw, s'). Inr (raw, s', be))
      | BaseStrategy ops \<Rightarrow>
          bind_result (base_strategy_signals ops c ind s be)
            (\<lambda>(g, s', be'). Inr (raw_of_option g, s', be')))"

definition strategy_on_fill :: "'s bt_strategy \<Rightarrow> 's \<Rightarrow> signal \<Rightarrow> fill option \<Rightarrow> 's result" where
  "strategy_on_fill strategy s g f =
     (case (strategy, f) of
        (BaseStrategy ops, Some fl) \<Rightarrow> st_on_fill ops s g fl
      | _ \<Rightarrow> Inr s)"

section \<open>Volume seen by the slippage model\<close>

definition completed_volumes :: "candle list \<Rightarrow> nat \<Rightarrow> string \<Rightarrow> decimal list" where
  "completed_volumes candles index symbol =
     List.map_filter
       (\<lambda>c. if cd_symbol c = symbol
            then (case cd_volume c of
                    None \<Rightarrow> None
                  | Some v \<Rightarrow> if v \<le> 0 then None else Some v)
            else None)
       (rev (take index candles))"

definition average_completed_volume :: "candle list \<Rightarrow> nat \<Rightarrow> string \<Rightarrow> nat \<Rightarrow> decimal option result" where
  "average_completed_volume candles index symbol lookback =
     (if lookback = 0 then Inl (ValueError ''lookback must be positive'')
      else let volumes = take lookback (completed_volumes candles index symbol)
           in Inr (if volumes = [] then None
                   else Some (ddiv (dsum volumes) (dec_of_nat (length volumes)))))"

definition VOLUME_LOOKBACK :: nat where "VOLUME_LOOKBACK = 20"

section \<open>One candle\<close>

record 's bt_state =
  bt_engine :: backtest_engine
  bt_strategy_state :: 's
  bt_peak_equity :: decimal
  bt_pending :: "signal list"

definition process_signal ::
    "candle list \<Rightarrow> nat \<Rightarrow> signal \<Rightarrow> timestamp \<Rightarrow> backtest_engine
     \<Rightarrow> (fill option \<times> backtest_engine) result" where
  "process_signal candles index g t be =
     bind_result (average_completed_volume candles index (sig_symbol g) VOLUME_LOOKBACK)
       (\<lambda>v. create_and_execute_order (be\<lparr>be_signals := be_signals be @ [g]\<rparr>) g (sig_price g) t v)"

definition execute_pending ::
    "'s bt_strategy \<Rightarrow> candle list \<Rightarrow> nat \<Rightarrow> decimal \<Rightarrow> timestamp \<Rightarrow> signal
     \<Rightarrow> backtest_engine \<times> 's \<Rightarrow> (backtest_engine \<times> 's) result" where
  "execute_pending strategy candles index open_price t g x =
     (case x of
        (be, s) \<Rightarrow>
          bind_result (average_completed_volume candles index (sig_symbol g) VOLUME_LOOKBACK)
            (\<lambda>v. bind_result (create_and_execute_order be g open_price t v)
              (\<lambda>(f, be'). bind_result (strategy_on_fill strategy s g f)
                 (\<lambda>s'. Inr (be', s')))))"

definition engine_close_signal ::
    "string \<Rightarrow> string \<Rightarrow> decimal \<Rightarrow> decimal \<Rightarrow> timestamp \<Rightarrow> string \<Rightarrow> string \<Rightarrow> string \<Rightarrow> signal" where
  "engine_close_signal u symbol price quantity t reason source run_id =
     \<lparr>sig_action = ''close'', sig_symbol = symbol, sig_price = price, sig_quantity = quantity,
      sig_timestamp = t, sig_reason = reason, sig_stop_loss = None, sig_take_profit = None,
      sig_strategy = ''backtest_engine'', sig_parameters_version = ''backtest_engine_v1'',
      sig_indicators = no_indicators, sig_regime = None,
      sig_metadata = [(''exit_source'', MStr source)], sig_signal_id = u, sig_run_id = run_id\<rparr>"

definition execute_level ::
    "candle list \<Rightarrow> nat \<Rightarrow> timestamp \<Rightarrow> string \<Rightarrow> exit_level_event \<Rightarrow> bool \<times> backtest_engine
     \<Rightarrow> (bool \<times> backtest_engine) result" where
  "execute_level candles index t run_id e x =
     (case x of
        (level_closed, be) \<Rightarrow>
          (case get_position (be_portfolio be) (ev_symbol e) of
             None \<Rightarrow> Inr (level_closed, be)
           | Some p \<Rightarrow>
               (case draw_uuid be of
                  (u, be1) \<Rightarrow>
                    bind_result
                      (process_signal candles index
                         (engine_close_signal u (ev_symbol e) (ev_reference_price e)
                            (pos_quantity p) t (ev_reason e) ''intrabar_level'' run_id) t be1)
                      (\<lambda>(f, be2). Inr (f \<noteq> None \<or> level_closed, be2)))))"

definition queue_signal ::
    "candle \<Rightarrow> timestamp \<Rightarrow> string \<Rightarrow> raw_signal \<Rightarrow> signal list \<times> backtest_engine
     \<Rightarrow> (signal list \<times> backtest_engine) result" where
  "queue_signal c t run_id raw x =
     (case x of
        (pending, be) \<Rightarrow>
          bind_result (normalize_signal raw c t run_id be)
            (\<lambda>(g, be'). Inr (pending @ [g], be'\<lparr>be_signals := be_signals be' @ [g]\<rparr>)))"

definition mark_to_market :: "candle \<Rightarrow> decimal \<Rightarrow> backtest_engine \<Rightarrow> backtest_engine" where
  "mark_to_market c high be =
     (let pf = update_positions (be_portfolio be) [(cd_symbol c, cd_close c)] (cd_open_time c)
                 (Some [(cd_symbol c, high)])
      in be\<lparr>be_portfolio := pf,
            be_risk_engine := update_equity (be_risk_engine be) (total_equity pf)\<rparr>)"

definition track_drawdown :: "'s bt_state \<Rightarrow> 's bt_state result" where
  "track_drawdown st =
     (let pf = be_portfolio (bt_engine st); equity = total_equity pf;
          peak = max (bt_peak_equity st) equity
      in bind_result (ddiv_or_raise (dsub peak equity) peak)
           (\<lambda>drawdown. Inr
              (st\<lparr>bt_engine := (bt_engine st)\<lparr>be_portfolio :=
                     pf\<lparr>pf_max_drawdown := max (pf_max_drawdown pf) drawdown\<rparr>\<rparr>,
                  bt_peak_equity := peak\<rparr>)))"

definition candle_indicators ::
    "(candle \<Rightarrow> nat \<Rightarrow> indicators) option \<Rightarrow> candle \<Rightarrow> nat \<Rightarrow> indicators" where
  "candle_indicators provider c index =
     (case provider of
        Some f \<Rightarrow> f c index
      | None \<Rightarrow> (case cd_indicators c of None \<Rightarrow> no_indicators | Some i \<Rightarrow> i))"

text \<open>
  The strategy's turn: skipped when a level closed the position inside this candle.
\<close>

definition ask_strategy ::
    "'s bt_strategy \<Rightarrow> (candle \<Rightarrow> nat \<Rightarrow> indicators) option \<Rightarrow> string \<Rightarrow> nat \<Rightarrow> candle \<Rightarrow> bool
     \<Rightarrow> 's bt_state \<Rightarrow> 's bt_state result" where
  "ask_strategy strategy provider run_id index c level_closed st =
     bind_result
       (if level_closed then Inr (RawNone, bt_strategy_state st, bt_engine st)
        else strategy_signals strategy c (candle_indicators provider c index)
               (bt_strategy_state st) (bt_engine st))
       (\<lambda>(raw, s, be). bind_result (as_signal_list raw)
          (\<lambda>raws. bind_result (fold_result (queue_signal c (cd_open_time c) run_id) raws ([], be))
             (\<lambda>(pending, be'). Inr
                (st\<lparr>bt_engine := be', bt_strategy_state := s, bt_pending := pending\<rparr>))))"

definition run_candle ::
    "'s bt_strategy \<Rightarrow> (candle \<Rightarrow> nat \<Rightarrow> indicators) option \<Rightarrow> string \<Rightarrow> candle list
     \<Rightarrow> nat \<times> candle \<Rightarrow> 's bt_state \<Rightarrow> 's bt_state result" where
  "run_candle strategy provider run_id candles ic st =
     (case ic of
        (index, c) \<Rightarrow>
          let close = cd_close c; t = cd_open_time c;
              open_price = candle_get (cd_open c) close;
              high = candle_get (cd_high c) close;
              low = candle_get (cd_low c) close
          in bind_result
               (fold_result (execute_pending strategy candles index open_price t)
                  (bt_pending st) (bt_engine st, bt_strategy_state st))
               (\<lambda>(be1, s1). bind_result
                  (fold_result (execute_level candles index t run_id)
                     (check_intrabar_exits (be_portfolio be1)
                        [(cd_symbol c, \<lparr>ohl_open = open_price, ohl_high = high, ohl_low = low\<rparr>)])
                     (False, be1))
                  (\<lambda>(level_closed, be2). bind_result
                     (ask_strategy strategy provider run_id index c level_closed
                        (st\<lparr>bt_engine := mark_to_market c high be2, bt_strategy_state := s1,
                            bt_pending := []\<rparr>))
                     track_drawdown)))"

definition run_candles ::
    "'s bt_strategy \<Rightarrow> (candle \<Rightarrow> nat \<Rightarrow> indicators) option \<Rightarrow> string \<Rightarrow> candle list
     \<Rightarrow> 's bt_state \<Rightarrow> 's bt_state result" where
  "run_candles strategy provider run_id candles st =
     fold_result (run_candle strategy provider run_id candles)
       (zip [0..<length candles] candles) st"

section \<open>End of the run and results\<close>

definition liquidate_position ::
    "candle list \<Rightarrow> string \<Rightarrow> candle \<Rightarrow> string \<times> position \<Rightarrow> backtest_engine
     \<Rightarrow> backtest_engine result" where
  "liquidate_position candles run_id last_candle sp be =
     (case draw_uuid be of
        (u, be1) \<Rightarrow>
          bind_result
            (process_signal candles (length candles)
               (engine_close_signal u (fst sp) (cd_close last_candle) (pos_quantity (snd sp))
                  (cd_open_time last_candle) ''End of backtest'' ''end_of_backtest'' run_id)
               (cd_open_time last_candle) be1)
            (\<lambda>(f, be2). Inr be2))"

definition finish_run ::
    "candle list \<Rightarrow> string \<Rightarrow> backtest_engine \<Rightarrow> backtest_engine result" where
  "finish_run candles run_id be =
     (if candles \<noteq> [] \<and> bc_end_position_policy (be_config be) = ''liquidate''
      then fold_result (liquidate_position candles run_id (last candles))
             (pf_positions (be_portfolio be)) be
      else Inr be)"

record backtest_result =
  br_portfolio :: portfolio
  br_total_trades :: nat
  br_winning_trades :: nat
  br_losing_trades :: nat
  br_total_pnl :: decimal
  br_max_drawdown :: decimal
  br_win_rate :: decimal
  br_profit_factor :: decimal
  br_average_trade :: decimal
  br_average_win :: decimal
  br_average_loss :: decimal
  br_max_consecutive_losses :: nat
  br_signals :: "signal list"
  br_risk_decisions :: "risk_decision list"
  br_orders :: "order list"
  br_fills :: "fill list"

fun close_trade_pnl :: "trade \<Rightarrow> decimal option" where
  "close_trade_pnl (TradeOpen t) = None"
| "close_trade_pnl (TradeClose t) = Some (ct_pnl t)"

definition close_pnls :: "portfolio \<Rightarrow> decimal list" where
  "close_pnls pf = List.map_filter close_trade_pnl (pf_trade_history pf)"

text \<open>The loop over the profits: the current streak of losses and the longest one.\<close>

definition loss_streak_step :: "decimal \<Rightarrow> nat \<times> nat \<Rightarrow> nat \<times> nat" where
  "loss_streak_step pnl x =
     (let current = (if pnl \<le> 0 then Suc (fst x) else 0) in (current, max (snd x) current))"

definition max_consecutive_losses :: "decimal list \<Rightarrow> nat" where
  "max_consecutive_losses pnls = snd (foldl (\<lambda>x pnl. loss_streak_step pnl x) (0, 0) pnls)"

definition mean_or_zero :: "decimal list \<Rightarrow> decimal" where
  "mean_or_zero xs = (if xs = [] then 0 else ddiv (dsum xs) (dec_of_nat (length xs)))"

definition calculate_results :: "backtest_engine \<Rightarrow> backtest_result" where
  "calculate_results be =
     (let pf = be_portfolio be; pnls = close_pnls pf;
          wins = filter (\<lambda>p. 0 < p) pnls; losses = filter (\<lambda>p. p \<le> 0) pnls;
          gross_loss = dsum (map dabs losses); n = length pnls
      in \<lparr>br_portfolio = pf, br_total_trades = n, br_winning_trades = length wins,
          br_losing_trades = length losses, br_total_pnl = dsum pnls,
          br_max_drawdown = pf_max_drawdown pf,
          br_win_rate = (if n = 0 then 0 else ddiv (dec_of_nat (length wins)) (dec_of_nat n)),
          br_profit_factor = (if 0 < gross_loss then ddiv (dsum wins) gross_loss else 0),
          br_average_trade = (if n = 0 then 0 else ddiv (dsum pnls) (dec_of_nat n)),
          br_average_win = mean_or_zero wins, br_average_loss = mean_or_zero losses,
          br_max_consecutive_losses = max_consecutive_losses pnls,
          br_signals = be_signals be, br_risk_decisions = be_risk_decisions be,
          br_orders = be_orders be, br_fills = be_fills be\<rparr>)"

definition initial_bt_state :: "backtest_engine \<Rightarrow> 's \<Rightarrow> 's bt_state" where
  "initial_bt_state be s =
     \<lparr>bt_engine = be, bt_strategy_state = s,
      bt_peak_equity = bc_initial_balance (be_config be), bt_pending = []\<rparr>"

definition run_backtest ::
    "backtest_engine \<Rightarrow> candle list \<Rightarrow> 's bt_strategy \<Rightarrow> 's
     \<Rightarrow> (candle \<Rightarrow> nat \<Rightarrow> indicators) option \<Rightarrow> (backtest_result \<times> backtest_engine \<times> 's) result"
    where
  "run_backtest be candles strategy s provider =
     (case draw_uuid be of
        (run_id, be1) \<Rightarrow>
          bind_result (run_candles strategy provider run_id candles (initial_bt_state be1 s))
            (\<lambda>st. bind_result (finish_run candles run_id (bt_engine st))
               (\<lambda>be2. Inr (calculate_results be2, be2, bt_strategy_state st))))"

end
