(* ===== verification/Trend_DCA.thy ===== *)
theory Trend_DCA
  imports Strategy_Base
begin

text \<open>
  \<open>TrendDCAStrategy\<close> of \<open>app/strategies/trend_dca.py\<close> and its two experiments,
  \<open>TrendDCAConfirm3Strategy\<close> (\<open>trend_dca_confirm3.py\<close>) and \<open>TrendDCAEMA200SlopeP75Strategy\<close>
  (\<open>trend_dca_ema200_slope_p75.py\<close>). Class inheritance is record extension: the operations of the
  base class work on every extension of its state record.
\<close>

section \<open>Configuration and state\<close>

record dca_config =
  dc_parameters_version :: string
  base_order_pct :: decimal
  safety_order_1_pct :: decimal
  safety_order_2_pct :: decimal
  safety_order_3_pct :: decimal
  rsi_entry_threshold :: decimal
  max_positions :: int
  take_profit_pct :: decimal
  stop_loss_pct :: decimal
  trailing_stop_activation :: decimal
  trailing_stop_distance :: decimal
  max_holding_periods :: int
  max_capital_per_position :: decimal

definition default_dca_config :: dca_config where
  "default_dca_config =
     \<lparr>dc_parameters_version = ''trend_dca_v1'',
      base_order_pct = 25 / 100, safety_order_1_pct = 20 / 100, safety_order_2_pct = 25 / 100,
      safety_order_3_pct = 30 / 100, rsi_entry_threshold = 45, max_positions = 1,
      take_profit_pct = 5 / 100, stop_loss_pct = 15 / 100, trailing_stop_activation = 3 / 100,
      trailing_stop_distance = 2 / 100, max_holding_periods = 100,
      max_capital_per_position = 10 / 100\<rparr>"

record trend_dca =
  td_name :: string
  td_config :: dca_config
  td_dca_levels :: "int dict"
  td_trailing_highs :: "decimal dict"

definition new_trend_dca :: "dca_config \<Rightarrow> trend_dca" where
  "new_trend_dca cfg =
     \<lparr>td_name = ''TrendDCA'', td_config = cfg, td_dca_levels = [], td_trailing_highs = []\<rparr>"

section \<open>Entry\<close>

definition base_order_quantity :: "dca_config \<Rightarrow> decimal \<Rightarrow> decimal \<Rightarrow> decimal result" where
  "base_order_quantity cfg capital close =
     ddiv_or_raise (dmul (dmul capital (max_capital_per_position cfg)) (base_order_pct cfg)) close"

definition trend_entry_conditions ::
    "dca_config \<Rightarrow> decimal \<Rightarrow> decimal \<Rightarrow> decimal \<Rightarrow> decimal \<Rightarrow> string \<Rightarrow> decimal option \<Rightarrow> bool
     \<Rightarrow> bool" where
  "trend_entry_conditions cfg close ema_200_value ema_50_value rsi_value regime_value vol held \<longleftrightarrow>
     \<not> held \<and> regime_value = TREND_UP \<and> \<not> close \<le> ema_200_value \<and>
     \<not> ema_50_value \<le> ema_200_value \<and> \<not> rsi_entry_threshold cfg < rsi_value \<and>
     \<not> (case vol of None \<Rightarrow> False | Some v \<Rightarrow> 8 / 10 < v)"

definition trend_should_enter ::
    "'z trend_dca_scheme \<Rightarrow> string \<Rightarrow> candle \<Rightarrow> indicators \<Rightarrow> portfolio_state
     \<Rightarrow> (signal option \<times> 'z trend_dca_scheme) result" where
  "trend_should_enter td u c ind ps =
     (case (ema_200 ind, ema_50 ind, rsi ind, regime ind) of
        (Some ema_200_value, Some ema_50_value, Some rsi_value, Some regime_value) \<Rightarrow>
          let close = cd_close c; cfg = td_config td
          in if trend_entry_conditions cfg close ema_200_value ema_50_value rsi_value regime_value
                  (volatility ind) (ps_has_position ps)
             then bind_result (base_order_quantity cfg (ps_capital ps) close)
               (\<lambda>quantity. Inr (Some
                 \<lparr>sig_action = ''open_long'', sig_symbol = cd_symbol c, sig_price = close,
                  sig_quantity = quantity, sig_timestamp = cd_open_time c,
                  sig_reason = ''Trend DCA base order'',
                  sig_stop_loss = Some (dmul close (dsub 1 (stop_loss_pct cfg))),
                  sig_take_profit = Some (dmul close (dadd 1 (take_profit_pct cfg))),
                  sig_strategy = td_name td,
                  sig_parameters_version = dc_parameters_version cfg,
                  sig_indicators = ind, sig_regime = Some regime_value,
                  sig_metadata = [(''dca_level'', MInt 0)],
                  sig_signal_id = u, sig_run_id = ''''\<rparr>, td))
             else Inr (None, td)
      | _ \<Rightarrow> Inr (None, td))"

section \<open>Exit\<close>

definition close_signal ::
    "'z trend_dca_scheme \<Rightarrow> string \<Rightarrow> candle \<Rightarrow> indicators \<Rightarrow> position_state \<Rightarrow> decimal \<Rightarrow> string
     \<Rightarrow> meta_value dict \<Rightarrow> signal" where
  "close_signal td u c ind po price reason meta =
     \<lparr>sig_action = ''close'', sig_symbol = cd_symbol c, sig_price = price,
      sig_quantity = po_quantity po, sig_timestamp = cd_open_time c, sig_reason = reason,
      sig_stop_loss = None, sig_take_profit = None, sig_strategy = td_name td,
      sig_parameters_version = dc_parameters_version (td_config td),
      sig_indicators = ind, sig_regime = regime ind, sig_metadata = meta,
      sig_signal_id = u, sig_run_id = ''''\<rparr>"

text \<open>The trailing stop: ratchet the high once activated, and hit when the low reaches it.\<close>

definition trailing_step ::
    "'z trend_dca_scheme \<Rightarrow> string \<Rightarrow> decimal \<Rightarrow> decimal \<Rightarrow> decimal
     \<Rightarrow> decimal option \<times> 'z trend_dca_scheme" where
  "trailing_step td symbol entry_price high low =
     (let activation_price = dmul entry_price (dadd 1 (trailing_stop_activation (td_config td)));
          trailing_high = map_of (td_trailing_highs td) symbol
      in if trailing_high \<noteq> None \<or> activation_price \<le> high
         then let th = max (py_or trailing_high high) high;
                  trailing_stop = dmul th (dsub 1 (trailing_stop_distance (td_config td)))
              in if low \<le> trailing_stop
                 then (Some trailing_stop,
                       td\<lparr>td_trailing_highs := AList.delete symbol (td_trailing_highs td)\<rparr>)
                 else (None, td\<lparr>td_trailing_highs := AList.update symbol th (td_trailing_highs td)\<rparr>)
         else (None, td))"

definition trend_should_exit ::
    "'z trend_dca_scheme \<Rightarrow> string \<Rightarrow> candle \<Rightarrow> indicators \<Rightarrow> position_state
     \<Rightarrow> (signal option \<times> 'z trend_dca_scheme) result" where
  "trend_should_exit td u c ind po =
     (let symbol = cd_symbol c; close = cd_close c;
          high = candle_get (cd_high c) close; low = candle_get (cd_low c) close;
          cfg = td_config td
      in if max_holding_periods cfg \<le> po_holding_periods po
         then Inr (Some (close_signal td u c ind po close ''Max holding period reached'' []), td)
         else if regime ind = Some TREND_DOWN
         then Inr (Some (close_signal td u c ind po close ''Regime changed to TREND_DOWN'' []), td)
         else
           (case trailing_step td symbol (po_entry_price po) high low of
              (Some trailing_stop, td') \<Rightarrow>
                Inr (Some (close_signal td u c ind po trailing_stop ''Trailing stop hit''
                       [(''exit_source'', MStr ''trailing_stop'')]), td')
            | (None, td') \<Rightarrow>
                if take_profit_pct cfg \<le> po_unrealized_pnl_pct po
                then Inr (Some (close_signal td u c ind po close ''Take profit hit'' []), td')
                else Inr (None, td')))"

section \<open>Safety orders\<close>

definition dca_thresholds :: "decimal list" where
  "dca_thresholds = [3 / 100, 5 / 100, 8 / 100]"

definition dca_pcts :: "dca_config \<Rightarrow> decimal list" where
  "dca_pcts cfg = [safety_order_1_pct cfg, safety_order_2_pct cfg, safety_order_3_pct cfg]"

text \<open>Python list indexing: a negative index counts from the end, outside the range it raises.\<close>

definition py_index :: "'a list \<Rightarrow> int \<Rightarrow> 'a result" where
  "py_index items level =
     (if 0 \<le> level \<and> nat level < length items then Inr (items ! nat level)
      else if level < 0 \<and> nat (- level) \<le> length items
      then Inr (items ! (length items - nat (- level)))
      else Inl (KeyError ''list index out of range''))"

text \<open>\<open>f"DCA safety order {level}"\<close>, for the levels that occur.\<close>

definition dca_reason :: "int \<Rightarrow> string" where
  "dca_reason level = ''DCA safety order '' @
     (if level = 1 then ''1'' else if level = 2 then ''2'' else if level = 3 then ''3'' else ''?'')"

definition trend_should_add_dca ::
    "'z trend_dca_scheme \<Rightarrow> string \<Rightarrow> candle \<Rightarrow> indicators \<Rightarrow> position_state
     \<Rightarrow> (signal option \<times> 'z trend_dca_scheme) result" where
  "trend_should_add_dca td u c ind po =
     (if regime ind \<noteq> Some TREND_UP then Inr (None, td)
      else
        (let close = cd_close c; cfg = td_config td;
             level = (case map_of (td_dca_levels td) (cd_symbol c) of None \<Rightarrow> 0 | Some n \<Rightarrow> n)
         in if 3 \<le> level then Inr (None, td)
            else bind_result
              (ddiv_or_raise (dsub (po_entry_price po) close) (po_entry_price po))
              (\<lambda>price_drop. bind_result (py_index dca_thresholds level)
                (\<lambda>threshold.
                   if price_drop < threshold then Inr (None, td)
                   else bind_result (py_index (dca_pcts cfg) level)
                     (\<lambda>dca_pct. bind_result
                       (ddiv_or_raise (dmul (dmul (po_capital po) (max_capital_per_position cfg)) dca_pct)
                          close)
                       (\<lambda>quantity. Inr (Some
                          \<lparr>sig_action = ''open_long'', sig_symbol = cd_symbol c, sig_price = close,
                           sig_quantity = quantity, sig_timestamp = cd_open_time c,
                           sig_reason = dca_reason (level + 1),
                           sig_stop_loss = None, sig_take_profit = None,
                           sig_strategy = td_name td,
                           sig_parameters_version = dc_parameters_version cfg,
                           sig_indicators = ind, sig_regime = regime ind,
                           sig_metadata = [(''dca_level'', MInt (level + 1))],
                           sig_signal_id = u, sig_run_id = ''''\<rparr>, td)))))))"

definition trend_on_fill ::
    "'z trend_dca_scheme \<Rightarrow> signal \<Rightarrow> fill \<Rightarrow> 'z trend_dca_scheme result" where
  "trend_on_fill td g f =
     (case map_of (sig_metadata g) ''dca_level'' of
        Some (MInt level) \<Rightarrow>
          let td' = td\<lparr>td_dca_levels := AList.update (sig_symbol g) level (td_dca_levels td)\<rparr>
          in Inr (if level = 0
                  then td'\<lparr>td_trailing_highs := AList.delete (sig_symbol g) (td_trailing_highs td')\<rparr>
                  else td')
      | _ \<Rightarrow> Inr td)"

definition trend_dca_strategy :: "trend_dca strategy" where
  "trend_dca_strategy =
     \<lparr>st_should_enter = trend_should_enter, st_should_exit = trend_should_exit,
      st_should_add_dca = Some trend_should_add_dca, st_on_fill = trend_on_fill\<rparr>"

section \<open>Experiment: three TREND\_DOWN bars to exit\<close>

record trend_dca_confirm3 = trend_dca +
  c3_trend_down_streaks :: "int dict"

definition TREND_DOWN_CONFIRMATION_BARS :: int where
  "TREND_DOWN_CONFIRMATION_BARS = 3"

definition new_trend_dca_confirm3 :: trend_dca_confirm3 where
  "new_trend_dca_confirm3 =
     \<lparr>td_name = ''TrendDCA'',
      td_config =
        default_dca_config\<lparr>dc_parameters_version := ''trend_dca_v1_trend_down_confirm3''\<rparr>,
      td_dca_levels = [], td_trailing_highs = [], c3_trend_down_streaks = []\<rparr>"

definition pop_streak :: "string \<Rightarrow> trend_dca_confirm3 \<Rightarrow> trend_dca_confirm3" where
  "pop_streak symbol td =
     td\<lparr>c3_trend_down_streaks := AList.delete symbol (c3_trend_down_streaks td)\<rparr>"

definition current_streak :: "trend_dca_confirm3 \<Rightarrow> string \<Rightarrow> int" where
  "current_streak td symbol =
     (case map_of (c3_trend_down_streaks td) symbol of None \<Rightarrow> 0 | Some n \<Rightarrow> n)"

definition update_streak :: "string \<Rightarrow> bool \<Rightarrow> trend_dca_confirm3 \<Rightarrow> trend_dca_confirm3" where
  "update_streak symbol down td =
     (if down
      then td\<lparr>c3_trend_down_streaks :=
             AList.update symbol (current_streak td symbol + 1) (c3_trend_down_streaks td)\<rparr>
      else pop_streak symbol td)"

definition confirm3_should_exit ::
    "trend_dca_confirm3 \<Rightarrow> string \<Rightarrow> candle \<Rightarrow> indicators \<Rightarrow> position_state
     \<Rightarrow> (signal option \<times> trend_dca_confirm3) result" where
  "confirm3_should_exit td u c ind po =
     (let symbol = cd_symbol c; close = cd_close c;
          high = candle_get (cd_high c) close; low = candle_get (cd_low c) close;
          cfg = td_config td;
          down = (regime ind = Some TREND_DOWN)
      in if max_holding_periods cfg \<le> po_holding_periods po
         then Inr (Some (close_signal td u c ind po close ''Max holding period reached'' []),
                pop_streak symbol td)
         else if down \<and> TREND_DOWN_CONFIRMATION_BARS \<le> current_streak td symbol + 1
         then Inr (Some (close_signal td u c ind po close
                     ''TREND_DOWN confirmed for 3 consecutive bars''
                     [(''experiment'', MStr ''trend_down_confirmation''),
                      (''confirmation_bars'', MInt TREND_DOWN_CONFIRMATION_BARS)]),
                pop_streak symbol td)
         else
           (case trailing_step (update_streak symbol down td) symbol (po_entry_price po) high low of
              (Some trailing_stop, td2) \<Rightarrow>
                Inr (Some (close_signal td u c ind po trailing_stop ''Trailing stop hit''
                       [(''exit_source'', MStr ''trailing_stop'')]), pop_streak symbol td2)
            | (None, td2) \<Rightarrow>
                if take_profit_pct cfg \<le> po_unrealized_pnl_pct po
                then Inr (Some (close_signal td u c ind po close ''Take profit hit'' []),
                       pop_streak symbol td2)
                else Inr (None, td2)))"

definition confirm3_strategy :: "trend_dca_confirm3 strategy" where
  "confirm3_strategy =
     \<lparr>st_should_enter = trend_should_enter, st_should_exit = confirm3_should_exit,
      st_should_add_dca = Some trend_should_add_dca, st_on_fill = trend_on_fill\<rparr>"

section \<open>Experiment: EMA-200 slope filter on the base entry\<close>

record trend_dca_slope = trend_dca +
  sp_ema200_slope_threshold :: decimal

definition new_trend_dca_slope :: "decimal \<Rightarrow> trend_dca_slope" where
  "new_trend_dca_slope threshold =
     \<lparr>td_name = ''TrendDCA'',
      td_config =
        default_dca_config\<lparr>dc_parameters_version := ''trend_dca_v1_ema200_slope_train_p75''\<rparr>,
      td_dca_levels = [], td_trailing_highs = [], sp_ema200_slope_threshold = threshold\<rparr>"

definition slope_should_enter ::
    "trend_dca_slope \<Rightarrow> string \<Rightarrow> candle \<Rightarrow> indicators \<Rightarrow> portfolio_state
     \<Rightarrow> (signal option \<times> trend_dca_slope) result" where
  "slope_should_enter td u c ind ps =
     (case ema200_slope_10 ind of
        None \<Rightarrow> Inr (None, td)
      | Some slope_value \<Rightarrow>
          if slope_value < sp_ema200_slope_threshold td then Inr (None, td)
          else bind_result (trend_should_enter td u c ind ps)
            (\<lambda>(g, td').
               case g of
                 None \<Rightarrow> Inr (None, td')
               | Some signal \<Rightarrow>
                   Inr (Some (signal\<lparr>sig_metadata :=
                     AList.update ''threshold_source'' (MStr ''TRAIN_ENTRY_OPPORTUNITY_P75'')
                       (AList.update ''ema200_slope_threshold'' (MDec (sp_ema200_slope_threshold td))
                         (AList.update ''ema200_slope_10'' (MDec slope_value)
                           (sig_metadata signal)))\<rparr>), td')))"

definition slope_strategy :: "trend_dca_slope strategy" where
  "slope_strategy =
     \<lparr>st_should_enter = slope_should_enter, st_should_exit = trend_should_exit,
      st_should_add_dca = Some trend_should_add_dca, st_on_fill = trend_on_fill\<rparr>"

section \<open>Entry facts\<close>

lemma trend_should_enter_state:
  "trend_should_enter td u c ind ps = Inr (r, td') \<Longrightarrow> td' = td"
  by (auto simp: trend_should_enter_def Let_def split: option.splits if_splits)

lemma trend_should_enter_Some_iff:
  "(\<exists>g td'. trend_should_enter td u c ind ps = Inr (Some g, td')) \<longleftrightarrow>
     (\<exists>e200 e50 r. ema_200 ind = Some e200 \<and> ema_50 ind = Some e50 \<and> rsi ind = Some r \<and>
        regime ind = Some TREND_UP \<and> \<not> ps_has_position ps \<and> e200 < cd_close c \<and> e200 < e50 \<and>
        r \<le> rsi_entry_threshold (td_config td) \<and>
        (\<forall>w. volatility ind = Some w \<longrightarrow> w \<le> 8 / 10) \<and> cd_close c \<noteq> 0)"
  by (auto simp: trend_should_enter_def trend_entry_conditions_def base_order_quantity_def
      ddiv_or_raise_def Let_def not_le not_less split: option.splits if_splits)

lemma trend_should_enter_signal:
  assumes "trend_should_enter td u c ind ps = Inr (Some g, td')"
  shows "sig_action g = ''open_long''" "sig_symbol g = cd_symbol c"
    "sig_timestamp g = cd_open_time c" "sig_signal_id g = u" "sig_price g = cd_close c"
    "\<not> ps_has_position ps" "sig_metadata g = [(''dca_level'', MInt 0)]"
    "sig_quantity g = ddiv (dmul (dmul (ps_capital ps) (max_capital_per_position (td_config td)))
       (base_order_pct (td_config td))) (cd_close c)"
    "sig_stop_loss g = Some (dmul (cd_close c) (dsub 1 (stop_loss_pct (td_config td))))"
    "sig_take_profit g = Some (dmul (cd_close c) (dadd 1 (take_profit_pct (td_config td))))"
  using assms
  by (auto simp: trend_should_enter_def trend_entry_conditions_def base_order_quantity_def
      ddiv_or_raise_Inr_iff Let_def split: option.splits if_splits)

lemma trend_should_enter_fields:
  "trend_should_enter td u c ind ps = Inr (Some g, td') \<Longrightarrow>
     sig_action g = ''open_long'' \<and> sig_symbol g = cd_symbol c \<and>
     sig_timestamp g = cd_open_time c \<and> sig_signal_id g = u \<and> sig_price g = cd_close c \<and>
     \<not> ps_has_position ps"
  by (simp add: trend_should_enter_signal [of td u c ind ps g td'])

section \<open>Exit facts\<close>

lemma close_signal_simps [simp]:
  "sig_action (close_signal td u c ind po pr re me) = ''close''"
  "sig_symbol (close_signal td u c ind po pr re me) = cd_symbol c"
  "sig_timestamp (close_signal td u c ind po pr re me) = cd_open_time c"
  "sig_signal_id (close_signal td u c ind po pr re me) = u"
  "sig_price (close_signal td u c ind po pr re me) = pr"
  "sig_reason (close_signal td u c ind po pr re me) = re"
  "sig_quantity (close_signal td u c ind po pr re me) = po_quantity po"
  by (simp_all add: close_signal_def)

lemma trailing_step_keeps:
  "trailing_step td s e h l = (r, td') \<Longrightarrow>
     td_name td' = td_name td \<and> td_config td' = td_config td \<and>
     td_dca_levels td' = td_dca_levels td \<and> trend_dca.more td' = trend_dca.more td"
  by (auto simp: trailing_step_def Let_def split: if_splits)

text \<open>While it is not hit, the trailing high is the running maximum of the highs it has seen.\<close>

lemma trailing_step_ratchet:
  assumes "trailing_step td s e h l = (None, td')" "map_of (td_trailing_highs td) s = Some w" "0 < w"
  shows "map_of (td_trailing_highs td') s = Some (max w h)"
  using assms by (auto simp: trailing_step_def Let_def py_or_def split: if_splits)

lemma trailing_step_hit:
  assumes "trailing_step td s e h l = (Some x, td')"
  shows "l \<le> x" "map_of (td_trailing_highs td') s = None"
    "x = dmul (max (py_or (map_of (td_trailing_highs td) s) h) h)
           (dsub 1 (trailing_stop_distance (td_config td)))"
    "map_of (td_trailing_highs td) s \<noteq> None \<or>
     dmul e (dadd 1 (trailing_stop_activation (td_config td))) \<le> h"
  using assms by (auto simp: trailing_step_def Let_def split: if_splits)

text \<open>The reasons a position is closed, in the order the code tests them.\<close>

lemma trend_should_exit_cases:
  assumes "trend_should_exit td u c ind po = Inr (r, td')"
  shows "case r of
      Some g \<Rightarrow>
        sig_reason g = ''Max holding period reached'' \<and>
          max_holding_periods (td_config td) \<le> po_holding_periods po \<or>
        sig_reason g = ''Regime changed to TREND_DOWN'' \<and> regime ind = Some TREND_DOWN \<or>
        sig_reason g = ''Trailing stop hit'' \<and>
          candle_get (cd_low c) (cd_close c) \<le> sig_price g \<or>
        sig_reason g = ''Take profit hit'' \<and>
          take_profit_pct (td_config td) \<le> po_unrealized_pnl_pct po
    | None \<Rightarrow>
        po_holding_periods po < max_holding_periods (td_config td) \<and>
        regime ind \<noteq> Some TREND_DOWN \<and>
        po_unrealized_pnl_pct po < take_profit_pct (td_config td)"
  using assms
  by (auto simp: trend_should_exit_def Let_def split: if_splits option.splits prod.splits
      dest: trailing_step_hit(1))

lemma trend_should_exit_total: "\<exists>r. trend_should_exit td u c ind po = Inr r"
  by (auto simp: trend_should_exit_def Let_def split: option.splits prod.splits)

lemma trend_should_exit_signal:
  "trend_should_exit td u c ind po = Inr (Some g, td') \<Longrightarrow>
     sig_action g = ''close'' \<and> sig_symbol g = cd_symbol c \<and>
     sig_timestamp g = cd_open_time c \<and> sig_signal_id g = u"
  by (auto simp: trend_should_exit_def Let_def split: if_splits option.splits prod.splits)

lemma trend_should_exit_keeps:
  "trend_should_exit td u c ind po = Inr (r, td') \<Longrightarrow>
     td_name td' = td_name td \<and> td_config td' = td_config td \<and>
     td_dca_levels td' = td_dca_levels td \<and> trend_dca.more td' = trend_dca.more td"
  by (auto simp: trend_should_exit_def Let_def split: if_splits option.splits prod.splits
      dest: trailing_step_keeps)

section \<open>Safety-order facts\<close>

definition dca_levels_ok :: "'z trend_dca_scheme \<Rightarrow> bool" where
  "dca_levels_ok td \<longleftrightarrow>
     (\<forall>s n. map_of (td_dca_levels td) s = Some n \<longrightarrow> 0 \<le> n \<and> n \<le> 3)"

lemma trend_should_add_dca_state:
  "trend_should_add_dca td u c ind po = Inr (r, td') \<Longrightarrow> td' = td"
  by (auto simp: trend_should_add_dca_def Let_def bind_result_Inr_iff split: if_splits)

lemma trend_should_add_dca_signal:
  assumes "trend_should_add_dca td u c ind po = Inr (Some g, td')"
  shows "sig_action g = ''open_long'' \<and> sig_symbol g = cd_symbol c \<and>
     sig_timestamp g = cd_open_time c \<and> sig_signal_id g = u \<and> regime ind = Some TREND_UP"
  using assms
  by (auto simp: trend_should_add_dca_def Let_def bind_result_Inr_iff split: if_splits)

lemma py_index_nth: "0 \<le> i \<Longrightarrow> i < int (length xs) \<Longrightarrow> py_index xs i = Inr (xs ! nat i)"
  by (simp add: py_index_def nat_less_iff)

text \<open>A safety order is made at a level below three, and only past that level's threshold.\<close>

lemma trend_should_add_dca_level:
  assumes "trend_should_add_dca td u c ind po = Inr (Some g, td')" "dca_levels_ok td"
  defines "level \<equiv> (case map_of (td_dca_levels td) (cd_symbol c) of None \<Rightarrow> 0 | Some n \<Rightarrow> n)"
  shows "0 \<le> level \<and> level < 3 \<and> map_of (sig_metadata g) ''dca_level'' = Some (MInt (level + 1)) \<and>
     dca_thresholds ! nat level
       \<le> ddiv (dsub (po_entry_price po) (cd_close c)) (po_entry_price po)"
proof -
  have level: "0 \<le> level" using assms(2) by (auto simp: dca_levels_ok_def level_def split: option.splits)
  moreover have "level < 3"
    using assms(1) by (auto simp: trend_should_add_dca_def Let_def level_def split: if_splits)
  ultimately have "py_index dca_thresholds level = Inr (dca_thresholds ! nat level)"
      "py_index (dca_pcts (td_config td)) level = Inr (dca_pcts (td_config td) ! nat level)"
    by (simp_all add: py_index_nth dca_thresholds_def dca_pcts_def)
  with assms(1) level \<open>level < 3\<close> show ?thesis
    by (auto simp: trend_should_add_dca_def Let_def bind_result_Inr_iff ddiv_or_raise_Inr_iff
        simp flip: level_def split: if_splits)
qed

lemma trend_on_fill_total: "\<exists>td'. trend_on_fill td g f = Inr td'"
  by (auto simp: trend_on_fill_def Let_def split: option.splits meta_value.splits)

lemma trend_on_fill_level:
  "map_of (sig_metadata g) ''dca_level'' = Some (MInt n) \<Longrightarrow>
     \<exists>td'. trend_on_fill td g f = Inr td' \<and>
       map_of (td_dca_levels td') (sig_symbol g) = Some n"
  by (simp add: trend_on_fill_def Let_def)

section \<open>Three bars of confirmation\<close>

definition streaks_ok :: "trend_dca_confirm3 \<Rightarrow> bool" where
  "streaks_ok td \<longleftrightarrow>
     (\<forall>s n. map_of (c3_trend_down_streaks td) s = Some n \<longrightarrow> 1 \<le> n \<and> n < 3)"

lemma trailing_step_streaks:
  "trailing_step (td :: trend_dca_confirm3) s e h l = (r, td') \<Longrightarrow>
     c3_trend_down_streaks td' = c3_trend_down_streaks td"
  by (auto simp: trailing_step_def Let_def split: if_splits)

lemma streaks_ok_pop: "streaks_ok td \<Longrightarrow> streaks_ok (pop_streak s td)"
  by (simp add: streaks_ok_def pop_streak_def)

lemma streaks_ok_cong:
  "c3_trend_down_streaks td = c3_trend_down_streaks td' \<Longrightarrow> streaks_ok td = streaks_ok td'"
  by (simp add: streaks_ok_def)

lemma streaks_ok_current: "streaks_ok td \<Longrightarrow> 0 \<le> current_streak td s"
  by (force simp: streaks_ok_def current_streak_def split: option.splits)

lemma streaks_ok_update:
  assumes "streaks_ok td" "\<not> (down \<and> TREND_DOWN_CONFIRMATION_BARS \<le> current_streak td s + 1)"
  shows "streaks_ok (update_streak s down td)"
  using assms streaks_ok_current [OF assms(1), of s]
  by (auto simp: update_streak_def streaks_ok_pop TREND_DOWN_CONFIRMATION_BARS_def)
    (simp add: streaks_ok_def)

lemma streaks_ok_step:
  "streaks_ok td \<Longrightarrow> trailing_step td s e h l = (r, td') \<Longrightarrow> streaks_ok td'"
  by (metis streaks_ok_cong trailing_step_streaks)

lemma confirm3_should_exit_streaks:
  assumes "streaks_ok td" "confirm3_should_exit td u c ind po = Inr (r, td')"
  shows "streaks_ok td'"
  using assms
  by (auto simp: confirm3_should_exit_def Let_def intro: streaks_ok_pop
      dest: streaks_ok_step [OF streaks_ok_update] split: if_splits option.splits prod.splits)

lemma confirm3_should_exit_signal:
  "confirm3_should_exit td u c ind po = Inr (Some g, td') \<Longrightarrow>
     sig_action g = ''close'' \<and> sig_symbol g = cd_symbol c \<and>
     sig_timestamp g = cd_open_time c \<and> sig_signal_id g = u"
  by (auto simp: confirm3_should_exit_def Let_def split: if_splits option.splits prod.splits)

lemma slope_should_enter_signal:
  assumes "slope_should_enter td u c ind ps = Inr (Some g, td')"
  shows "\<exists>g0. trend_should_enter td u c ind ps = Inr (Some g0, td') \<and>
     g = g0\<lparr>sig_metadata := sig_metadata g\<rparr> \<and>
     (\<exists>v. ema200_slope_10 ind = Some v \<and> sp_ema200_slope_threshold td \<le> v)"
  using assms
  by (auto simp: slope_should_enter_def bind_result_Inr_iff split: option.splits if_splits)

text \<open>
  A held position, candle by candle: the bars of one symbol at which the experiment did not exit.
\<close>

type_synonym held_bar = "string \<times> candle \<times> indicators \<times> position_state"

definition hold_bar :: "held_bar \<Rightarrow> trend_dca_confirm3 \<Rightarrow> trend_dca_confirm3 result" where
  "hold_bar b td =
     (case b of
        (u, c, ind, po) \<Rightarrow>
          bind_result (confirm3_should_exit td u c ind po)
            (\<lambda>(g, td'). if g = None then Inr td' else Inl (RuntimeError ''exited'')))"

definition bar_down :: "held_bar \<Rightarrow> bool" where
  "bar_down b = (case b of (u, c, ind, po) \<Rightarrow> regime ind = Some TREND_DOWN)"

definition bar_symbol :: "held_bar \<Rightarrow> string" where
  "bar_symbol b = (case b of (u, c, ind, po) \<Rightarrow> cd_symbol c)"

lemma current_streak_trailing:
  "trailing_step td s e h l = (r, td') \<Longrightarrow> current_streak td' s' = current_streak td s'"
  by (simp add: current_streak_def trailing_step_streaks)

lemma current_streak_update:
  "current_streak (update_streak s down td) s = (if down then current_streak td s + 1 else 0)"
  by (simp add: update_streak_def current_streak_def pop_streak_def)

lemma hold_bar_streak:
  assumes "hold_bar b td = Inr td'" "bar_symbol b = s"
  shows "current_streak td' s = (if bar_down b then current_streak td s + 1 else 0)"
proof -
  obtain u c ind po where b: "b = (u, c, ind, po)" by (cases b)
  have e: "confirm3_should_exit td u c ind po = Inr (None, td')"
    using assms(1) by (auto simp: hold_bar_def b bind_result_Inr_iff split: if_splits)
  obtain r td2 where t: "trailing_step (update_streak s (regime ind = Some TREND_DOWN) td) s
      (po_entry_price po) (candle_get (cd_high c) (cd_close c)) (candle_get (cd_low c) (cd_close c)) = (r, td2)"
    by force
  have "td' = td2"
    using e t assms(2) by (auto simp: confirm3_should_exit_def Let_def b bar_symbol_def
        split: if_splits option.splits)
  then show ?thesis
    using current_streak_trailing [OF t, of s] current_streak_update [of s _ td]
    by (simp add: b bar_down_def)
qed

lemma hold_bars_streak:
  "fold_result hold_bar bs td = Inr td' \<Longrightarrow> \<forall>b \<in> set bs. bar_symbol b = s \<Longrightarrow>
     current_streak td s = 0 \<Longrightarrow>
     current_streak td' s = int (length (takeWhile bar_down (rev bs)))"
proof (induction bs arbitrary: td' rule: rev_induct)
  case (snoc b bs)
  obtain td1 where td1: "fold_result hold_bar bs td = Inr td1" "hold_bar b td1 = Inr td'"
    using snoc.prems(1) by (auto simp: fold_result_append bind_result_Inr_iff)
  have "bar_symbol b = s" using snoc.prems(2) by simp
  from hold_bar_streak [OF td1(2) this] snoc.IH [OF td1(1)] snoc.prems(2,3) show ?case by simp
qed simp

section \<open>The strategies keep the interface's laws\<close>

lemma trend_on_fill_levels_range:
  assumes "trend_on_fill td g f = Inr td'" "dca_levels_ok td"
    "\<And>n. map_of (sig_metadata g) ''dca_level'' = Some (MInt n) \<Longrightarrow> 0 \<le> n \<and> n \<le> 3"
  shows "dca_levels_ok td'"
  using assms
  by (auto simp: trend_on_fill_def Let_def dca_levels_ok_def split: option.splits meta_value.splits
      if_splits)

lemma trend_on_fill_config: "trend_on_fill td g f = Inr td' \<Longrightarrow> td_config td' = td_config td"
  by (auto simp: trend_on_fill_def Let_def split: option.splits meta_value.splits if_splits)

lemma trend_on_fill_streaks:
  "trend_on_fill (td :: trend_dca_confirm3) g f = Inr td' \<Longrightarrow>
     c3_trend_down_streaks td' = c3_trend_down_streaks td"
  by (auto simp: trend_on_fill_def Let_def split: option.splits meta_value.splits if_splits)

interpretation trend: spot_strategy trend_dca_strategy "\<lambda>td. td_config td = cfg"
  by unfold_locales
    (auto simp: trend_dca_strategy_def dest: trend_should_enter_fields trend_should_exit_signal
      trend_should_add_dca_signal trend_should_enter_state trend_should_exit_keeps
      trend_should_add_dca_state trend_on_fill_config)

interpretation confirm3: spot_strategy confirm3_strategy streaks_ok
  by unfold_locales
    (auto simp: confirm3_strategy_def dest: trend_should_enter_fields confirm3_should_exit_signal
      trend_should_add_dca_signal trend_should_enter_state confirm3_should_exit_streaks
      trend_should_add_dca_state trend_on_fill_streaks streaks_ok_cong)

lemma slope_should_enter_state:
  "slope_should_enter td u c ind ps = Inr (r, td') \<Longrightarrow> td' = td"
  by (auto simp: slope_should_enter_def bind_result_Inr_iff dest!: trend_should_enter_state
      split: option.splits if_splits)

lemma slope_should_enter_fields:
  assumes "slope_should_enter td u c ind ps = Inr (Some g, td')"
  shows "sig_action g = ''open_long'' \<and> sig_symbol g = cd_symbol c \<and>
     sig_timestamp g = cd_open_time c \<and> sig_signal_id g = u \<and> sig_price g = cd_close c \<and>
     \<not> ps_has_position ps"
  using assms
  by (auto simp: slope_should_enter_def bind_result_Inr_iff dest!: trend_should_enter_fields
      split: option.splits if_splits)

interpretation slope: spot_strategy slope_strategy "\<lambda>td. td_config td = cfg"
  by unfold_locales
    (auto simp: slope_strategy_def dest: slope_should_enter_fields trend_should_exit_signal
      trend_should_add_dca_signal slope_should_enter_state trend_should_exit_keeps
      trend_should_add_dca_state trend_on_fill_config)

end
