(* ===== verification/Breakout_Retest.thy ===== *)
theory Breakout_Retest
  imports Trend_DCA
begin

text \<open>
  \<open>BreakoutRetestStrategy\<close>, \<open>app/strategies/breakout_retest.py\<close>: a breakout above the highest
  high of the preceding twenty candles arms a setup, and a later candle that retests and holds the
  level emits the entry. The per-symbol dictionary of the code is the record
  \<open>br_symbol_state\<close>; the subclass \<open>BreakoutRetestV2Strategy\<close> extends it, so the operations here
  work on every extension and take the fresh symbol state (an overridden method) as an argument.
\<close>

section \<open>Configuration and state\<close>

definition RESISTANCE_LOOKBACK_BARS :: nat where
  "RESISTANCE_LOOKBACK_BARS = 20"

definition RETEST_TIMEOUT_BARS :: int where
  "RETEST_TIMEOUT_BARS = 24"

datatype br_phase = IDLE | BREAKOUT_ARMED

record br_breakout =
  bk_time :: timestamp
  bk_level :: decimal
  bk_close :: decimal
  bk_ema50 :: decimal
  bk_ema200 :: decimal
  bk_regime :: string
  bk_bars :: int

record br_symbol_state =
  bs_phase :: br_phase
  bs_breakout :: "br_breakout option"
  bs_recent_highs :: "decimal list"
  bs_last_observed_time :: "timestamp option"
  bs_last_prior_resistance :: "decimal option"

definition new_br_symbol_state :: br_symbol_state where
  "new_br_symbol_state =
     \<lparr>bs_phase = IDLE, bs_breakout = None, bs_recent_highs = [], bs_last_observed_time = None,
      bs_last_prior_resistance = None\<rparr>"

record 'b breakout_retest = trend_dca +
  br_resistance_lookback_bars :: nat
  br_retest_timeout_bars :: int
  br_state :: "'b br_symbol_state_scheme dict"

definition br_fresh_states :: "'b \<Rightarrow> string list \<Rightarrow> 'b dict" where
  "br_fresh_states fresh symbols = foldl (\<lambda>d s. AList.update s fresh d) [] symbols"

definition new_breakout_retest ::
    "dca_config \<Rightarrow> nat \<Rightarrow> int \<Rightarrow> string list \<Rightarrow> unit breakout_retest result" where
  "new_breakout_retest cfg lookback timeout symbols =
     (if lookback \<noteq> RESISTANCE_LOOKBACK_BARS
      then Inl (ValueError ''resistance_lookback_bars is frozen at 20 for v1'')
      else if timeout \<noteq> RETEST_TIMEOUT_BARS
      then Inl (ValueError ''retest_timeout_bars is frozen at 24 for v1'')
      else Inr \<lparr>td_name = ''BreakoutRetest'', td_config = cfg, td_dca_levels = [],
             td_trailing_highs = [], br_resistance_lookback_bars = lookback,
             br_retest_timeout_bars = timeout,
             br_state = br_fresh_states new_br_symbol_state symbols\<rparr>)"

definition symbol_state ::
    "'b br_symbol_state_scheme \<Rightarrow> ('b, 'z) breakout_retest_scheme \<Rightarrow> string
     \<Rightarrow> 'b br_symbol_state_scheme" where
  "symbol_state fresh br symbol =
     (case map_of (br_state br) symbol of None \<Rightarrow> fresh | Some ss \<Rightarrow> ss)"

definition put_symbol_state ::
    "string \<Rightarrow> 'b br_symbol_state_scheme \<Rightarrow> ('b, 'z) breakout_retest_scheme
     \<Rightarrow> ('b, 'z) breakout_retest_scheme" where
  "put_symbol_state symbol ss br = br\<lparr>br_state := AList.update symbol ss (br_state br)\<rparr>"

definition clear_breakout :: "'b br_symbol_state_scheme \<Rightarrow> 'b br_symbol_state_scheme" where
  "clear_breakout ss = ss\<lparr>bs_phase := IDLE, bs_breakout := None\<rparr>"

section \<open>Observing a candle\<close>

definition observe_high ::
    "nat \<Rightarrow> timestamp \<Rightarrow> decimal \<Rightarrow> 'b br_symbol_state_scheme
     \<Rightarrow> decimal option \<times> 'b br_symbol_state_scheme" where
  "observe_high lookback t high ss =
     (if bs_last_observed_time ss = Some t then (bs_last_prior_resistance ss, ss)
      else
        (let highs = bs_recent_highs ss;
             resistance =
               (if lookback \<le> length highs then Some (Max (set (last_n lookback highs))) else None)
         in (resistance,
             ss\<lparr>bs_recent_highs := last_n lookback (highs @ [high]),
                bs_last_observed_time := Some t,
                bs_last_prior_resistance := resistance\<rparr>)))"

definition observe_candle ::
    "'b br_symbol_state_scheme \<Rightarrow> ('b, 'z) breakout_retest_scheme \<Rightarrow> candle
     \<Rightarrow> decimal option \<times> ('b, 'z) breakout_retest_scheme" where
  "observe_candle fresh br c =
     (case observe_high (br_resistance_lookback_bars br) (cd_open_time c)
             (candle_get (cd_high c) (cd_close c)) (symbol_state fresh br (cd_symbol c)) of
        (resistance, ss) \<Rightarrow> (resistance, put_symbol_state (cd_symbol c) ss br))"

section \<open>Entry\<close>

definition build_entry_signal ::
    "('b, 'z) breakout_retest_scheme \<Rightarrow> string \<Rightarrow> candle \<Rightarrow> indicators \<Rightarrow> portfolio_state
     \<Rightarrow> br_breakout \<Rightarrow> signal result" where
  "build_entry_signal br u c ind ps b =
     (let close = cd_close c; cfg = td_config br;
          low = candle_get (cd_low c) close
      in bind_result (base_order_quantity cfg (ps_capital ps) close)
           (\<lambda>quantity. Inr
              \<lparr>sig_action = ''open_long'', sig_symbol = cd_symbol c, sig_price = close,
               sig_quantity = quantity, sig_timestamp = cd_open_time c,
               sig_reason = ''Breakout retest held'',
               sig_stop_loss = Some (dmul close (dsub 1 (stop_loss_pct cfg))),
               sig_take_profit = Some (dmul close (dadd 1 (take_profit_pct cfg))),
               sig_strategy = td_name br,
               sig_parameters_version = dc_parameters_version cfg,
               sig_indicators = ind, sig_regime = regime ind,
               sig_metadata =
                 [(''breakout_time'', MTime (bk_time b)),
                  (''retest_time'', MTime (cd_open_time c)),
                  (''breakout_level'', MDec (bk_level b)),
                  (''breakout_close'', MDec (bk_close b)),
                  (''retest_low'', MDec low),
                  (''retest_close'', MDec close),
                  (''bars_since_breakout'', MInt (bk_bars b)),
                  (''resistance_lookback_bars'', MInt (int (br_resistance_lookback_bars br))),
                  (''retest_timeout_bars'', MInt (br_retest_timeout_bars br))],
               sig_signal_id = u, sig_run_id = ''''\<rparr>))"

definition too_volatile :: "indicators \<Rightarrow> bool" where
  "too_volatile ind = (case volatility ind of None \<Rightarrow> False | Some v \<Rightarrow> 8 / 10 < v)"

text \<open>One candle while armed: the setup ages, then is cancelled, kept or turned into a signal.\<close>

definition armed_candle ::
    "('b, 'z) breakout_retest_scheme \<Rightarrow> 'b br_symbol_state_scheme \<Rightarrow> string \<Rightarrow> candle \<Rightarrow> indicators
     \<Rightarrow> portfolio_state \<Rightarrow> (signal option \<times> 'b br_symbol_state_scheme) result" where
  "armed_candle br ss u c ind ps =
     (case bs_breakout ss of
        None \<Rightarrow> Inl (ValueError ''BREAKOUT_ARMED state has no breakout payload'')
      | Some b0 \<Rightarrow>
          let b = b0\<lparr>bk_bars := bk_bars b0 + 1\<rparr>;
              ss1 = ss\<lparr>bs_breakout := Some b\<rparr>;
              close = cd_close c; low = candle_get (cd_low c) close
          in if ps_has_position ps then Inr (None, clear_breakout ss1)
             else if regime ind = Some TREND_DOWN then Inr (None, clear_breakout ss1)
             else if br_retest_timeout_bars br \<le> bk_bars b then Inr (None, clear_breakout ss1)
             else (case (ema_50 ind, ema_200 ind, regime ind) of
                     (Some ema50, Some ema200, Some _) \<Rightarrow>
                       if close \<le> ema200 \<or> ema50 \<le> ema200 then Inr (None, clear_breakout ss1)
                       else if too_volatile ind then Inr (None, ss1)
                       else if low \<le> bk_level b \<and> bk_level b \<le> close
                       then bind_result (build_entry_signal br u c ind ps b)
                              (\<lambda>g. Inr (Some g, clear_breakout ss1))
                       else Inr (None, ss1)
                   | _ \<Rightarrow> Inr (None, ss1)))"

text \<open>One candle while idle: a close above the prior resistance arms the setup.\<close>

definition idle_candle ::
    "decimal option \<Rightarrow> 'b br_symbol_state_scheme \<Rightarrow> candle \<Rightarrow> indicators \<Rightarrow> portfolio_state
     \<Rightarrow> 'b br_symbol_state_scheme" where
  "idle_candle prior_resistance ss c ind ps =
     (case (prior_resistance, ema_50 ind, ema_200 ind, regime ind) of
        (Some level, Some ema50, Some ema200, Some reg) \<Rightarrow>
          let close = cd_close c
          in if ps_has_position ps \<or> close \<le> ema200 \<or> ema50 \<le> ema200 \<or> reg = TREND_DOWN \<or>
                too_volatile ind \<or> close \<le> level
             then ss
             else ss\<lparr>bs_phase := BREAKOUT_ARMED,
                     bs_breakout := Some \<lparr>bk_time = cd_open_time c, bk_level = level,
                       bk_close = close, bk_ema50 = ema50, bk_ema200 = ema200, bk_regime = reg,
                       bk_bars = 0\<rparr>\<rparr>
      | _ \<Rightarrow> ss)"

definition br_should_enter ::
    "'b br_symbol_state_scheme \<Rightarrow> ('b, 'z) breakout_retest_scheme \<Rightarrow> string \<Rightarrow> candle \<Rightarrow> indicators
     \<Rightarrow> portfolio_state \<Rightarrow> (signal option \<times> ('b, 'z) breakout_retest_scheme) result" where
  "br_should_enter fresh br u c ind ps =
     (case observe_candle fresh br c of
        (prior_resistance, br1) \<Rightarrow>
          let ss = symbol_state fresh br1 (cd_symbol c)
          in (case bs_phase ss of
                BREAKOUT_ARMED \<Rightarrow>
                  bind_result (armed_candle br1 ss u c ind ps)
                    (\<lambda>(g, ss'). Inr (g, put_symbol_state (cd_symbol c) ss' br1))
              | IDLE \<Rightarrow>
                  Inr (None, put_symbol_state (cd_symbol c)
                         (idle_candle prior_resistance ss c ind ps) br1)))"

section \<open>Exit, additions and fills\<close>

definition br_should_exit ::
    "'b br_symbol_state_scheme \<Rightarrow> ('b, 'z) breakout_retest_scheme \<Rightarrow> string \<Rightarrow> candle \<Rightarrow> indicators
     \<Rightarrow> position_state \<Rightarrow> (signal option \<times> ('b, 'z) breakout_retest_scheme) result" where
  "br_should_exit fresh br u c ind po = trend_should_exit (snd (observe_candle fresh br c)) u c ind po"

definition br_should_add_dca ::
    "'b br_symbol_state_scheme \<Rightarrow> ('b, 'z) breakout_retest_scheme \<Rightarrow> string \<Rightarrow> candle \<Rightarrow> indicators
     \<Rightarrow> position_state \<Rightarrow> (signal option \<times> ('b, 'z) breakout_retest_scheme) result" where
  "br_should_add_dca fresh br u c ind po = Inr (None, snd (observe_candle fresh br c))"

definition br_on_fill ::
    "('b, 'z) breakout_retest_scheme \<Rightarrow> signal \<Rightarrow> fill
     \<Rightarrow> ('b, 'z) breakout_retest_scheme result" where
  "br_on_fill br g f =
     Inr (if sig_action g = ''open_long'' \<or> sig_action g = ''SignalAction.OPEN_LONG''
          then br\<lparr>td_trailing_highs := AList.delete (sig_symbol g) (td_trailing_highs br)\<rparr>
          else br)"

definition breakout_retest_strategy :: "unit breakout_retest strategy" where
  "breakout_retest_strategy =
     \<lparr>st_should_enter = br_should_enter new_br_symbol_state,
      st_should_exit = br_should_exit new_br_symbol_state,
      st_should_add_dca = Some (br_should_add_dca new_br_symbol_state),
      st_on_fill = br_on_fill\<rparr>"

section \<open>State access\<close>

lemma symbol_state_put [simp]:
  "symbol_state fresh (put_symbol_state s ss br) s' = (if s' = s then ss else symbol_state fresh br s')"
  by (simp add: symbol_state_def put_symbol_state_def)

lemma put_symbol_state_keeps [simp]:
  "td_config (put_symbol_state s ss br) = td_config br"
  "td_name (put_symbol_state s ss br) = td_name br"
  "br_resistance_lookback_bars (put_symbol_state s ss br) = br_resistance_lookback_bars br"
  "br_retest_timeout_bars (put_symbol_state s ss br) = br_retest_timeout_bars br"
  by (simp_all add: put_symbol_state_def)

lemma clear_breakout_simps [simp]:
  "bs_phase (clear_breakout ss) = IDLE"
  "bs_breakout (clear_breakout ss) = None"
  "bs_recent_highs (clear_breakout ss) = bs_recent_highs ss"
  by (simp_all add: clear_breakout_def)

lemma observe_high_keeps:
  "observe_high n t h ss = (r, ss') \<Longrightarrow>
     bs_phase ss' = bs_phase ss \<and> bs_breakout ss' = bs_breakout ss \<and>
     (length (bs_recent_highs ss) \<le> n \<longrightarrow> length (bs_recent_highs ss') \<le> n)"
  by (auto simp: observe_high_def Let_def split: if_splits)

lemma observe_candle_state:
  assumes "observe_candle fresh br c = (r, br')"
  shows "\<exists>ss'. observe_high (br_resistance_lookback_bars br) (cd_open_time c)
       (candle_get (cd_high c) (cd_close c)) (symbol_state fresh br (cd_symbol c)) = (r, ss') \<and>
     br' = put_symbol_state (cd_symbol c) ss' br"
  using assms by (auto simp: observe_candle_def split: prod.splits)

text \<open>Observing a candle twice is observing it once.\<close>

lemma observe_high_again:
  "observe_high n t h ss = (r, ss') \<Longrightarrow> observe_high n t h' ss' = (r, ss')"
  by (auto simp: observe_high_def Let_def split: if_splits)

section \<open>The resistance is causal\<close>

definition observe_all ::
    "nat \<Rightarrow> (timestamp \<times> decimal) list \<Rightarrow> 'b br_symbol_state_scheme \<Rightarrow> 'b br_symbol_state_scheme"
    where
  "observe_all n ths ss = foldl (\<lambda>ss (t, h). snd (observe_high n t h ss)) ss ths"

lemma observe_all_snoc:
  "observe_all n (ths @ [(t, h)]) ss = snd (observe_high n t h (observe_all n ths ss))"
  by (simp add: observe_all_def)

lemma observe_all_history:
  assumes "0 < n" "distinct (map fst ths)" "bs_recent_highs ss = []" "bs_last_observed_time ss = None"
  shows "bs_recent_highs (observe_all n ths ss) = last_n n (map snd ths) \<and>
     bs_last_observed_time (observe_all n ths ss)
       = (if ths = [] then None else Some (fst (last ths)))"
  using assms(2)
proof (induction ths rule: rev_induct)
  case Nil
  then show ?case by (simp add: observe_all_def assms last_n_def)
next
  case (snoc th ths)
  obtain t h where th: "th = (t, h)" by (cases th)
  have IH: "bs_recent_highs (observe_all n ths ss) = last_n n (map snd ths)"
      "bs_last_observed_time (observe_all n ths ss)
        = (if ths = [] then None else Some (fst (last ths)))"
    using snoc by simp_all
  have "bs_last_observed_time (observe_all n ths ss) \<noteq> Some t"
    using snoc.prems IH(2) th by (auto simp: image_iff)
  moreover have "last_n n (last_n n (map snd ths) @ [h]) = last_n n (map snd ths @ [h])"
    using assms(1) by (simp add: last_n_append_one last_n_last_n)
  ultimately show ?case
    by (simp add: th observe_all_snoc observe_high_def Let_def IH(1))
qed

lemma observe_high_prior:
  assumes "0 < n" "distinct (map fst ths)" "t \<notin> set (map fst ths)"
    "bs_recent_highs ss = []" "bs_last_observed_time ss = None"
  shows "fst (observe_high n t h (observe_all n ths ss)) =
     (if n \<le> length ths then Some (Max (set (last_n n (map snd ths)))) else None)"
proof -
  have "bs_last_observed_time (observe_all n ths ss) \<noteq> Some t"
    using observe_all_history [OF assms(1,2,4,5)] assms(3) by (auto simp: image_iff)
  then show ?thesis
    using observe_all_history [OF assms(1,2,4,5)]
    by (auto simp: observe_high_def Let_def last_n_last_n)
qed

section \<open>The invariant of the setup\<close>

definition ss_ok :: "nat \<Rightarrow> int \<Rightarrow> 'b br_symbol_state_scheme \<Rightarrow> bool" where
  "ss_ok lookback timeout ss \<longleftrightarrow>
     (bs_phase ss = BREAKOUT_ARMED \<longleftrightarrow> bs_breakout ss \<noteq> None) \<and>
     length (bs_recent_highs ss) \<le> lookback \<and>
     (\<forall>b. bs_breakout ss = Some b \<longrightarrow> 0 \<le> bk_bars b \<and> bk_bars b < timeout)"

definition br_ok :: "'b br_symbol_state_scheme \<Rightarrow> ('b, 'z) breakout_retest_scheme \<Rightarrow> bool" where
  "br_ok fresh br \<longleftrightarrow>
     0 < br_retest_timeout_bars br \<and>
     ss_ok (br_resistance_lookback_bars br) (br_retest_timeout_bars br) fresh \<and>
     (\<forall>s. ss_ok (br_resistance_lookback_bars br) (br_retest_timeout_bars br)
        (symbol_state fresh br s))"

lemma ss_ok_new: "ss_ok n t new_br_symbol_state"
  by (simp add: ss_ok_def new_br_symbol_state_def)

lemma ss_ok_clear: "ss_ok n t ss \<Longrightarrow> ss_ok n t (clear_breakout (ss\<lparr>bs_breakout := b\<rparr>))"
  by (simp add: ss_ok_def)

lemma ss_ok_observe: "ss_ok n t ss \<Longrightarrow> observe_high n time h ss = (r, ss') \<Longrightarrow> ss_ok n t ss'"
  using observe_high_keeps [of n time h ss r ss'] by (simp add: ss_ok_def)

lemma ss_ok_idle: "0 < t \<Longrightarrow> ss_ok n t ss \<Longrightarrow> ss_ok n t (idle_candle p ss c ind ps)"
  by (auto simp: idle_candle_def ss_ok_def Let_def split: option.splits)

lemma br_ok_put:
  "br_ok fresh br \<Longrightarrow> ss_ok (br_resistance_lookback_bars br) (br_retest_timeout_bars br) ss \<Longrightarrow>
     br_ok fresh (put_symbol_state s ss br)"
  by (simp add: br_ok_def)

lemma br_ok_observe:
  assumes "br_ok fresh br" "observe_candle fresh br c = (r, br')"
  shows "br_ok fresh br'"
proof -
  obtain ss' where ss': "observe_high (br_resistance_lookback_bars br) (cd_open_time c)
       (candle_get (cd_high c) (cd_close c)) (symbol_state fresh br (cd_symbol c)) = (r, ss')"
      "br' = put_symbol_state (cd_symbol c) ss' br"
    using observe_candle_state [OF assms(2)] by blast
  have "ss_ok (br_resistance_lookback_bars br) (br_retest_timeout_bars br) ss'"
    using assms(1) ss'(1) by (auto simp: br_ok_def intro: ss_ok_observe)
  with assms(1) show ?thesis unfolding ss'(2) by (rule br_ok_put)
qed

lemma observe_candle_keeps:
  "observe_candle fresh br c = (r, br') \<Longrightarrow>
     td_config br' = td_config br \<and> td_name br' = td_name br \<and>
     br_resistance_lookback_bars br' = br_resistance_lookback_bars br \<and>
     br_retest_timeout_bars br' = br_retest_timeout_bars br"
  by (auto dest: observe_candle_state)

lemma observe_candle_phase:
  assumes "observe_candle fresh br c = (r, br')"
  shows "bs_phase (symbol_state fresh br' (cd_symbol c)) = bs_phase (symbol_state fresh br (cd_symbol c))"
    "bs_breakout (symbol_state fresh br' (cd_symbol c))
       = bs_breakout (symbol_state fresh br (cd_symbol c))"
proof -
  obtain ss' where ss': "observe_high (br_resistance_lookback_bars br) (cd_open_time c)
       (candle_get (cd_high c) (cd_close c)) (symbol_state fresh br (cd_symbol c)) = (r, ss')"
      "br' = put_symbol_state (cd_symbol c) ss' br"
    using observe_candle_state [OF assms] by blast
  note keeps = observe_high_keeps [OF ss'(1)]
  show "bs_phase (symbol_state fresh br' (cd_symbol c)) = bs_phase (symbol_state fresh br (cd_symbol c))"
    using keeps by (simp add: ss'(2))
  show "bs_breakout (symbol_state fresh br' (cd_symbol c))
       = bs_breakout (symbol_state fresh br (cd_symbol c))"
    using keeps by (simp add: ss'(2))
qed

section \<open>One armed candle\<close>

lemma armed_candle_signal:
  assumes "armed_candle br ss u c ind ps = Inr (Some g, ss')" "bs_breakout ss = Some b"
  shows "\<not> ps_has_position ps" "bk_bars b + 1 < br_retest_timeout_bars br"
    "regime ind \<noteq> Some TREND_DOWN" "bs_phase ss' = IDLE" "bs_breakout ss' = None"
    "candle_get (cd_low c) (cd_close c) \<le> bk_level b" "bk_level b \<le> cd_close c"
    "\<exists>e50 e200. ema_50 ind = Some e50 \<and> ema_200 ind = Some e200 \<and> e200 < cd_close c \<and> e200 < e50"
    "build_entry_signal br u c ind ps (b\<lparr>bk_bars := bk_bars b + 1\<rparr>) = Inr g"
  using assms
  by (auto simp: armed_candle_def Let_def bind_result_Inr_iff not_le split: if_splits option.splits)

lemma armed_candle_waits:
  assumes "armed_candle br ss u c ind ps = Inr (r, ss')" "bs_phase ss = BREAKOUT_ARMED"
    "bs_phase ss' = BREAKOUT_ARMED" "bs_breakout ss = Some b"
  shows "r = None" "bs_breakout ss' = Some (b\<lparr>bk_bars := bk_bars b + 1\<rparr>)"
    "bk_bars b + 1 < br_retest_timeout_bars br"
  using assms
  by (auto simp: armed_candle_def Let_def bind_result_Inr_iff not_le split: if_splits option.splits)

lemma armed_candle_cancels:
  assumes "bs_breakout ss = Some b" "armed_candle br ss u c ind ps = Inr (r, ss')"
    "ps_has_position ps \<or> regime ind = Some TREND_DOWN \<or> br_retest_timeout_bars br \<le> bk_bars b + 1"
  shows "r = None \<and> bs_phase ss' = IDLE \<and> bs_breakout ss' = None"
  using assms by (auto simp: armed_candle_def Let_def split: if_splits)

lemma armed_candle_ok:
  assumes "ss_ok n (br_retest_timeout_bars br) ss" "bs_phase ss = BREAKOUT_ARMED"
    "armed_candle br ss u c ind ps = Inr (r, ss')"
  shows "ss_ok n (br_retest_timeout_bars br) ss'"
proof -
  obtain b where b: "bs_breakout ss = Some b" "0 \<le> bk_bars b"
    using assms(1,2) by (auto simp: ss_ok_def)
  have clear: "ss_ok n (br_retest_timeout_bars br) (clear_breakout (ss\<lparr>bs_breakout := x\<rparr>))" for x
    using assms(1) by (rule ss_ok_clear)
  have keep: "ss_ok n (br_retest_timeout_bars br)
      (ss\<lparr>bs_breakout := Some (b\<lparr>bk_bars := bk_bars b + 1\<rparr>)\<rparr>)"
    if "bk_bars b + 1 < br_retest_timeout_bars br"
    using assms(1,2) b that by (auto simp: ss_ok_def)
  show ?thesis using assms(3) b(1) clear keep
    by (auto simp: armed_candle_def Let_def bind_result_Inr_iff not_le split: if_splits option.splits)
qed

lemma armed_candle_total:
  assumes "bs_breakout ss \<noteq> None" "cd_close c \<noteq> 0"
  shows "\<exists>r. armed_candle br ss u c ind ps = Inr r"
  using assms
  by (auto simp: armed_candle_def Let_def build_entry_signal_def base_order_quantity_def
      ddiv_or_raise_def split: option.splits)

section \<open>One candle of the strategy\<close>

lemma build_entry_signal_fields:
  "build_entry_signal br u c ind ps b = Inr g \<Longrightarrow>
     sig_action g = ''open_long'' \<and> sig_symbol g = cd_symbol c \<and>
     sig_timestamp g = cd_open_time c \<and> sig_signal_id g = u \<and> sig_price g = cd_close c \<and>
     map_of (sig_metadata g) ''breakout_level'' = Some (MDec (bk_level b)) \<and>
     map_of (sig_metadata g) ''bars_since_breakout'' = Some (MInt (bk_bars b))"
  by (auto simp: build_entry_signal_def Let_def bind_result_Inr_iff)

lemma br_should_enter_cases:
  assumes "br_should_enter fresh br u c ind ps = Inr (r, br')"
  obtains (armed) p br1 ss' where "observe_candle fresh br c = (p, br1)"
      "bs_phase (symbol_state fresh br (cd_symbol c)) = BREAKOUT_ARMED"
      "armed_candle br1 (symbol_state fresh br1 (cd_symbol c)) u c ind ps = Inr (r, ss')"
      "br' = put_symbol_state (cd_symbol c) ss' br1"
    | (idle) p br1 where "observe_candle fresh br c = (p, br1)"
      "bs_phase (symbol_state fresh br (cd_symbol c)) = IDLE" "r = None"
      "br' = put_symbol_state (cd_symbol c)
         (idle_candle p (symbol_state fresh br1 (cd_symbol c)) c ind ps) br1"
proof -
  obtain p br1 where o: "observe_candle fresh br c = (p, br1)" by force
  note ph = observe_candle_phase(1) [OF o]
  show thesis
  proof (cases "bs_phase (symbol_state fresh br (cd_symbol c))")
    case IDLE
    with assms o ph that(2) show thesis by (simp add: br_should_enter_def Let_def)
  next
    case BREAKOUT_ARMED
    with assms o ph that(1) show thesis
      by (auto simp: br_should_enter_def Let_def bind_result_Inr_iff)
  qed
qed

lemma br_should_enter_ok:
  assumes "br_ok fresh br" "br_should_enter fresh br u c ind ps = Inr (r, br')"
  shows "br_ok fresh br'"
  using assms(2)
proof (cases rule: br_should_enter_cases)
  case (armed p br1 ss')
  have br1: "br_ok fresh br1" using assms(1) armed(1) by (rule br_ok_observe)
  have "ss_ok (br_resistance_lookback_bars br1) (br_retest_timeout_bars br1) ss'"
    using br1 armed(2,3) observe_candle_phase(1) [OF armed(1)]
    by (intro armed_candle_ok [OF _ _ armed(3)]) (simp_all add: br_ok_def)
  with br1 show ?thesis unfolding armed(4) by (rule br_ok_put)
next
  case (idle p br1)
  have br1: "br_ok fresh br1" using assms(1) idle(1) by (rule br_ok_observe)
  then show ?thesis unfolding idle(4) by (intro br_ok_put ss_ok_idle) (simp_all add: br_ok_def)
qed

lemma br_should_enter_signal:
  assumes "br_should_enter fresh br u c ind ps = Inr (Some g, br')" "br_ok fresh br"
  shows "\<exists>b. bs_breakout (symbol_state fresh br (cd_symbol c)) = Some b \<and>
     0 \<le> bk_bars b \<and> bk_bars b + 1 < br_retest_timeout_bars br \<and>
     \<not> ps_has_position ps \<and> regime ind \<noteq> Some TREND_DOWN \<and>
     candle_get (cd_low c) (cd_close c) \<le> bk_level b \<and> bk_level b \<le> cd_close c \<and>
     (\<exists>e50 e200. ema_50 ind = Some e50 \<and> ema_200 ind = Some e200 \<and>
        e200 < cd_close c \<and> e200 < e50) \<and>
     map_of (sig_metadata g) ''breakout_level'' = Some (MDec (bk_level b)) \<and>
     map_of (sig_metadata g) ''bars_since_breakout'' = Some (MInt (bk_bars b + 1)) \<and>
     bs_phase (symbol_state fresh br' (cd_symbol c)) = IDLE"
  using assms(1)
proof (cases rule: br_should_enter_cases)
  case (armed p br1 ss')
  have "ss_ok (br_resistance_lookback_bars br) (br_retest_timeout_bars br)
      (symbol_state fresh br (cd_symbol c))"
    using assms(2) by (simp add: br_ok_def)
  then obtain b where b: "bs_breakout (symbol_state fresh br (cd_symbol c)) = Some b" "0 \<le> bk_bars b"
    using armed(2) by (auto simp: ss_ok_def)
  have b1: "bs_breakout (symbol_state fresh br1 (cd_symbol c)) = Some b"
    using b(1) observe_candle_phase(2) [OF armed(1)] by simp
  note sig = armed_candle_signal [OF armed(3) b1]
  show ?thesis
    using b sig build_entry_signal_fields [OF sig(9)] observe_candle_keeps [OF armed(1)] armed(4)
    by simp
qed simp

lemma br_should_enter_fields:
  assumes "br_should_enter fresh br u c ind ps = Inr (Some g, br')"
  shows "sig_action g = ''open_long'' \<and> sig_symbol g = cd_symbol c \<and>
     sig_timestamp g = cd_open_time c \<and> sig_signal_id g = u \<and> sig_price g = cd_close c \<and>
     \<not> ps_has_position ps"
  using assms
proof (cases rule: br_should_enter_cases)
  case (armed p br1 ss')
  then obtain b where b: "bs_breakout (symbol_state fresh br1 (cd_symbol c)) = Some b"
    by (auto simp: armed_candle_def split: option.splits)
  show ?thesis
    using armed_candle_signal [OF armed(3) b] build_entry_signal_fields by blast
qed simp

section \<open>A setup does not outlive its timeout\<close>

inductive armed_run ::
    "'b br_symbol_state_scheme \<Rightarrow> string \<Rightarrow> ('b, 'z) breakout_retest_scheme \<Rightarrow> nat
     \<Rightarrow> ('b, 'z) breakout_retest_scheme \<Rightarrow> bool" for fresh s br where
  armed_start: "bs_phase (symbol_state fresh br s) = BREAKOUT_ARMED \<Longrightarrow> armed_run fresh s br 0 br"
| armed_step: "armed_run fresh s br n br1 \<Longrightarrow> cd_symbol c = s \<Longrightarrow>
     br_should_enter fresh br1 u c ind ps = Inr (r, br2) \<Longrightarrow>
     bs_phase (symbol_state fresh br2 s) = BREAKOUT_ARMED \<Longrightarrow> armed_run fresh s br (Suc n) br2"

inductive_cases armed_run_SucE: "armed_run fresh s br (Suc n) br'"

lemma armed_step_ages:
  assumes "br_should_enter fresh br u c ind ps = Inr (r, br')" "br_ok fresh br"
    "bs_phase (symbol_state fresh br (cd_symbol c)) = BREAKOUT_ARMED"
    "bs_phase (symbol_state fresh br' (cd_symbol c)) = BREAKOUT_ARMED"
    "bs_breakout (symbol_state fresh br (cd_symbol c)) = Some b"
  shows "bs_breakout (symbol_state fresh br' (cd_symbol c)) = Some (b\<lparr>bk_bars := bk_bars b + 1\<rparr>)
     \<and> br_retest_timeout_bars br' = br_retest_timeout_bars br \<and> r = None"
  using assms(1)
proof (cases rule: br_should_enter_cases)
  case (armed p br1 ss')
  have ph: "bs_phase (symbol_state fresh br1 (cd_symbol c)) = BREAKOUT_ARMED"
      "bs_breakout (symbol_state fresh br1 (cd_symbol c)) = Some b"
    using observe_candle_phase [OF armed(1)] assms(3,5) by simp_all
  have "bs_phase ss' = BREAKOUT_ARMED" using assms(4) armed(4) by simp
  from armed_candle_waits [OF armed(3) ph(1) this ph(2)] show ?thesis
    using armed(4) observe_candle_keeps [OF armed(1)] by simp
qed (use assms(3) in simp)

lemma armed_run_ages:
  assumes "armed_run fresh s br n br'" "br_ok fresh br"
    "bs_breakout (symbol_state fresh br s) = Some b"
  shows "br_ok fresh br' \<and> bs_phase (symbol_state fresh br' s) = BREAKOUT_ARMED \<and>
     bs_breakout (symbol_state fresh br' s) = Some (b\<lparr>bk_bars := bk_bars b + int n\<rparr>) \<and>
     br_retest_timeout_bars br' = br_retest_timeout_bars br"
  using assms
proof (induction rule: armed_run.induct)
  case (armed_step n br1 c u ind ps r br2)
  then have IH: "br_ok fresh br1" "bs_phase (symbol_state fresh br1 s) = BREAKOUT_ARMED"
      "bs_breakout (symbol_state fresh br1 s) = Some (b\<lparr>bk_bars := bk_bars b + int n\<rparr>)"
      "br_retest_timeout_bars br1 = br_retest_timeout_bars br" by simp_all
  from armed_step_ages [OF armed_step.hyps(3) IH(1)] armed_step.hyps(2,4) IH
    br_should_enter_ok [OF IH(1) armed_step.hyps(3)]
  show ?case by simp
qed simp

lemma armed_run_bounded:
  assumes "armed_run fresh s br n br'" "br_ok fresh br"
  shows "int n < br_retest_timeout_bars br"
proof -
  have "bs_phase (symbol_state fresh br s) = BREAKOUT_ARMED"
    using assms(1) by (induction rule: armed_run.induct) simp_all
  then obtain b where b: "bs_breakout (symbol_state fresh br s) = Some b" "0 \<le> bk_bars b"
    using assms(2) by (auto simp: br_ok_def ss_ok_def)
  from armed_run_ages [OF assms b(1)] have run:
    "br_ok fresh br'" "bs_breakout (symbol_state fresh br' s) = Some (b\<lparr>bk_bars := bk_bars b + int n\<rparr>)"
    "br_retest_timeout_bars br' = br_retest_timeout_bars br" by simp_all
  have "ss_ok (br_resistance_lookback_bars br') (br_retest_timeout_bars br') (symbol_state fresh br' s)"
    using run(1) by (simp add: br_ok_def)
  then have "bk_bars b + int n < br_retest_timeout_bars br"
    by (simp add: ss_ok_def run(2,3))
  with b(2) show ?thesis by simp
qed

section \<open>The strategy interface\<close>

lemma br_fields_cong:
  "trend_dca.more br' = trend_dca.more br \<Longrightarrow>
     br_state br' = br_state br \<and>
     br_resistance_lookback_bars br' = br_resistance_lookback_bars br \<and>
     br_retest_timeout_bars br' = br_retest_timeout_bars br"
  by (cases br; cases br') simp

lemma br_ok_cong:
  "trend_dca.more br' = trend_dca.more br \<Longrightarrow> br_ok fresh br' = br_ok fresh br"
  by (drule br_fields_cong) (simp add: br_ok_def symbol_state_def)

lemma br_ok_observe_snd: "br_ok fresh br \<Longrightarrow> br_ok fresh (snd (observe_candle fresh br c))"
  by (cases "observe_candle fresh br c") (auto dest: br_ok_observe)

lemma br_should_exit_ok:
  "br_ok fresh br \<Longrightarrow> br_should_exit fresh br u c ind po = Inr (r, br') \<Longrightarrow> br_ok fresh br'"
  using br_ok_observe_snd [of fresh br c] trend_should_exit_keeps [of "snd (observe_candle fresh br c)"]
    br_ok_cong [of br' "snd (observe_candle fresh br c)" fresh]
  by (simp add: br_should_exit_def)

lemma br_should_exit_signal:
  "br_should_exit fresh br u c ind po = Inr (Some g, br') \<Longrightarrow>
     sig_action g = ''close'' \<and> sig_symbol g = cd_symbol c \<and>
     sig_timestamp g = cd_open_time c \<and> sig_signal_id g = u"
  unfolding br_should_exit_def by (rule trend_should_exit_signal)

lemma br_should_add_dca_ok:
  "br_ok fresh br \<Longrightarrow> br_should_add_dca fresh br u c ind po = Inr (r, br') \<Longrightarrow>
     br_ok fresh br' \<and> r = None"
  by (auto simp: br_should_add_dca_def br_ok_observe_snd)

lemma br_on_fill_ok: "br_ok fresh br \<Longrightarrow> br_on_fill br g f = Inr br' \<Longrightarrow> br_ok fresh br'"
  by (auto simp: br_on_fill_def br_ok_def symbol_state_def)

lemma map_of_fresh_states: "map_of (br_fresh_states fresh symbols) s \<in> {None, Some fresh}"
proof -
  have "map_of d0 s \<in> {None, Some fresh} \<Longrightarrow>
      map_of (foldl (\<lambda>d s. AList.update s fresh d) d0 symbols) s \<in> {None, Some fresh}" for d0
    by (induction symbols arbitrary: d0) auto
  then show ?thesis by (simp add: br_fresh_states_def)
qed

lemma symbol_state_init:
  "br_state br = br_fresh_states fresh symbols \<Longrightarrow> symbol_state fresh br s = fresh"
  using map_of_fresh_states [of fresh symbols s] by (auto simp: symbol_state_def)

lemma new_breakout_retest_ok:
  "new_breakout_retest cfg n t symbols = Inr br \<Longrightarrow> br_ok new_br_symbol_state br"
  using symbol_state_init [of br new_br_symbol_state symbols]
  by (auto simp: new_breakout_retest_def br_ok_def ss_ok_new RETEST_TIMEOUT_BARS_def
      split: if_splits)

interpretation breakout_retest:
  spot_strategy breakout_retest_strategy "br_ok new_br_symbol_state"
  by unfold_locales
    (auto simp: breakout_retest_strategy_def br_should_add_dca_def br_ok_observe_snd
      dest: br_should_enter_fields br_should_exit_signal br_should_enter_ok
        br_should_exit_ok br_on_fill_ok)

end
