(* ===== verification/Backtest_Audit.thy ===== *)
theory Backtest_Audit
  imports Backtest Breakout_Retest "HOL-Library.Sublist"
begin

text \<open>
  What the backtest engine guarantees: a complete audit trail (\<open>audit_ok\<close>), causality (the state
  after a candle depends on no later candle), a maximum drawdown that only grows, and consistent
  results. The laws of \<open>spot_strategy\<close> are used once, for every strategy, in the context of that
  locale.
\<close>

section \<open>Frames\<close>

definition audit_view where
  "audit_view be =
     (be_config be, be_portfolio be, be_signals be, be_risk_decisions be, be_orders be,
      be_fills be, be_sequence be, slip_config (be_slippage_model be))"

lemma audit_view_eq:
  "audit_view be' = audit_view be \<longleftrightarrow>
     be_config be' = be_config be \<and> be_portfolio be' = be_portfolio be \<and>
     be_signals be' = be_signals be \<and> be_risk_decisions be' = be_risk_decisions be \<and>
     be_orders be' = be_orders be \<and> be_fills be' = be_fills be \<and>
     be_sequence be' = be_sequence be \<and>
     slip_config (be_slippage_model be') = slip_config (be_slippage_model be)"
  by (auto simp: audit_view_def)

lemma draw_uuid_view: "draw_uuid be = (u, be') \<Longrightarrow> audit_view be' = audit_view be"
  by (auto simp: draw_uuid_def audit_view_eq)

lemma bt_slippage_view:
  "bt_slippage be o1 v = Inr (p, be') \<Longrightarrow> audit_view be' = audit_view be"
  by (auto simp: bt_slippage_def audit_view_eq bind_result_Inr_iff dest: calculate_slippage_keeps)

lemma check_risk_view: "check_risk be o1 p = (r, be') \<Longrightarrow> audit_view be' = audit_view be"
  by (auto simp: check_risk_def read_clock_def audit_view_eq Let_def split: prod.splits)

lemma fst_check_risk:
  "fst (check_risk be o1 p) =
     fst (check_trade (be_risk_engine be) (bt_trade_check be o1 p) (be_clock be (be_draws be)))"
  by (simp add: check_risk_def read_clock_def bt_trade_check_def Let_def case_prod_beta)

lemma check_risk_approved:
  assumes "check_risk be o1 p = (r, be')" "rc_approved r"
  shows "0 < ord_quantity o1 \<and> 0 < p"
proof -
  have "rc_approved (fst (check_trade (be_risk_engine be) (bt_trade_check be o1 p)
      (be_clock be (be_draws be))))"
    using assms fst_check_risk [of be o1 p] by simp
  from check_trade_approved_pos [OF this] show ?thesis by (simp add: bt_trade_check_def)
qed

lemma decide_order_view:
  assumes "decide_order be o1 v = Inr (r, p, q, be')"
  shows "audit_view be' = audit_view be \<and> (rc_approved r \<longrightarrow> 0 < q \<and> 0 < p)"
proof -
  obtain p1 be1 r1 be2 where s1: "bt_slippage be o1 v = Inr (p1, be1)" "check_risk be1 o1 p1 = (r1, be2)"
    using assms by (auto simp: decide_order_def bind_result_Inr_iff) (metis surj_pair)
  note v1 = bt_slippage_view [OF s1(1)] check_risk_view [OF s1(2)]
  show ?thesis
  proof (cases "rc_adjusted_quantity r1 \<noteq> None \<and> \<not> rc_approved r1")
    case True
    then obtain q1 where q1: "rc_adjusted_quantity r1 = Some q1" by blast
    let ?o = "o1\<lparr>ord_quantity := q1, ord_run_id := '''', ord_signal_id := ''''\<rparr>"
    obtain p2 be3 where s2: "bt_slippage be2 ?o v = Inr (p2, be3)"
        "(case check_risk be3 ?o p2 of (r2, be4) \<Rightarrow> Inr (r2, p2, q1, be4))
          = (Inr (r, p, q, be') :: (risk_check_result \<times> decimal \<times> decimal \<times> backtest_engine) result)"
      using assms s1 True q1 by (auto simp: decide_order_def bind_result_Inr_iff Let_def)
    then have s2': "check_risk be3 ?o p = (r, be')" "q = q1" "p = p2"
      by (auto split: prod.splits)
    with v1 bt_slippage_view [OF s2(1)] check_risk_view [OF s2'(1)] check_risk_approved [OF s2'(1)] s2'(2)
    show ?thesis by simp
  next
    case False
    then have "r = r1 \<and> p = p1 \<and> q = ord_quantity o1 \<and> be' = be2"
      using assms s1 by (auto simp: decide_order_def split: option.splits if_splits)
    with v1 check_risk_approved [OF s1(2)] show ?thesis by simp
  qed
qed

lemma next_id_view:
  "next_id kind be = (i, be') \<Longrightarrow>
     be' = be\<lparr>be_sequence := Suc (be_sequence be)\<rparr> \<and>
     i = ''bt-'' @ kind @ ''-'' @ zero_pad 8 (Suc (be_sequence be))"
  by (auto simp: next_id_def Let_def)

section \<open>The cases of an executed order\<close>

lemma execute_order_cases:
  assumes "execute_order be o1 v = Inr (r, be')"
  obtains (refused) result p q be1 where "decide_order be o1 v = Inr (result, p, q, be1)" "r = None"
      "be' = be1\<lparr>be_risk_decisions := be_risk_decisions be1 @ [make_risk_decision o1 result q]\<rparr>"
    | (filled) result p q be1 be3 fid be4 where
      "decide_order be o1 v = Inr (result, p, q, be1)" "rc_approved result"
      "settle (be1\<lparr>be_risk_decisions := be_risk_decisions be1 @ [make_risk_decision o1 result q]\<rparr>) o1 p q
         (calculate_commission (bc_commission_config (be_config be1)) q p False) = Inr (Some be3)"
      "next_id ''fill'' be3 = (fid, be4)"
      "r = Some (make_fill fid o1 q p
         (calculate_commission (bc_commission_config (be_config be1)) q p False))"
      "be' = be4\<lparr>be_fills := be_fills be4 @ [make_fill fid o1 q p
         (calculate_commission (bc_commission_config (be_config be1)) q p False)]\<rparr>"
proof -
  obtain result p q be1 where d: "decide_order be o1 v = Inr (result, p, q, be1)"
    using assms by (auto simp: execute_order_def bind_result_Inr_iff)
  show thesis
  proof (cases "rc_approved result")
    case False
    with assms d show thesis
      by (intro refused [OF d]) (auto simp: execute_order_def make_risk_decision_def Let_def)
  next
    case True
    let ?be2 = "be1\<lparr>be_risk_decisions := be_risk_decisions be1 @ [make_risk_decision o1 result q]\<rparr>"
    let ?c = "calculate_commission (bc_commission_config (be_config be1)) q p False"
    from assms d True obtain x where x: "settle ?be2 o1 p q ?c = Inr x"
      by (auto simp: execute_order_def make_risk_decision_def Let_def bind_result_Inr_iff)
    show thesis
    proof (cases x)
      case None
      with assms d True x show thesis
        by (intro refused [OF d]) (auto simp: execute_order_def make_risk_decision_def Let_def)
    next
      case (Some be3)
      obtain fid be4 where n: "next_id ''fill'' be3 = (fid, be4)" by force
      from assms d True x Some n show thesis
        by (intro filled [OF d True _ n])
          (auto simp: execute_order_def make_risk_decision_def Let_def)
    qed
  qed
qed

section \<open>The audit trail\<close>

definition issued_id :: "string \<Rightarrow> nat \<Rightarrow> string \<Rightarrow> bool" where
  "issued_id kind n i \<longleftrightarrow>
     (\<exists>k \<in> {1..n}. i = ''bt-'' @ kind @ ''-'' @ zero_pad 8 k)"

lemma issued_id_Suc: "issued_id kind n i \<Longrightarrow> issued_id kind (Suc n) i"
  by (force simp: issued_id_def)

lemma issued_id_new: "issued_id kind (Suc n) (''bt-'' @ kind @ ''-'' @ zero_pad 8 (Suc n))"
  by (force simp: issued_id_def)

lemma issued_id_fresh: "\<not> issued_id kind n (''bt-'' @ kind @ ''-'' @ zero_pad 8 (Suc n))"
  by (auto simp: issued_id_def)

lemma issued_id_nonempty: "issued_id kind n i \<Longrightarrow> i \<noteq> ''''"
  by (auto simp: issued_id_def)

definition justified :: "order list \<Rightarrow> risk_decision list \<Rightarrow> fill \<Rightarrow> bool" where
  "justified os ds f \<longleftrightarrow>
     (\<exists>o1 \<in> set os. \<exists>d \<in> set ds.
        fill_order_id f = ord_order_id o1 \<and> rd_order_id d = ord_order_id o1 \<and>
        rd_approved d \<and> rd_approved_quantity d = Some (fill_quantity f) \<and>
        fill_symbol f = order_symbol o1 \<and> fill_side f = ord_side o1 \<and>
        fill_timestamp f = ord_created_at o1 \<and> fill_signal_id f = ord_signal_id o1)"

definition audit_ok :: "backtest_engine \<Rightarrow> bool" where
  "audit_ok be \<longleftrightarrow>
     pf_ok (be_portfolio be) \<and>
     distinct (map ord_order_id (be_orders be)) \<and> distinct (map fill_fill_id (be_fills be)) \<and>
     (\<forall>i \<in> set (map ord_order_id (be_orders be)). issued_id ''order'' (be_sequence be) i) \<and>
     (\<forall>i \<in> set (map fill_fill_id (be_fills be)). issued_id ''fill'' (be_sequence be) i) \<and>
     filter (\<lambda>i. i \<noteq> '''') (map rd_order_id (be_risk_decisions be))
       = map ord_order_id (be_orders be) \<and>
     (\<forall>f \<in> set (be_fills be). justified (be_orders be) (be_risk_decisions be) f \<and>
        0 < fill_quantity f \<and> 0 < fill_price f)"

definition costs_ok :: "backtest_engine \<Rightarrow> bool" where
  "costs_ok be \<longleftrightarrow>
     0 \<le> minimum_fee (bc_commission_config (be_config be)) \<and>
     slippage_config_ok (slip_config (be_slippage_model be))"

lemma justified_mono:
  "justified os ds f \<Longrightarrow> set os \<subseteq> set os' \<Longrightarrow> set ds \<subseteq> set ds' \<Longrightarrow> justified os' ds' f"
  unfolding justified_def by blast

lemma settle_ok:
  assumes "settle be o1 p q c = Inr (Some be')" "pf_ok (be_portfolio be)" "0 < p" "0 \<le> c"
  shows "\<exists>pf. be' = be\<lparr>be_portfolio := pf\<rparr> \<and> pf_ok pf"
proof (cases "ord_side o1 = ''buy''")
  case True
  with assms show ?thesis
    by (auto simp: settle_def bind_result_Inr_iff split: if_splits intro: open_position_Inr_ok)
next
  case False
  then have "\<exists>pf pnl. close_position (be_portfolio be) (order_symbol o1) p (ord_created_at o1) c
      = (Some pnl, pf) \<and> be' = be\<lparr>be_portfolio := pf\<rparr>"
    using assms(1) by (auto simp: settle_def split: prod.splits option.splits)
  with close_position_ok [OF assms(2)] show ?thesis by (metis snd_conv)
qed

text \<open>An order that has been placed but not decided yet.\<close>

definition placed :: "backtest_engine \<Rightarrow> order \<Rightarrow> bool" where
  "placed be o1 \<longleftrightarrow>
     (\<exists>os. be_orders be = os @ [o1] \<and>
        filter (\<lambda>i. i \<noteq> '''') (map rd_order_id (be_risk_decisions be)) = map ord_order_id os) \<and>
     pf_ok (be_portfolio be) \<and>
     distinct (map ord_order_id (be_orders be)) \<and> distinct (map fill_fill_id (be_fills be)) \<and>
     (\<forall>i \<in> set (map ord_order_id (be_orders be)). issued_id ''order'' (be_sequence be) i) \<and>
     (\<forall>i \<in> set (map fill_fill_id (be_fills be)). issued_id ''fill'' (be_sequence be) i) \<and>
     (\<forall>f \<in> set (be_fills be). justified (be_orders be) (be_risk_decisions be) f \<and>
        0 < fill_quantity f \<and> 0 < fill_price f)"

lemma place_order_placed:
  assumes "audit_ok be" "place_order be g side q p t = (o1, be')"
  shows "placed be' o1 \<and> be_config be' = be_config be \<and> be_slippage_model be' = be_slippage_model be
     \<and> ord_order_id o1 \<noteq> '''' \<and> ord_signal o1 = g \<and> ord_created_at o1 = t \<and> be_fills be' = be_fills be
     \<and> be_signals be' = be_signals be \<and> ord_side o1 = side \<and> ord_requested_price o1 = p"
proof -
  obtain oid be1 where n: "next_id ''order'' be = (oid, be1)" by force
  note v = next_id_view [OF n]
  have o1: "be' = be1\<lparr>be_orders := be_orders be1 @ [o1]\<rparr>" "ord_order_id o1 = oid"
      "ord_signal o1 = g" "ord_created_at o1 = t" "ord_side o1 = side" "ord_requested_price o1 = p"
    using assms(2) n by (auto simp: place_order_def Let_def)
  have fresh: "oid \<notin> set (map ord_order_id (be_orders be))"
    using assms(1) v issued_id_fresh unfolding audit_ok_def by blast
  have issued: "issued_id ''order'' (Suc (be_sequence be)) oid"
    using v issued_id_new by blast
  show ?thesis
    using assms(1) v o1 fresh issued issued_id_nonempty [OF issued]
    by (auto simp: audit_ok_def placed_def intro: issued_id_Suc justified_mono)
qed

lemma placed_view: "audit_view be' = audit_view be \<Longrightarrow> placed be' o1 = placed be o1"
  by (auto simp: audit_view_eq placed_def)

lemma audit_ok_view: "audit_view be' = audit_view be \<Longrightarrow> audit_ok be' = audit_ok be"
  by (auto simp: audit_view_eq audit_ok_def)

lemma costs_ok_view: "audit_view be' = audit_view be \<Longrightarrow> costs_ok be' = costs_ok be"
  by (auto simp: audit_view_eq costs_ok_def)

lemma placed_decided:
  assumes "placed be o1" "ord_order_id o1 \<noteq> ''''"
  shows "audit_ok (be\<lparr>be_risk_decisions := be_risk_decisions be @ [make_risk_decision o1 result q]\<rparr>)"
  using assms
  by (auto simp: placed_def audit_ok_def make_risk_decision_def intro: justified_mono)

lemma audit_ok_portfolio:
  "audit_ok be \<Longrightarrow> pf_ok pf \<Longrightarrow> audit_ok (be\<lparr>be_portfolio := pf\<rparr>)"
  by (simp add: audit_ok_def)

lemma audit_ok_signals: "audit_ok (be\<lparr>be_signals := gs\<rparr>) = audit_ok be"
  by (simp add: audit_ok_def)

lemma audit_ok_fill:
  assumes "audit_ok be" "next_id ''fill'' be = (fid, be')" "fill_fill_id f = fid"
    "justified (be_orders be) (be_risk_decisions be) f" "0 < fill_quantity f" "0 < fill_price f"
  shows "audit_ok (be'\<lparr>be_fills := be_fills be' @ [f]\<rparr>)"
proof -
  note v = next_id_view [OF assms(2)]
  have "fid \<notin> set (map fill_fill_id (be_fills be))"
    using assms(1) v issued_id_fresh unfolding audit_ok_def by blast
  moreover have "issued_id ''fill'' (Suc (be_sequence be)) fid"
    using v issued_id_new by blast
  ultimately show ?thesis
    using assms v by (auto simp: audit_ok_def intro: issued_id_Suc)
qed

lemma execute_order_ok:
  assumes "placed be o1" "ord_order_id o1 \<noteq> ''''" "costs_ok be"
    "execute_order be o1 v = Inr (r, be')"
  shows "audit_ok be' \<and> costs_ok be' \<and> be_config be' = be_config be \<and> be_signals be' = be_signals be
     \<and> (case r of None \<Rightarrow> be_fills be' = be_fills be
        | Some f \<Rightarrow> be_fills be' = be_fills be @ [f] \<and> fill_signal_id f = ord_signal_id o1)"
  using assms(4)
proof (cases rule: execute_order_cases)
  case (refused result p q be1)
  have v: "audit_view be1 = audit_view be" using decide_order_view [OF refused(1)] by simp
  have "audit_ok be'" unfolding refused(3)
    by (rule placed_decided) (use assms(1,2) placed_view [OF v] in auto)
  moreover have "costs_ok be'" using costs_ok_view [OF v] assms(3) refused(3)
    by (simp add: costs_ok_def)
  ultimately show ?thesis using v refused(2,3) by (simp add: audit_view_eq)
next
  case (filled result p q be1 be3 fid be4)
  let ?d = "make_risk_decision o1 result q"
  let ?be2 = "be1\<lparr>be_risk_decisions := be_risk_decisions be1 @ [?d]\<rparr>"
  let ?c = "calculate_commission (bc_commission_config (be_config be1)) q p False"
  have v: "audit_view be1 = audit_view be" and pos: "0 < q" "0 < p"
    using decide_order_view [OF filled(1)] filled(2) by simp_all
  have ok2: "audit_ok ?be2"
    by (rule placed_decided) (use assms(1,2) placed_view [OF v] in auto)
  have "0 \<le> ?c"
    using costs_ok_view [OF v] assms(3) by (auto simp: costs_ok_def intro: commission_nonneg)
  then obtain pf where pf: "be3 = ?be2\<lparr>be_portfolio := pf\<rparr>" "pf_ok pf"
    using settle_ok [OF filled(3)] ok2 pos by (auto simp: audit_ok_def)
  have ok3: "audit_ok be3" unfolding pf(1) by (rule audit_ok_portfolio [OF ok2 pf(2)])
  have "justified (be_orders be3) (be_risk_decisions be3) (make_fill fid o1 q p ?c)"
  proof -
    have "o1 \<in> set (be_orders be3)" using assms(1) v pf(1)
      by (auto simp: placed_def audit_view_eq)
    moreover have "?d \<in> set (be_risk_decisions be3)" by (simp add: pf(1))
    ultimately show ?thesis
      using filled(2) unfolding justified_def make_fill_def make_risk_decision_def by force
  qed
  then have "audit_ok be'" unfolding filled(6)
    by (intro audit_ok_fill [OF ok3 filled(4)]) (simp_all add: make_fill_def pos)
  moreover have "costs_ok be'" "be_config be' = be_config be" "be_signals be' = be_signals be"
      "be_fills be' = be_fills be @ [make_fill fid o1 q p ?c]"
    using v assms(3) filled(6) next_id_view [OF filled(4)] pf(1)
    by (simp_all add: costs_ok_def audit_view_eq)
  ultimately show ?thesis using filled(5) by (simp add: make_fill_def)
qed

lemma place_order_signal_id:
  "place_order be g side q p t = (o1, be') \<Longrightarrow> ord_signal_id o1 = sig_signal_id g"
  by (auto simp: place_order_def Let_def split: prod.splits)

lemma create_and_execute_order_ok:
  assumes "audit_ok be" "costs_ok be"
    "create_and_execute_order be g p t v = Inr (r, be')"
  shows "audit_ok be' \<and> costs_ok be' \<and> be_config be' = be_config be \<and> be_signals be' = be_signals be
     \<and> (case r of None \<Rightarrow> be_fills be' = be_fills be
        | Some f \<Rightarrow> be_fills be' = be_fills be @ [f] \<and> fill_signal_id f = sig_signal_id g)"
proof -
  have exec: ?thesis
    if "place_order be g side q p t = (o1, be1)" "execute_order be1 o1 v = Inr (r, be')" for side q o1 be1
  proof -
    note pl = place_order_placed [OF assms(1) that(1)]
    have "costs_ok be1" using pl assms(2) by (simp add: costs_ok_def)
    with execute_order_ok [OF _ _ _ that(2)] pl place_order_signal_id [OF that(1)]
    show ?thesis by (simp split: option.splits)
  qed
  have none: "audit_ok (be\<lparr>be_risk_decisions := be_risk_decisions be @ [no_position_decision g]\<rparr>)"
    using assms(1) by (auto simp: audit_ok_def no_position_decision_def intro: justified_mono)
  from assms(3) obtain action where a: "parse_signal_action (sig_action g) = Inr action"
    by (auto simp: create_and_execute_order_def bind_result_Inr_iff)
  show ?thesis
  proof (cases "is_entry action \<or> get_position (be_portfolio be) (sig_symbol g) \<noteq> None")
    case True
    with assms(3) a exec show ?thesis
      by (auto simp: create_and_execute_order_def split: prod.splits if_splits option.splits)
  next
    case False
    with assms(3) a have "r = None \<and>
        be' = be\<lparr>be_risk_decisions := be_risk_decisions be @ [no_position_decision g]\<rparr>"
      by (auto simp: create_and_execute_order_def)
    with none assms(2) show ?thesis by (simp add: costs_ok_def)
  qed
qed

section \<open>The audit trail of a run\<close>

text \<open>Every fill goes back to a recorded signal, and every queued signal is recorded.\<close>

definition traced :: "backtest_engine \<Rightarrow> signal list \<Rightarrow> bool" where
  "traced be pending \<longleftrightarrow>
     set pending \<subseteq> set (be_signals be) \<and>
     (\<forall>f \<in> set (be_fills be). fill_signal_id f \<in> sig_signal_id ` set (be_signals be))"

definition engine_ok :: "backtest_engine \<Rightarrow> signal list \<Rightarrow> bool" where
  "engine_ok be pending \<longleftrightarrow> audit_ok be \<and> costs_ok be \<and> traced be pending"

lemma engine_ok_view: "audit_view be' = audit_view be \<Longrightarrow> engine_ok be' ps = engine_ok be ps"
  using audit_ok_view [of be' be] costs_ok_view [of be' be]
  by (auto simp: engine_ok_def traced_def audit_view_eq)

lemma engine_ok_order:
  assumes "engine_ok be ps" "g \<in> set (be_signals be)"
    "create_and_execute_order be g p t v = Inr (r, be')"
  shows "engine_ok be' ps \<and> be_config be' = be_config be \<and> be_signals be' = be_signals be"
  using assms create_and_execute_order_ok [OF _ _ assms(3)]
  by (auto simp: engine_ok_def traced_def split: option.splits)

lemma process_signal_ok:
  assumes "engine_ok be ps" "process_signal candles i g t be = Inr (r, be')"
  shows "engine_ok be' ps \<and> be_config be' = be_config be"
proof -
  have "engine_ok (be\<lparr>be_signals := be_signals be @ [g]\<rparr>) ps"
    using assms(1) by (auto simp: engine_ok_def audit_ok_signals costs_ok_def traced_def)
  moreover obtain v where "create_and_execute_order (be\<lparr>be_signals := be_signals be @ [g]\<rparr>) g
      (sig_price g) t v = Inr (r, be')"
    using assms(2) by (auto simp: process_signal_def bind_result_Inr_iff)
  ultimately show ?thesis
    using engine_ok_order [of "be\<lparr>be_signals := be_signals be @ [g]\<rparr>" ps g "sig_price g" t v r be']
    by simp
qed

lemma execute_pending_ok:
  assumes "execute_pending strategy candles i p t g (be, s) = Inr (be', s')"
    "engine_ok be ps" "g \<in> set (be_signals be)"
  shows "engine_ok be' ps \<and> be_config be' = be_config be \<and> be_signals be' = be_signals be"
  using assms(1) engine_ok_order [OF assms(2,3)]
  by (auto simp: execute_pending_def bind_result_Inr_iff)

lemma execute_level_ok:
  assumes "execute_level candles i t run_id e (c, be) = Inr (c', be')" "engine_ok be ps"
  shows "engine_ok be' ps \<and> be_config be' = be_config be"
proof (cases "get_position (be_portfolio be) (ev_symbol e)")
  case None
  with assms show ?thesis by (simp add: execute_level_def)
next
  case (Some p)
  obtain u be1 where u: "draw_uuid be = (u, be1)" by force
  note v = draw_uuid_view [OF u]
  from assms(1) Some u obtain g f where "process_signal candles i g t be1 = Inr (f, be')"
    by (auto simp: execute_level_def bind_result_Inr_iff)
  from process_signal_ok [OF _ this] engine_ok_view [OF v] assms(2) v
  show ?thesis by (auto simp: audit_view_eq)
qed

lemma normalize_signal_view:
  "normalize_signal raw c t run_id be = Inr (g, be') \<Longrightarrow> audit_view be' = audit_view be"
  by (auto simp: normalize_signal_def split: raw_signal.splits option.splits prod.splits
      dest: draw_uuid_view)

lemma queue_signal_ok:
  assumes "queue_signal c t run_id raw (ps, be) = Inr (ps', be')" "engine_ok be ps"
  shows "engine_ok be' ps' \<and> be_config be' = be_config be \<and> be_portfolio be' = be_portfolio be"
proof -
  obtain g be1 where g: "normalize_signal raw c t run_id be = Inr (g, be1)"
      "ps' = ps @ [g]" "be' = be1\<lparr>be_signals := be_signals be1 @ [g]\<rparr>"
    using assms(1) by (auto simp: queue_signal_def bind_result_Inr_iff)
  note v = normalize_signal_view [OF g(1)]
  have "engine_ok be1 ps" using assms(2) engine_ok_view [OF v] by simp
  then show ?thesis using g v
    by (auto simp: engine_ok_def audit_ok_signals costs_ok_def traced_def audit_view_eq)
qed

lemma queue_signals_ok:
  "fold_result (queue_signal c t run_id) raws (ps, be) = Inr (ps', be') \<Longrightarrow> engine_ok be ps \<Longrightarrow>
     engine_ok be' ps' \<and> be_config be' = be_config be \<and> be_portfolio be' = be_portfolio be"
proof (induction raws arbitrary: ps be)
  case (Cons raw raws)
  obtain ps1 be1 where q: "queue_signal c t run_id raw (ps, be) = Inr (ps1, be1)"
      "fold_result (queue_signal c t run_id) raws (ps1, be1) = Inr (ps', be')"
    using Cons.prems(1) by (auto simp: bind_result_Inr_iff)
  from queue_signal_ok [OF q(1) Cons.prems(2)] Cons.IH [OF q(2)] show ?case by simp
qed simp

lemma base_strategy_signals_cases:
  assumes "base_strategy_signals ops c ind s be = Inr (g, s', be')"
  obtains (enter) u where "get_position (be_portfolio be) (cd_symbol c) = None"
      "st_should_enter ops s u c ind (entry_view (be_portfolio be)) = Inr (g, s')"
      "audit_view be' = audit_view be"
    | (exit) p pct u where "get_position (be_portfolio be) (cd_symbol c) = Some p"
      "st_should_exit ops s u c ind (held_view (be_portfolio be) p pct) = Inr (g, s')"
      "audit_view be' = audit_view be"
    | (add) p pct u s1 u2 f where "get_position (be_portfolio be) (cd_symbol c) = Some p"
      "st_should_exit ops s u c ind (held_view (be_portfolio be) p pct) = Inr (None, s1)"
      "st_should_add_dca ops = Some f"
      "f s1 u2 c ind (held_view (be_portfolio be) p pct) = Inr (g, s')"
      "audit_view be' = audit_view be"
proof -
  obtain u be1 where u: "draw_uuid be = (u, be1)" by force
  obtain u2 be2 where u2: "draw_uuid be1 = (u2, be2)" by force
  note v = draw_uuid_view [OF u] and v2 = draw_uuid_view [OF u2]
  show thesis
  proof (cases "get_position (be_portfolio be) (cd_symbol c)")
    case None
    show thesis
      by (rule enter [OF None, of u])
        (use assms u None v in \<open>auto simp: base_strategy_signals_def bind_result_Inr_iff\<close>)
  next
    case (Some p)
    with assms u obtain pct g1 s1 where
      x: "st_should_exit ops s u c ind (held_view (be_portfolio be) p pct) = Inr (g1, s1)" and
      y: "(case (g1, st_should_add_dca ops) of
          (None, Some add_dca) \<Rightarrow>
            (case draw_uuid be1 of
               (u2, be2) \<Rightarrow>
                 bind_result (add_dca s1 u2 c ind (held_view (be_portfolio be) p pct))
                   (\<lambda>(g2, s2). Inr (g2, s2, be2)))
        | _ \<Rightarrow> Inr (g1, s1, be1)) = (Inr (g, s', be') :: (signal option \<times> 'a \<times> backtest_engine) result)"
      by (auto simp: base_strategy_signals_def Let_def bind_result_Inr_iff)
    show thesis
    proof (cases "g1 = None \<and> st_should_add_dca ops \<noteq> None")
      case True
      then obtain f where f: "st_should_add_dca ops = Some f" by blast
      have y': "f s1 u2 c ind (held_view (be_portfolio be) p pct) = Inr (g, s')" "be' = be2"
        using y u2 f True by (auto simp: bind_result_Inr_iff)
      show thesis by (rule add [OF Some _ f y'(1)]) (use x True v v2 y'(2) in auto)
    next
      case False
      then have "g1 = g \<and> s1 = s' \<and> be' = be1" using y by (auto split: option.splits)
      with x v show thesis by (intro exit [OF Some]) auto
    qed
  qed
qed

lemma base_strategy_signals_view:
  "base_strategy_signals ops c ind s be = Inr (g, s', be') \<Longrightarrow> audit_view be' = audit_view be"
  by (erule base_strategy_signals_cases)

lemma strategy_signals_view:
  "strategy_signals strategy c ind s be = Inr (raw, s', be') \<Longrightarrow> audit_view be' = audit_view be"
  by (auto simp: strategy_signals_def bind_result_Inr_iff split: bt_strategy.splits
      dest: base_strategy_signals_view)

lemma mark_to_market_ok:
  assumes "engine_ok be ps" "0 \<le> cd_close c"
  shows "engine_ok (mark_to_market c h be) ps \<and> be_config (mark_to_market c h be) = be_config be"
proof -
  have "pf_ok (update_positions (be_portfolio be) [(cd_symbol c, cd_close c)] (cd_open_time c)
      (Some [(cd_symbol c, h)]))"
    using assms by (intro update_positions_ok) (auto simp: engine_ok_def audit_ok_def)
  with assms(1) show ?thesis
    by (simp add: mark_to_market_def Let_def engine_ok_def audit_ok_def costs_ok_def traced_def)
qed

definition bt_ok :: "'s bt_state \<Rightarrow> bool" where
  "bt_ok st \<longleftrightarrow> engine_ok (bt_engine st) (bt_pending st)"

lemma ask_strategy_ok:
  assumes "ask_strategy strategy provider run_id i c b st = Inr st'" "bt_ok st" "bt_pending st = []"
  shows "bt_ok st' \<and> be_config (bt_engine st') = be_config (bt_engine st) \<and>
     be_portfolio (bt_engine st') = be_portfolio (bt_engine st) \<and>
     bt_peak_equity st' = bt_peak_equity st"
proof -
  obtain raw s be raws ps be' where a:
      "(if b then Inr (RawNone, bt_strategy_state st, bt_engine st)
        else strategy_signals strategy c (candle_indicators provider c i)
               (bt_strategy_state st) (bt_engine st)) = Inr (raw, s, be)"
      "fold_result (queue_signal c (cd_open_time c) run_id) raws ([], be) = Inr (ps, be')"
      "st' = st\<lparr>bt_engine := be', bt_strategy_state := s, bt_pending := ps\<rparr>"
    using assms(1) by (auto simp: ask_strategy_def bind_result_Inr_iff)
  have v: "audit_view be = audit_view (bt_engine st)"
    using a(1) by (auto dest: strategy_signals_view split: if_splits)
  have "engine_ok be []" using engine_ok_view [OF v] assms(2,3) by (simp add: bt_ok_def)
  from queue_signals_ok [OF a(2) this] have "engine_ok be' ps \<and> be_config be' = be_config be \<and>
      be_portfolio be' = be_portfolio be" .
  then show ?thesis using a(3) v by (simp add: bt_ok_def audit_view_eq)
qed

lemma track_drawdown_ok:
  assumes "track_drawdown st = Inr st'" "bt_ok st"
  shows "bt_ok st' \<and> be_config (bt_engine st') = be_config (bt_engine st)"
proof -
  obtain d where "st' = st\<lparr>bt_engine := (bt_engine st)\<lparr>be_portfolio :=
      (be_portfolio (bt_engine st))\<lparr>pf_max_drawdown := max (pf_max_drawdown (be_portfolio (bt_engine st))) d\<rparr>\<rparr>,
      bt_peak_equity := max (bt_peak_equity st) (total_equity (be_portfolio (bt_engine st)))\<rparr>"
    using assms(1) by (auto simp: track_drawdown_def Let_def bind_result_Inr_iff)
  with assms(2) show ?thesis
    by (simp add: bt_ok_def engine_ok_def audit_ok_def costs_ok_def traced_def pf_ok_def)
qed

lemma execute_pendings_ok:
  "fold_result (execute_pending strategy candles i p t) gs (be, s) = Inr (be', s') \<Longrightarrow>
     engine_ok be ps \<Longrightarrow> set gs \<subseteq> set (be_signals be) \<Longrightarrow>
     engine_ok be' ps \<and> be_config be' = be_config be \<and> be_signals be' = be_signals be"
proof (induction gs arbitrary: be s)
  case (Cons g gs)
  obtain be1 s1 where q: "execute_pending strategy candles i p t g (be, s) = Inr (be1, s1)"
      "fold_result (execute_pending strategy candles i p t) gs (be1, s1) = Inr (be', s')"
    using Cons.prems(1) by (auto simp: bind_result_Inr_iff)
  have "g \<in> set (be_signals be)" using Cons.prems(3) by simp
  from execute_pending_ok [OF q(1) Cons.prems(2) this] Cons.IH [OF q(2)] Cons.prems(3)
  show ?case by simp
qed simp

lemma execute_levels_ok:
  "fold_result (execute_level candles i t run_id) es (b, be) = Inr (b', be') \<Longrightarrow> engine_ok be ps \<Longrightarrow>
     engine_ok be' ps \<and> be_config be' = be_config be"
proof (induction es arbitrary: b be)
  case (Cons e es)
  obtain b1 be1 where q: "execute_level candles i t run_id e (b, be) = Inr (b1, be1)"
      "fold_result (execute_level candles i t run_id) es (b1, be1) = Inr (b', be')"
    using Cons.prems(1) by (auto simp: bind_result_Inr_iff)
  from execute_level_ok [OF q(1) Cons.prems(2)] Cons.IH [OF q(2)] show ?case by simp
qed simp

lemma run_candle_cases:
  assumes "run_candle strategy provider run_id candles (i, c) st = Inr st'"
  obtains be1 s1 b be2 st1 where
    "fold_result (execute_pending strategy candles i (candle_get (cd_open c) (cd_close c))
        (cd_open_time c)) (bt_pending st) (bt_engine st, bt_strategy_state st) = Inr (be1, s1)"
    "fold_result (execute_level candles i (cd_open_time c) run_id)
        (check_intrabar_exits (be_portfolio be1)
           [(cd_symbol c, \<lparr>ohl_open = candle_get (cd_open c) (cd_close c),
              ohl_high = candle_get (cd_high c) (cd_close c),
              ohl_low = candle_get (cd_low c) (cd_close c)\<rparr>)]) (False, be1) = Inr (b, be2)"
    "ask_strategy strategy provider run_id i c b
       (st\<lparr>bt_engine := mark_to_market c (candle_get (cd_high c) (cd_close c)) be2,
           bt_strategy_state := s1, bt_pending := []\<rparr>) = Inr st1"
    "track_drawdown st1 = Inr st'"
  using assms by (auto simp: run_candle_def Let_def bind_result_Inr_iff)

lemma engine_ok_no_pending: "engine_ok be ps \<Longrightarrow> engine_ok be []"
  by (simp add: engine_ok_def traced_def)

lemma run_candle_ok:
  assumes "run_candle strategy provider run_id candles (i, c) st = Inr st'" "bt_ok st" "0 \<le> cd_close c"
  shows "bt_ok st' \<and> be_config (bt_engine st') = be_config (bt_engine st)"
  using assms(1)
proof (cases rule: run_candle_cases)
  case (1 be1 s1 b be2 st1)
  have "engine_ok (bt_engine st) (bt_pending st)" "set (bt_pending st) \<subseteq> set (be_signals (bt_engine st))"
    using assms(2) by (auto simp: bt_ok_def engine_ok_def traced_def)
  note p = execute_pendings_ok [OF 1(1) this]
  note l = execute_levels_ok [OF 1(2), of "bt_pending st"]
  note m = mark_to_market_ok [of be2 "bt_pending st" c "candle_get (cd_high c) (cd_close c)", OF _ assms(3)]
  let ?st = "st\<lparr>bt_engine := mark_to_market c (candle_get (cd_high c) (cd_close c)) be2,
           bt_strategy_state := s1, bt_pending := []\<rparr>"
  have "bt_ok ?st" using p l m by (auto simp: bt_ok_def intro: engine_ok_no_pending)
  from ask_strategy_ok [OF 1(3) this] track_drawdown_ok [OF 1(4)] p l m show ?thesis by simp
qed

lemma run_candles_invariant:
  assumes "run_candles strategy provider run_id candles st = Inr st'" "P st"
    "\<And>i c s s'. c \<in> set candles \<Longrightarrow> P s \<Longrightarrow>
       run_candle strategy provider run_id candles (i, c) s = Inr s' \<Longrightarrow> P s'"
  shows "P st'"
  using assms(1,2) unfolding run_candles_def
proof (rule fold_result_invariant)
  fix x s s'
  assume x: "x \<in> set (zip [0..<length candles] candles)" "P s"
    "run_candle strategy provider run_id candles x s = Inr s'"
  obtain i c where ic: "x = (i, c)" by (cases x)
  have "c \<in> set candles" using x(1) unfolding ic by (rule set_zip_rightD)
  from assms(3) [OF this x(2) x(3) [unfolded ic]] show "P s'" .
qed

lemma run_candles_ok:
  assumes "run_candles strategy provider run_id candles st = Inr st'" "bt_ok st"
    "\<forall>c \<in> set candles. 0 \<le> cd_close c"
  shows "bt_ok st' \<and> be_config (bt_engine st') = be_config (bt_engine st)"
  by (rule run_candles_invariant [OF assms(1),
        of "\<lambda>s. bt_ok s \<and> be_config (bt_engine s) = be_config (bt_engine st)"])
    (use assms run_candle_ok in fastforce)+

lemma liquidate_position_ok:
  assumes "liquidate_position candles run_id c sp be = Inr be'" "engine_ok be ps"
  shows "engine_ok be' ps \<and> be_config be' = be_config be"
proof -
  obtain u be1 where u: "draw_uuid be = (u, be1)" by force
  note v = draw_uuid_view [OF u]
  from assms(1) u obtain i g t f where "process_signal candles i g t be1 = Inr (f, be')"
    by (auto simp: liquidate_position_def bind_result_Inr_iff)
  from process_signal_ok [OF _ this] engine_ok_view [OF v] assms(2) v
  show ?thesis by (auto simp: audit_view_eq)
qed

lemma finish_run_ok:
  assumes "finish_run candles run_id be = Inr be'" "engine_ok be ps"
  shows "engine_ok be' ps"
proof (cases "candles \<noteq> [] \<and> bc_end_position_policy (be_config be) = ''liquidate''")
  case True
  with assms(1) have f: "fold_result (liquidate_position candles run_id (last candles))
      (pf_positions (be_portfolio be)) be = Inr be'" by (simp add: finish_run_def)
  show ?thesis
    by (rule fold_result_invariant [OF f, of "\<lambda>be. engine_ok be ps"])
      (use assms(2) liquidate_position_ok in auto)
next
  case False
  with assms show ?thesis by (auto simp: finish_run_def)
qed

lemma engine_ok_new:
  assumes "0 \<le> minimum_fee (bc_commission_config cfg)" "slippage_config_ok (bc_slippage_config cfg)"
  shows "engine_ok (new_backtest_engine cfg re rng uuid clock) []"
  using assms
  by (simp add: engine_ok_def audit_ok_def costs_ok_def traced_def new_backtest_engine_def)

lemma run_backtest_ok:
  assumes "run_backtest be candles strategy s provider = Inr (res, be', s')" "engine_ok be []"
    "\<forall>c \<in> set candles. 0 \<le> cd_close c"
  shows "engine_ok be' [] \<and> res = calculate_results be'"
proof -
  obtain run_id be1 where u: "draw_uuid be = (run_id, be1)" by force
  obtain st where st: "run_candles strategy provider run_id candles (initial_bt_state be1 s) = Inr st"
      "finish_run candles run_id (bt_engine st) = Inr be'" "res = calculate_results be'"
    using assms(1) u by (auto simp: run_backtest_def bind_result_Inr_iff)
  have "bt_ok (initial_bt_state be1 s)"
    using engine_ok_view [OF draw_uuid_view [OF u]] assms(2) by (simp add: bt_ok_def initial_bt_state_def)
  with run_candles_ok [OF st(1) _ assms(3)] have "engine_ok (bt_engine st) (bt_pending st)"
    by (simp add: bt_ok_def)
  from finish_run_ok [OF st(2) this] st(3) show ?thesis by (auto intro: engine_ok_no_pending)
qed

section \<open>Causality\<close>

lemma take_prefix: "i \<le> length xs \<Longrightarrow> take i (xs @ ys) = take i xs"
  by simp

lemma average_completed_volume_prefix:
  "i \<le> length xs \<Longrightarrow>
     average_completed_volume (xs @ ys) i symbol n = average_completed_volume xs i symbol n"
  by (simp add: average_completed_volume_def completed_volumes_def)

lemma execute_pending_prefix:
  "i \<le> length xs \<Longrightarrow>
     execute_pending strategy (xs @ ys) i p t = execute_pending strategy xs i p t"
  by (intro ext) (simp add: execute_pending_def average_completed_volume_prefix)

lemma process_signal_prefix:
  "i \<le> length xs \<Longrightarrow> process_signal (xs @ ys) i g t be = process_signal xs i g t be"
  by (simp add: process_signal_def average_completed_volume_prefix)

lemma execute_level_prefix:
  assumes "i \<le> length xs"
  shows "execute_level (xs @ ys) i t run_id = execute_level xs i t run_id"
  unfolding execute_level_def fun_eq_iff process_signal_prefix [OF assms] by simp

lemma run_candle_prefix:
  "i \<le> length xs \<Longrightarrow>
     run_candle strategy provider run_id (xs @ ys) (i, c) st
       = run_candle strategy provider run_id xs (i, c) st"
  by (simp add: run_candle_def execute_pending_prefix execute_level_prefix)

lemma zip_upt_append:
  "zip [0..<length (xs @ ys)] (xs @ ys)
     = zip [0..<length xs] xs @ zip [length xs..<length xs + length ys] ys"
  by (simp add: upt_add_eq_append [of 0] zip_append)

lemma run_candles_prefix:
  "run_candles strategy provider run_id (xs @ ys) st =
     bind_result (run_candles strategy provider run_id xs st)
       (fold_result (run_candle strategy provider run_id (xs @ ys))
          (zip [length xs..<length xs + length ys] ys))"
proof -
  have "fold_result (run_candle strategy provider run_id (xs @ ys)) (zip [0..<length xs] xs) st
      = fold_result (run_candle strategy provider run_id xs) (zip [0..<length xs] xs) st"
    by (rule fold_result_cong) (auto simp: run_candle_prefix dest!: set_zip_leftD)
  then show ?thesis
    unfolding run_candles_def zip_upt_append fold_result_append by simp
qed

section \<open>The maximum drawdown\<close>

lemma track_drawdown_bounds:
  assumes "track_drawdown st = Inr st'"
  shows "pf_max_drawdown (be_portfolio (bt_engine st)) \<le> pf_max_drawdown (be_portfolio (bt_engine st'))"
    "bt_peak_equity st \<le> bt_peak_equity st'"
    "total_equity (be_portfolio (bt_engine st')) \<le> bt_peak_equity st'"
    "ddiv (dsub (bt_peak_equity st') (total_equity (be_portfolio (bt_engine st')))) (bt_peak_equity st')
       \<le> pf_max_drawdown (be_portfolio (bt_engine st'))"
  using assms
  by (auto simp: track_drawdown_def Let_def bind_result_Inr_iff ddiv_or_raise_Inr_iff total_equity_def)

section \<open>Execution at the next open\<close>

text \<open>The orders an operation adds, each satisfying a condition.\<close>

definition new_orders :: "(order \<Rightarrow> bool) \<Rightarrow> backtest_engine \<Rightarrow> backtest_engine \<Rightarrow> bool" where
  "new_orders Q be be' \<longleftrightarrow> (\<exists>os. be_orders be' = be_orders be @ os \<and> (\<forall>o1 \<in> set os. Q o1))"

lemma new_orders_refl: "be_orders be' = be_orders be \<Longrightarrow> new_orders Q be be'"
  by (auto simp: new_orders_def)

lemma new_orders_trans: "new_orders Q a b \<Longrightarrow> new_orders Q b c \<Longrightarrow> new_orders Q a c"
  by (auto simp: new_orders_def)

lemma new_orders_mono: "new_orders Q a b \<Longrightarrow> (\<And>o1. Q o1 \<Longrightarrow> R o1) \<Longrightarrow> new_orders R a b"
  by (auto simp: new_orders_def)

lemma settle_orders: "settle be o1 p q c = Inr (Some be') \<Longrightarrow> be_orders be' = be_orders be"
  by (auto simp: settle_def bind_result_Inr_iff split: if_splits option.splits prod.splits)

lemma execute_order_orders:
  "execute_order be o1 v = Inr (r, be') \<Longrightarrow> be_orders be' = be_orders be"
  by (erule execute_order_cases)
    (auto dest!: decide_order_view next_id_view settle_orders simp: audit_view_eq)

definition order_for :: "signal \<Rightarrow> decimal \<Rightarrow> timestamp \<Rightarrow> order \<Rightarrow> bool" where
  "order_for g p t o1 \<longleftrightarrow>
     ord_signal o1 = g \<and> ord_requested_price o1 = p \<and> ord_created_at o1 = t"

lemma place_order_orders:
  assumes "place_order be g side q p t = (o1, be1)"
  shows "be_orders be1 = be_orders be @ [o1] \<and> order_for g p t o1"
proof -
  obtain oid be0 where n: "next_id ''order'' be = (oid, be0)" by force
  from next_id_view [OF n] have "be_orders be0 = be_orders be" by simp
  with assms n show ?thesis by (auto simp: place_order_def Let_def order_for_def)
qed

lemma create_and_execute_order_orders:
  assumes "create_and_execute_order be g p t v = Inr (r, be')"
  shows "new_orders (order_for g p t) be be'"
proof -
  have exec: ?thesis
    if "place_order be g side q p t = (o1, be1)" "execute_order be1 o1 v = Inr (r, be')" for side q o1 be1
    using place_order_orders [OF that(1)] execute_order_orders [OF that(2)]
    by (auto simp: new_orders_def)
  from assms obtain action where a: "parse_signal_action (sig_action g) = Inr action"
    by (auto simp: create_and_execute_order_def bind_result_Inr_iff)
  show ?thesis
    using assms a exec
    by (auto simp: create_and_execute_order_def intro: new_orders_refl
        split: prod.splits if_splits option.splits)
qed

definition next_open_order :: "signal list \<Rightarrow> candle \<Rightarrow> order \<Rightarrow> bool" where
  "next_open_order pending c o1 \<longleftrightarrow>
     ord_created_at o1 = cd_open_time c \<and>
     (ord_signal o1 \<in> set pending \<and>
        ord_requested_price o1 = candle_get (cd_open c) (cd_close c) \<or>
      sig_strategy (ord_signal o1) = ''backtest_engine'' \<and>
        ord_requested_price o1 = sig_price (ord_signal o1))"

lemma execute_pendings_orders:
  "fold_result (execute_pending strategy candles i (candle_get (cd_open c) (cd_close c))
       (cd_open_time c)) gs (be, s) = Inr (be', s') \<Longrightarrow> set gs \<subseteq> set pending \<Longrightarrow>
     new_orders (next_open_order pending c) be be'"
proof (induction gs arbitrary: be s)
  case (Cons g gs)
  obtain be1 s1 where q: "execute_pending strategy candles i (candle_get (cd_open c) (cd_close c))
        (cd_open_time c) g (be, s) = Inr (be1, s1)"
      "fold_result (execute_pending strategy candles i (candle_get (cd_open c) (cd_close c))
        (cd_open_time c)) gs (be1, s1) = Inr (be', s')"
    using Cons.prems(1) by (auto simp: bind_result_Inr_iff)
  have "new_orders (order_for g (candle_get (cd_open c) (cd_close c)) (cd_open_time c)) be be1"
    using q(1) by (auto simp: execute_pending_def bind_result_Inr_iff
        dest: create_and_execute_order_orders)
  then have "new_orders (next_open_order pending c) be be1"
    by (rule new_orders_mono) (use Cons.prems(2) in \<open>auto simp: order_for_def next_open_order_def\<close>)
  with Cons.IH [OF q(2)] Cons.prems(2) show ?case by (auto intro: new_orders_trans)
qed (auto intro: new_orders_refl)

lemma execute_level_orders:
  assumes "execute_level candles i (cd_open_time c) run_id e (b, be) = Inr (b', be')"
  shows "new_orders (next_open_order pending c) be be'"
proof (cases "get_position (be_portfolio be) (ev_symbol e)")
  case None
  with assms show ?thesis by (auto simp: execute_level_def intro: new_orders_refl)
next
  case (Some p)
  obtain u be1 where u: "draw_uuid be = (u, be1)" by force
  let ?g = "engine_close_signal u (ev_symbol e) (ev_reference_price e) (pos_quantity p)
      (cd_open_time c) (ev_reason e) ''intrabar_level'' run_id"
  from assms Some u obtain f v where
    "create_and_execute_order (be1\<lparr>be_signals := be_signals be1 @ [?g]\<rparr>) ?g (sig_price ?g)
       (cd_open_time c) v = Inr (f, be')"
    by (auto simp: execute_level_def process_signal_def bind_result_Inr_iff)
  from create_and_execute_order_orders [OF this]
  have "new_orders (next_open_order pending c) (be1\<lparr>be_signals := be_signals be1 @ [?g]\<rparr>) be'"
    by (rule new_orders_mono) (auto simp: order_for_def next_open_order_def engine_close_signal_def)
  with draw_uuid_view [OF u] show ?thesis by (simp add: new_orders_def audit_view_eq)
qed

lemma execute_levels_orders:
  "fold_result (execute_level candles i (cd_open_time c) run_id) es (b, be) = Inr (b', be') \<Longrightarrow>
     new_orders (next_open_order pending c) be be'"
proof (induction es arbitrary: b be)
  case (Cons e es)
  obtain b1 be1 where q: "execute_level candles i (cd_open_time c) run_id e (b, be) = Inr (b1, be1)"
      "fold_result (execute_level candles i (cd_open_time c) run_id) es (b1, be1) = Inr (b', be')"
    using Cons.prems by (auto simp: bind_result_Inr_iff)
  from execute_level_orders [OF q(1)] Cons.IH [OF q(2)] show ?case by (rule new_orders_trans)
qed (auto intro: new_orders_refl)

lemma queue_signals_orders:
  "fold_result (queue_signal c t run_id) raws (ps, be) = Inr (ps', be') \<Longrightarrow>
     be_orders be' = be_orders be \<and> be_fills be' = be_fills be"
proof (induction raws arbitrary: ps be)
  case (Cons raw raws)
  obtain ps1 be1 where q: "queue_signal c t run_id raw (ps, be) = Inr (ps1, be1)"
      "fold_result (queue_signal c t run_id) raws (ps1, be1) = Inr (ps', be')"
    using Cons.prems by (auto simp: bind_result_Inr_iff)
  have "be_orders be1 = be_orders be \<and> be_fills be1 = be_fills be"
    using q(1) by (auto simp: queue_signal_def bind_result_Inr_iff audit_view_eq
        dest!: normalize_signal_view)
  with Cons.IH [OF q(2)] show ?case by simp
qed simp

lemma ask_strategy_orders:
  assumes "ask_strategy strategy provider run_id i c b st = Inr st'"
  shows "be_orders (bt_engine st') = be_orders (bt_engine st) \<and>
     be_fills (bt_engine st') = be_fills (bt_engine st)"
proof -
  obtain raw s be raws ps be' where a:
      "(if b then Inr (RawNone, bt_strategy_state st, bt_engine st)
        else strategy_signals strategy c (candle_indicators provider c i)
               (bt_strategy_state st) (bt_engine st)) = Inr (raw, s, be)"
      "fold_result (queue_signal c (cd_open_time c) run_id) raws ([], be) = Inr (ps, be')"
      "st' = st\<lparr>bt_engine := be', bt_strategy_state := s, bt_pending := ps\<rparr>"
    using assms(1) by (auto simp: ask_strategy_def bind_result_Inr_iff)
  have "audit_view be = audit_view (bt_engine st)"
    using a(1) by (auto dest: strategy_signals_view split: if_splits)
  with queue_signals_orders [OF a(2)] a(3) show ?thesis by (simp add: audit_view_eq)
qed

lemma run_candle_orders:
  assumes "run_candle strategy provider run_id candles (i, c) st = Inr st'"
  shows "new_orders (next_open_order (bt_pending st) c) (bt_engine st) (bt_engine st')"
  using assms
proof (cases rule: run_candle_cases)
  case (1 be1 s1 b be2 st1)
  have "new_orders (next_open_order (bt_pending st) c) (bt_engine st) be2"
    using execute_pendings_orders [OF 1(1) subset_refl] execute_levels_orders [OF 1(2)]
    by (rule new_orders_trans)
  moreover have "be_orders (bt_engine st') = be_orders be2"
    using ask_strategy_orders [OF 1(3)] 1(4)
    by (auto simp: mark_to_market_def Let_def track_drawdown_def bind_result_Inr_iff)
  ultimately show ?thesis by (simp add: new_orders_def)
qed

section \<open>Results\<close>

lemma calculate_results_counts:
  "br_winning_trades (calculate_results be) + br_losing_trades (calculate_results be)
     = br_total_trades (calculate_results be)"
proof -
  have "length (filter (\<lambda>p. 0 < p) ps) + length (filter (\<lambda>p. p \<le> 0) ps) = length ps"
    for ps :: "decimal list"
    by (induction ps) auto
  then show ?thesis by (simp add: calculate_results_def Let_def)
qed

lemma dsum_close_pnls: "dsum (map trade_pnl ts) = dsum (List.map_filter close_trade_pnl ts)"
proof (induction ts rule: rev_induct)
  case (snoc t ts)
  have "dadd (dsum xs) 0 = dsum xs" for xs by (simp add: dadd_def)
  with snoc show ?case by (cases t) (simp_all add: dsum_snoc List.map_filter_def)
qed (simp add: List.map_filter_def)

lemma calculate_results_total_pnl:
  "br_total_pnl (calculate_results be) = realized_pnl (be_portfolio be)"
  by (simp add: calculate_results_def Let_def close_pnls_def realized_pnl_def dsum_close_pnls)

text \<open>The longest losing streak, as the loop computes it and as a maximum over sublists.\<close>

definition losing :: "decimal list \<Rightarrow> bool" where
  "losing xs \<longleftrightarrow> (\<forall>x \<in> set xs. x \<le> 0)"

definition current_losses :: "decimal list \<Rightarrow> nat" where
  "current_losses xs = length (takeWhile (\<lambda>x. x \<le> 0) (rev xs))"

lemma loss_streak_fold:
  "foldl (\<lambda>x pnl. loss_streak_step pnl x) (0, 0) pnls = (c, m) \<Longrightarrow>
     c = current_losses pnls \<and>
     (\<forall>ys. sublist ys pnls \<longrightarrow> losing ys \<longrightarrow> length ys \<le> m) \<and>
     (\<exists>ys. sublist ys pnls \<and> losing ys \<and> length ys = m)"
proof (induction pnls arbitrary: c m rule: rev_induct)
  case Nil
  then show ?case by (auto simp: current_losses_def losing_def)
next
  case (snoc x pnls)
  obtain c0 m0 where f: "foldl (\<lambda>x pnl. loss_streak_step pnl x) (0, 0) pnls = (c0, m0)" by force
  note IH = snoc.IH [OF f]
  have cm: "c = (if x \<le> 0 then Suc c0 else 0)" "m = max m0 c"
  proof -
    have "loss_streak_step x (c0, m0) = (c, m)" using snoc.prems f by simp
    then show "c = (if x \<le> 0 then Suc c0 else 0)" "m = max m0 c"
      by (auto simp: loss_streak_step_def Let_def)
  qed
  have c: "c = current_losses (pnls @ [x])"
    using IH cm(1) by (simp add: current_losses_def)
  have suff: "length ys \<le> current_losses zs" if suf: "suffix ys zs" and los: "losing ys" for ys zs
  proof -
    have "takeWhile (\<lambda>x. x \<le> 0) (rev ys) = rev ys"
      using los by (simp add: losing_def takeWhile_eq_all_conv)
    moreover obtain us where "zs = us @ ys" using suf by (auto simp: suffix_def)
    ultimately show ?thesis by (simp add: current_losses_def takeWhile_append)
  qed
  have le: "length ys \<le> m" if sub: "sublist ys (pnls @ [x])" and los: "losing ys" for ys
  proof -
    have "sublist ys pnls \<or> suffix ys (pnls @ [x])"
      using sub by (auto simp: sublist_snoc suffix_snoc)
    then show ?thesis using IH los suff [of ys "pnls @ [x]"] cm(2) c by fastforce
  qed
  have "\<exists>ys. sublist ys (pnls @ [x]) \<and> losing ys \<and> length ys = c"
  proof (intro exI conjI)
    let ?ys = "rev (takeWhile (\<lambda>x. x \<le> 0) (rev (pnls @ [x])))"
    show "sublist ?ys (pnls @ [x])"
      using takeWhile_is_prefix [of "\<lambda>x. x \<le> 0" "rev (pnls @ [x])"]
      by (simp only: suffix_to_prefix rev_rev_ident suffix_imp_sublist)
    show "losing ?ys" by (auto simp: losing_def dest: set_takeWhileD)
    show "length ?ys = c" by (simp add: c current_losses_def)
  qed
  moreover have "\<exists>ys. sublist ys (pnls @ [x]) \<and> losing ys \<and> length ys = m0"
    using IH by (auto simp: sublist_snoc)
  ultimately have "\<exists>ys. sublist ys (pnls @ [x]) \<and> losing ys \<and> length ys = m"
    using cm(2) by (auto simp: max_def)
  with c le show ?case by blast
qed

lemma max_consecutive_losses_is_max:
  "(\<forall>ys. sublist ys pnls \<longrightarrow> losing ys \<longrightarrow> length ys \<le> max_consecutive_losses pnls) \<and>
   (\<exists>ys. sublist ys pnls \<and> losing ys \<and> length ys = max_consecutive_losses pnls)"
  using loss_streak_fold [of pnls] unfolding max_consecutive_losses_def by (metis prod.collapse)

section \<open>Strategies under the engine\<close>

context spot_strategy
begin

lemma base_signals_inv:
  "base_strategy_signals ops c ind s be = Inr (g, s', be') \<Longrightarrow> inv s \<Longrightarrow> inv s'"
  by (erule base_strategy_signals_cases) (auto intro: enter_inv exit_inv dca_inv)

lemma base_signals_action:
  "base_strategy_signals ops c ind s be = Inr (Some g, s', be') \<Longrightarrow>
     sig_symbol g = cd_symbol c \<and> sig_timestamp g = cd_open_time c \<and>
     (sig_action g = ''open_long'' \<or>
      sig_action g = ''close'' \<and> has_position (be_portfolio be) (cd_symbol c))"
  by (erule base_strategy_signals_cases)
    (auto simp: has_position_def get_position_def dest!: enter_signal exit_signal dca_signal)

lemma on_fill_inv:
  "strategy_on_fill (BaseStrategy ops) s g f = Inr s' \<Longrightarrow> inv s \<Longrightarrow> inv s'"
  by (auto simp: strategy_on_fill_def intro: fill_inv split: option.splits)

lemma execute_pendings_inv:
  "fold_result (execute_pending (BaseStrategy ops) candles i p t) gs (be, s) = Inr (be', s') \<Longrightarrow>
     inv s \<Longrightarrow> inv s'"
proof (induction gs arbitrary: be s)
  case (Cons g gs)
  obtain be1 s1 where q: "execute_pending (BaseStrategy ops) candles i p t g (be, s) = Inr (be1, s1)"
      "fold_result (execute_pending (BaseStrategy ops) candles i p t) gs (be1, s1) = Inr (be', s')"
    using Cons.prems(1) by (auto simp: bind_result_Inr_iff)
  have "inv s1" using q(1) Cons.prems(2)
    by (auto simp: execute_pending_def bind_result_Inr_iff intro: on_fill_inv)
  with Cons.IH [OF q(2)] show ?case .
qed simp

lemma run_candle_inv:
  assumes "run_candle (BaseStrategy ops) provider run_id candles (i, c) st = Inr st'"
    "inv (bt_strategy_state st)"
  shows "inv (bt_strategy_state st')"
  using assms(1)
proof (cases rule: run_candle_cases)
  case (1 be1 s1 b be2 st1)
  have "inv s1" using execute_pendings_inv [OF 1(1) assms(2)] .
  then have "inv (bt_strategy_state st1)"
    using 1(3) by (auto simp: ask_strategy_def strategy_signals_def bind_result_Inr_iff
        intro: base_signals_inv split: if_splits)
  with 1(4) show ?thesis by (auto simp: track_drawdown_def Let_def bind_result_Inr_iff)
qed

lemma run_backtest_inv:
  assumes "run_backtest be candles (BaseStrategy ops) s provider = Inr (res, be', s')" "inv s"
  shows "inv s'"
proof -
  obtain run_id be1 st where st: "run_candles (BaseStrategy ops) provider run_id candles
      (initial_bt_state be1 s) = Inr st" "s' = bt_strategy_state st"
    using assms(1) by (auto simp: run_backtest_def bind_result_Inr_iff split: prod.splits)
  show ?thesis unfolding st(2)
    by (rule run_candles_invariant [OF st(1), of "\<lambda>st. inv (bt_strategy_state st)"])
      (use assms(2) run_candle_inv in \<open>auto simp: initial_bt_state_def\<close>)
qed

end

end
