(* ===== verification/Properties_Trading.thy ===== *)
theory Properties_Trading
  imports Risk
begin

text \<open>
  The properties of the costs, the portfolio and the risk engine, each with a witness that applies
  it to concrete values.
\<close>

section \<open>Examples\<close>

definition ex_position :: position where
  "ex_position = new_position ''BTCUSDT'' ''long'' 100 2 0 (Some 90) (Some 120) (1 / 5)"

definition ex_portfolio :: portfolio where
  "ex_portfolio = (new_portfolio 5000)\<lparr>pf_positions := [(''BTCUSDT'', ex_position)]\<rparr>"

definition ex_check :: "string \<Rightarrow> decimal \<Rightarrow> decimal \<Rightarrow> trade_check" where
  "ex_check side quantity price =
     \<lparr>tc_symbol = ''BTCUSDT'', tc_side = side, tc_quantity = quantity, tc_price = price,
      tc_current_balance = 4800,
      tc_current_positions =
        [(''BTCUSDT'', \<lparr>pv_symbol = Some ''BTCUSDT'', pv_side = Some ''long'', pv_value = Some 200\<rparr>)],
      tc_total_capital = 5000, tc_stop_loss_price = None, tc_database_available = None,
      tc_api_available = None, tc_reconciliation_ok = None, tc_order_statuses = []\<rparr>"

definition ex_engine :: risk_engine where
  "ex_engine = new_risk_engine default_risk_config (Some \<lparr>st_state = None, st_events = []\<rparr>)"

definition ex_uniform :: uniform_source where
  "ex_uniform n lo hi = lo"

lemma ex_uniform_ok: "uniform_ok ex_uniform"
  by (simp add: uniform_ok_def ex_uniform_def)

definition ex_slippage :: slippage_model where
  "ex_slippage = \<lparr>slip_config = default_slippage_config, slip_rng = ex_uniform, slip_draws = 0\<rparr>"

lemmas ex_trade_simps =
  check_trade_def apply_guards_fired fired_def risk_guards_def adjusted_quantity_def
  invalid_trade_def reducing_def exposure_increase_def exposure_after_def exposure_before_def
  other_exposure_def order_value_def position_signed_value_def unknown_statuses_def override_def
  str_lower_def lower_char_def ex_check_def ex_engine_def new_risk_engine_def load_state_def
  fresh_risk_engine_def default_risk_config_def decimal_ops dsum_def Let_def

section \<open>Risk\<close>

text \<open>
  C1: \<open>check_trade\<close> fails closed, exactly: it approves a trade if and only if the trade is valid and
  either does not increase the exposure to its symbol, or the system is operational (no emergency
  stop, database, API and reconciliation available, all order statuses known, data fresh) and every
  limit of the configuration holds.
\<close>

theorem check_trade_exact:
  "rc_approved (fst (check_trade re tc now)) \<longleftrightarrow>
     \<not> invalid_trade tc \<and> (reducing tc \<or> operational re tc now \<and> within_limits re tc)"
  by (rule check_trade_approved_iff)

text \<open>
  A sell worth at most twice the exposure held is approved in every state of the engine:
  neither an emergency stop nor an exceeded loss limit keeps a holder from reducing.
\<close>

theorem reducing_sell_always_approved:
  assumes "\<not> invalid_trade tc" "str_lower (tc_side tc) = ''sell''"
    "order_value tc \<le> 2 * exposure_before tc"
  shows "rc_approved (fst (check_trade re tc now))"
proof -
  have "0 \<le> order_value tc" using assms(1) by (simp add: order_value_def invalid_trade_def)
  from sell_reducing [OF assms(2) this assms(3)] assms(1) show ?thesis
    by (simp add: check_trade_approved_iff)
qed

lemma reducing_sell_always_approved_witness:
  "rc_approved (fst (check_trade (set_emergency_stop ex_engine True ''halt'') (ex_check ''sell'' 2 100) 0))"
  by (rule reducing_sell_always_approved) code_simp+

text \<open>
  C13: Durability. Whatever sequence of operations the engine went through, an engine started on the
  same store, under any configuration, resumes with the same losses, equity peak, emergency stop
  and error count.
\<close>

theorem risk_state_survives_restart:
  "\<exists>st'. re_state_store (foldl apply_risk_op (new_risk_engine cfg (Some st)) ops) = Some st' \<and>
     risk_state_of (new_risk_engine cfg' (Some st'))
       = risk_state_of (foldl apply_risk_op (new_risk_engine cfg (Some st)) ops)"
proof -
  obtain st' where
    "re_state_store (foldl apply_risk_op (new_risk_engine cfg (Some st)) ops) = Some st'"
    using apply_risk_ops_store [of "new_risk_engine cfg (Some st)" ops]
    by (auto simp: new_risk_engine_store)
  with risk_state_of_restart [OF synced_ops [OF synced_new]] show ?thesis by blast
qed

text \<open>
  From the fifth consecutive error on, the emergency stop is active, the stop is durable, and a
  trade that would increase exposure is refused with the code \<open>EMERGENCY_STOP\<close>.
\<close>

theorem five_errors_stop_opening:
  assumes "5 \<le> n" "0 \<le> re_consecutive_errors re" "\<not> reducing tc" "\<not> invalid_trade tc"
  shows "let re' = (record_error ^^ n) re; result = fst (check_trade re' tc now)
    in re_is_emergency_stop re' \<and> rs_is_emergency_stop (risk_state_of re') \<and>
       \<not> rc_approved result \<and> EMERGENCY_STOP \<in> set (rc_events result)"
proof -
  have stop: "re_is_emergency_stop ((record_error ^^ n) re)"
    using assms(1,2) by (simp add: record_errors_stop_iff)
  with emergency_stop_event [OF this assms(4,3)] show ?thesis
    by (simp add: Let_def risk_state_of_def check_trade_approved_iff assms operational_def)
qed

lemma five_errors_stop_opening_witness:
  "let re' = (record_error ^^ 5) ex_engine; result = fst (check_trade re' (ex_check ''buy'' 1 100) 0)
    in re_is_emergency_stop re' \<and> rs_is_emergency_stop (risk_state_of re') \<and>
       \<not> rc_approved result \<and> EMERGENCY_STOP \<in> set (rc_events result)"
  by (rule five_errors_stop_opening) code_simp+

text \<open>
  A proposed quantity is positive, comes with a rejection for the position size, and its value
  fits the room the position limit leaves, up to the rounding of one division.
\<close>

theorem adjusted_quantity_fits:
  assumes "rc_adjusted_quantity (fst (check_trade re tc now)) = Some q"
  shows "\<not> rc_approved (fst (check_trade re tc now)) \<and> 0 < q \<and>
     q * tc_price tc \<le> (1 + half_ulp) *
       dsub (dmul (tc_total_capital tc) (max_position_size (re_config re)))
         (dabs (exposure_before tc))"
  using check_trade_adjusted [OF assms] check_trade_adjusted_value [OF assms] by simp

lemma adjusted_quantity_fits_witness:
  "\<exists>q. rc_adjusted_quantity (fst (check_trade ex_engine (ex_check ''buy'' 10 100) 0)) = Some q \<and>
     0 < q \<and> q * 100 \<le> (1 + half_ulp) * 300"
proof -
  have q: "rc_adjusted_quantity (fst (check_trade ex_engine (ex_check ''buy'' 10 100) 0)) = Some 3"
    by (simp add: ex_trade_simps)
  have "dsub (dmul (tc_total_capital (ex_check ''buy'' 10 100)) (max_position_size (re_config ex_engine)))
      (dabs (exposure_before (ex_check ''buy'' 10 100))) = 300" "tc_price (ex_check ''buy'' 10 100) = 100"
    by (simp_all add: ex_trade_simps)
  with adjusted_quantity_fits [OF q] have "0 < (3 :: decimal) \<and> 3 * 100 \<le> (1 + half_ulp) * 300"
    by metis
  with q show ?thesis by blast
qed

text \<open>
  Reporting an equity series leaves the engine with its last value as the current equity and
  its running maximum, never below zero, as the peak.
\<close>

theorem equity_peak_is_running_maximum:
  "re_peak_equity (foldl update_equity (new_risk_engine cfg None) es) = Max (set (0 # es))"
  using update_equities_peak [of "new_risk_engine cfg None" es]
  by (simp add: new_risk_engine_def fresh_risk_engine_def)

section \<open>Portfolio\<close>

text \<open>
  C14: Opening never raises on a well-formed portfolio and a positive price. It is accepted exactly
  when the side is long, the quantity positive and the whole cost covered by the balance; then the
  balance stays non-negative and every other position is untouched. A refusal changes nothing.
\<close>

theorem open_position_never_overdraws:
  assumes "pf_ok pf" "0 < price" "0 \<le> commission"
  shows "\<exists>opened pf'. open_position pf s side price q t sl tp commission = Inr (opened, pf') \<and>
     pf_ok pf' \<and>
     (opened \<longleftrightarrow> side = ''long'' \<and> 0 < q \<and> dadd (dmul price q) commission \<le> pf_balance pf) \<and>
     (if opened
      then 0 \<le> pf_balance pf' \<and> has_position pf' s \<and>
        (\<forall>s'. s' \<noteq> s \<longrightarrow> get_position pf' s' = get_position pf s')
      else pf' = pf)"
proof -
  obtain opened pf' where o: "open_position pf s side price q t sl tp commission = Inr (opened, pf')"
      "pf_ok pf'"
    using open_position_ok [OF assms] by blast
  have iff: "opened \<longleftrightarrow> side = ''long'' \<and> 0 < q \<and> dadd (dmul price q) commission \<le> pf_balance pf"
    using o(1) by (auto simp: open_position_def Let_def bind_result_Inr_iff not_le split: if_splits)
  show ?thesis
  proof (cases opened)
    case True
    with o(1) have "open_position pf s side price q t sl tp commission = Inr (True, pf')" by simp
    from open_position_accepted [OF this] o iff True show ?thesis by auto
  next
    case False
    with o(1) have "open_position pf s side price q t sl tp commission = Inr (False, pf')" by simp
    from open_position_refused [OF this] o iff False show ?thesis by auto
  qed
qed

lemma open_position_never_overdraws_witness:
  "\<exists>opened pf'. open_position ex_portfolio ''ETHUSDT'' ''long'' 100 3 0 None None (3 / 10)
     = Inr (opened, pf') \<and> pf_ok pf' \<and>
     (opened \<longleftrightarrow> ''long'' = ''long'' \<and> (0 :: decimal) < 3 \<and>
        dadd (dmul 100 3) (3 / 10) \<le> pf_balance ex_portfolio) \<and>
     (if opened
      then 0 \<le> pf_balance pf' \<and> has_position pf' ''ETHUSDT'' \<and>
        (\<forall>s'. s' \<noteq> ''ETHUSDT'' \<longrightarrow> get_position pf' s' = get_position ex_portfolio s')
      else pf' = ex_portfolio)"
  by (rule open_position_never_overdraws)
    (simp_all add: ex_portfolio_def ex_position_def pf_ok_def position_ok_def new_position_def dict_wf_def)

text \<open>
  Adding to a position keeps the entry price a weighted average: it stays between the old entry
  price and the new fill price, up to a few units in the 28th digit, and the quantity and the
  accumulated commission are the (rounded) sums.
\<close>

theorem dca_entry_price_is_average:
  assumes "get_position pf s = Some p" "position_ok p" "0 < price"
    "open_position pf s side price q t sl tp c = Inr (True, pf')"
  shows "\<exists>p'. get_position pf' s = Some p' \<and>
     min (pos_entry_price p) price * (1 - 4 * half_ulp) \<le> pos_entry_price p' \<and>
     pos_entry_price p' \<le> max (pos_entry_price p) price * (1 + 5 * half_ulp) \<and>
     pos_quantity p' = dadd (pos_quantity p) q \<and>
     pos_entry_commission p' = dadd (pos_entry_commission p) c"
proof -
  have q: "0 < q" using open_position_accepted(2) [OF assms(4)] .
  obtain p' where p': "add_to_position p price q sl tp c = Inr p'" "get_position pf' s = Some p'"
    using assms(1,4)
    by (auto simp: open_position_def Let_def get_position_def bind_result_Inr_iff split: if_splits)
  have "pos_entry_price p' = ddiv (dadd (dmul (pos_entry_price p) (pos_quantity p)) (dmul price q))
      (dadd (pos_quantity p) q) \<and> pos_quantity p' = dadd (pos_quantity p) q \<and>
      pos_entry_commission p' = dadd (pos_entry_commission p) c"
    using p'(1) by (auto simp: add_to_position_def Let_def ddiv_or_raise_Inr_iff bind_result_Inr_iff)
  with p'(2) weighted_average_lower [of "min (pos_entry_price p) price" "pos_entry_price p" price
      "pos_quantity p" q] weighted_average_upper [of "pos_entry_price p" price
      "max (pos_entry_price p) price" "pos_quantity p" q] assms(2,3) q
  show ?thesis by (auto simp: position_ok_def)
qed

lemma dca_entry_price_is_average_witness:
  "\<exists>p'. get_position (projr (map_sum id snd
       (open_position ex_portfolio ''BTCUSDT'' ''long'' 80 2 1 None None (4 / 25)))) ''BTCUSDT'' = Some p' \<and>
     80 * (1 - 4 * half_ulp) \<le> pos_entry_price p' \<and> pos_entry_price p' \<le> 100 * (1 + 5 * half_ulp)"
proof -
  obtain pf' where o: "open_position ex_portfolio ''BTCUSDT'' ''long'' 80 2 1 None None (4 / 25)
      = Inr (True, pf')"
    by (simp add: open_position_def ex_portfolio_def ex_position_def new_position_def
        new_portfolio_def add_to_position_def ddiv_or_raise_def decimal_ops Let_def)
  have "get_position ex_portfolio ''BTCUSDT'' = Some ex_position" "position_ok ex_position"
    by (simp_all add: ex_portfolio_def get_position_def position_ok_def ex_position_def new_position_def)
  from dca_entry_price_is_average [OF this _ o] show ?thesis
    by (auto simp: o ex_position_def new_position_def)
qed

text \<open>
  Closing removes exactly that position, pays the proceeds into the balance and adds its profit
  to the realized profit, which is thus the sum of the profits of all closings; the portfolio stays
  well-formed.
\<close>

theorem close_position_settles:
  assumes "pf_ok pf" "has_position pf s"
  shows "\<exists>p. get_position pf s = Some p \<and>
     (case close_position pf s price t c of
        (None, _) \<Rightarrow> False
      | (Some pnl, pf') \<Rightarrow>
          pnl = close_pnl p price c \<and> pf_ok pf' \<and> \<not> has_position pf' s \<and>
          realized_pnl pf' = dadd (realized_pnl pf) pnl \<and>
          pf_balance pf' = dadd (pf_balance pf) (dsub (dmul price (pos_quantity p)) c) \<and>
          (\<forall>s'. s' \<noteq> s \<longrightarrow> get_position pf' s' = get_position pf s'))"
proof -
  obtain p where p: "get_position pf s = Some p"
    using assms(2) by (auto simp: has_position_def get_position_def)
  obtain pnl pf' where c: "close_position pf s price t c = (Some pnl, pf')"
    using p by (auto simp: close_position_def get_position_def Let_def)
  moreover have "pnl = close_pnl p price c"
    "pf_balance pf' = dadd (pf_balance pf) (dsub (dmul price (pos_quantity p)) c)"
    using c p by (auto simp: close_position_def get_position_def Let_def)
  ultimately show ?thesis
    using p realized_pnl_close [OF c] close_position_removes [OF c]
      close_position_ok [OF assms(1), of s price t c] by simp
qed

lemma close_position_settles_witness:
  "\<exists>p. get_position ex_portfolio ''BTCUSDT'' = Some p \<and>
     (case close_position ex_portfolio ''BTCUSDT'' 110 5 (22 / 100) of
        (None, _) \<Rightarrow> False
      | (Some pnl, pf') \<Rightarrow>
          pnl = close_pnl p 110 (22 / 100) \<and> pf_ok pf' \<and> \<not> has_position pf' ''BTCUSDT'' \<and>
          realized_pnl pf' = dadd (realized_pnl ex_portfolio) pnl \<and>
          pf_balance pf' = dadd (pf_balance ex_portfolio) (dsub (dmul 110 (pos_quantity p)) (22 / 100)) \<and>
          (\<forall>s'. s' \<noteq> ''BTCUSDT'' \<longrightarrow> get_position pf' s' = get_position ex_portfolio s'))"
  by (rule close_position_settles)
    (simp_all add: ex_portfolio_def ex_position_def pf_ok_def position_ok_def new_position_def
      dict_wf_def has_position_def)

text \<open>
  Within one candle a touched stop always wins over a touched take-profit, and fills at the
  worse of the stop and the open; a take-profit fills at its own level, only when the stop was not
  touched.
\<close>

theorem intrabar_stop_first:
  assumes "(s, p) \<in> set (pf_positions pf)" "pos_side p = ''long''" "map_of candles s = Some c"
    "pos_stop_loss p = Some sl"
  shows "if ohl_low c \<le> sl
     then \<exists>e \<in> set (check_intrabar_exits pf candles). ev_symbol e = s \<and>
       ev_reference_price e = min (ohl_open c) sl \<and> ev_reason e \<noteq> ''Take-profit hit'' \<and>
       intrabar_exit s p (Some c) = Some e
     else \<forall>tp. pos_take_profit p = Some tp \<longrightarrow>
       intrabar_exit s p (Some c) =
         (if tp \<le> ohl_high c
          then Some \<lparr>ev_symbol = s, ev_reference_price = tp, ev_reason = ''Take-profit hit''\<rparr>
          else None)"
proof (cases "ohl_low c \<le> sl")
  case True
  obtain e where e: "intrabar_exit s p (Some c) = Some e" "ev_reference_price e = min (ohl_open c) sl"
      "ev_reason e \<noteq> ''Take-profit hit''"
    using intrabar_exit_stop [OF assms(2,4) True] by blast
  then have "e \<in> set (check_intrabar_exits pf candles)"
    unfolding in_check_intrabar_exits using assms(1,3) by (intro exI [of _ s] exI [of _ p]) simp
  with e intrabar_exit_symbol [OF e(1)] True show ?thesis by auto
next
  case False
  with assms(2,4) show ?thesis by (auto simp: intrabar_exit_def)
qed

lemma intrabar_stop_first_witness:
  "\<exists>e \<in> set (check_intrabar_exits ex_portfolio
       [(''BTCUSDT'', \<lparr>ohl_open = 85, ohl_high = 130, ohl_low = 80\<rparr>)]).
     ev_symbol e = ''BTCUSDT'' \<and> ev_reference_price e = 85"
  using intrabar_stop_first [of "''BTCUSDT''" ex_position ex_portfolio
      "[(''BTCUSDT'', \<lparr>ohl_open = 85, ohl_high = 130, ohl_low = 80\<rparr>)]"
      "\<lparr>ohl_open = 85, ohl_high = 130, ohl_low = 80\<rparr>" 90]
  by (auto simp: ex_portfolio_def ex_position_def new_position_def min_def)

section \<open>Costs\<close>

text \<open>
  Slippage is total and adverse: with a sane configuration it always yields a price, a buy
  never executes below and a sell never above the requested price.
\<close>

theorem slippage_total_and_adverse:
  assumes "slippage_config_ok (slip_config m)" "uniform_ok (slip_rng m)" "0 \<le> price" "rnd price = price"
  shows "\<exists>e m'. calculate_slippage m price q v is_buy = Inr (e, m') \<and>
     (if is_buy then price \<le> e else e \<le> price) \<and> slip_config m' = slip_config m"
proof -
  obtain e m' where "calculate_slippage m price q v is_buy = Inr (e, m')"
    using calculate_slippage_total [OF assms(1), of price q v is_buy] by auto
  with calculate_slippage_adverse [OF assms(1,2) this assms(3,4)] calculate_slippage_keeps [OF this]
  show ?thesis by blast
qed

lemma slippage_total_and_adverse_witness:
  "\<exists>e m'. calculate_slippage ex_slippage 100 1 (Some 50) True = Inr (e, m') \<and>
     (if True then 100 \<le> e else e \<le> 100) \<and> slip_config m' = slip_config ex_slippage"
  by (rule slippage_total_and_adverse)
    (simp_all add: ex_slippage_def default_slippage_config_ok ex_uniform_ok)

text \<open>
  The commission is never below the configured minimum, and grows with the quantity and the
  price.
\<close>

theorem commission_bounds:
  assumes "0 \<le> q" "q \<le> q'" "0 \<le> p" "p \<le> p'" "0 \<le> maker_fee cfg" "0 \<le> taker_fee cfg"
  shows "minimum_fee cfg \<le> calculate_commission cfg q p m \<and>
     calculate_commission cfg q p m \<le> calculate_commission cfg q' p' m"
  using commission_ge_minimum commission_mono [OF assms] by blast

lemma commission_bounds_witness:
  "minimum_fee default_commission_config \<le> calculate_commission default_commission_config 1 100 False \<and>
   calculate_commission default_commission_config 1 100 False
     \<le> calculate_commission default_commission_config 2 110 False"
  by (rule commission_bounds) (simp_all add: default_commission_config_def)

text \<open>
  With the default configuration a sell of at least twelve percent of the average volume gets
  a negative execution price, and every risk check of a trade at that price rejects it as invalid:
  such a position can be neither closed nor liquidated.
\<close>

theorem large_sell_price_negative:
  assumes "slip_config m = default_slippage_config" "uniform_ok (slip_rng m)" "0 < price" "0 < v"
    "12 / 100 * v \<le> q"
  shows "\<exists>e m'. calculate_slippage m price q (Some v) False = Inr (e, m') \<and> e < 0 \<and>
     (\<forall>re tc now. tc_price tc = e \<longrightarrow> \<not> rc_approved (fst (check_trade re tc now)))"
proof -
  obtain e m' where e: "calculate_slippage m price q (Some v) False = Inr (e, m')" "e < 0"
    using large_sell_slippage [OF assms] by blast
  then show ?thesis by (auto simp: check_trade_approved_iff invalid_trade_def)
qed

lemma large_sell_price_negative_witness:
  "\<exists>e m'. calculate_slippage ex_slippage 100 15 (Some 100) False = Inr (e, m') \<and> e < 0 \<and>
     (\<forall>re tc now. tc_price tc = e \<longrightarrow> \<not> rc_approved (fst (check_trade re tc now)))"
  by (rule large_sell_price_negative) (simp_all add: ex_slippage_def ex_uniform_ok)

end
