(* ===== verification/Properties_Strategies.thy ===== *)
theory Properties_Strategies
  imports Breakout_Retest
begin

text \<open>
  The properties of the strategies, each with a witness that applies it to concrete candles.
\<close>

section \<open>Examples\<close>

definition ex_candle :: "timestamp \<Rightarrow> decimal \<Rightarrow> decimal \<Rightarrow> decimal \<Rightarrow> candle" where
  "ex_candle t high low close =
     \<lparr>cd_symbol = ''BTCUSDT'', cd_open_time = t, cd_open = None, cd_high = Some high,
      cd_low = Some low, cd_close = close, cd_volume = Some 1000, cd_indicators = None\<rparr>"

definition ex_indicators :: "string \<Rightarrow> indicators" where
  "ex_indicators r =
     no_indicators\<lparr>ema_50 := Some 95, ema_200 := Some 90, rsi := Some 40, regime := Some r,
       ema200_slope_10 := Some 2\<rparr>"

definition ex_flat :: portfolio_state where
  "ex_flat = \<lparr>ps_has_position = False, ps_capital = 5000, ps_available_balance = 5000\<rparr>"

definition ex_held :: "decimal \<Rightarrow> position_state" where
  "ex_held pct =
     \<lparr>po_symbol = ''BTCUSDT'', po_side = ''long'', po_entry_price = 100, po_quantity = 1,
      po_unrealized_pnl_pct = pct, po_holding_periods = 4, po_capital = 5000,
      po_high_water_mark = None\<rparr>"

definition ex_fill :: fill where
  "ex_fill = \<lparr>fill_fill_id = ''f'', fill_order_id = ''o'', fill_symbol = ''BTCUSDT'',
     fill_side = ''buy'', fill_quantity = 1, fill_price = 95, fill_commission = 1 / 10,
     fill_timestamp = 1, fill_run_id = '''', fill_signal_id = ''u''\<rparr>"

lemmas ex_strategy_simps =
  ex_candle_def ex_indicators_def ex_flat_def ex_held_def no_indicators_def candle_get_def
  TREND_UP_def TREND_DOWN_def new_trend_dca_def default_dca_config_def

section \<open>Trend DCA\<close>

text \<open>
  A base entry is made exactly when all four indicators are known, the regime is \<open>TREND_UP\<close>, no
  position is held, the close and the EMA-50 are above the EMA-200, the RSI does not exceed the
  threshold, the volatility, if known, is at most eighty percent, and the close is not zero.
\<close>

theorem trend_entry_exact:
  "(\<exists>g td'. trend_should_enter td u c ind ps = Inr (Some g, td')) \<longleftrightarrow>
     (\<exists>e200 e50 r. ema_200 ind = Some e200 \<and> ema_50 ind = Some e50 \<and> rsi ind = Some r \<and>
        regime ind = Some TREND_UP \<and> \<not> ps_has_position ps \<and> e200 < cd_close c \<and> e200 < e50 \<and>
        r \<le> rsi_entry_threshold (td_config td) \<and>
        (volatility ind = None \<or> the (volatility ind) \<le> 8 / 10) \<and> cd_close c \<noteq> 0)"
  unfolding trend_should_enter_Some_iff by (cases "volatility ind") auto

text \<open>
  A safety order is made only below the third level and only once the price has dropped by that
  level's threshold from the entry; its fill moves the symbol to the next level, so the level never
  exceeds three.
\<close>

theorem safety_order_ladder:
  assumes "trend_should_add_dca td u c ind po = Inr (Some g, td')" "dca_levels_ok td"
    "level = (case map_of (td_dca_levels td) (cd_symbol c) of None \<Rightarrow> 0 | Some n \<Rightarrow> n)"
  shows "0 \<le> level \<and> level < 3 \<and>
     dca_thresholds ! nat level
       \<le> ddiv (dsub (po_entry_price po) (cd_close c)) (po_entry_price po) \<and>
     (\<exists>td''. trend_on_fill td' g f = Inr td'' \<and> dca_levels_ok td'' \<and>
        map_of (td_dca_levels td'') (cd_symbol c) = Some (level + 1))"
proof -
  note l = trend_should_add_dca_level [OF assms(1,2), folded assms(3)]
  have sym: "sig_symbol g = cd_symbol c" using trend_should_add_dca_signal [OF assms(1)] by simp
  obtain td'' where f: "trend_on_fill td' g f = Inr td''"
      "map_of (td_dca_levels td'') (sig_symbol g) = Some (level + 1)"
    using l trend_on_fill_level [of g "level + 1" td' f] by blast
  have "dca_levels_ok td''"
    by (rule trend_on_fill_levels_range [OF f(1)])
      (use assms(2) l trend_should_add_dca_state [OF assms(1)] in auto)
  with l f sym show ?thesis by auto
qed

lemma safety_order_ladder_witness:
  "\<exists>g td' td''. trend_should_add_dca (new_trend_dca default_dca_config) ''u'' (ex_candle 1 96 94 95)
       (ex_indicators TREND_UP) (ex_held (- 5 / 100)) = Inr (Some g, td') \<and>
     trend_on_fill td' g ex_fill = Inr td'' \<and> map_of (td_dca_levels td'') ''BTCUSDT'' = Some 1"
proof -
  obtain g td' where g: "trend_should_add_dca (new_trend_dca default_dca_config) ''u''
      (ex_candle 1 96 94 95) (ex_indicators TREND_UP) (ex_held (- 5 / 100)) = Inr (Some g, td')"
    by (simp add: trend_should_add_dca_def ex_strategy_simps ddiv_or_raise_def py_index_def
        dca_thresholds_def dca_pcts_def decimal_ops Let_def)
  from safety_order_ladder [OF g, of 0 ex_fill] g show ?thesis
    by (auto simp: new_trend_dca_def dca_levels_ok_def ex_candle_def)
qed

text \<open>
  The exit decision always returns. An exit carries one of four reasons, each with its cause;
  and no exit means that the holding limit, the regime and the profit target all left the position
  open.
\<close>

theorem trend_exit_causes:
  "\<exists>r td'. trend_should_exit td u c ind po = Inr (r, td') \<and>
     (case r of
        Some g \<Rightarrow>
          sig_quantity g = po_quantity po \<and>
          (sig_reason g = ''Max holding period reached'' \<and>
             max_holding_periods (td_config td) \<le> po_holding_periods po \<or>
           sig_reason g = ''Regime changed to TREND_DOWN'' \<and> regime ind = Some TREND_DOWN \<or>
           sig_reason g = ''Trailing stop hit'' \<and>
             candle_get (cd_low c) (cd_close c) \<le> sig_price g \<or>
           sig_reason g = ''Take profit hit'' \<and>
             take_profit_pct (td_config td) \<le> po_unrealized_pnl_pct po)
      | None \<Rightarrow>
          po_holding_periods po < max_holding_periods (td_config td) \<and>
          regime ind \<noteq> Some TREND_DOWN \<and>
          po_unrealized_pnl_pct po < take_profit_pct (td_config td))"
proof -
  obtain r td' where e: "trend_should_exit td u c ind po = Inr (r, td')"
    using trend_should_exit_total [of td u c ind po] by auto
  have "\<And>g. r = Some g \<Longrightarrow> sig_quantity g = po_quantity po"
    using e by (auto simp: trend_should_exit_def Let_def split: if_splits option.splits prod.splits)
  with trend_should_exit_cases [OF e] e show ?thesis by (cases r) auto
qed

text \<open>
  The trailing stop ratchets: until it is hit, the remembered high is the maximum of the highs
  seen, so it never falls; when the low reaches it, the exit price is that maximum reduced by the
  configured distance, and the memory is cleared.
\<close>

theorem trailing_stop_ratchet:
  assumes "map_of (td_trailing_highs td) s = Some w" "0 < w"
    "trailing_step td s entry high low = (r, td')"
  shows "case r of
      None \<Rightarrow> map_of (td_trailing_highs td') s = Some (max w high) \<and>
        dmul (max w high) (dsub 1 (trailing_stop_distance (td_config td))) < low
    | Some stop \<Rightarrow> stop = dmul (max w high) (dsub 1 (trailing_stop_distance (td_config td))) \<and>
        low \<le> stop \<and> map_of (td_trailing_highs td') s = None"
  using assms by (auto simp: trailing_step_def Let_def py_or_def split: if_splits)

lemma trailing_stop_ratchet_witness:
  "case trailing_step ((new_trend_dca default_dca_config)\<lparr>td_trailing_highs := [(''B'', 110)]\<rparr>) ''B'' 100 120 115
   of (None, td') \<Rightarrow> False
    | (Some stop, td') \<Rightarrow> stop = 588 / 5 \<and> 115 \<le> stop \<and> map_of (td_trailing_highs td') ''B'' = None"
proof -
  let ?td = "(new_trend_dca default_dca_config)\<lparr>td_trailing_highs := [(''B'', 110)]\<rparr>"
  obtain r td' where r: "trailing_step ?td ''B'' 100 120 115 = (r, td')" by force
  have "r \<noteq> None"
    using r by (auto simp: trailing_step_def Let_def py_or_def ex_strategy_simps decimal_ops split: if_splits)
  with trailing_stop_ratchet [OF _ _ r, of 110] r show ?thesis
    by (auto simp: ex_strategy_simps decimal_ops)
qed

text \<open>
  The confirmation experiment counts consecutive bars: after any held bars of a symbol its
  streak is the number of \<open>TREND_DOWN\<close> bars at the end of the sequence, so the regime exit comes
  exactly at the third consecutive one.
\<close>

theorem confirm3_counts_consecutive_bars:
  assumes "fold_result hold_bar bars td = Inr td'" "\<forall>b \<in> set bars. bar_symbol b = cd_symbol c"
    "current_streak td (cd_symbol c) = 0" "po_holding_periods po < max_holding_periods (td_config td')"
  shows "current_streak td' (cd_symbol c) = int (length (takeWhile bar_down (rev bars))) \<and>
     ((\<exists>g td''. confirm3_should_exit td' u c ind po = Inr (Some g, td'') \<and>
         sig_reason g = ''TREND_DOWN confirmed for 3 consecutive bars'') \<longleftrightarrow>
      regime ind = Some TREND_DOWN \<and> 2 \<le> length (takeWhile bar_down (rev bars)))"
proof -
  have s: "current_streak td' (cd_symbol c) = int (length (takeWhile bar_down (rev bars)))"
    by (rule hold_bars_streak [OF assms(1-3)])
  show ?thesis using assms(4)
    by (auto simp: s confirm3_should_exit_def TREND_DOWN_CONFIRMATION_BARS_def Let_def
        split: option.splits prod.splits)
qed

lemma confirm3_counts_consecutive_bars_witness:
  "\<exists>td'. fold_result hold_bar
       [(''a'', ex_candle 1 101 99 100, ex_indicators TREND_DOWN, ex_held 0),
        (''b'', ex_candle 2 101 99 100, ex_indicators TREND_DOWN, ex_held 0)]
       new_trend_dca_confirm3 = Inr td' \<and>
     (\<exists>g td''. confirm3_should_exit td' ''c'' (ex_candle 3 101 99 100) (ex_indicators TREND_DOWN)
        (ex_held 0) = Inr (Some g, td'') \<and>
        sig_reason g = ''TREND_DOWN confirmed for 3 consecutive bars'')"
proof -
  let ?bars = "[(''a'', ex_candle 1 101 99 100, ex_indicators TREND_DOWN, ex_held 0),
        (''b'', ex_candle 2 101 99 100, ex_indicators TREND_DOWN, ex_held 0)]"
  obtain td' where td': "fold_result hold_bar ?bars new_trend_dca_confirm3 = Inr td'"
      "max_holding_periods (td_config td') = 100"
    by (simp add: hold_bar_def confirm3_should_exit_def new_trend_dca_confirm3_def current_streak_def
        TREND_DOWN_CONFIRMATION_BARS_def update_streak_def trailing_step_def ex_strategy_simps
        decimal_ops Let_def)
  have "\<forall>b \<in> set ?bars. bar_symbol b = cd_symbol (ex_candle 3 101 99 100)"
      "current_streak new_trend_dca_confirm3 (cd_symbol (ex_candle 3 101 99 100)) = 0"
      "po_holding_periods (ex_held 0) < max_holding_periods (td_config td')"
    by (simp_all add: bar_symbol_def ex_candle_def current_streak_def new_trend_dca_confirm3_def
        ex_held_def td'(2))
  from confirm3_counts_consecutive_bars [OF td'(1) this, of "''c''" "ex_indicators TREND_DOWN"] td'(1)
  show ?thesis by (simp add: bar_down_def ex_indicators_def no_indicators_def)
qed

text \<open>
  The slope experiment only removes base entries: an entry of the experiment is an entry of the
  base strategy, identical but for its metadata, made while the measured slope reaches the threshold.
\<close>

theorem slope_filters_entries:
  "(\<exists>g td'. slope_should_enter td u c ind ps = Inr (Some g, td')) \<longleftrightarrow>
     (\<exists>g td'. trend_should_enter td u c ind ps = Inr (Some g, td')) \<and>
     (\<exists>v. ema200_slope_10 ind = Some v \<and> sp_ema200_slope_threshold td \<le> v)"
proof
  assume "\<exists>g td'. slope_should_enter td u c ind ps = Inr (Some g, td')"
  then show "(\<exists>g td'. trend_should_enter td u c ind ps = Inr (Some g, td')) \<and>
     (\<exists>v. ema200_slope_10 ind = Some v \<and> sp_ema200_slope_threshold td \<le> v)"
    by (auto dest!: slope_should_enter_signal)
next
  assume "(\<exists>g td'. trend_should_enter td u c ind ps = Inr (Some g, td')) \<and>
     (\<exists>v. ema200_slope_10 ind = Some v \<and> sp_ema200_slope_threshold td \<le> v)"
  then obtain g td' v where "trend_should_enter td u c ind ps = Inr (Some g, td')"
      "ema200_slope_10 ind = Some v" "\<not> v < sp_ema200_slope_threshold td" by auto
  then show "\<exists>g td'. slope_should_enter td u c ind ps = Inr (Some g, td')"
    by (simp add: slope_should_enter_def)
qed

section \<open>Breakout and retest\<close>

text \<open>
  The resistance is causal: with distinct candle times it is the maximum of the \<open>n\<close> highs seen
  before the current candle, never including the current one, and unknown until there are \<open>n\<close>.
\<close>

theorem resistance_is_causal:
  assumes "0 < n" "distinct (map fst history)" "t \<notin> set (map fst history)"
  shows "fst (observe_high n t h (observe_all n history new_br_symbol_state)) =
     (if n \<le> length history then Some (Max (set (last_n n (map snd history)))) else None)"
  by (rule observe_high_prior [OF assms]) (simp_all add: new_br_symbol_state_def)

lemma resistance_is_causal_witness:
  "fst (observe_high 2 4 99 (observe_all 2 [(1, 10), (2, 7), (3, 8)] new_br_symbol_state)) = Some 8"
  using resistance_is_causal [of 2 "[(1, 10), (2, 7), (3, 8)]" 4 99] by (simp add: last_n_def)

text \<open>
  C31: An entry comes only from an armed, unexpired setup: while no position is held and outside
  \<open>TREND_DOWN\<close>, the candle's low touches the broken level and its close holds it, above the EMA-200;
  the signal records the level and the age, and the setup is consumed.
\<close>

theorem breakout_entry_is_held_retest:
  assumes "br_should_enter fresh br u c ind ps = Inr (Some g, br')" "br_ok fresh br"
  shows "\<exists>b. bs_breakout (symbol_state fresh br (cd_symbol c)) = Some b \<and>
     0 \<le> bk_bars b \<and> bk_bars b + 1 < br_retest_timeout_bars br \<and>
     \<not> ps_has_position ps \<and> regime ind \<noteq> Some TREND_DOWN \<and>
     candle_get (cd_low c) (cd_close c) \<le> bk_level b \<and> bk_level b \<le> cd_close c \<and>
     (\<exists>e50 e200. ema_50 ind = Some e50 \<and> ema_200 ind = Some e200 \<and>
        e200 < cd_close c \<and> e200 < e50) \<and>
     map_of (sig_metadata g) ''breakout_level'' = Some (MDec (bk_level b)) \<and>
     map_of (sig_metadata g) ''bars_since_breakout'' = Some (MInt (bk_bars b + 1)) \<and>
     bs_phase (symbol_state fresh br' (cd_symbol c)) = IDLE"
  by (rule br_should_enter_signal [OF assms])

definition ex_armed :: "unit breakout_retest" where
  "ex_armed =
     \<lparr>td_name = ''BreakoutRetest'', td_config = default_dca_config, td_dca_levels = [],
      td_trailing_highs = [], br_resistance_lookback_bars = 20, br_retest_timeout_bars = 24,
      br_state = [(''BTCUSDT'',
        \<lparr>bs_phase = BREAKOUT_ARMED,
         bs_breakout = Some \<lparr>bk_time = 0, bk_level = 100, bk_close = 101, bk_ema50 = 95,
           bk_ema200 = 90, bk_regime = TREND_UP, bk_bars = 3\<rparr>,
         bs_recent_highs = [], bs_last_observed_time = None, bs_last_prior_resistance = None\<rparr>)]\<rparr>"

lemma ex_armed_ok: "br_ok new_br_symbol_state ex_armed"
  by (auto simp: br_ok_def ex_armed_def symbol_state_def ss_ok_def new_br_symbol_state_def)

lemmas ex_breakout_simps =
  br_should_enter_def observe_candle_def observe_high_def symbol_state_def put_symbol_state_def
  armed_candle_def build_entry_signal_def base_order_quantity_def too_volatile_def
  clear_breakout_def ex_armed_def ex_strategy_simps ddiv_or_raise_def decimal_ops

lemma breakout_entry_is_held_retest_witness:
  "\<exists>g br'. br_should_enter new_br_symbol_state ex_armed ''u'' (ex_candle 5 103 99 102)
       (ex_indicators TREND_UP) ex_flat = Inr (Some g, br') \<and>
     map_of (sig_metadata g) ''breakout_level'' = Some (MDec 100) \<and>
     map_of (sig_metadata g) ''bars_since_breakout'' = Some (MInt 4) \<and>
     bs_phase (symbol_state new_br_symbol_state br' ''BTCUSDT'') = IDLE"
proof -
  obtain g br' where g: "br_should_enter new_br_symbol_state ex_armed ''u'' (ex_candle 5 103 99 102)
      (ex_indicators TREND_UP) ex_flat = Inr (Some g, br')"
    by (simp add: ex_breakout_simps Let_def)
  have "bs_breakout (symbol_state new_br_symbol_state ex_armed (cd_symbol (ex_candle 5 103 99 102)))
      = Some \<lparr>bk_time = 0, bk_level = 100, bk_close = 101, bk_ema50 = 95, bk_ema200 = 90,
           bk_regime = TREND_UP, bk_bars = 3\<rparr>" "cd_symbol (ex_candle 5 103 99 102) = ''BTCUSDT''"
    by (simp_all add: symbol_state_def ex_armed_def ex_candle_def)
  with g breakout_entry_is_held_retest [OF g ex_armed_ok] show ?thesis by auto
qed

text \<open>
  An armed setup does not outlive its timeout: however the candles of a symbol come, it stays
  armed for fewer consecutive candles than the retest timeout (twenty-four in the frozen version).
\<close>

theorem armed_setup_expires:
  assumes "armed_run fresh s br n br'" "br_ok fresh br"
  shows "int n < br_retest_timeout_bars br"
  by (rule armed_run_bounded [OF assms])

lemma armed_setup_expires_witness:
  "armed_run new_br_symbol_state ''BTCUSDT'' ex_armed 0 ex_armed \<and> int 0 < br_retest_timeout_bars ex_armed"
proof -
  have run: "armed_run new_br_symbol_state ''BTCUSDT'' ex_armed 0 ex_armed"
    by (rule armed_start) (simp add: ex_armed_def symbol_state_def)
  with armed_setup_expires [OF run ex_armed_ok] show ?thesis by simp
qed

end
