(* ===== verification/Properties_Backtest.thy ===== *)
theory Properties_Backtest
  imports Backtest_Audit Properties_Trading Properties_Strategies
begin

text \<open>
  The properties of the backtest engine, each with a witness that applies it to a concrete run.
\<close>

section \<open>Examples\<close>

definition ex_bt_candle :: "timestamp \<Rightarrow> decimal \<Rightarrow> candle" where
  "ex_bt_candle t close =
     \<lparr>cd_symbol = ''BTCUSDT'', cd_open_time = t, cd_open = Some close, cd_high = None,
      cd_low = None, cd_close = close, cd_volume = None, cd_indicators = None\<rparr>"

definition ex_free_config :: backtest_config where
  "ex_free_config =
     \<lparr>bc_initial_balance = 5000,
      bc_commission_config = \<lparr>maker_fee = 0, taker_fee = 0, minimum_fee = 0\<rparr>,
      bc_slippage_config = \<lparr>fixed_slippage = 0, random_slippage_min = 0, random_slippage_max = 0,
        volume_impact_threshold = 1 / 100, volume_impact_factor = 0\<rparr>,
      bc_end_position_policy = ''mark_to_market''\<rparr>"

definition ex_backtest :: backtest_engine where
  "ex_backtest =
     new_backtest_engine ex_free_config (new_risk_engine default_risk_config None) ex_uniform
       (\<lambda>n. replicate n CHR ''u'') (\<lambda>n. 0)"

text \<open>A legacy strategy that buys one unit on its first candle and then does nothing.\<close>

definition ex_buy :: raw_signal where
  "ex_buy = RawDict
     \<lparr>raw_action = Some ''buy'', raw_symbol = None, raw_price = None, raw_quantity = Some 1,
      raw_reason = None, raw_stop_loss = None, raw_take_profit = None, raw_strategy = None,
      raw_parameters_version = None, raw_indicators = None, raw_regime = None, raw_metadata = None\<rparr>"

definition ex_legacy :: "bool bt_strategy" where
  "ex_legacy = LegacyStrategy
     (\<lambda>c pf bought. Inr (if bought then RawNone else RawOne ex_buy, True))"

lemmas ex_run_simps =
  run_backtest_def draw_uuid_def ex_backtest_def new_backtest_engine_def initial_bt_state_def
  ex_free_config_def run_candles_def run_candle_def execute_pending_def execute_level_def
  check_intrabar_exits_def List.map_filter_def mark_to_market_def ex_bt_candle_def candle_get_def
  update_positions_def Let_def ask_strategy_def strategy_signals_def ex_legacy_def ex_buy_def
  queue_signal_def normalize_signal_def dict_get_or_def new_portfolio_def track_drawdown_def
  ddiv_or_raise_def total_equity_def decimal_ops dsum_def average_completed_volume_def
  VOLUME_LOOKBACK_def completed_volumes_def create_and_execute_order_def parse_signal_action_def
  is_entry_def place_order_def next_id_def execute_order_def decide_order_def bt_slippage_def
  calculate_slippage_def random_part_def volume_part_def check_risk_def read_clock_def
  bt_trade_check_def position_views_def order_symbol_def check_trade_def apply_guards_fired
  fired_def risk_guards_def invalid_trade_def adjusted_quantity_def reducing_def
  exposure_increase_def exposure_after_def exposure_before_def other_exposure_def order_value_def
  position_signed_value_def unknown_statuses_def override_def str_lower_def lower_char_def
  update_equity_def re_save_state_def new_risk_engine_def fresh_risk_engine_def
  default_risk_config_def make_risk_decision_def settle_def open_position_def
  calculate_commission_def new_position_def make_fill_def strategy_on_fill_def intrabar_exit_def
  update_market_def py_or_def position_value_def finish_run_def calculate_results_def

section \<open>The audit trail\<close>

text \<open>
  C2: A finished run has a complete audit trail. Every fill has a positive quantity and price, and
  refers to an order and an approving risk decision for exactly its quantity; order and fill ids
  are unique; every order got exactly one decision, in order; every fill goes back to a recorded
  signal; and the portfolio is well-formed.
\<close>

theorem backtest_audit_trail:
  assumes "run_backtest (new_backtest_engine cfg re rng uuid clock) candles strategy s provider
      = Inr (res, be', s')"
    "0 \<le> minimum_fee (bc_commission_config cfg)" "slippage_config_ok (bc_slippage_config cfg)"
    "\<forall>c \<in> set candles. 0 \<le> cd_close c"
  shows "(\<forall>f \<in> set (br_fills res). 0 < fill_quantity f \<and> 0 < fill_price f \<and>
        fill_signal_id f \<in> sig_signal_id ` set (br_signals res) \<and>
        justified (br_orders res) (br_risk_decisions res) f) \<and>
     distinct (map ord_order_id (br_orders res)) \<and> distinct (map fill_fill_id (br_fills res)) \<and>
     filter (\<lambda>i. i \<noteq> '''') (map rd_order_id (br_risk_decisions res))
       = map ord_order_id (br_orders res) \<and>
     pf_ok (br_portfolio res)"
  using run_backtest_ok [OF assms(1) engine_ok_new [OF assms(2,3)] assms(4)]
  by (auto simp: engine_ok_def audit_ok_def traced_def calculate_results_def Let_def)

lemma ex_run:
  "\<exists>res be'. run_backtest ex_backtest [ex_bt_candle 1 100, ex_bt_candle 2 110] ex_legacy False None
     = Inr (res, be', True) \<and> length (br_fills res) = 1"
  by (simp add: ex_run_simps)

lemma backtest_audit_trail_witness:
  "\<exists>res be'. run_backtest ex_backtest [ex_bt_candle 1 100, ex_bt_candle 2 110] ex_legacy False None
       = Inr (res, be', True) \<and> length (br_fills res) = 1 \<and>
     (\<forall>f \<in> set (br_fills res). 0 < fill_quantity f \<and>
        justified (br_orders res) (br_risk_decisions res) f) \<and> pf_ok (br_portfolio res)"
proof -
  obtain res be' where run: "run_backtest ex_backtest [ex_bt_candle 1 100, ex_bt_candle 2 110]
      ex_legacy False None = Inr (res, be', True)" "length (br_fills res) = 1"
    using ex_run by blast
  have "0 \<le> minimum_fee (bc_commission_config ex_free_config)"
    "slippage_config_ok (bc_slippage_config ex_free_config)"
    "\<forall>c \<in> set [ex_bt_candle 1 100, ex_bt_candle 2 110]. 0 \<le> cd_close c"
    by (simp_all add: ex_free_config_def slippage_config_ok_def ex_bt_candle_def)
  from backtest_audit_trail [OF run(1) [unfolded ex_backtest_def] this] run show ?thesis by blast
qed

text \<open>
  C5: Causality. Running a prefix of the candles and then the rest is running them all: the state
  after the first candles, with every signal, decision, order, fill and the strategy's own state, is
  the same whatever candles follow.
\<close>

theorem backtest_is_causal:
  "run_candles strategy provider run_id (xs @ ys) st =
     bind_result (run_candles strategy provider run_id xs st)
       (fold_result (run_candle strategy provider run_id (xs @ ys))
          (zip [length xs..<length xs + length ys] ys))"
  by (rule run_candles_prefix)

text \<open>
  C3: Next-open execution. Every order a candle adds was created at that candle's time; it is either
  for a signal queued before this candle, priced at this candle's open, or for an exit of the engine
  itself at its reference level. No order executes a signal of the same candle.
\<close>

theorem orders_execute_at_next_open:
  assumes "run_candle strategy provider run_id candles (i, c) st = Inr st'"
  shows "\<exists>os. be_orders (bt_engine st') = be_orders (bt_engine st) @ os \<and>
     (\<forall>o1 \<in> set os. ord_created_at o1 = cd_open_time c \<and>
        (ord_signal o1 \<in> set (bt_pending st) \<and>
           ord_requested_price o1 = candle_get (cd_open c) (cd_close c) \<or>
         sig_strategy (ord_signal o1) = ''backtest_engine'' \<and>
           ord_requested_price o1 = sig_price (ord_signal o1)))"
  using run_candle_orders [OF assms] unfolding new_orders_def next_open_order_def .

definition ex_buy_signal :: signal where
  "ex_buy_signal =
     \<lparr>sig_action = ''open_long'', sig_symbol = ''BTCUSDT'', sig_price = 100, sig_quantity = 1,
      sig_timestamp = 1, sig_reason = '''', sig_stop_loss = None, sig_take_profit = None,
      sig_strategy = ''S'', sig_parameters_version = '''', sig_indicators = no_indicators,
      sig_regime = None, sig_metadata = [], sig_signal_id = ''u'', sig_run_id = ''''\<rparr>"

definition ex_bt_state :: "bool bt_state" where
  "ex_bt_state =
     \<lparr>bt_engine = ex_backtest, bt_strategy_state = True, bt_peak_equity = 5000,
      bt_pending = [ex_buy_signal]\<rparr>"

lemma orders_execute_at_next_open_witness:
  "\<exists>st' o1. run_candle ex_legacy None '''' [] (0, ex_bt_candle 2 110) ex_bt_state = Inr st' \<and>
     be_orders (bt_engine st') = [o1] \<and> ord_signal o1 = ex_buy_signal \<and>
     ord_created_at o1 = 2 \<and> ord_requested_price o1 = 110"
proof -
  obtain st' o1 where run: "run_candle ex_legacy None '''' [] (0, ex_bt_candle 2 110) ex_bt_state = Inr st'"
      "be_orders (bt_engine st') = [o1]" "ord_signal o1 = ex_buy_signal"
    by (simp add: ex_bt_state_def ex_buy_signal_def ex_run_simps)
  have "be_orders (bt_engine ex_bt_state) = []" "sig_strategy ex_buy_signal \<noteq> ''backtest_engine''"
    "candle_get (cd_open (ex_bt_candle 2 110)) (cd_close (ex_bt_candle 2 110)) = 110"
    "cd_open_time (ex_bt_candle 2 110) = 2"
    by (simp_all add: ex_bt_state_def ex_backtest_def new_backtest_engine_def ex_buy_signal_def
        ex_bt_candle_def candle_get_def)
  with orders_execute_at_next_open [OF run(1)] run show ?thesis by auto
qed

section \<open>Results\<close>

text \<open>
  The result is consistent with the trade history: winners and losers add up to the trades, the
  total profit is the portfolio's realized profit, and the reported losing streak is the length of
  the longest contiguous run of non-positive profits.
\<close>

theorem backtest_results_consistent:
  "br_winning_trades (calculate_results be) + br_losing_trades (calculate_results be)
     = br_total_trades (calculate_results be) \<and>
   br_total_pnl (calculate_results be) = realized_pnl (be_portfolio be) \<and>
   br_max_consecutive_losses (calculate_results be)
     = Max (length ` {ys. sublist ys (close_pnls (be_portfolio be)) \<and> losing ys})"
proof -
  let ?pnls = "close_pnls (be_portfolio be)"
  have "finite {ys. sublist ys ?pnls \<and> losing ys}"
    by (rule finite_subset [OF _ finite_set [of "sublists ?pnls"]]) auto
  moreover obtain ys where "sublist ys ?pnls" "losing ys" "length ys = max_consecutive_losses ?pnls"
    using max_consecutive_losses_is_max [of ?pnls] by blast
  then have "max_consecutive_losses ?pnls \<in> length ` {ys. sublist ys ?pnls \<and> losing ys}" by force
  ultimately have "max_consecutive_losses ?pnls = Max (length ` {ys. sublist ys ?pnls \<and> losing ys})"
    using max_consecutive_losses_is_max [of ?pnls] by (intro Max_eqI [symmetric]) auto
  then show ?thesis
    using calculate_results_counts calculate_results_total_pnl
    by (simp add: calculate_results_def Let_def)
qed

section \<open>Strategies under the engine\<close>

text \<open>
  C34: The breakout strategy keeps its invariant through any backtest: whatever candles it is fed
  and whatever is filled, a symbol is armed exactly when it has a breakout, its age is within the
  timeout, and its history within the lookback.
\<close>

theorem breakout_invariant_through_backtest:
  assumes "new_breakout_retest dca lookback timeout symbols = Inr br"
    "run_backtest be candles (BaseStrategy breakout_retest_strategy) br provider = Inr (res, be', br')"
  shows "br_ok new_br_symbol_state br'"
  by (rule breakout_retest.run_backtest_inv [OF assms(2) new_breakout_retest_ok [OF assms(1)]])

lemma breakout_invariant_through_backtest_witness:
  "\<exists>br res be' br'. new_breakout_retest default_dca_config 20 24 [''BTCUSDT''] = Inr br \<and>
     run_backtest ex_backtest [ex_bt_candle 1 100] (BaseStrategy breakout_retest_strategy) br None
       = Inr (res, be', br') \<and> br_ok new_br_symbol_state br'"
proof -
  obtain br where br: "new_breakout_retest default_dca_config 20 24 [''BTCUSDT''] = Inr br"
    "br_state br = [(''BTCUSDT'', new_br_symbol_state)]" "br_resistance_lookback_bars br = 20"
    by (simp add: new_breakout_retest_def RESISTANCE_LOOKBACK_BARS_def RETEST_TIMEOUT_BARS_def
        br_fresh_states_def)
  obtain res be' br' where run: "run_backtest ex_backtest [ex_bt_candle 1 100]
      (BaseStrategy breakout_retest_strategy) br None = Inr (res, be', br')"
    by (simp add: ex_run_simps breakout_retest_strategy_def base_strategy_signals_def
        get_position_def br_should_enter_def observe_candle_def observe_high_def symbol_state_def
        put_symbol_state_def br new_br_symbol_state_def idle_candle_def raw_of_option_def
        candle_indicators_def no_indicators_def)
  from breakout_invariant_through_backtest [OF br(1) run] br(1) run show ?thesis by blast
qed

section \<open>A sell resized by the risk engine\<close>

definition ex_gap_engine :: backtest_engine where
  "ex_gap_engine = ex_backtest\<lparr>be_portfolio := (new_portfolio 11000)\<lparr>pf_positions :=
     [(''BTCUSDT'', new_position ''BTCUSDT'' ''long'' 100 10 0 None None 0)]\<rparr>\<rparr>"

definition ex_gap_close :: signal where
  "ex_gap_close = engine_close_signal ''u'' ''BTCUSDT'' 100 10 1 '''' '''' ''''"


end
