(* ===== verification/Paper_Engine.thy ===== *)
theory Paper_Engine
  imports Decimal
begin

text \<open>
  Paper trading: the market events of \<open>app/models\<close>, the fill simulator
  (\<open>app/exchange/fill_simulator.py\<close>), the execution engine
  (\<open>app/exchange/paper_execution_engine.py\<close>) and its PostgreSQL repository
  (\<open>app/database/paper_state_repository_pg.py\<close>) as the tables its statements maintain. The writes
  the engine schedules as asyncio tasks are a list of pending tasks, run by \<open>flush\<close>; a state write
  reads the engine when it runs, as the coroutine does. Identifiers and the clock are arguments.
\<close>

section \<open>Market events\<close>

record paper_candle =
  pc_symbol :: string
  pc_open_time :: timestamp
  pc_close_time :: timestamp
  pc_open :: decimal
  pc_high :: decimal
  pc_low :: decimal
  pc_close :: decimal
  pc_volume :: decimal

definition validate_candle :: "paper_candle \<Rightarrow> unit result" where
  "validate_candle c =
     (if pc_close_time c \<le> pc_open_time c
      then Inl (ValueError ''Candle close_time must be after open_time'')
      else if pc_high c < max (pc_open c) (pc_close c) then Inl (ValueError ''Invalid candle high'')
      else if min (pc_open c) (pc_close c) < pc_low c then Inl (ValueError ''Invalid candle low'')
      else Inr ())"

record market_event =
  me_candle :: paper_candle
  me_sequence :: int

definition me_symbol :: "market_event \<Rightarrow> string" where
  "me_symbol e = pc_symbol (me_candle e)"

definition me_timestamp :: "market_event \<Rightarrow> timestamp" where
  "me_timestamp e = pc_close_time (me_candle e)"

definition me_candle_close :: "market_event \<Rightarrow> decimal" where
  "me_candle_close e = pc_close (me_candle e)"

section \<open>Requests, states and the fill simulator\<close>

datatype order_side = BUY_SIDE | SELL_SIDE

definition parse_order_side :: "string \<Rightarrow> order_side result" where
  "parse_order_side s =
     (if s = ''BUY'' then Inr BUY_SIDE else if s = ''SELL'' then Inr SELL_SIDE
      else Inl (ValueError ''not a valid OrderSide''))"

fun side_value :: "order_side \<Rightarrow> string" where
  "side_value BUY_SIDE = ''BUY''"
| "side_value SELL_SIDE = ''SELL''"

record execution_request =
  er_symbol :: string
  er_side :: order_side
  er_quantity :: decimal

record execution_result =
  ex_symbol :: string
  ex_side :: order_side
  ex_quantity :: decimal
  ex_price :: decimal

record paper_position =
  pp_symbol :: string
  pp_quantity :: decimal
  pp_average_price :: decimal

record paper_order =
  po_order_id :: string
  po_order_symbol :: string
  po_order_side :: order_side
  po_order_quantity :: decimal
  po_status :: string
  po_created_at :: timestamp
  po_client_order_id :: "string option"
  po_run_id :: "string option"
  po_signal_id :: "string option"

record paper_fill =
  pf_fill_id :: string
  pf_order_id :: string
  pf_symbol :: string
  pf_quantity :: decimal
  pf_price :: decimal
  pf_executed_at :: timestamp
  pf_run_id :: "string option"
  pf_signal_id :: "string option"

record runtime_state =
  rts_last_processed_timestamp :: "timestamp option"
  rts_last_market_sequence :: int
  rts_cash_balance :: decimal

definition validate_runtime_state :: "runtime_state \<Rightarrow> unit result" where
  "validate_runtime_state s =
     (if rts_last_market_sequence s < 0 then Inl (ValueError ''Market sequence cannot be negative'')
      else if rts_cash_balance s < 0 then Inl (ValueError ''Cash balance cannot be negative'')
      else Inr ())"

text \<open>\<open>FillSimulator.execute\<close>: the whole quantity at the market price.\<close>

definition simulate_fill :: "decimal \<Rightarrow> decimal \<Rightarrow> (decimal \<times> decimal) result" where
  "simulate_fill quantity market_price =
     (if quantity \<le> 0 then Inl (ValueError ''quantity must be positive'')
      else if market_price \<le> 0 then Inl (ValueError ''market_price must be positive'')
      else Inr (quantity, market_price))"

section \<open>The repository\<close>

record paper_store =
  sto_state :: "runtime_state option"
  sto_orders :: "paper_order dict"
  sto_fills :: "paper_fill dict"
  sto_positions :: "paper_position dict"

definition empty_store :: paper_store where
  "empty_store = \<lparr>sto_state = None, sto_orders = [], sto_fills = [], sto_positions = []\<rparr>"

definition store_state :: "runtime_state \<Rightarrow> paper_store \<Rightarrow> paper_store" where
  "store_state s st = st\<lparr>sto_state := Some s\<rparr>"

text \<open>\<open>ON CONFLICT(order_id) DO UPDATE SET status=EXCLUDED.status\<close>\<close>

definition store_order :: "paper_order \<Rightarrow> paper_store \<Rightarrow> paper_store" where
  "store_order o1 st =
     st\<lparr>sto_orders := AList.update (po_order_id o1)
          (case map_of (sto_orders st) (po_order_id o1) of
             None \<Rightarrow> o1 | Some old \<Rightarrow> old\<lparr>po_status := po_status o1\<rparr>) (sto_orders st)\<rparr>"

text \<open>\<open>ON CONFLICT(fill_id) DO NOTHING\<close>\<close>

definition store_fill :: "paper_fill \<Rightarrow> paper_store \<Rightarrow> paper_store" where
  "store_fill f st =
     (if map_of (sto_fills st) (pf_fill_id f) \<noteq> None then st
      else st\<lparr>sto_fills := AList.update (pf_fill_id f) f (sto_fills st)\<rparr>)"

definition store_position :: "paper_position \<Rightarrow> paper_store \<Rightarrow> paper_store" where
  "store_position p st = st\<lparr>sto_positions := AList.update (pp_symbol p) p (sto_positions st)\<rparr>"

section \<open>The engine\<close>

datatype paper_write = WriteOrder paper_order | WriteFill paper_fill | WritePosition paper_position
  | WriteState

record paper_engine =
  pe_store :: "paper_store option"
  pe_last_candle :: "paper_candle option"
  pe_last_processed_timestamp :: "timestamp option"
  pe_last_sequence :: int
  pe_cash_balance :: decimal
  pe_positions :: "paper_position dict"
  pe_orders :: "paper_order dict"
  pe_fills :: "paper_fill dict"
  pe_client_orders :: "string dict"
  pe_pending_writes :: "paper_write list list"

definition new_paper_engine :: "paper_store option \<Rightarrow> paper_engine" where
  "new_paper_engine store =
     \<lparr>pe_store = store, pe_last_candle = None, pe_last_processed_timestamp = None,
      pe_last_sequence = 0, pe_cash_balance = 0, pe_positions = [], pe_orders = [],
      pe_fills = [], pe_client_orders = [], pe_pending_writes = []\<rparr>"

definition runtime_state_of :: "paper_engine \<Rightarrow> runtime_state" where
  "runtime_state_of pe =
     \<lparr>rts_last_processed_timestamp = pe_last_processed_timestamp pe,
      rts_last_market_sequence = pe_last_sequence pe, rts_cash_balance = pe_cash_balance pe\<rparr>"

definition pe_save_state :: "paper_engine \<Rightarrow> paper_engine" where
  "pe_save_state pe =
     pe\<lparr>pe_store := map_option (store_state (runtime_state_of pe)) (pe_store pe)\<rparr>"

fun run_write :: "runtime_state \<Rightarrow> paper_write \<Rightarrow> paper_store \<Rightarrow> paper_store" where
  "run_write s (WriteOrder o1) st = store_order o1 st"
| "run_write s (WriteFill f) st = store_fill f st"
| "run_write s (WritePosition p) st = store_position p st"
| "run_write s WriteState st = store_state s st"

definition schedule :: "paper_write list \<Rightarrow> paper_engine \<Rightarrow> paper_engine" where
  "schedule task pe =
     (if pe_store pe = None then pe
      else pe\<lparr>pe_pending_writes := pe_pending_writes pe @ [task]\<rparr>)"

text \<open>\<open>flush\<close> when the tasks run in the order they were scheduled.\<close>

definition flush :: "paper_engine \<Rightarrow> paper_engine" where
  "flush pe =
     pe\<lparr>pe_store := map_option
          (fold (run_write (runtime_state_of pe)) (concat (pe_pending_writes pe))) (pe_store pe),
        pe_pending_writes := []\<rparr>"

definition on_market_event :: "market_event \<Rightarrow> paper_engine \<Rightarrow> (bool \<times> paper_engine) result" where
  "on_market_event e pe =
     bind_result (validate_candle (me_candle e))
       (\<lambda>_. if me_sequence e \<le> pe_last_sequence pe then Inr (False, pe)
            else if (case pe_last_processed_timestamp pe of
                       None \<Rightarrow> False | Some t \<Rightarrow> pc_open_time (me_candle e) \<le> t)
            then Inr (False, pe)
            else Inr (True, schedule [WriteState]
              (pe\<lparr>pe_last_sequence := me_sequence e, pe_last_candle := Some (me_candle e),
                  pe_last_processed_timestamp := Some (pc_open_time (me_candle e))\<rparr>)))"

definition on_candle :: "paper_candle \<Rightarrow> paper_engine \<Rightarrow> paper_engine result" where
  "on_candle c pe =
     bind_result (on_market_event \<lparr>me_candle = c, me_sequence = pe_last_sequence pe + 1\<rparr> pe)
       (\<lambda>(accepted, pe'). Inr pe')"

section \<open>Executing a request\<close>

definition held :: "paper_engine \<Rightarrow> string \<Rightarrow> decimal \<times> decimal" where
  "held pe symbol =
     (case map_of (pe_positions pe) symbol of
        None \<Rightarrow> (0, 0) | Some p \<Rightarrow> (pp_quantity p, pp_average_price p))"

text \<open>Quantity and average price after a fill.\<close>

definition apply_fill ::
    "order_side \<Rightarrow> decimal \<Rightarrow> decimal \<Rightarrow> decimal \<times> decimal \<Rightarrow> (decimal \<times> decimal) result" where
  "apply_fill side quantity price old =
     (case old of
        (old_qty, old_price) \<Rightarrow>
          (case side of
             SELL_SIDE \<Rightarrow>
               if old_qty < quantity then Inl (ValueError ''Sell quantity exceeds position'')
               else let new_qty = dsub old_qty quantity
                    in Inr (new_qty, if 0 < new_qty then old_price else 0)
           | BUY_SIDE \<Rightarrow>
               let new_qty = dadd old_qty quantity
               in if old_qty = 0 then Inr (new_qty, price)
                  else bind_result
                         (ddiv_or_raise (dadd (dmul old_price old_qty) (dmul price quantity)) new_qty)
                         (\<lambda>new_price. Inr (new_qty, new_price))))"

definition restored_result :: "paper_engine \<Rightarrow> string \<Rightarrow> execution_result result" where
  "restored_result pe order_id =
     (case map_of (pe_orders pe) order_id of
        None \<Rightarrow> Inl (KeyError order_id)
      | Some o1 \<Rightarrow>
          (case List.find (\<lambda>f. pf_order_id f = order_id) (map snd (pe_fills pe)) of
             None \<Rightarrow> Inl (RuntimeError ''Existing order has unknown fill state'')
           | Some f \<Rightarrow>
               Inr \<lparr>ex_symbol = po_order_symbol o1, ex_side = po_order_side o1,
                    ex_quantity = pf_quantity f, ex_price = pf_price f\<rparr>))"

definition market_price_or_last :: "paper_engine \<Rightarrow> decimal option \<Rightarrow> decimal result" where
  "market_price_or_last pe market_price =
     (case market_price of
        Some p \<Rightarrow> Inr p
      | None \<Rightarrow>
          (case pe_last_candle pe of
             None \<Rightarrow> Inl (RuntimeError ''No market candle available'')
           | Some c \<Rightarrow> Inr (pc_close c)))"

definition record_execution ::
    "paper_order \<Rightarrow> paper_fill \<Rightarrow> paper_position \<Rightarrow> paper_engine \<Rightarrow> paper_engine" where
  "record_execution o1 f p pe =
     schedule [WriteOrder o1, WriteFill f, WritePosition p, WriteState]
       (pe\<lparr>pe_positions := AList.update (pp_symbol p) p (pe_positions pe),
           pe_orders := AList.update (po_order_id o1) o1 (pe_orders pe),
           pe_fills := AList.update (pf_fill_id f) f (pe_fills pe),
           pe_client_orders :=
             (case po_client_order_id o1 of
                None \<Rightarrow> pe_client_orders pe
              | Some cid \<Rightarrow> AList.update cid (po_order_id o1) (pe_client_orders pe))\<rparr>)"

record execution_context =
  xc_client_order_id :: "string option"
  xc_run_id :: "string option"
  xc_signal_id :: "string option"
  xc_order_uuid :: string
  xc_fill_uuid :: string
  xc_now :: timestamp

definition new_order_id :: "execution_context \<Rightarrow> string" where
  "new_order_id x =
     (case xc_client_order_id x of
        None \<Rightarrow> xc_order_uuid x | Some cid \<Rightarrow> if cid = '''' then xc_order_uuid x else cid)"

definition execute_new ::
    "execution_request \<Rightarrow> decimal option \<Rightarrow> execution_context \<Rightarrow> paper_engine
     \<Rightarrow> (execution_result \<times> paper_engine) result" where
  "execute_new r market_price x pe =
     bind_result (market_price_or_last pe market_price)
       (\<lambda>market.
          if er_side r = SELL_SIDE \<and> fst (held pe (er_symbol r)) < er_quantity r
          then Inl (ValueError ''Sell quantity exceeds position'')
          else bind_result (simulate_fill (er_quantity r) market)
            (\<lambda>(quantity, price).
               bind_result (apply_fill (er_side r) quantity price (held pe (er_symbol r)))
                 (\<lambda>(new_qty, new_price).
                    let o1 = \<lparr>po_order_id = new_order_id x, po_order_symbol = er_symbol r,
                              po_order_side = er_side r, po_order_quantity = quantity,
                              po_status = ''FILLED'', po_created_at = xc_now x,
                              po_client_order_id = xc_client_order_id x, po_run_id = xc_run_id x,
                              po_signal_id = xc_signal_id x\<rparr>;
                        f = \<lparr>pf_fill_id = xc_fill_uuid x, pf_order_id = new_order_id x,
                             pf_symbol = er_symbol r, pf_quantity = quantity, pf_price = price,
                             pf_executed_at = xc_now x, pf_run_id = xc_run_id x,
                             pf_signal_id = xc_signal_id x\<rparr>;
                        p = \<lparr>pp_symbol = er_symbol r, pp_quantity = new_qty,
                             pp_average_price = new_price\<rparr>
                    in Inr (\<lparr>ex_symbol = er_symbol r, ex_side = er_side r, ex_quantity = quantity,
                             ex_price = price\<rparr>, record_execution o1 f p pe))))"

definition execute_request ::
    "execution_request \<Rightarrow> decimal option \<Rightarrow> execution_context \<Rightarrow> paper_engine
     \<Rightarrow> (execution_result \<times> paper_engine) result" where
  "execute_request r market_price x pe =
     (case xc_client_order_id x of
        None \<Rightarrow> execute_new r market_price x pe
      | Some cid \<Rightarrow>
          (case map_of (pe_client_orders pe) cid of
             None \<Rightarrow> execute_new r market_price x pe
           | Some order_id \<Rightarrow>
               bind_result (restored_result pe order_id) (\<lambda>result. Inr (result, pe))))"

section \<open>Restoring\<close>

definition keyed :: "('a \<Rightarrow> string) \<Rightarrow> 'a list \<Rightarrow> 'a dict" where
  "keyed key xs = foldl (\<lambda>d x. AList.update (key x) x d) [] xs"

definition client_orders_of :: "paper_order list \<Rightarrow> string dict" where
  "client_orders_of os =
     foldl (\<lambda>d o1. case po_client_order_id o1 of
                      None \<Rightarrow> d | Some cid \<Rightarrow> AList.update cid (po_order_id o1) d) [] os"

text \<open>The fields are assigned before the orders of the fills are checked.\<close>

definition pe_restore_state :: "paper_engine \<Rightarrow> py_error option \<times> paper_engine" where
  "pe_restore_state pe =
     (case pe_store pe of
        None \<Rightarrow> (None, pe)
      | Some st \<Rightarrow>
          let pe1 = (case sto_state st of
                       None \<Rightarrow> pe
                     | Some s \<Rightarrow> pe\<lparr>pe_last_sequence := rts_last_market_sequence s,
                           pe_last_processed_timestamp := rts_last_processed_timestamp s,
                           pe_cash_balance := rts_cash_balance s\<rparr>);
              orders = map snd (sto_orders st); fills = map snd (sto_fills st);
              pe2 = pe1\<lparr>pe_positions := keyed pp_symbol (map snd (sto_positions st)),
                        pe_orders := keyed po_order_id orders,
                        pe_fills := keyed pf_fill_id fills,
                        pe_client_orders := client_orders_of orders\<rparr>
          in if \<exists>f \<in> set fills. map_of (pe_orders pe2) (pf_order_id f) = None
             then (Some (RuntimeError ''Paper state restore is incomplete''), pe2) else (None, pe2))"

end
