(* ===== verification/Paper_Ledger.thy ===== *)
theory Paper_Ledger
  imports Paper_Engine
begin

text \<open>
  What the paper execution engine guarantees: events are accepted in strictly increasing sequence
  and time; a client order id is executed once; no position becomes negative and every position is
  what replaying the recorded fills gives; and once the scheduled writes have run, a restarted
  engine restores the same state from the repository.
\<close>

section \<open>Insertion-ordered dictionaries keyed by their values\<close>

lemma alist_update_fresh: "map_of d k = None \<Longrightarrow> AList.update k v d = d @ [(k, v)]"
  by (induction d) auto

definition self_keyed :: "('a \<Rightarrow> string) \<Rightarrow> 'a dict \<Rightarrow> bool" where
  "self_keyed key d \<longleftrightarrow> dict_wf d \<and> (\<forall>(k, v) \<in> set d. key v = k)"

lemma keyed_self: "self_keyed key d \<Longrightarrow> keyed key (map snd d) = d"
proof (induction d rule: rev_induct)
  case (snoc kv d)
  obtain k v where kv: "kv = (k, v)" by (cases kv)
  have "self_keyed key d" "map_of d k = None" "key v = k"
    using snoc.prems by (auto simp: self_keyed_def dict_wf_def kv map_of_eq_None_iff)
  with snoc.IH show ?case by (simp add: keyed_def kv alist_update_fresh)
qed (simp add: keyed_def)

lemma self_keyed_update: "self_keyed key d \<Longrightarrow> key v = k \<Longrightarrow> self_keyed key (AList.update k v d)"
  using dict_all_update [of d "\<lambda>k v. key v = k" k v] by (simp add: self_keyed_def)

lemma self_keyed_append:
  "self_keyed key d \<Longrightarrow> map_of d (key v) = None \<Longrightarrow> self_keyed key (d @ [(key v, v)])"
  using self_keyed_update [of key d v "key v"] by (simp add: alist_update_fresh)

lemma self_keyed_get: "self_keyed key d \<Longrightarrow> map_of d k = Some v \<Longrightarrow> key v = k"
  by (auto simp: self_keyed_def dest: map_of_SomeD)

section \<open>Events\<close>

lemma on_market_event_accepted:
  assumes "on_market_event e pe = Inr (True, pe')"
  shows "pe_last_sequence pe < me_sequence e" "pe_last_sequence pe' = me_sequence e"
    "pe_last_processed_timestamp pe' = Some (pc_open_time (me_candle e))"
    "pe_last_candle pe' = Some (me_candle e)"
    "\<forall>t. pe_last_processed_timestamp pe = Some t \<longrightarrow> t < pc_open_time (me_candle e)"
  using assms
  by (auto simp: on_market_event_def bind_result_Inr_iff schedule_def not_le
      split: if_splits option.splits)

lemma on_market_event_refused: "on_market_event e pe = Inr (False, pe') \<Longrightarrow> pe' = pe"
  by (auto simp: on_market_event_def bind_result_Inr_iff split: if_splits)

lemma on_market_event_keeps:
  "on_market_event e pe = Inr (b, pe') \<Longrightarrow>
     pe_positions pe' = pe_positions pe \<and> pe_orders pe' = pe_orders pe \<and>
     pe_fills pe' = pe_fills pe \<and> pe_client_orders pe' = pe_client_orders pe \<and>
     pe_cash_balance pe' = pe_cash_balance pe"
  by (auto simp: on_market_event_def bind_result_Inr_iff schedule_def split: if_splits)

lemma sorted_wrt_le_last: "sorted_wrt (<) (xs :: 'a :: order list) \<Longrightarrow> x \<in> set xs \<Longrightarrow> x \<le> last xs"
  by (cases xs rule: rev_cases) (auto simp: sorted_wrt_append)

text \<open>The events an engine has accepted, oldest first.\<close>

inductive accepts :: "paper_engine \<Rightarrow> market_event list \<Rightarrow> paper_engine \<Rightarrow> bool" for pe where
  accepts_none: "accepts pe [] pe"
| accepts_event: "accepts pe es pe1 \<Longrightarrow> on_market_event e pe1 = Inr (True, pe2) \<Longrightarrow>
     accepts pe (es @ [e]) pe2"
| accepts_refused: "accepts pe es pe1 \<Longrightarrow> on_market_event e pe1 = Inr (False, pe2) \<Longrightarrow>
     accepts pe es pe2"

lemma accepts_increasing:
  "accepts pe es pe' \<Longrightarrow>
     sorted_wrt (<) (pe_last_sequence pe # map me_sequence es) \<and>
     sorted_wrt (<) (map (pc_open_time \<circ> me_candle) es) \<and>
     pe_last_sequence pe' = last (pe_last_sequence pe # map me_sequence es) \<and>
     (es \<noteq> [] \<longrightarrow> pe_last_processed_timestamp pe' = Some (pc_open_time (me_candle (last es)))) \<and>
     (es = [] \<longrightarrow> pe_last_processed_timestamp pe' = pe_last_processed_timestamp pe)"
proof (induction rule: accepts.induct)
  case (accepts_event es pe1 e pe2)
  note IH = accepts_event.IH and a = on_market_event_accepted [OF accepts_event.hyps(2)]
  have seq: "x < me_sequence e" if "x \<in> set (pe_last_sequence pe # map me_sequence es)" for x
  proof -
    have "x \<le> last (pe_last_sequence pe # map me_sequence es)"
      using IH that by (intro sorted_wrt_le_last) auto
    with IH a(1) show ?thesis by simp
  qed
  have "t < pc_open_time (me_candle e)" if "t \<in> set (map (pc_open_time \<circ> me_candle) es)" for t
  proof -
    have ne: "es \<noteq> []" using that by auto
    then have "t \<le> pc_open_time (me_candle (last es))"
      using IH that sorted_wrt_le_last [of "map (pc_open_time \<circ> me_candle) es" t] by (simp add: last_map comp_def)
    with IH ne a(5) show ?thesis by fastforce
  qed
  with IH a seq show ?case by (auto simp: sorted_wrt_append comp_def)
qed (auto dest: on_market_event_refused)

section \<open>The invariant\<close>

fun replay_fill :: "paper_order dict \<Rightarrow> string \<Rightarrow> paper_fill \<Rightarrow> decimal \<times> decimal \<Rightarrow> (decimal \<times> decimal) result"
  where
  "replay_fill orders s f old =
     (if pf_symbol f \<noteq> s then Inr old
      else (case map_of orders (pf_order_id f) of
              None \<Rightarrow> Inl (KeyError (pf_order_id f))
            | Some o1 \<Rightarrow> apply_fill (po_order_side o1) (pf_quantity f) (pf_price f) old))"

declare replay_fill.simps [simp del]

definition replay :: "paper_order dict \<Rightarrow> paper_fill dict \<Rightarrow> string \<Rightarrow> (decimal \<times> decimal) result" where
  "replay orders fills s = fold_result (replay_fill orders s) (map snd fills) (0, 0)"

definition paper_ok :: "paper_engine \<Rightarrow> bool" where
  "paper_ok pe \<longleftrightarrow>
     self_keyed pp_symbol (pe_positions pe) \<and>
     self_keyed po_order_id (pe_orders pe) \<and>
     self_keyed pf_fill_id (pe_fills pe) \<and>
     (\<forall>(s, p) \<in> set (pe_positions pe). 0 \<le> pp_quantity p \<and> 0 \<le> pp_average_price p) \<and>
     (\<forall>f \<in> set (map snd (pe_fills pe)).
        0 < pf_quantity f \<and> 0 < pf_price f \<and> map_of (pe_orders pe) (pf_order_id f) \<noteq> None) \<and>
     (\<forall>i \<in> dom (map_of (pe_orders pe)). \<exists>f \<in> set (map snd (pe_fills pe)). pf_order_id f = i) \<and>
     pe_client_orders pe = client_orders_of (map snd (pe_orders pe)) \<and>
     (\<forall>s. replay (pe_orders pe) (pe_fills pe) s = Inr (held pe s))"

definition fresh_ids :: "execution_context \<Rightarrow> paper_engine \<Rightarrow> bool" where
  "fresh_ids x pe \<longleftrightarrow>
     map_of (pe_orders pe) (new_order_id x) = None \<and> map_of (pe_fills pe) (xc_fill_uuid x) = None"

lemma paper_ok_new: "paper_ok (new_paper_engine store)"
  by (simp add: paper_ok_def new_paper_engine_def self_keyed_def client_orders_of_def replay_def held_def)

lemma held_nonneg: "paper_ok pe \<Longrightarrow> 0 \<le> fst (held pe s) \<and> 0 \<le> snd (held pe s)"
  by (auto simp: paper_ok_def held_def split: option.splits dest: map_of_SomeD)

lemma apply_fill_nonneg:
  assumes "apply_fill side q p (oq, op) = Inr (nq, np)" "0 < q" "0 < p" "0 \<le> oq" "0 \<le> op"
  shows "0 \<le> nq \<and> 0 \<le> np"
  using assms
  by (auto simp: apply_fill_def Let_def bind_result_Inr_iff ddiv_or_raise_Inr_iff
      split: order_side.splits if_splits)

lemma apply_fill_buy_total: "0 \<le> oq \<Longrightarrow> 0 < q \<Longrightarrow> \<exists>r. apply_fill BUY_SIDE q p (oq, op) = Inr r"
  using dadd_pos' [of oq q]
  by (auto simp: apply_fill_def Let_def ddiv_or_raise_def)

text \<open>What a new execution records.\<close>

lemma execute_new_cases:
  assumes "execute_new r mp x pe = Inr (res, pe')"
  obtains price nq np where
    "apply_fill (er_side r) (er_quantity r) price (held pe (er_symbol r)) = Inr (nq, np)"
    "0 < er_quantity r" "0 < price"
    "res = \<lparr>ex_symbol = er_symbol r, ex_side = er_side r, ex_quantity = er_quantity r, ex_price = price\<rparr>"
    "pe' = record_execution
       \<lparr>po_order_id = new_order_id x, po_order_symbol = er_symbol r, po_order_side = er_side r,
        po_order_quantity = er_quantity r, po_status = ''FILLED'', po_created_at = xc_now x,
        po_client_order_id = xc_client_order_id x, po_run_id = xc_run_id x,
        po_signal_id = xc_signal_id x\<rparr>
       \<lparr>pf_fill_id = xc_fill_uuid x, pf_order_id = new_order_id x, pf_symbol = er_symbol r,
        pf_quantity = er_quantity r, pf_price = price, pf_executed_at = xc_now x,
        pf_run_id = xc_run_id x, pf_signal_id = xc_signal_id x\<rparr>
       \<lparr>pp_symbol = er_symbol r, pp_quantity = nq, pp_average_price = np\<rparr> pe"
  using assms
  by (auto simp: execute_new_def simulate_fill_def bind_result_Inr_iff Let_def not_le split: if_splits)

lemma record_execution_fields [simp]:
  "pe_positions (record_execution o1 f p pe) = AList.update (pp_symbol p) p (pe_positions pe)"
  "pe_orders (record_execution o1 f p pe) = AList.update (po_order_id o1) o1 (pe_orders pe)"
  "pe_fills (record_execution o1 f p pe) = AList.update (pf_fill_id f) f (pe_fills pe)"
  "pe_client_orders (record_execution o1 f p pe) =
     (case po_client_order_id o1 of
        None \<Rightarrow> pe_client_orders pe
      | Some cid \<Rightarrow> AList.update cid (po_order_id o1) (pe_client_orders pe))"
  "pe_cash_balance (record_execution o1 f p pe) = pe_cash_balance pe"
  "pe_last_sequence (record_execution o1 f p pe) = pe_last_sequence pe"
  "pe_last_processed_timestamp (record_execution o1 f p pe) = pe_last_processed_timestamp pe"
  "pe_last_candle (record_execution o1 f p pe) = pe_last_candle pe"
  by (simp_all add: record_execution_def schedule_def)

lemma held_record:
  "held (record_execution o1 f p pe) s =
     (if s = pp_symbol p then (pp_quantity p, pp_average_price p) else held pe s)"
  by (simp add: held_def)

lemma replay_record:
  assumes "map_of orders (po_order_id o1) = None" "map_of fills (pf_fill_id f) = None"
    "pf_order_id f = po_order_id o1"
    "\<forall>g \<in> set (map snd fills). map_of orders (pf_order_id g) \<noteq> None"
    "replay orders fills s = Inr old"
  shows "replay (AList.update (po_order_id o1) o1 orders) (AList.update (pf_fill_id f) f fills) s =
     (if pf_symbol f = s then apply_fill (po_order_side o1) (pf_quantity f) (pf_price f) old
      else Inr old)"
proof -
  have "fold_result (replay_fill (AList.update (po_order_id o1) o1 orders) s) (map snd fills) (0, 0)
      = fold_result (replay_fill orders s) (map snd fills) (0, 0)"
    by (rule fold_result_cong) (use assms(1,4) in \<open>auto simp: replay_fill.simps\<close>)
  with assms show ?thesis
    by (simp add: replay_def alist_update_fresh [of fills] fold_result_append replay_fill.simps
        fold_result_Nil_fun)
qed

lemma paper_ok_record:
  assumes ok: "paper_ok pe" and fresh: "map_of (pe_orders pe) (po_order_id o1) = None"
      "map_of (pe_fills pe) (pf_fill_id f) = None"
    and f: "pf_order_id f = po_order_id o1" "0 < pf_quantity f" "0 < pf_price f" "pf_symbol f = pp_symbol p"
    and p: "apply_fill (po_order_side o1) (pf_quantity f) (pf_price f) (held pe (pp_symbol p))
        = Inr (pp_quantity p, pp_average_price p)"
  shows "paper_ok (record_execution o1 f p pe)"
proof -
  have nonneg: "0 \<le> pp_quantity p \<and> 0 \<le> pp_average_price p"
    using apply_fill_nonneg [of _ _ _ "fst (held pe (pp_symbol p))" "snd (held pe (pp_symbol p))"]
      p f held_nonneg [OF ok] by simp
  have "client_orders_of (map snd (pe_orders pe @ [(po_order_id o1, o1)])) =
      (case po_client_order_id o1 of
        None \<Rightarrow> client_orders_of (map snd (pe_orders pe))
      | Some cid \<Rightarrow> AList.update cid (po_order_id o1) (client_orders_of (map snd (pe_orders pe))))"
    by (simp add: client_orders_of_def split: option.splits)
  moreover have "replay (pe_orders (record_execution o1 f p pe)) (pe_fills (record_execution o1 f p pe)) s
      = Inr (held (record_execution o1 f p pe) s)" for s
    using ok replay_record [OF fresh f(1), of s] f(4) p
    by (cases "pp_symbol p = s") (auto simp: paper_ok_def held_record)
  moreover have "\<forall>(s, q) \<in> set (AList.update (pp_symbol p) p (pe_positions pe)).
      0 \<le> pp_quantity q \<and> 0 \<le> pp_average_price q"
    using ok nonneg by (intro dict_all_update) (auto simp: paper_ok_def self_keyed_def)
  ultimately show ?thesis
    using ok f fresh
    by (auto simp: paper_ok_def self_keyed_update self_keyed_append alist_update_fresh
        split: option.splits)
qed

lemma execute_request_ok:
  assumes "paper_ok pe" "fresh_ids x pe" "execute_request r mp x pe = Inr (res, pe')"
  shows "paper_ok pe'"
proof -
  have new: "paper_ok pe'" if "execute_new r mp x pe = Inr (res, pe')"
    using that
  proof (cases rule: execute_new_cases)
    case (1 price nq np)
    show ?thesis unfolding 1(5)
      by (rule paper_ok_record) (use assms(1,2) 1 in \<open>simp_all add: fresh_ids_def\<close>)
  qed
  show ?thesis using assms(1,3) new
    by (auto simp: execute_request_def bind_result_Inr_iff split: option.splits)
qed

lemma paper_ok_cong:
  "pe_positions pe' = pe_positions pe \<Longrightarrow> pe_orders pe' = pe_orders pe \<Longrightarrow>
   pe_fills pe' = pe_fills pe \<Longrightarrow> pe_client_orders pe' = pe_client_orders pe \<Longrightarrow>
     paper_ok pe' = paper_ok pe"
  by (simp add: paper_ok_def held_def)

lemma on_market_event_ok: "paper_ok pe \<Longrightarrow> on_market_event e pe = Inr (b, pe') \<Longrightarrow> paper_ok pe'"
  using on_market_event_keeps [of e pe b pe'] paper_ok_cong [of pe' pe] by simp

lemma flush_ok: "paper_ok (flush pe) = paper_ok pe"
  by (rule paper_ok_cong) (simp_all add: flush_def)

section \<open>A client order id is executed once\<close>

lemma find_append_None: "List.find P xs = None \<Longrightarrow> List.find P (xs @ ys) = List.find P ys"
  by (induction xs) auto

lemma execute_request_again:
  assumes "paper_ok pe" "fresh_ids x pe" "xc_client_order_id x = Some cid" "cid \<noteq> ''''"
    "map_of (pe_client_orders pe) cid = None"
    "execute_request r mp x pe = Inr (res, pe')" "xc_client_order_id x' = Some cid"
  shows "execute_request r' mp' x' pe' = Inr (res, pe')"
proof -
  have new: "execute_new r mp x pe = Inr (res, pe')"
    using assms(3,5,6) by (simp add: execute_request_def)
  have id: "new_order_id x = cid" using assms(3,4) by (simp add: new_order_id_def)
  show ?thesis using new
  proof (cases rule: execute_new_cases)
    case (1 price nq np)
    have none: "List.find (\<lambda>f. pf_order_id f = cid) (map snd (pe_fills pe)) = None"
      using assms(1,2) id by (auto simp: find_None_iff paper_ok_def fresh_ids_def)
    have client: "map_of (pe_client_orders pe') cid = Some cid" "map_of (pe_orders pe') cid = Some
       \<lparr>po_order_id = cid, po_order_symbol = er_symbol r, po_order_side = er_side r,
        po_order_quantity = er_quantity r, po_status = ''FILLED'', po_created_at = xc_now x,
        po_client_order_id = Some cid, po_run_id = xc_run_id x, po_signal_id = xc_signal_id x\<rparr>"
      using id assms(3) by (simp_all add: 1(5))
    have "pe_fills pe' = pe_fills pe @ [(xc_fill_uuid x,
       \<lparr>pf_fill_id = xc_fill_uuid x, pf_order_id = cid, pf_symbol = er_symbol r,
        pf_quantity = er_quantity r, pf_price = price, pf_executed_at = xc_now x,
        pf_run_id = xc_run_id x, pf_signal_id = xc_signal_id x\<rparr>)]"
      using id assms(2) by (simp add: 1(5) alist_update_fresh fresh_ids_def)
    then have "restored_result pe' cid = Inr res"
      using none client(2) by (simp add: restored_result_def find_append_None 1(4))
    with client(1) assms(7) show ?thesis by (simp add: execute_request_def)
  qed
qed

lemma execute_request_cash:
  "execute_request r mp x pe = Inr (res, pe') \<Longrightarrow> pe_cash_balance pe' = pe_cash_balance pe"
  by (auto simp: execute_request_def bind_result_Inr_iff split: option.splits
      elim!: execute_new_cases)

lemma execute_request_boundary:
  "execute_request r mp x pe = Inr (res, pe') \<Longrightarrow>
     pe_last_sequence pe' = pe_last_sequence pe \<and> pe_last_candle pe' = pe_last_candle pe \<and>
     pe_last_processed_timestamp pe' = pe_last_processed_timestamp pe"
  by (auto simp: execute_request_def bind_result_Inr_iff split: option.splits
      elim!: execute_new_cases)

section \<open>Durability\<close>

text \<open>The repository once the pending writes have run in order.\<close>

definition flushed :: "paper_engine \<Rightarrow> paper_store \<Rightarrow> paper_store" where
  "flushed pe st = fold (run_write (runtime_state_of pe)) (concat (pe_pending_writes pe)) st"

definition stored :: "paper_engine \<Rightarrow> bool" where
  "stored pe \<longleftrightarrow>
     (\<forall>st. pe_store pe = Some st \<longrightarrow>
        sto_orders (flushed pe st) = pe_orders pe \<and>
        sto_fills (flushed pe st) = pe_fills pe \<and>
        sto_positions (flushed pe st) = pe_positions pe)"

lemma run_write_tables:
  "sto_orders (run_write s w st) = sto_orders (run_write s' w st)"
  "sto_fills (run_write s w st) = sto_fills (run_write s' w st)"
  "sto_positions (run_write s w st) = sto_positions (run_write s' w st)"
  by (cases w; simp add: store_state_def)+

definition tables where "tables st = (sto_orders st, sto_fills st, sto_positions st)"

lemma tables_run_write: "tables st = tables st' \<Longrightarrow> tables (run_write s w st) = tables (run_write s' w st')"
  by (cases w) (auto simp: tables_def store_state_def store_order_def store_fill_def store_position_def)

lemma tables_fold: "tables st = tables st' \<Longrightarrow>
    tables (fold (run_write s) ws st) = tables (fold (run_write s') ws st')"
proof (induction ws arbitrary: st st')
  case (Cons w ws)
  from Cons.IH [OF tables_run_write [OF Cons.prems]] show ?case
    by (simp only: fold_simps o_apply)
qed simp

lemma flushed_append:
  "flushed (pe\<lparr>pe_pending_writes := pe_pending_writes pe @ [ws]\<rparr>) st =
     fold (run_write (runtime_state_of pe)) ws (flushed pe st)"
  by (simp add: flushed_def runtime_state_of_def)

lemma stored_tables:
  "stored pe \<longleftrightarrow> (\<forall>st. pe_store pe = Some st \<longrightarrow>
     tables (flushed pe st) = (pe_orders pe, pe_fills pe, pe_positions pe))"
  by (auto simp: stored_def tables_def)

lemma stored_new: "stored (new_paper_engine (Some empty_store))"
  by (simp add: stored_def flushed_def new_paper_engine_def empty_store_def)

lemma stored_event: "on_market_event e pe = Inr (b, pe') \<Longrightarrow> stored pe \<Longrightarrow> stored pe'"
proof -
  assume e: "on_market_event e pe = Inr (b, pe')" and st: "stored pe"
  have "pe' = pe \<or> (pe_store pe' = pe_store pe \<and> (\<exists>ws. concat (pe_pending_writes pe') =
      concat (pe_pending_writes pe) @ ws \<and> set ws \<subseteq> {WriteState}))"
    using e by (auto simp: on_market_event_def bind_result_Inr_iff schedule_def split: if_splits)
  moreover have "tables (fold (run_write s) ws st0) = tables st0" if "set ws \<subseteq> {WriteState}" for s ws st0
    using that by (induction ws arbitrary: st0) (auto simp: tables_def store_state_def)
  ultimately show "stored pe'"
    using st on_market_event_keeps [OF e] tables_fold [OF refl]
    unfolding stored_tables flushed_def by (metis (no_types, lifting) fold_append o_apply)
qed

lemma stored_execute:
  assumes "execute_request r mp x pe = Inr (res, pe')" "stored pe" "fresh_ids x pe"
  shows "stored pe'"
proof -
  have new: "stored pe'" if "execute_new r mp x pe = Inr (res, pe')"
    using that
  proof (cases rule: execute_new_cases)
    case (1 price nq np)
    let ?o = "\<lparr>po_order_id = new_order_id x, po_order_symbol = er_symbol r, po_order_side = er_side r,
        po_order_quantity = er_quantity r, po_status = ''FILLED'', po_created_at = xc_now x,
        po_client_order_id = xc_client_order_id x, po_run_id = xc_run_id x,
        po_signal_id = xc_signal_id x\<rparr>"
    let ?f = "\<lparr>pf_fill_id = xc_fill_uuid x, pf_order_id = new_order_id x, pf_symbol = er_symbol r,
        pf_quantity = er_quantity r, pf_price = price, pf_executed_at = xc_now x,
        pf_run_id = xc_run_id x, pf_signal_id = xc_signal_id x\<rparr>"
    let ?p = "\<lparr>pp_symbol = er_symbol r, pp_quantity = nq, pp_average_price = np\<rparr>"
    have "tables (flushed pe' st) = (pe_orders pe', pe_fills pe', pe_positions pe')"
      if st: "pe_store pe' = Some st" for st
    proof -
      have st0: "pe_store pe = Some st"
        using st 1(5) by (simp add: record_execution_def schedule_def split: if_splits)
      have "concat (pe_pending_writes pe') = concat (pe_pending_writes pe) @
          [WriteOrder ?o, WriteFill ?f, WritePosition ?p, WriteState]"
        using st0 by (simp add: 1(5) record_execution_def schedule_def)
      moreover have "tables (fold (run_write (runtime_state_of pe')) (concat (pe_pending_writes pe)) st)
          = (pe_orders pe, pe_fills pe, pe_positions pe)"
        using assms(2) st0 tables_fold [of st st] unfolding stored_tables flushed_def by metis
      ultimately show ?thesis
        using assms(3) unfolding flushed_def fold_append o_apply
        by (simp add: tables_def store_order_def store_fill_def store_position_def store_state_def
            1(5) fresh_ids_def)
    qed
    then show ?thesis by (simp add: stored_tables)
  qed
  show ?thesis using assms(1,2) new
    by (auto simp: execute_request_def bind_result_Inr_iff split: option.splits)
qed

text \<open>The runtime loop: events and executions, in any order, with fresh identifiers.\<close>

inductive paper_run :: "paper_engine \<Rightarrow> paper_engine \<Rightarrow> bool" for pe where
  run_start: "paper_run pe pe"
| run_event: "paper_run pe pe1 \<Longrightarrow> on_market_event e pe1 = Inr (b, pe2) \<Longrightarrow> paper_run pe pe2"
| run_execute: "paper_run pe pe1 \<Longrightarrow> fresh_ids x pe1 \<Longrightarrow>
     execute_request r mp x pe1 = Inr (res, pe2) \<Longrightarrow> paper_run pe pe2"
| run_flush: "paper_run pe pe1 \<Longrightarrow> paper_run pe (flush pe1)"

lemma stored_flush: "stored pe \<Longrightarrow> stored (flush pe)"
  by (auto simp: stored_def flush_def flushed_def)

lemma execute_request_store:
  "execute_request r mp x pe = Inr (res, pe') \<Longrightarrow> pe_store pe' = pe_store pe"
  by (auto simp: execute_request_def bind_result_Inr_iff record_execution_def schedule_def
      split: option.splits elim!: execute_new_cases)

lemma on_market_event_store:
  "on_market_event e pe = Inr (b, pe') \<Longrightarrow> pe_store pe' = pe_store pe"
  by (auto simp: on_market_event_def bind_result_Inr_iff schedule_def split: if_splits)

lemma paper_run_ok:
  "paper_run pe pe' \<Longrightarrow> paper_ok pe \<Longrightarrow> stored pe \<Longrightarrow> pe_store pe \<noteq> None \<Longrightarrow>
     paper_ok pe' \<and> stored pe' \<and> pe_store pe' \<noteq> None"
proof (induction rule: paper_run.induct)
  case (run_event pe1 e b pe2)
  then show ?case
    by (auto intro: on_market_event_ok stored_event dest: on_market_event_store)
next
  case (run_execute pe1 x r mp res pe2)
  then show ?case
    by (auto intro: execute_request_ok stored_execute dest: execute_request_store)
next
  case (run_flush pe1)
  then show ?case by (auto simp: flush_ok stored_flush) (simp add: flush_def)
qed simp

lemma paper_run_cash: "paper_run pe pe' \<Longrightarrow> pe_cash_balance pe' = pe_cash_balance pe"
  by (induction rule: paper_run.induct)
    (auto dest: on_market_event_keeps execute_request_cash simp: flush_def)

text \<open>Saving after the pending writes, and restoring into an engine on that store.\<close>

lemma checkpoint_restores:
  assumes "paper_ok pe" "stored pe" "pe_store (pe_save_state (flush pe)) = Some st"
  shows "\<exists>pe'. pe_restore_state (new_paper_engine (Some st)) = (None, pe') \<and>
     pe_positions pe' = pe_positions pe \<and> pe_orders pe' = pe_orders pe \<and>
     pe_fills pe' = pe_fills pe \<and> pe_client_orders pe' = pe_client_orders pe \<and>
     runtime_state_of pe' = runtime_state_of pe"
proof -
  obtain st0 where st0: "pe_store pe = Some st0"
      "st = store_state (runtime_state_of pe) (flushed pe st0)"
    using assms(3) by (auto simp: pe_save_state_def flush_def flushed_def runtime_state_of_def)
  have tab: "sto_orders st = pe_orders pe" "sto_fills st = pe_fills pe"
      "sto_positions st = pe_positions pe" "sto_state st = Some (runtime_state_of pe)"
    using assms(2) st0 by (simp_all add: stored_def store_state_def)
  have "keyed pp_symbol (map snd (pe_positions pe)) = pe_positions pe"
      "keyed po_order_id (map snd (pe_orders pe)) = pe_orders pe"
      "keyed pf_fill_id (map snd (pe_fills pe)) = pe_fills pe"
      "client_orders_of (map snd (pe_orders pe)) = pe_client_orders pe"
      "\<forall>f \<in> set (map snd (pe_fills pe)). map_of (pe_orders pe) (pf_order_id f) \<noteq> None"
    using assms(1) by (auto simp: paper_ok_def intro: keyed_self)
  then show ?thesis
    by (simp add: pe_restore_state_def new_paper_engine_def tab Let_def runtime_state_of_def)
qed

end
