(* ===== verification/Paper_Runtime.thy ===== *)
theory Paper_Runtime
  imports Paper_Ledger Risk
begin

text \<open>
  The paper trading loop, \<open>app/execution/paper_trading_runtime.py\<close>, with its two risk managers
  (\<open>DefaultRiskManager\<close> and \<open>RiskEngineAdapter\<close> of \<open>app/runtime/dependencies.py\<close>). An exception does not undo what was done before it, so
  the operations return the runtime together with the exception, if any.
\<close>

section \<open>The runtime and its parameters\<close>

text \<open>
  The strategy, the risk manager, the readiness of the source and the identifiers are supplied from
  outside; a strategy or risk manager that is not configured is \<open>None\<close>.
\<close>

record ('s, 'r) runtime_ops =
  ro_on_candle :: "('s \<Rightarrow> paper_candle \<Rightarrow> paper_engine \<Rightarrow> (execution_request list \<times> 's) result) option"
  ro_validate_request :: "('r \<Rightarrow> execution_request \<Rightarrow> paper_engine \<Rightarrow> (bool \<times> 'r) result) option"
  ro_ready :: "market_event \<Rightarrow> bool"
  ro_order_uuid :: "paper_engine \<Rightarrow> string"
  ro_fill_uuid :: "paper_engine \<Rightarrow> string"
  ro_now :: "paper_engine \<Rightarrow> timestamp"

record ('s, 'r) paper_runtime =
  rt_engine :: paper_engine
  rt_strategy :: 's
  rt_risk :: 'r
  rt_candles_processed :: int
  rt_last_checkpoint_sequence :: int
  rt_trading_enabled :: bool
  rt_session_id :: "string option"
  rt_run_id :: string
  rt_checkpoint_interval :: int
  rt_reconciliation_interval :: int
  rt_reconcile_callback :: bool
  rt_reconciliations :: nat
  rt_heartbeats :: "(int \<times> timestamp) list"
  rt_running :: bool

definition client_order_id :: "string option \<Rightarrow> int \<Rightarrow> nat \<Rightarrow> execution_request \<Rightarrow> string" where
  "client_order_id session sequence index r =
     (case session of None \<Rightarrow> ''paper'' | Some s \<Rightarrow> if s = '''' then ''paper'' else s)
       @ '':'' @ int_string sequence @ '':'' @ nat_string index @ '':'' @ er_symbol r @ '':''
       @ side_value (er_side r)"

section \<open>Checkpoint and restore\<close>

definition rt_checkpoint :: "('s, 'r) paper_runtime \<Rightarrow> ('s, 'r) paper_runtime" where
  "rt_checkpoint rt =
     (if pe_store (rt_engine rt) = None then rt
      else rt\<lparr>rt_engine := pe_save_state (flush (rt_engine rt)),
              rt_last_checkpoint_sequence := pe_last_sequence (rt_engine rt)\<rparr>)"

definition rt_restore_state :: "('s, 'r) paper_runtime \<Rightarrow> py_error option \<times> ('s, 'r) paper_runtime" where
  "rt_restore_state rt =
     (case pe_store (rt_engine rt) of
        None \<Rightarrow> (None, rt)
      | Some st \<Rightarrow>
          (case sto_state st of
             None \<Rightarrow> (None, rt)
           | Some s \<Rightarrow>
               (case pe_restore_state (rt_engine rt) of
                  (Some e, pe) \<Rightarrow> (Some e, rt\<lparr>rt_engine := pe\<rparr>)
                | (None, pe) \<Rightarrow>
                    (None, rt\<lparr>rt_engine := pe,
                              rt_last_checkpoint_sequence := rts_last_market_sequence s\<rparr>))))"

section \<open>One candle\<close>

definition execute_one ::
    "('s, 'r) runtime_ops \<Rightarrow> market_event \<Rightarrow> nat \<times> execution_request \<Rightarrow> ('s, 'r) paper_runtime
     \<Rightarrow> py_error option \<times> ('s, 'r) paper_runtime" where
  "execute_one ops e ir rt =
     (case ir of
        (index, r) \<Rightarrow>
          let pe = rt_engine rt;
              x = \<lparr>xc_client_order_id =
                     Some (client_order_id (rt_session_id rt) (me_sequence e) index r),
                   xc_run_id = Some (rt_run_id rt), xc_signal_id = None,
                   xc_order_uuid = ro_order_uuid ops pe, xc_fill_uuid = ro_fill_uuid ops pe,
                   xc_now = ro_now ops pe\<rparr>
          in (case execute_request r None x pe of
                Inl err \<Rightarrow> (Some err, rt)
              | Inr (res, pe') \<Rightarrow> (None, rt\<lparr>rt_engine := pe'\<rparr>)))"

definition handle_request ::
    "('s, 'r) runtime_ops \<Rightarrow> market_event \<Rightarrow> nat \<times> execution_request \<Rightarrow> ('s, 'r) paper_runtime
     \<Rightarrow> py_error option \<times> ('s, 'r) paper_runtime" where
  "handle_request ops e ir rt =
     (case ro_validate_request ops of
        None \<Rightarrow> execute_one ops e ir rt
      | Some validate \<Rightarrow>
          (case validate (rt_risk rt) (snd ir) (rt_engine rt) of
             Inl err \<Rightarrow> (Some err, rt)
           | Inr (ok, risk) \<Rightarrow>
               if ok then execute_one ops e ir (rt\<lparr>rt_risk := risk\<rparr>)
               else (None, rt\<lparr>rt_risk := risk\<rparr>)))"

definition run_strategy ::
    "('s, 'r) runtime_ops \<Rightarrow> market_event \<Rightarrow> ('s, 'r) paper_runtime
     \<Rightarrow> py_error option \<times> ('s, 'r) paper_runtime" where
  "run_strategy ops e rt =
     (case ro_on_candle ops of
        None \<Rightarrow> (None, rt)
      | Some strategy_fn \<Rightarrow>
          if rt_trading_enabled rt \<and> ro_ready ops e
          then (case strategy_fn (rt_strategy rt) (me_candle e) (rt_engine rt) of
                  Inl err \<Rightarrow> (Some err, rt)
                | Inr (requests, s) \<Rightarrow>
                    try_fold (handle_request ops e) (zip [0..<length requests] requests)
                      (rt\<lparr>rt_strategy := s\<rparr>))
          else (None, rt))"

definition finish_candle ::
    "market_event \<Rightarrow> ('s, 'r) paper_runtime \<Rightarrow> py_error option \<times> ('s, 'r) paper_runtime" where
  "finish_candle e rt =
     (let n = rt_candles_processed rt + 1; rt1 = rt\<lparr>rt_candles_processed := n\<rparr>
      in if rt_checkpoint_interval rt = 0 then (Some ZeroDivision, rt1)
         else
           (let rt2 = (if n mod rt_checkpoint_interval rt = 0 then rt_checkpoint rt1 else rt1);
                rt3 = (if rt_reconcile_callback rt \<and> 0 < rt_reconciliation_interval rt \<and>
                          n mod rt_reconciliation_interval rt = 0
                       then rt2\<lparr>rt_reconciliations := Suc (rt_reconciliations rt2)\<rparr> else rt2)
            in (None, rt3\<lparr>rt_heartbeats := rt_heartbeats rt3 @
                   [(me_sequence e, pc_close_time (me_candle e))]\<rparr>)))"

definition process_candle ::
    "('s, 'r) runtime_ops \<Rightarrow> market_event \<Rightarrow> ('s, 'r) paper_runtime
     \<Rightarrow> py_error option \<times> ('s, 'r) paper_runtime" where
  "process_candle ops e rt =
     (if me_sequence e \<le> pe_last_sequence (rt_engine rt) then (None, rt)
      else (case on_market_event e (rt_engine rt) of
              Inl err \<Rightarrow> (Some err, rt)
            | Inr (False, _) \<Rightarrow> (None, rt)
            | Inr (True, pe) \<Rightarrow>
                (case run_strategy ops e (rt\<lparr>rt_engine := pe\<rparr>) of
                   (Some err, rt1) \<Rightarrow> (Some err, rt1)
                 | (None, rt1) \<Rightarrow> finish_candle e rt1)))"

text \<open>
  The whole loop on the events that arrive before a stop is requested or the stream raises; the final
  checkpoint is made whatever happened.
\<close>

definition run_async ::
    "('s, 'r) runtime_ops \<Rightarrow> bool \<Rightarrow> market_event list \<times> py_error option \<Rightarrow> ('s, 'r) paper_runtime
     \<Rightarrow> py_error option \<times> ('s, 'r) paper_runtime" where
  "run_async ops restore_on_start stream rt =
     (if rt_running rt then (Some (RuntimeError ''Runtime is already running''), rt)
      else
        (let rt0 = rt\<lparr>rt_running := True\<rparr>;
             (err, rt2) =
               (case (if restore_on_start then rt_restore_state rt0 else (None, rt0)) of
                  (Some e, rt1) \<Rightarrow> (Some e, rt1)
                | (None, rt1) \<Rightarrow>
                    (case try_fold (process_candle ops) (fst stream) rt1 of
                       (Some e, rt3) \<Rightarrow> (Some e, rt3) | (None, rt3) \<Rightarrow> (snd stream, rt3)))
         in (err, (rt_checkpoint rt2)\<lparr>rt_running := False\<rparr>)))"

section \<open>Risk managers\<close>

record default_risk_manager =
  dm_max_position_size :: "decimal option"
  dm_max_order_value :: "decimal option"

definition last_close_or_zero :: "paper_engine \<Rightarrow> decimal" where
  "last_close_or_zero pe = (case pe_last_candle pe of None \<Rightarrow> 0 | Some c \<Rightarrow> pc_close c)"

definition default_validate ::
    "default_risk_manager \<Rightarrow> execution_request \<Rightarrow> paper_engine \<Rightarrow> (bool \<times> default_risk_manager) result"
    where
  "default_validate dm r pe =
     (let value_ok = (case dm_max_order_value dm of
                        None \<Rightarrow> True
                      | Some limit \<Rightarrow> dmul (er_quantity r) (last_close_or_zero pe) \<le> limit);
          current = fst (held pe (er_symbol r));
          new_qty = (case er_side r of
                       BUY_SIDE \<Rightarrow> dadd current (er_quantity r)
                     | SELL_SIDE \<Rightarrow> dabs (dsub current (er_quantity r)));
          size_ok = (case dm_max_position_size dm of None \<Rightarrow> True | Some limit \<Rightarrow> new_qty \<le> limit)
      in Inr (value_ok \<and> size_ok, dm))"

record risk_adapter =
  ra_engine :: risk_engine
  ra_total_capital :: decimal
  ra_clock :: "paper_engine \<Rightarrow> timestamp"

definition adapter_trade_check :: "risk_adapter \<Rightarrow> execution_request \<Rightarrow> paper_engine \<Rightarrow> trade_check" where
  "adapter_trade_check ra r pe =
     \<lparr>tc_symbol = er_symbol r, tc_side = side_value (er_side r), tc_quantity = er_quantity r,
      tc_price = last_close_or_zero pe, tc_current_balance = pe_cash_balance pe,
      tc_current_positions =
        map (\<lambda>(s, p). (s, \<lparr>pv_symbol = Some s, pv_side = Some ''buy'',
                           pv_value = Some (dmul (pp_quantity p) (pp_average_price p))\<rparr>))
          (pe_positions pe),
      tc_total_capital = ra_total_capital ra, tc_stop_loss_price = None,
      tc_database_available = None, tc_api_available = None, tc_reconciliation_ok = None,
      tc_order_statuses = []\<rparr>"

definition adapter_validate ::
    "risk_adapter \<Rightarrow> execution_request \<Rightarrow> paper_engine \<Rightarrow> (bool \<times> risk_adapter) result" where
  "adapter_validate ra r pe =
     (case check_trade (ra_engine ra) (adapter_trade_check ra r pe) (ra_clock ra pe) of
        (result, re) \<Rightarrow> Inr (rc_approved result, ra\<lparr>ra_engine := re\<rparr>))"

end
