(* ===== verification/Paper_Session.thy ===== *)
theory Paper_Session
  imports Paper_Runtime
begin

text \<open>
  Sessions of the paper runtime: which orders it creates, the invariant every handler keeps even
  when it raises, and what the final checkpoint leaves in the repository for the next start.
\<close>

section \<open>Orders of the runtime\<close>

lemma client_order_id_nonempty [simp]: "client_order_id session sequence index r \<noteq> ''''"
  by (simp add: client_order_id_def)

lemma client_order_id_inject:
  assumes "client_order_id session s1 i1 r1 = client_order_id session s2 i2 r2"
  shows "s1 = s2 \<and> i1 = i2"
proof -
  have "int_string s1 @ CHR '':'' # nat_string i1 @ '':'' @ er_symbol r1 @ '':'' @ side_value (er_side r1)
      = int_string s2 @ CHR '':'' # nat_string i2 @ '':'' @ er_symbol r2 @ '':'' @ side_value (er_side r2)"
    using assms by (simp add: client_order_id_def)
  from split_at_separator [OF this int_string_no_colon int_string_no_colon]
  have "s1 = s2" and rest: "nat_string i1 @ CHR '':'' # er_symbol r1 @ '':'' @ side_value (er_side r1)
      = nat_string i2 @ CHR '':'' # er_symbol r2 @ '':'' @ side_value (er_side r2)"
    by simp_all
  with split_at_separator [OF rest nat_string_no_colon nat_string_no_colon] show ?thesis by simp
qed

lemma client_orders_of_None:
  "map_of (client_orders_of os) cid = None \<Longrightarrow> o1 \<in> set os \<Longrightarrow> po_client_order_id o1 \<noteq> Some cid"
  unfolding client_orders_of_def
  by (induction os rule: rev_induct) (auto split: option.splits if_splits)

text \<open>Every order of the runtime is stored under its client order id.\<close>

definition client_keyed :: "paper_engine \<Rightarrow> bool" where
  "client_keyed pe \<longleftrightarrow> (\<forall>(i, o1) \<in> set (pe_orders pe). po_client_order_id o1 = Some i)"

lemma client_keyed_new: "client_keyed (new_paper_engine st)"
  by (simp add: client_keyed_def new_paper_engine_def)

lemma client_keyed_fresh:
  "paper_ok pe \<Longrightarrow> client_keyed pe \<Longrightarrow> map_of (pe_client_orders pe) cid = None \<Longrightarrow>
     map_of (pe_orders pe) cid = None"
  using client_orders_of_None [of "map snd (pe_orders pe)" cid]
  by (fastforce simp: paper_ok_def client_keyed_def map_of_eq_None_iff)

text \<open>The engine of a running session.\<close>

definition session_ok :: "paper_engine \<Rightarrow> bool" where
  "session_ok pe \<longleftrightarrow> paper_ok pe \<and> stored pe \<and> client_keyed pe \<and> pe_store pe \<noteq> None"

lemma session_event: "session_ok pe \<Longrightarrow> on_market_event e pe = Inr (b, pe') \<Longrightarrow> session_ok pe'"
  using on_market_event_ok stored_event on_market_event_keeps on_market_event_store
  by (metis session_ok_def client_keyed_def)

lemma session_execute:
  assumes ok: "session_ok pe" and cid: "xc_client_order_id x = Some cid" "cid \<noteq> ''''"
    and fill: "map_of (pe_fills pe) (xc_fill_uuid x) = None"
    and run: "execute_request r mp x pe = Inr (res, pe')"
  shows "session_ok pe'"
proof (cases "map_of (pe_client_orders pe) cid")
  case (Some i)
  with run cid have "pe' = pe" by (auto simp: execute_request_def bind_result_Inr_iff)
  with ok show ?thesis by simp
next
  case None
  have id: "new_order_id x = cid" using cid by (simp add: new_order_id_def)
  have fresh: "fresh_ids x pe"
    using client_keyed_fresh [of pe cid] ok None fill
    by (simp add: fresh_ids_def id session_ok_def)
  have "execute_new r mp x pe = Inr (res, pe')"
    using run cid None by (simp add: execute_request_def)
  then have "client_keyed pe'"
  proof (cases rule: execute_new_cases)
    case (1 price nq np)
    show ?thesis
      using ok cid id unfolding 1(5) client_keyed_def session_ok_def record_execution_fields
      by (intro dict_all_update) auto
  qed
  with execute_request_ok [OF _ fresh run] stored_execute [OF run _ fresh] ok
    execute_request_store [OF run] show ?thesis
    by (simp add: session_ok_def)
qed

lemma flush_session: "session_ok pe \<Longrightarrow> session_ok (flush pe)"
  using flush_ok stored_flush by (auto simp: session_ok_def client_keyed_def flush_def)

lemma save_state_session: "session_ok pe \<Longrightarrow> pe_pending_writes pe = [] \<Longrightarrow> session_ok (pe_save_state pe)"
  unfolding session_ok_def
  by (auto simp: paper_ok_def held_def client_keyed_def stored_def flushed_def store_state_def
      pe_save_state_def)

lemma checkpoint_session: "session_ok (rt_engine rt) \<Longrightarrow> session_ok (rt_engine (rt_checkpoint rt))"
  using save_state_session [OF flush_session] by (simp add: rt_checkpoint_def flush_def)

section \<open>Handlers\<close>

text \<open>Fill identifiers are random: none of them is in use.\<close>

definition fresh_fills :: "('s, 'r) runtime_ops \<Rightarrow> bool" where
  "fresh_fills ops \<longleftrightarrow> (\<forall>pe. map_of (pe_fills pe) (ro_fill_uuid ops pe) = None)"

lemma execute_one_session:
  assumes "fresh_fills ops" "session_ok (rt_engine rt)"
  shows "session_ok (rt_engine (snd (execute_one ops e ir rt)))"
proof -
  have "session_ok pe'" if "execute_request r None x (rt_engine rt) = Inr (res, pe')"
      "xc_client_order_id x = Some (client_order_id (rt_session_id rt) (me_sequence e) i r)"
      "xc_fill_uuid x = ro_fill_uuid ops (rt_engine rt)" for r x res pe' i
    using session_execute [OF assms(2) that(2) client_order_id_nonempty _ that(1)] assms(1) that(3)
    by (simp add: fresh_fills_def)
  then show ?thesis
    using assms(2) by (cases ir) (fastforce simp: execute_one_def Let_def split: sum.splits)
qed

lemma handle_request_session:
  "fresh_fills ops \<Longrightarrow> session_ok (rt_engine rt) \<Longrightarrow>
     session_ok (rt_engine (snd (handle_request ops e ir rt)))"
  using execute_one_session [of ops rt e ir] execute_one_session [of ops "rt\<lparr>rt_risk := r\<rparr>" e ir for r]
  by (auto simp: handle_request_def split: option.splits sum.splits)

lemma run_strategy_session:
  "fresh_fills ops \<Longrightarrow> session_ok (rt_engine rt) \<Longrightarrow> session_ok (rt_engine (snd (run_strategy ops e rt)))"
  using try_fold_invariant [where P = "\<lambda>rt. session_ok (rt_engine rt)" and f = "handle_request ops e"]
    handle_request_session
  by (fastforce simp: run_strategy_def split: option.splits sum.splits)

lemma finish_candle_session:
  "session_ok (rt_engine rt) \<Longrightarrow> session_ok (rt_engine (snd (finish_candle e rt)))"
  using checkpoint_session [of "rt\<lparr>rt_candles_processed := rt_candles_processed rt + 1\<rparr>"]
  by (simp add: finish_candle_def Let_def)

lemma process_candle_session:
  assumes "fresh_fills ops" "session_ok (rt_engine rt)"
  shows "session_ok (rt_engine (snd (process_candle ops e rt)))"
proof -
  have "session_ok (rt_engine (snd (process_candle ops e rt)))"
    if ev: "on_market_event e (rt_engine rt) = Inr (True, pe)" for pe
  proof -
    obtain err rt1 where rs: "run_strategy ops e (rt\<lparr>rt_engine := pe\<rparr>) = (err, rt1)" by force
    have "session_ok (rt_engine rt1)"
      using run_strategy_session [OF assms(1), of "rt\<lparr>rt_engine := pe\<rparr>" e] session_event [OF assms(2) ev] rs
      by simp
    then show ?thesis
      using finish_candle_session [of rt1 e] assms(2)
      by (auto simp: process_candle_def ev rs split: option.splits)
  qed
  then show ?thesis
    using assms(2) by (fastforce simp: process_candle_def split: sum.splits bool.splits)
qed

section \<open>Restarting\<close>

text \<open>A repository a runtime can start from: untouched, or the tables of a consistent engine.\<close>

definition durable :: "paper_store \<Rightarrow> bool" where
  "durable st \<longleftrightarrow>
     (\<exists>pe. paper_ok pe \<and> client_keyed pe \<and> tables st = (pe_orders pe, pe_fills pe, pe_positions pe)) \<and>
     (sto_state st = None \<longrightarrow> tables st = ([], [], []))"

lemma durable_empty: "durable empty_store"
  using paper_ok_new client_keyed_new
  by (force simp: durable_def tables_def empty_store_def new_paper_engine_def
      intro!: exI [of _ "new_paper_engine None"])

definition same_books :: "paper_engine \<Rightarrow> paper_engine \<Rightarrow> bool" where
  "same_books pe pe' \<longleftrightarrow>
     pe_positions pe' = pe_positions pe \<and> pe_orders pe' = pe_orders pe \<and>
     pe_fills pe' = pe_fills pe \<and> pe_client_orders pe' = pe_client_orders pe"

lemma same_books_ok:
  "same_books pe pe' \<Longrightarrow> paper_ok pe' = paper_ok pe \<and> client_keyed pe' = client_keyed pe"
  using paper_ok_cong [of pe' pe] by (simp add: same_books_def client_keyed_def)

text \<open>Restoring from the tables of a consistent engine.\<close>

lemma restore_tables:
  assumes "paper_ok pe" "tables st = (pe_orders pe, pe_fills pe, pe_positions pe)"
    "sto_state st = Some s"
  shows "\<exists>pe'. pe_restore_state (new_paper_engine (Some st)) = (None, pe') \<and> same_books pe pe' \<and>
     runtime_state_of pe' = s \<and> pe_store pe' = Some st \<and> pe_pending_writes pe' = []"
proof -
  have "keyed pp_symbol (map snd (pe_positions pe)) = pe_positions pe"
      "keyed po_order_id (map snd (pe_orders pe)) = pe_orders pe"
      "keyed pf_fill_id (map snd (pe_fills pe)) = pe_fills pe"
      "client_orders_of (map snd (pe_orders pe)) = pe_client_orders pe"
      "\<forall>f \<in> set (map snd (pe_fills pe)). map_of (pe_orders pe) (pf_order_id f) \<noteq> None"
    using assms(1) by (auto simp: paper_ok_def intro: keyed_self)
  then show ?thesis
    using assms(2,3)
    by (simp add: pe_restore_state_def new_paper_engine_def Let_def runtime_state_of_def
        same_books_def tables_def)
qed

lemma restart_session:
  assumes "durable st" "rt_engine rt = new_paper_engine (Some st)"
  shows "\<exists>rt'. rt_restore_state rt = (None, rt') \<and> session_ok (rt_engine rt')"
proof (cases "sto_state st")
  case None
  then have "tables st = ([], [], [])" using assms(1) by (simp add: durable_def)
  then have "stored (new_paper_engine (Some st))"
    by (simp add: stored_def flushed_def new_paper_engine_def tables_def)
  then show ?thesis
    using None assms(2) paper_ok_new client_keyed_new
    by (simp add: rt_restore_state_def session_ok_def) (simp add: new_paper_engine_def)
next
  case (Some s)
  obtain pe where pe: "paper_ok pe" "client_keyed pe"
      "tables st = (pe_orders pe, pe_fills pe, pe_positions pe)"
    using assms(1) by (auto simp: durable_def)
  obtain pe' where pe': "pe_restore_state (new_paper_engine (Some st)) = (None, pe')"
      "same_books pe pe'" "pe_store pe' = Some st" "pe_pending_writes pe' = []"
    using restore_tables [OF pe(1,3) Some] by blast
  have "session_ok pe'"
    using same_books_ok [OF pe'(2)] pe pe'(2-4)
    by (simp add: session_ok_def stored_tables flushed_def same_books_def)
  with pe'(1) Some assms(2) show ?thesis
    by (simp add: rt_restore_state_def new_paper_engine_def)
qed

lemma checkpoint_durable:
  assumes "session_ok (rt_engine rt)"
  obtains st where "pe_store (rt_engine (rt_checkpoint rt)) = Some st" "durable st"
    "\<exists>pe'. pe_restore_state (new_paper_engine (Some st)) = (None, pe') \<and>
       same_books (rt_engine rt) pe' \<and> runtime_state_of pe' = runtime_state_of (rt_engine rt)"
proof -
  obtain st0 where st0: "pe_store (rt_engine rt) = Some st0"
    using assms by (auto simp: session_ok_def)
  define st where "st = store_state (runtime_state_of (rt_engine rt)) (flushed (rt_engine rt) st0)"
  have store: "pe_store (rt_engine (rt_checkpoint rt)) = Some st"
    using st0 by (simp add: rt_checkpoint_def pe_save_state_def flush_def st_def flushed_def
        runtime_state_of_def)
  have tab: "tables st = (pe_orders (rt_engine rt), pe_fills (rt_engine rt), pe_positions (rt_engine rt))"
      "sto_state st = Some (runtime_state_of (rt_engine rt))"
    using assms st0 by (auto simp: session_ok_def stored_def st_def store_state_def tables_def)
  have "durable st"
    using assms tab by (auto simp: durable_def session_ok_def)
  then show ?thesis
    using that [OF store] restore_tables [of "rt_engine rt" st, OF _ tab] assms
    by (auto simp: session_ok_def)
qed

lemma run_async_session:
  assumes "durable st" "rt_engine rt = new_paper_engine (Some st)" "\<not> rt_running rt"
    "fresh_fills ops" "run_async ops True stream rt = (err, rt')"
  shows "\<not> rt_running rt' \<and> (\<exists>st'. pe_store (rt_engine rt') = Some st' \<and> durable st' \<and>
     (\<exists>pe'. pe_restore_state (new_paper_engine (Some st')) = (None, pe') \<and>
        same_books (rt_engine rt') pe' \<and> runtime_state_of pe' = runtime_state_of (rt_engine rt')))"
proof -
  obtain rt1 where rt1: "rt_restore_state (rt\<lparr>rt_running := True\<rparr>) = (None, rt1)"
      "session_ok (rt_engine rt1)"
    using restart_session [OF assms(1), of "rt\<lparr>rt_running := True\<rparr>"] assms(2) by auto
  obtain e2 rt2 where rt2: "try_fold (process_candle ops) (fst stream) rt1 = (e2, rt2)"
      "rt' = (rt_checkpoint rt2)\<lparr>rt_running := False\<rparr>"
    using assms(3,5) rt1(1) by (auto simp: run_async_def Let_def split: prod.splits option.splits)
  have "session_ok (rt_engine (snd (try_fold (process_candle ops) (fst stream) rt1)))"
    by (rule try_fold_invariant [where P = "\<lambda>rt. session_ok (rt_engine rt)"])
      (use rt1(2) process_candle_session [OF assms(4)] in auto)
  then have ok: "session_ok (rt_engine rt2)" using rt2(1) by simp
  have books: "same_books (rt_engine rt') (rt_engine rt2)"
      "runtime_state_of (rt_engine rt') = runtime_state_of (rt_engine rt2)"
    by (simp_all add: rt2(2) rt_checkpoint_def pe_save_state_def flush_def same_books_def
        runtime_state_of_def)
  obtain st' where "pe_store (rt_engine (rt_checkpoint rt2)) = Some st'" "durable st'"
      "\<exists>pe'. pe_restore_state (new_paper_engine (Some st')) = (None, pe') \<and>
         same_books (rt_engine rt2) pe' \<and> runtime_state_of pe' = runtime_state_of (rt_engine rt2)"
    by (rule checkpoint_durable [OF ok]) blast
  with books show ?thesis
    by (auto simp: rt2(2) same_books_def)
qed

section \<open>What is skipped\<close>

lemma process_candle_old:
  "me_sequence e \<le> pe_last_sequence (rt_engine rt) \<Longrightarrow> process_candle ops e rt = (None, rt)"
  by (simp add: process_candle_def)

text \<open>One opening time is processed once, whatever the symbol.\<close>

lemma same_open_time_refused:
  assumes "on_market_event e pe = Inr (True, pe')"
    "pc_open_time (me_candle e') = pc_open_time (me_candle e)" "validate_candle (me_candle e') = Inr u"
  shows "on_market_event e' pe' = Inr (False, pe')"
  using on_market_event_accepted [OF assms(1)] assms(2,3)
  by (simp add: on_market_event_def)

section \<open>Risk limits\<close>

lemma default_validate_limit:
  assumes "default_validate dm r pe = Inr (True, dm')" "dm_max_position_size dm = Some limit"
    "er_side r = BUY_SIDE" "execute_new r mp x pe = Inr (res, pe')"
  shows "fst (held pe' (er_symbol r)) \<le> limit"
  using assms(4)
proof (cases rule: execute_new_cases)
  case (1 price nq np)
  have "nq = dadd (fst (held pe (er_symbol r))) (er_quantity r)"
    using 1(1) assms(3)
    by (cases "held pe (er_symbol r)") (auto simp: apply_fill_def Let_def bind_result_Inr_iff split: if_splits)
  with assms(1-3) show ?thesis
    by (simp add: 1(5) held_record default_validate_def Let_def)
qed

end
