(* ===== verification/Market_Data.thy ===== *)
theory Market_Data
  imports Paper_Engine "HOL-Library.Char_ord" "HOL-Library.List_Lexorder" "HOL-Library.Product_Lexorder"
begin

text \<open>
  Where candles come from: the intervals and the paged history loader
  (\<open>app/exchange/intervals.py\<close>, \<open>app/collectors/candle_collector.py\<close>), the deterministic replay
  (\<open>app/exchange/paper_market_data.py\<close>) and the polling source on the database
  (\<open>app/exchange/bybit_paper_market_data.py\<close>). The exchange client and the ETL procedure are
  parameters; the PostgreSQL tables are lists of rows with the conflict rule of their statements.
\<close>

section \<open>Intervals\<close>

definition INTERVAL_DURATIONS :: "int dict" where
  "INTERVAL_DURATIONS =
     [(''5m'', seconds 300), (''15m'', seconds 900), (''1h'', seconds 3600),
      (''4h'', seconds 14400), (''1d'', days 1)]"

definition interval_duration :: "string \<Rightarrow> int result" where
  "interval_duration interval =
     (case map_of INTERVAL_DURATIONS interval of
        Some d \<Rightarrow> Inr d | None \<Rightarrow> Inl (ValueError ''Unsupported candle interval''))"

text \<open>Floor to a candle boundary, in whole seconds.\<close>

definition align_to_interval :: "timestamp \<Rightarrow> int \<Rightarrow> timestamp" where
  "align_to_interval t duration =
     (let d = duration div 1000000 in seconds (t div 1000000 div d * d))"

section \<open>The history loader\<close>

record exchange_candle =
  ec_exchange_name :: string
  ec_symbol :: string
  ec_interval_code :: string
  ec_open_time :: timestamp
  ec_close_time :: "timestamp option"
  ec_open_price :: decimal
  ec_high_price :: decimal
  ec_low_price :: decimal
  ec_close_price :: decimal
  ec_volume :: decimal
  ec_quote_volume :: "decimal option"
  ec_trade_count :: "int option"

record loading_entry =
  le_symbol :: string
  le_interval :: string
  le_start :: timestamp
  le_end :: timestamp
  le_rows :: int

record raw_store =
  rs_candles :: "exchange_candle list"
  rs_journal :: "loading_entry list"

definition candle_key :: "exchange_candle \<Rightarrow> string \<times> string \<times> string \<times> timestamp" where
  "candle_key c = (ec_exchange_name c, ec_symbol c, ec_interval_code c, ec_open_time c)"

text \<open>\<open>ON CONFLICT (exchange_name, symbol, interval_code, open_time) DO NOTHING\<close>\<close>

definition insert_candle :: "exchange_candle \<Rightarrow> int \<times> exchange_candle list \<Rightarrow> int \<times> exchange_candle list"
  where
  "insert_candle c acc =
     (case acc of
        (n, cs) \<Rightarrow>
          if candle_key c \<in> set (map candle_key cs) then (n, cs) else (n + 1, cs @ [c]))"

definition store_candles :: "exchange_candle list \<Rightarrow> exchange_candle list \<Rightarrow> int \<times> exchange_candle list"
  where
  "store_candles batch cs = fold insert_candle batch (0, cs)"

fun adjacent :: "('a \<Rightarrow> 'a \<Rightarrow> bool) \<Rightarrow> 'a list \<Rightarrow> bool" where
  "adjacent P (x # y # xs) = (P x y \<and> adjacent P (y # xs))"
| "adjacent P _ = True"

definition validate_batch :: "exchange_candle list \<Rightarrow> int \<Rightarrow> timestamp \<Rightarrow> unit result" where
  "validate_batch candles duration expected_start =
     (let times = map ec_open_time candles
      in if \<not> distinct times then Inl (ValueError ''Duplicate candle open_time in Bybit response'')
         else if \<not> adjacent (\<lambda>earlier later. earlier < later) times
         then Inl (ValueError ''Candle open_time is not strictly monotonic'')
         else if \<not> adjacent (\<lambda>earlier later. later - earlier = duration) times
         then Inl (ValueError ''Gap detected in Bybit candle response'')
         else if hd times \<noteq> expected_start
         then Inl (ValueError ''Batch starts at an unexpected time'') else Inr ())"

type_synonym get_candles = "string \<Rightarrow> string \<Rightarrow> timestamp \<Rightarrow> timestamp \<Rightarrow> int \<Rightarrow> exchange_candle list result"

text \<open>One page: the next start, the rows inserted and the tables after its transaction.\<close>

definition load_page ::
    "get_candles \<Rightarrow> string \<Rightarrow> string \<Rightarrow> int \<Rightarrow> int \<Rightarrow> timestamp \<Rightarrow> timestamp \<Rightarrow> raw_store
     \<Rightarrow> (timestamp \<times> int \<times> raw_store) result" where
  "load_page exchange symbol interval duration page_size end_date current_start st =
     (let batch_end = min end_date (current_start + duration * (page_size - 1))
      in bind_result (exchange symbol interval current_start batch_end page_size)
        (\<lambda>response.
           let candles = filter (\<lambda>c. ec_open_time c < end_date) response
           in if candles = [] then Inl (ValueError ''Empty candle batch for expected range'')
              else
                (let batch = sort_key ec_open_time candles
                 in bind_result (validate_batch batch duration current_start)
                   (\<lambda>_. let max_open_time = Max (set (map ec_open_time batch));
                            (loaded, rows) = store_candles batch (rs_candles st)
                        in Inr (max_open_time + duration, loaded,
                             st\<lparr>rs_candles := rows,
                                rs_journal := rs_journal st @
                                  [\<lparr>le_symbol = symbol, le_interval = interval,
                                    le_start = current_start, le_end = max_open_time,
                                    le_rows = loaded\<rparr>]\<rparr>)))))"

partial_function (option) load_pages ::
    "get_candles \<Rightarrow> string \<Rightarrow> string \<Rightarrow> int \<Rightarrow> int \<Rightarrow> timestamp \<Rightarrow> timestamp \<Rightarrow> int \<Rightarrow> raw_store
     \<Rightarrow> (int result \<times> raw_store) option" where
  "load_pages exchange symbol interval duration page_size end_date current_start loaded_total st =
     (if current_start < end_date
      then (case load_page exchange symbol interval duration page_size end_date current_start st of
              Inl e \<Rightarrow> Some (Inl e, st)
            | Inr (next_start, loaded, st') \<Rightarrow>
                load_pages exchange symbol interval duration page_size end_date next_start
                  (loaded_total + loaded) st')
      else Some (Inr loaded_total, st))"

definition load_historical_candles ::
    "get_candles \<Rightarrow> string \<Rightarrow> string \<Rightarrow> timestamp \<Rightarrow> timestamp \<Rightarrow> int \<Rightarrow> raw_store
     \<Rightarrow> (int result \<times> raw_store) option" where
  "load_historical_candles exchange symbol interval start_date end_date batch_size st =
     (if batch_size \<le> 0 then Some (Inl (ValueError ''batch_size must be positive''), st)
      else (case interval_duration interval of
              Inl e \<Rightarrow> Some (Inl e, st)
            | Inr duration \<Rightarrow>
                load_pages exchange symbol interval duration (min batch_size 1000) end_date
                  (align_to_interval start_date duration) 0 st))"

definition get_last_checkpoint :: "string \<Rightarrow> string \<Rightarrow> raw_store \<Rightarrow> timestamp option" where
  "get_last_checkpoint symbol interval st =
     (case [le_end e. e \<leftarrow> rs_journal st, le_symbol e = symbol \<and> le_interval e = interval] of
        [] \<Rightarrow> None | t # ts \<Rightarrow> Some (fold max ts t))"

section \<open>Replay\<close>

text \<open>
  \<open>PaperMarketData\<close>: sorted by opening time, duplicates skipped, numbered from one; an invalid
  candle ends the stream with its exception after the events before it.
\<close>

fun replay_candles :: "timestamp option \<Rightarrow> paper_candle list \<Rightarrow> paper_candle list \<times> py_error option"
  where
  "replay_candles t [] = ([], None)"
| "replay_candles t (c # cs) =
     (case validate_candle c of
        Inl e \<Rightarrow> ([], Some e)
      | Inr _ \<Rightarrow>
          if (case t of None \<Rightarrow> False | Some t0 \<Rightarrow> pc_open_time c \<le> t0) then replay_candles t cs
          else (case replay_candles (Some (pc_open_time c)) cs of (rest, e) \<Rightarrow> (c # rest, e)))"

definition number_events :: "nat \<Rightarrow> paper_candle list \<Rightarrow> market_event list" where
  "number_events n cs =
     map (\<lambda>(i, c). \<lparr>me_candle = c, me_sequence = int i\<rparr>) (zip [n..<n + length cs] cs)"

definition market_stream :: "paper_candle list \<Rightarrow> market_event list \<times> py_error option" where
  "market_stream candles =
     (case replay_candles None (sort_key pc_open_time candles) of
        (cs, e) \<Rightarrow> (number_events 1 cs, e))"

section \<open>The polling source\<close>

definition HOUR :: int where "HOUR = seconds 3600"

record bybit_source =
  bs_symbols :: "string list"
  bs_warmup_candles :: int
  bs_backfill_buffer :: int
  bs_stale_grace :: int
  bs_ready :: bool
  bs_last_emitted :: "timestamp dict"

definition bybit_sequence :: "timestamp \<Rightarrow> nat \<Rightarrow> int" where
  "bybit_sequence opened index = opened div 1000000 * 10 + int index"

definition restore_boundary :: "int \<Rightarrow> timestamp option \<Rightarrow> bybit_source \<Rightarrow> bybit_source" where
  "restore_boundary sequence timestamp bs =
     (case timestamp of
        None \<Rightarrow> bs
      | Some t \<Rightarrow>
          if sequence \<le> 0 then bs
          else bs\<lparr>bs_last_emitted :=
            fold (\<lambda>(index, symbol) d.
                AList.update symbol
                  (if bybit_sequence t index \<le> sequence then t else t - HOUR) d)
              (zip [0..<length (bs_symbols bs)] (bs_symbols bs)) (bs_last_emitted bs)\<rparr>)"

text \<open>
  The rows of \<open>dds.candle\<close> the queries see: of the exchange and the interval, valid and closed.
  \<open>_stats\<close> groups them by symbol; a gap is a step between neighbours that is not one hour.
\<close>

record candle_stats =
  cs_candle_count :: int
  cs_first_candle :: timestamp
  cs_last_candle :: timestamp
  cs_last_close :: timestamp
  cs_duplicate_count :: int
  cs_gap_count :: int

fun count_gaps :: "timestamp list \<Rightarrow> int" where
  "count_gaps (x # y # xs) = (if y - x \<noteq> HOUR then 1 else 0) + count_gaps (y # xs)"
| "count_gaps _ = 0"

definition symbol_rows :: "paper_candle list \<Rightarrow> string \<Rightarrow> paper_candle list" where
  "symbol_rows db symbol = filter (\<lambda>c. pc_symbol c = symbol) db"

definition symbol_stats :: "paper_candle list \<Rightarrow> string \<Rightarrow> candle_stats option" where
  "symbol_stats db symbol =
     (let rows = symbol_rows db symbol; times = map pc_open_time rows
      in if rows = [] then None
         else Some \<lparr>cs_candle_count = int (length rows), cs_first_candle = Min (set times),
                cs_last_candle = Max (set times), cs_last_close = Max (set (map pc_close_time rows)),
                cs_duplicate_count = int (length rows) - int (card (set times)),
                cs_gap_count = count_gaps (sort times)\<rparr>)"

definition source_stats :: "bybit_source \<Rightarrow> paper_candle list \<Rightarrow> candle_stats dict" where
  "source_stats bs db =
     [(s, st). s \<leftarrow> remdups (map pc_symbol db), s \<in> set (bs_symbols bs),
               st \<leftarrow> (case symbol_stats db s of None \<Rightarrow> [] | Some st \<Rightarrow> [st])]"

type_synonym ingest = "string \<Rightarrow> timestamp \<Rightarrow> timestamp \<Rightarrow> paper_candle list \<Rightarrow> py_error option \<times> paper_candle list"

definition ingest_range :: "ingest \<Rightarrow> string \<Rightarrow> timestamp \<Rightarrow> timestamp \<Rightarrow> paper_candle list
    \<Rightarrow> py_error option \<times> paper_candle list" where
  "ingest_range ingest symbol start stop db =
     (if stop \<le> start then (None, db) else ingest symbol start stop db)"

definition backfill_symbol ::
    "ingest \<Rightarrow> bybit_source \<Rightarrow> candle_stats dict \<Rightarrow> timestamp \<Rightarrow> string \<Rightarrow> paper_candle list
     \<Rightarrow> py_error option \<times> paper_candle list" where
  "backfill_symbol ingest bs stats boundary symbol db =
     (let available = (case map_of stats symbol of None \<Rightarrow> 0 | Some row \<Rightarrow> cs_candle_count row)
      in if available < bs_warmup_candles bs
         then ingest_range ingest symbol
           (boundary - HOUR * (bs_warmup_candles bs + bs_backfill_buffer bs)) boundary db
         else (None, db))"

definition recover_symbol ::
    "ingest \<Rightarrow> timestamp \<Rightarrow> string \<times> candle_stats \<Rightarrow> paper_candle list
     \<Rightarrow> py_error option \<times> paper_candle list" where
  "recover_symbol ingest boundary entry db =
     (case entry of
        (symbol, row) \<Rightarrow>
          if cs_gap_count row \<noteq> 0 then ingest_range ingest symbol (cs_first_candle row) boundary db
          else if cs_last_close row < boundary
          then ingest_range ingest symbol (cs_last_close row) boundary db
          else (None, db))"

definition source_ready :: "bybit_source \<Rightarrow> candle_stats dict \<Rightarrow> timestamp \<Rightarrow> bool" where
  "source_ready bs stats boundary =
     list_all (\<lambda>symbol.
       (case map_of stats symbol of
          None \<Rightarrow> False
        | Some row \<Rightarrow>
            bs_warmup_candles bs \<le> cs_candle_count row \<and> cs_gap_count row = 0 \<and>
            cs_duplicate_count row = 0 \<and> boundary \<le> cs_last_close row + bs_stale_grace bs))
       (bs_symbols bs)"

definition bootstrap ::
    "ingest \<Rightarrow> timestamp \<Rightarrow> bybit_source \<Rightarrow> paper_candle list
     \<Rightarrow> py_error option \<times> bybit_source \<times> paper_candle list" where
  "bootstrap ingest now bs db =
     (let bs0 = bs\<lparr>bs_ready := False\<rparr>; boundary = align_to_interval now HOUR
      in (case try_fold (backfill_symbol ingest bs (source_stats bs db) boundary) (bs_symbols bs) db of
            (Some e, db1) \<Rightarrow> (Some e, bs0, db1)
          | (None, db1) \<Rightarrow>
              (case try_fold (recover_symbol ingest boundary) (source_stats bs db1) db1 of
                 (Some e, db2) \<Rightarrow> (Some e, bs0, db2)
               | (None, db2) \<Rightarrow>
                   let stats = source_stats bs db2
                   in (None,
                       bs\<lparr>bs_last_emitted :=
                            (if bs_last_emitted bs = []
                             then map (\<lambda>(s, row). (s, cs_last_candle row)) stats
                             else bs_last_emitted bs),
                          bs_ready := source_ready bs stats boundary\<rparr>, db2))))"

definition new_candles :: "bybit_source \<Rightarrow> paper_candle list \<Rightarrow> paper_candle list" where
  "new_candles bs db =
     sort_key (\<lambda>c. (pc_open_time c, pc_symbol c))
       (filter (\<lambda>c. pc_symbol c \<in> set (bs_symbols bs) \<and>
          (case map snd (bs_last_emitted bs) of
             [] \<Rightarrow> True | t # ts \<Rightarrow> fold min ts t < pc_open_time c)) db)"

text \<open>The rows of one poll that have not been emitted yet, as events.\<close>

fun index_of :: "string \<Rightarrow> string list \<Rightarrow> nat option" where
  "index_of s [] = None"
| "index_of s (x # xs) = (if x = s then Some 0 else map_option Suc (index_of s xs))"

fun emit_rows ::
    "string list \<Rightarrow> timestamp dict \<Rightarrow> paper_candle list
     \<Rightarrow> market_event list \<times> timestamp dict \<times> py_error option" where
  "emit_rows symbols last_emitted [] = ([], last_emitted, None)"
| "emit_rows symbols last_emitted (c # cs) =
     (if (case map_of last_emitted (pc_symbol c) of None \<Rightarrow> False | Some t \<Rightarrow> pc_open_time c \<le> t)
      then emit_rows symbols last_emitted cs
      else
        (let d = AList.update (pc_symbol c) (pc_open_time c) last_emitted
         in (case index_of (pc_symbol c) symbols of
               None \<Rightarrow> ([], d, Some (ValueError ''symbol is not in list''))
             | Some index \<Rightarrow>
                 (case emit_rows symbols d cs of
                    (es, d', e) \<Rightarrow>
                      (\<lparr>me_candle = c, me_sequence = bybit_sequence (pc_open_time c) index\<rparr> # es,
                       d', e)))))"

text \<open>One round of \<open>stream_async\<close>; its exceptions are logged and make the source not ready.\<close>

definition poll_once ::
    "ingest \<Rightarrow> timestamp \<Rightarrow> bybit_source \<Rightarrow> paper_candle list
     \<Rightarrow> market_event list \<times> bybit_source \<times> paper_candle list" where
  "poll_once ingest now bs db =
     (case bootstrap ingest now bs db of
        (Some e, bs1, db1) \<Rightarrow> ([], bs1\<lparr>bs_ready := False\<rparr>, db1)
      | (None, bs1, db1) \<Rightarrow>
          if \<not> bs_ready bs1 then ([], bs1, db1)
          else (case emit_rows (bs_symbols bs1) (bs_last_emitted bs1) (new_candles bs1 db1) of
                  (es, d, e) \<Rightarrow>
                    (es, bs1\<lparr>bs_last_emitted := d,
                             bs_ready := (if e = None then bs_ready bs1 else False)\<rparr>, db1)))"

end
