(* ===== verification/Market_Feed.thy ===== *)
theory Market_Feed
  imports Market_Data Paper_Ledger
begin

text \<open>
  What the market data layer guarantees: the history loader terminates and leaves no hole in the
  range it was asked for; the replay publishes strictly increasing events that a fresh engine
  accepts; a ready source has gap-free fresh candles for every symbol; and the boundaries restored
  after a restart let through exactly the events that were not processed.
\<close>

section \<open>Consecutive times\<close>

lemma adjacent_step:
  fixes xs :: "int list"
  shows "adjacent (\<lambda>x y. y - x = d) xs \<Longrightarrow> i < length xs \<Longrightarrow> xs ! i = hd xs + d * int i"
proof (induction xs arbitrary: i rule: induct_list012)
  case (3 x y xs)
  then show ?case
    by (cases i) (auto simp: algebra_simps)
qed auto

lemma adjacent_map:
  fixes xs :: "int list"
  assumes "adjacent (\<lambda>x y. y - x = d) xs"
  shows "xs = map (\<lambda>i. hd xs + d * int i) [0..<length xs]"
  using adjacent_step [OF assms] by (intro nth_equalityI) auto

lemma validate_batch_Inr:
  assumes "validate_batch batch d start = Inr u" "batch \<noteq> []"
  shows "map ec_open_time batch = map (\<lambda>i. start + d * int i) [0..<length batch]"
proof -
  have "adjacent (\<lambda>x y. y - x = d) (map ec_open_time batch)" "hd (map ec_open_time batch) = start"
    using assms(1) by (auto simp: validate_batch_def Let_def split: if_splits)
  then show ?thesis using adjacent_map [of d "map ec_open_time batch"] by simp
qed

lemma Max_steps:
  assumes "0 < d" "0 < n"
  shows "Max ((\<lambda>i. start + d * int i) ` {0..<n}) = start + d * (int n - 1)"
proof (rule Max_eqI)
  show "start + d * (int n - 1) \<in> (\<lambda>i. start + d * int i) ` {0..<n}"
    using assms(2) by (intro image_eqI [of _ _ "n - 1"]) (auto simp: of_nat_diff)
  show "y \<le> start + d * (int n - 1)" if "y \<in> (\<lambda>i. start + d * int i) ` {0..<n}" for y
    using that assms(1) by (auto intro!: mult_left_mono)
qed simp

section \<open>Storing candles\<close>

lemma insert_candle_spec:
  assumes "insert_candle c (n, cs) = (m, cs')"
  shows "\<exists>new. cs' = cs @ new \<and> set new \<subseteq> {c} \<and> candle_key c \<in> set (map candle_key cs') \<and>
     (distinct (map candle_key cs) \<longrightarrow> distinct (map candle_key cs')) \<and> m = n + int (length new)"
  using assms by (auto simp: insert_candle_def split: if_splits)

lemma store_candles_gen:
  "fold insert_candle batch (n, cs) = (m, cs') \<Longrightarrow>
   \<exists>new. cs' = cs @ new \<and> set new \<subseteq> set batch \<and>
     (\<forall>c \<in> set batch. candle_key c \<in> set (map candle_key cs')) \<and>
     (distinct (map candle_key cs) \<longrightarrow> distinct (map candle_key cs')) \<and> m = n + int (length new)"
proof (induction batch arbitrary: n cs)
  case (Cons c batch)
  obtain n1 cs1 where one: "insert_candle c (n, cs) = (n1, cs1)" by force
  from insert_candle_spec [OF one] obtain new1 where new1: "cs1 = cs @ new1" "set new1 \<subseteq> {c}"
      "candle_key c \<in> set (map candle_key cs1)"
      "distinct (map candle_key cs) \<longrightarrow> distinct (map candle_key cs1)" "n1 = n + int (length new1)"
    by blast
  have "fold insert_candle batch (n1, cs1) = (m, cs')" using Cons.prems one by simp
  from Cons.IH [OF this] obtain new2 where new2: "cs' = cs1 @ new2"
      "set new2 \<subseteq> set batch" "\<forall>c \<in> set batch. candle_key c \<in> set (map candle_key cs')"
      "distinct (map candle_key cs1) \<longrightarrow> distinct (map candle_key cs')" "m = n1 + int (length new2)"
    by blast
  have "\<forall>x \<in> set (c # batch). candle_key x \<in> set (map candle_key cs')"
    using new1(3) new2(1,3) by auto
  then show ?case
    using new1 new2 by (intro exI [of _ "new1 @ new2"]) auto
qed simp

lemma store_candles_spec:
  assumes "store_candles batch cs = (m, cs')"
  obtains new where "cs' = cs @ new" "set new \<subseteq> set batch"
    "\<forall>c \<in> set batch. candle_key c \<in> set (map candle_key cs')"
    "distinct (map candle_key cs) \<longrightarrow> distinct (map candle_key cs')" "m = int (length new)"
  using store_candles_gen [OF assms [unfolded store_candles_def]] that by fastforce

section \<open>One page\<close>

lemma load_page_spec:
  assumes "load_page exchange symbol interval d ps end_date start st = Inr (next_start, k, st')" "0 < d"
  obtains n response where "0 < n" "next_start = start + d * int n" "next_start - d < end_date"
    "exchange symbol interval start (min end_date (start + d * (ps - 1))) ps = Inr response"
    "\<forall>i < n. \<exists>c \<in> set response. ec_open_time c = start + d * int i \<and>
        candle_key c \<in> set (map candle_key (rs_candles st'))"
    "\<exists>new. rs_candles st' = rs_candles st @ new \<and> k = int (length new) \<and>
        (\<forall>c \<in> set new. c \<in> set response \<and> start \<le> ec_open_time c \<and> ec_open_time c < end_date)"
    "distinct (map candle_key (rs_candles st)) \<longrightarrow> distinct (map candle_key (rs_candles st'))"
    "rs_journal st' = rs_journal st @ [\<lparr>le_symbol = symbol, le_interval = interval, le_start = start,
       le_end = next_start - d, le_rows = k\<rparr>]"
proof -
  let ?stop = "min end_date (start + d * (ps - 1))"
  obtain response where r: "exchange symbol interval start ?stop ps = Inr response"
    using assms(1) by (auto simp: load_page_def Let_def)
  define cands where "cands = filter (\<lambda>c. ec_open_time c < end_date) response"
  define batch where "batch = sort_key ec_open_time cands"
  obtain m rows where rows: "store_candles batch (rs_candles st) = (m, rows)" by force
  have ne: "cands \<noteq> []" and v: "validate_batch batch d start = Inr ()"
    and res: "next_start = Max (set (map ec_open_time batch)) + d" "k = m"
      "st' = st\<lparr>rs_candles := rows, rs_journal := rs_journal st @
         [\<lparr>le_symbol = symbol, le_interval = interval, le_start = start,
           le_end = Max (set (map ec_open_time batch)), le_rows = m\<rparr>]\<rparr>"
    using assms(1) r rows
    by (auto simp: load_page_def Let_def bind_result_Inr_iff cands_def batch_def split: if_splits)
  let ?n = "length batch"
  have sets: "set batch = set cands" "batch \<noteq> []"
    using ne by (auto simp: batch_def simp flip: set_empty)
  then have pos: "0 < ?n" by simp
  have times: "map ec_open_time batch = map (\<lambda>i. start + d * int i) [0..<?n]"
    by (rule validate_batch_Inr [OF v sets(2)])
  have timeset: "ec_open_time ` set batch = (\<lambda>i. start + d * int i) ` {0..<?n}"
    using arg_cong [OF times, of set] by simp
  have mx: "Max (set (map ec_open_time batch)) = start + d * (int ?n - 1)"
    unfolding set_map timeset by (rule Max_steps [OF assms(2) pos])
  obtain new where new: "rows = rs_candles st @ new" "set new \<subseteq> set batch"
      "\<forall>c \<in> set batch. candle_key c \<in> set (map candle_key rows)"
      "distinct (map candle_key (rs_candles st)) \<longrightarrow> distinct (map candle_key rows)"
      "m = int (length new)"
    using store_candles_spec [OF rows] by metis
  have inresp: "c \<in> set response \<and> ec_open_time c < end_date" if "c \<in> set batch" for c
    using that sets(1) by (simp add: cands_def)
  have from_start: "start \<le> ec_open_time c" if "c \<in> set batch" for c
  proof -
    have "ec_open_time c \<in> (\<lambda>i. start + d * int i) ` {0..<?n}" using that timeset by blast
    then show ?thesis using assms(2) by auto
  qed
  have page: "\<exists>c \<in> set response. ec_open_time c = start + d * int i \<and>
      candle_key c \<in> set (map candle_key rows)" if "i < ?n" for i
  proof -
    have "start + d * int i \<in> ec_open_time ` set batch" using that timeset by auto
    with new(3) inresp show ?thesis by auto
  qed
  have last: "start + d * (int ?n - 1) < end_date"
  proof -
    have "start + d * (int ?n - 1) \<in> ec_open_time ` set batch"
      unfolding mx [symmetric] set_map using sets(2) by (intro Max_in) simp_all
    with inresp show ?thesis by auto
  qed
  show ?thesis
  proof (rule that [of ?n response])
    show "next_start - d < end_date" using last res(1) mx by (simp add: algebra_simps)
    show "next_start = start + d * int ?n" using res(1) mx by (simp add: algebra_simps)
    show "\<exists>new. rs_candles st' = rs_candles st @ new \<and> k = int (length new) \<and>
        (\<forall>c \<in> set new. c \<in> set response \<and> start \<le> ec_open_time c \<and> ec_open_time c < end_date)"
      using new(1,2,5) res inresp from_start by auto
  qed (use pos r page new(4) res in simp_all)
qed

section \<open>The loader\<close>

lemma load_pages_returns:
  assumes "0 < d"
  shows "\<exists>r. load_pages exchange symbol interval d ps end_date start tot st = Some r"
proof (induction "nat (end_date - start)" arbitrary: start tot st rule: less_induct)
  case less
  show ?case
  proof (cases "start < end_date")
    case True
    show ?thesis
    proof (cases "load_page exchange symbol interval d ps end_date start st")
      case (Inr p)
      obtain next_start k st' where p: "p = (next_start, k, st')" by (cases p)
      from load_page_spec [OF Inr [unfolded p] assms] assms have "start < next_start"
        by (metis less_add_same_cancel1 mult_pos_pos of_nat_0_less_iff)
      with True less [of next_start] show ?thesis
        by (subst load_pages.simps) (simp add: Inr p)
    qed (use True in \<open>simp add: load_pages.simps [of exchange symbol interval d ps end_date start]\<close>)
  qed (simp add: load_pages.simps)
qed

text \<open>What a successful run leaves in the tables.\<close>

lemma load_pages_covers:
  assumes "0 < d" "load_pages exchange symbol interval d ps end_date start tot st = Some (Inr n, st')"
    "\<forall>a b cs. exchange symbol interval a b ps = Inr cs \<longrightarrow>
       (\<forall>c \<in> set cs. ec_symbol c = symbol \<and> ec_interval_code c = interval)"
  shows "(\<exists>new. rs_candles st' = rs_candles st @ new \<and> n = tot + int (length new) \<and>
        (\<forall>c \<in> set new. start \<le> ec_open_time c \<and> ec_open_time c < end_date)) \<and>
     (distinct (map candle_key (rs_candles st)) \<longrightarrow> distinct (map candle_key (rs_candles st'))) \<and>
     (\<forall>i::nat. start + d * int i < end_date \<longrightarrow>
        (\<exists>c \<in> set (rs_candles st'). ec_symbol c = symbol \<and> ec_interval_code c = interval \<and>
            ec_open_time c = start + d * int i))"
  using assms(2)
proof (induction "nat (end_date - start)" arbitrary: start tot st rule: less_induct)
  case less
  show ?case
  proof (cases "start < end_date")
    case False
    then have "\<not> start + d * int i < end_date" for i
      using assms(1) by (smt (verit) mult_nonneg_nonneg of_nat_0_le_iff)
    with False less.prems show ?thesis by (simp add: load_pages.simps)
  next
    case True
    then obtain next_start k st1 where
        page: "load_page exchange symbol interval d ps end_date start st = Inr (next_start, k, st1)"
      and rest: "load_pages exchange symbol interval d ps end_date next_start (tot + k) st1 = Some (Inr n, st')"
      using less.prems
      by (auto simp: load_pages.simps [of exchange symbol interval d ps end_date start] split: sum.splits)
    obtain m response where m: "0 < m" "next_start = start + d * int m"
        "exchange symbol interval start (min end_date (start + d * (ps - 1))) ps = Inr response"
        "\<forall>i < m. \<exists>c \<in> set response. ec_open_time c = start + d * int i \<and>
            candle_key c \<in> set (map candle_key (rs_candles st1))"
        "\<exists>new. rs_candles st1 = rs_candles st @ new \<and> k = int (length new) \<and>
            (\<forall>c \<in> set new. c \<in> set response \<and> start \<le> ec_open_time c \<and> ec_open_time c < end_date)"
        "distinct (map candle_key (rs_candles st)) \<longrightarrow> distinct (map candle_key (rs_candles st1))"
      by (rule load_page_spec [OF page assms(1)]) blast
    have later: "start < next_start" using m(1,2) assms(1) by simp
    then have "nat (end_date - next_start) < nat (end_date - start)" using True by simp
    note IH = less.hyps [OF this rest]
    obtain new1 where new1: "rs_candles st1 = rs_candles st @ new1" "k = int (length new1)"
        "\<forall>c \<in> set new1. start \<le> ec_open_time c \<and> ec_open_time c < end_date"
      using m(5) by blast
    obtain new2 where new2: "rs_candles st' = rs_candles st1 @ new2" "n = tot + k + int (length new2)"
        "\<forall>c \<in> set new2. next_start \<le> ec_open_time c \<and> ec_open_time c < end_date"
      using IH by blast
    have "\<exists>c \<in> set (rs_candles st'). ec_symbol c = symbol \<and> ec_interval_code c = interval \<and>
        ec_open_time c = start + d * int i" if i: "start + d * int i < end_date" for i
    proof (cases "i < m")
      case True
      then obtain c c' where "c \<in> set response" "ec_open_time c = start + d * int i"
          "c' \<in> set (rs_candles st1)" "candle_key c' = candle_key c"
        using m(4) by fastforce
      with assms(3) m(3) have "c' \<in> set (rs_candles st1)" "ec_symbol c' = symbol"
          "ec_interval_code c' = interval" "ec_open_time c' = start + d * int i"
        by (auto simp: candle_key_def)
      with new2(1) show ?thesis by auto
    next
      case False
      then have "start + d * int i = next_start + d * int (i - m)"
        using m(2) by (simp add: of_nat_diff algebra_simps)
      with IH i show ?thesis by simp
    qed
    moreover have "rs_candles st' = rs_candles st @ (new1 @ new2)" "n = tot + int (length (new1 @ new2))"
      using new1 new2 by simp_all
    moreover have "\<forall>c \<in> set (new1 @ new2). start \<le> ec_open_time c \<and> ec_open_time c < end_date"
      using new1(3) new2(3) later by fastforce
    ultimately show ?thesis using IH m(6) by blast
  qed
qed

lemma interval_duration_pos: "interval_duration interval = Inr d \<Longrightarrow> 0 < d \<and> 1000000 dvd d"
  by (auto simp: interval_duration_def INTERVAL_DURATIONS_def seconds_def days_def
      split: option.splits if_splits)

section \<open>Replay\<close>

lemma replay_candles_spec:
  "replay_candles t cs = (out, err) \<Longrightarrow>
     sorted_wrt (<) (map pc_open_time out) \<and>
     (\<forall>c \<in> set out. c \<in> set cs \<and> validate_candle c = Inr () \<and> (\<forall>t0. t = Some t0 \<longrightarrow> t0 < pc_open_time c))"
proof (induction t cs arbitrary: out err rule: replay_candles.induct)
  case (2 t c cs)
  show ?case
  proof (cases "validate_candle c")
    case (Inr u)
    show ?thesis
    proof (cases "case t of None \<Rightarrow> False | Some t0 \<Rightarrow> pc_open_time c \<le> t0")
      case True
      with 2 Inr show ?thesis by auto
    next
      case False
      obtain rest e where rest: "replay_candles (Some (pc_open_time c)) cs = (rest, e)" by force
      have out: "out = c # rest" using 2(3) Inr False rest by simp
      from 2(2) [OF Inr False rest] False show ?thesis
        by (fastforce simp: out Inr split: option.splits)
    qed
  qed (use 2(3) in simp)
qed simp

lemma replay_candles_complete:
  "\<forall>c \<in> set cs. validate_candle c = Inr () \<Longrightarrow> replay_candles t cs = (out, err) \<Longrightarrow>
     sorted (map pc_open_time cs) \<Longrightarrow>
     err = None \<and> pc_open_time ` set out =
       {u \<in> pc_open_time ` set cs. \<forall>t0. t = Some t0 \<longrightarrow> t0 < u}"
proof (induction t cs arbitrary: out err rule: replay_candles.induct)
  case (2 t c cs)
  have v: "validate_candle c = Inr ()" using 2(3) by simp
  show ?case
  proof (cases "case t of None \<Rightarrow> False | Some t0 \<Rightarrow> pc_open_time c \<le> t0")
    case True
    with 2 v show ?thesis by (auto split: option.splits)
  next
    case False
    obtain rest e where rest: "replay_candles (Some (pc_open_time c)) cs = (rest, e)" by force
    have IH: "e = None \<and> pc_open_time ` set rest = {u \<in> pc_open_time ` set cs. pc_open_time c < u}"
      using 2(2) [OF v False _ rest] 2(3,5) by simp
    have later: "\<forall>u \<in> pc_open_time ` set cs. pc_open_time c \<le> u" using 2(5) by simp
    have "out = c # rest" "err = e" using 2(4) v False rest by simp_all
    moreover have "\<forall>t0. t = Some t0 \<longrightarrow> t0 < pc_open_time c" using False by (auto split: option.splits)
    ultimately show ?thesis
      using IH later by (auto simp: order_le_less dest: spec)
  qed
qed simp

lemma number_events_Cons:
  "number_events n (c # cs) = \<lparr>me_candle = c, me_sequence = int n\<rparr> # number_events (Suc n) cs"
  by (simp add: number_events_def upt_conv_Cons del: upt_Suc)

lemma map_number_events: "map me_candle (number_events n cs) = cs"
  by (induction cs arbitrary: n) (simp_all add: number_events_Cons, simp add: number_events_def)

lemma sequence_number_events: "map me_sequence (number_events n cs) = map int [n..<n + length cs]"
  by (induction cs arbitrary: n)
    (simp_all add: number_events_Cons upt_conv_Cons del: upt_Suc, simp add: number_events_def)

lemma accepts_Cons:
  assumes "on_market_event e pe = Inr (True, pe1)" "accepts pe1 es pe2"
  shows "accepts pe (e # es) pe2"
  using assms(2)
proof (induction rule: accepts.induct)
  case accepts_none
  show ?case using accepts_event [OF accepts.accepts_none assms(1)] by simp
next
  case (accepts_event es pe3 e' pe4)
  show ?case using accepts.accepts_event [OF accepts_event.IH accepts_event.hyps(2)] by simp
next
  case (accepts_refused es pe3 e' pe4)
  show ?case by (rule accepts.accepts_refused [OF accepts_refused.IH accepts_refused.hyps(2)])
qed

lemma numbered_events_accepted:
  assumes "sorted_wrt (<) (map pc_open_time cs)" "\<forall>c \<in> set cs. validate_candle c = Inr ()"
    "pe_last_sequence pe < int n"
    "\<forall>t. pe_last_processed_timestamp pe = Some t \<longrightarrow> (\<forall>c \<in> set cs. t < pc_open_time c)"
  shows "\<exists>pe'. accepts pe (number_events n cs) pe'"
  using assms
proof (induction cs arbitrary: n pe)
  case Nil
  then show ?case using accepts_none by (auto simp: number_events_def)
next
  case (Cons c cs)
  obtain pe1 where one: "on_market_event \<lparr>me_candle = c, me_sequence = int n\<rparr> pe = Inr (True, pe1)"
    using Cons.prems by (fastforce simp: on_market_event_def split: option.splits)
  have "\<exists>pe'. accepts pe1 (number_events (Suc n) cs) pe'"
    using Cons.prems on_market_event_accepted [OF one] by (intro Cons.IH) auto
  with accepts_Cons [OF one] show ?case by (auto simp: number_events_Cons)
qed

section \<open>Readiness\<close>

lemma count_gaps_nonneg: "0 \<le> count_gaps xs"
  by (induction xs rule: count_gaps.induct) auto

lemma count_gaps_0_iff: "count_gaps xs = 0 \<longleftrightarrow> adjacent (\<lambda>x y. y - x = HOUR) xs"
proof (induction xs rule: count_gaps.induct)
  case (1 x y xs)
  then show ?case using count_gaps_nonneg [of "y # xs"] by auto
qed auto

lemma map_of_option_table:
  "map_of [(s, v). s \<leftarrow> ks, s \<in> A, v \<leftarrow> (case f s of None \<Rightarrow> [] | Some v \<Rightarrow> [v])] k =
     (if k \<in> set ks \<and> k \<in> A then f k else None)"
  by (induction ks) (auto split: option.splits)

lemma map_of_source_stats:
  "map_of (source_stats bs db) s = (if s \<in> set (bs_symbols bs) then symbol_stats db s else None)"
proof -
  have "symbol_stats db s = None" if "s \<notin> set (map pc_symbol db)"
    using that
    by (auto simp: symbol_stats_def symbol_rows_def filter_empty_conv Let_def image_iff)
  then show ?thesis unfolding source_stats_def map_of_option_table by auto
qed

text \<open>What a ready source knows about a symbol.\<close>

lemma source_ready_rows:
  assumes "source_ready bs (source_stats bs db) boundary" "symbol \<in> set (bs_symbols bs)"
  shows "\<exists>first. sort (map pc_open_time (symbol_rows db symbol)) =
       map (\<lambda>i. first + HOUR * int i) [0..<length (symbol_rows db symbol)]"
    "bs_warmup_candles bs \<le> int (length (symbol_rows db symbol))"
    "symbol_rows db symbol \<noteq> []"
    "boundary \<le> Max (pc_close_time ` set (symbol_rows db symbol)) + bs_stale_grace bs"
proof -
  let ?rows = "symbol_rows db symbol"
  obtain row where row: "symbol_stats db symbol = Some row"
      "bs_warmup_candles bs \<le> cs_candle_count row" "cs_gap_count row = 0"
      "boundary \<le> cs_last_close row + bs_stale_grace bs"
    using assms by (auto simp: source_ready_def list_all_iff map_of_source_stats split: option.splits)
  then show "?rows \<noteq> []" by (auto simp: symbol_stats_def)
  with row show "bs_warmup_candles bs \<le> int (length ?rows)"
      "boundary \<le> Max (pc_close_time ` set ?rows) + bs_stale_grace bs"
    by (auto simp: symbol_stats_def Let_def)
  have "count_gaps (sort (map pc_open_time ?rows)) = 0"
    using row(1,3) \<open>?rows \<noteq> []\<close> by (auto simp: symbol_stats_def Let_def)
  then have "adjacent (\<lambda>x y. y - x = HOUR) (sort (map pc_open_time ?rows))"
    by (simp add: count_gaps_0_iff)
  from adjacent_map [OF this] show "\<exists>first. sort (map pc_open_time ?rows) =
      map (\<lambda>i. first + HOUR * int i) [0..<length ?rows]" by auto
qed

lemma bootstrap_ready:
  assumes "bootstrap ingest now bs db = (err, bs', db')" "bs_ready bs'"
  shows "err = None \<and> bs_symbols bs' = bs_symbols bs \<and> bs_warmup_candles bs' = bs_warmup_candles bs \<and>
     bs_stale_grace bs' = bs_stale_grace bs \<and>
     source_ready bs (source_stats bs db') (align_to_interval now HOUR)"
  using assms by (auto simp: bootstrap_def Let_def split: prod.splits option.splits)

section \<open>Boundaries after a restart\<close>

lemma fold_update_indexed:
  assumes "distinct syms" "j < length syms"
  shows "map_of (fold (\<lambda>(i, s) d. AList.update s (g i) d) (zip [k..<k + length syms] syms) d) (syms ! j)
     = Some (g (k + j))"
  using assms
proof (induction syms arbitrary: j k d)
  case (Cons s syms)
  have step: "fold (\<lambda>(i, s) d. AList.update s (g i) d) (zip [k..<k + length (s # syms)] (s # syms)) d =
      fold (\<lambda>(i, s) d. AList.update s (g i) d) (zip [Suc k..<Suc k + length syms] syms)
        (AList.update s (g k) d)"
    by (simp add: upt_conv_Cons del: upt_Suc)
  show ?case
  proof (cases j)
    case 0
    have "map_of (fold (\<lambda>(i, s) d. AList.update s (g i) d) (zip ks syms) d') s = map_of d' s" for ks d'
      using Cons.prems(1)
    proof (induction syms arbitrary: ks d')
      case (Cons a as)
      then show ?case by (cases ks) auto
    qed simp
    with 0 step show ?thesis by simp
  next
    case (Suc j')
    with Cons.IH [of j' "Suc k" "AList.update s (g k) d"] Cons.prems step show ?thesis by simp
  qed
qed simp

lemma hour_sequence: "bybit_sequence (HOUR * n) i = 36000 * n + int i"
  by (simp add: bybit_sequence_def HOUR_def seconds_def)

lemma restored_boundary:
  assumes "distinct (bs_symbols bs)" "j < length (bs_symbols bs)" "0 < sequence"
  shows "map_of (bs_last_emitted (restore_boundary sequence (Some t) bs)) (bs_symbols bs ! j) =
     Some (if bybit_sequence t j \<le> sequence then t else t - HOUR)"
  using assms fold_update_indexed [OF assms(1,2), of
      "\<lambda>i. if bybit_sequence t i \<le> sequence then t else t - HOUR" 0]
  by (simp add: restore_boundary_def)

lemma restored_boundary_exact:
  assumes "i < 10" "j < 10"
  shows "(if bybit_sequence (HOUR * a) j \<le> bybit_sequence (HOUR * a) i then HOUR * a else HOUR * a - HOUR)
       < HOUR * b \<longleftrightarrow> bybit_sequence (HOUR * a) i < bybit_sequence (HOUR * b) j"
proof -
  have "HOUR * a - HOUR < HOUR * b \<longleftrightarrow> a - 1 < b" "HOUR * a < HOUR * b \<longleftrightarrow> a < b"
    by (auto simp: HOUR_def seconds_def)
  then show ?thesis using assms unfolding hour_sequence by (cases "j \<le> i") auto
qed

end
