(* ===== verification/Properties_Paper.thy ===== *)
theory Properties_Paper
  imports Paper_Session Market_Feed
begin

text \<open>
  The properties of the paper trading engine, its runtime and its market data, with their witnesses.
\<close>

section \<open>Examples\<close>

definition ex_hour_candle :: "string \<Rightarrow> int \<Rightarrow> decimal \<Rightarrow> paper_candle" where
  "ex_hour_candle symbol h price =
     \<lparr>pc_symbol = symbol, pc_open_time = HOUR * h, pc_close_time = HOUR * (h + 1), pc_open = price,
      pc_high = price, pc_low = price, pc_close = price, pc_volume = 1\<rparr>"

definition ex_context :: "string \<Rightarrow> string \<Rightarrow> execution_context" where
  "ex_context cid fill =
     \<lparr>xc_client_order_id = Some cid, xc_run_id = None, xc_signal_id = None, xc_order_uuid = ''u'',
      xc_fill_uuid = fill, xc_now = 0\<rparr>"

definition ex_buy :: execution_request where
  "ex_buy = \<lparr>er_symbol = ''BTCUSDT'', er_side = BUY_SIDE, er_quantity = 2\<rparr>"

definition ex_paper :: paper_engine where
  "ex_paper = new_paper_engine (Some empty_store)"

lemmas ex_paper_simps =
  ex_paper_def ex_buy_def ex_context_def ex_hour_candle_def new_paper_engine_def empty_store_def
  execute_request_def execute_new_def market_price_or_last_def simulate_fill_def apply_fill_def
  record_execution_def schedule_def held_def new_order_id_def decimal_ops Let_def

lemma ex_buy_runs:
  "\<exists>res pe'. execute_request ex_buy (Some 100) (ex_context ''a'' ''f'') ex_paper = Inr (res, pe') \<and>
     ex_quantity res = 2 \<and> fst (held pe' ''BTCUSDT'') = 2"
  by (simp add: ex_paper_simps)

lemma ex_fresh_ids: "fresh_ids (ex_context ''a'' ''f'') ex_paper"
  by (simp add: fresh_ids_def ex_context_def new_order_id_def ex_paper_def new_paper_engine_def)

text \<open>A fill identifier longer than all those in use.\<close>

definition ex_fill_uuid :: "paper_engine \<Rightarrow> string" where
  "ex_fill_uuid pe = concat (map fst (pe_fills pe)) @ ''f''"

definition ex_ops :: "(unit, unit) runtime_ops" where
  "ex_ops =
     \<lparr>ro_on_candle = Some (\<lambda>s c pe. Inr ([ex_buy], s)), ro_validate_request = None,
      ro_ready = (\<lambda>e. True), ro_order_uuid = (\<lambda>pe. ''u''), ro_fill_uuid = ex_fill_uuid,
      ro_now = (\<lambda>pe. 0)\<rparr>"

definition ex_runtime :: "paper_store \<Rightarrow> (unit, unit) paper_runtime" where
  "ex_runtime st =
     \<lparr>rt_engine = new_paper_engine (Some st), rt_strategy = (), rt_risk = (),
      rt_candles_processed = 0, rt_last_checkpoint_sequence = 0, rt_trading_enabled = True,
      rt_session_id = Some ''s1'', rt_run_id = ''r'', rt_checkpoint_interval = 1,
      rt_reconciliation_interval = 50, rt_reconcile_callback = False, rt_reconciliations = 0,
      rt_heartbeats = [], rt_running = False\<rparr>"

lemma length_member_concat: "x \<in> set xs \<Longrightarrow> length x \<le> length (concat xs)"
  by (induction xs) auto

lemma ex_ops_fresh: "fresh_fills ex_ops"
proof -
  have "ex_fill_uuid pe \<notin> fst ` set (pe_fills pe)" for pe
    using length_member_concat [of "ex_fill_uuid pe" "map fst (pe_fills pe)"]
    by (auto simp: ex_fill_uuid_def)
  then show ?thesis by (simp add: fresh_fills_def ex_ops_def map_of_eq_None_iff)
qed

section \<open>The runtime and its repository\<close>



text \<open>
  C12: A client order id is executed once: repeating it, with any request, price or identifiers,
  returns the recorded result and leaves the engine as it is.
\<close>

theorem client_order_executes_once:
  assumes "paper_ok pe" "fresh_ids x pe" "xc_client_order_id x = Some cid" "cid \<noteq> ''''"
    "map_of (pe_client_orders pe) cid = None"
    "execute_request r mp x pe = Inr (res, pe')" "xc_client_order_id x' = Some cid"
  shows "execute_request r' mp' x' pe' = Inr (res, pe')"
  by (rule execute_request_again) (rule assms)+

lemma client_order_executes_once_witness:
  "\<exists>res pe'. execute_request ex_buy (Some 100) (ex_context ''a'' ''f'') ex_paper = Inr (res, pe') \<and>
     execute_request ex_buy (Some 90) (ex_context ''a'' ''g'') pe' = Inr (res, pe')"
proof -
  obtain res pe' where run: "execute_request ex_buy (Some 100) (ex_context ''a'' ''f'') ex_paper = Inr (res, pe')"
    using ex_buy_runs by blast
  have "execute_request ex_buy (Some 90) (ex_context ''a'' ''g'') pe' = Inr (res, pe')"
    by (rule client_order_executes_once [OF _ ex_fresh_ids _ _ _ run, of "''a''"])
      (simp_all add: ex_paper_def paper_ok_new ex_context_def, simp add: new_paper_engine_def)
  with run show ?thesis by blast
qed

text \<open>
  C8: The ledger. After any interleaving of market events, executions and flushes from a fresh
  engine, every position is exactly what replaying the recorded fills in order gives, no quantity
  and no average price is negative, and every fill belongs to a recorded order.
\<close>

theorem positions_replay_fills:
  assumes "paper_run (new_paper_engine (Some empty_store)) pe"
  shows "replay (pe_orders pe) (pe_fills pe) symbol = Inr (held pe symbol) \<and>
     0 \<le> fst (held pe symbol) \<and> 0 \<le> snd (held pe symbol) \<and>
     (\<forall>f \<in> set (map snd (pe_fills pe)). map_of (pe_orders pe) (pf_order_id f) \<noteq> None)"
proof -
  have "paper_ok pe"
    using paper_run_ok [OF assms paper_ok_new stored_new] by (simp add: new_paper_engine_def)
  with held_nonneg [of pe symbol] show ?thesis by (simp add: paper_ok_def)
qed

lemma positions_replay_fills_witness:
  "\<exists>pe. fst (held pe ''BTCUSDT'') = 2 \<and>
     replay (pe_orders pe) (pe_fills pe) ''BTCUSDT'' = Inr (held pe ''BTCUSDT'')"
proof -
  obtain res pe where run: "execute_request ex_buy (Some 100) (ex_context ''a'' ''f'') ex_paper = Inr (res, pe)"
      "fst (held pe ''BTCUSDT'') = 2"
    using ex_buy_runs by blast
  have "paper_run ex_paper pe" by (rule run_execute [OF run_start ex_fresh_ids run(1)])
  with positions_replay_fills [of pe "''BTCUSDT''"] run(2) show ?thesis
    unfolding ex_paper_def by blast
qed

text \<open>
  Executions never move the cash balance: it is the same before and after any run, buys and
  sells included.
\<close>

theorem executions_keep_cash:
  assumes "paper_run pe pe'"
  shows "pe_cash_balance pe' = pe_cash_balance pe"
  by (rule paper_run_cash [OF assms])

lemma executions_keep_cash_witness:
  "\<exists>pe. fst (held pe ''BTCUSDT'') = 2 \<and> pe_cash_balance pe = pe_cash_balance ex_paper"
proof -
  obtain res pe where run: "execute_request ex_buy (Some 100) (ex_context ''a'' ''f'') ex_paper = Inr (res, pe)"
      "fst (held pe ''BTCUSDT'') = 2"
    using ex_buy_runs by blast
  have "paper_run ex_paper pe" by (rule run_execute [OF run_start ex_fresh_ids run(1)])
  from executions_keep_cash [OF this] run(2) show ?thesis by blast
qed

section \<open>Events\<close>

text \<open>
  The events an engine accepts have strictly increasing sequence numbers and strictly increasing
  opening times, whatever was offered to it in between.
\<close>

theorem accepted_events_increase:
  assumes "accepts pe es pe'"
  shows "sorted_wrt (<) (pe_last_sequence pe # map me_sequence es) \<and>
     sorted_wrt (<) (map (pc_open_time \<circ> me_candle) es) \<and>
     pe_last_sequence pe' = last (pe_last_sequence pe # map me_sequence es)"
  using accepts_increasing [OF assms] by blast

lemma ex_event_accepted:
  "\<exists>pe'. on_market_event \<lparr>me_candle = ex_hour_candle ''BTCUSDT'' 1 100, me_sequence = 36000\<rparr> ex_paper
     = Inr (True, pe')"
  by (simp add: on_market_event_def validate_candle_def ex_paper_simps HOUR_def seconds_def)

lemma accepted_events_increase_witness:
  "\<exists>pe'. pe_last_sequence pe' = 36000 \<and>
     accepts ex_paper [\<lparr>me_candle = ex_hour_candle ''BTCUSDT'' 1 100, me_sequence = 36000\<rparr>] pe'"
proof -
  let ?e = "\<lparr>me_candle = ex_hour_candle ''BTCUSDT'' 1 100, me_sequence = 36000\<rparr>"
  obtain pe' where "on_market_event ?e ex_paper = Inr (True, pe')" using ex_event_accepted by blast
  then have "accepts ex_paper [?e] pe'" using accepts_event [OF accepts_none] by fastforce
  with accepted_events_increase [OF this] show ?thesis by auto
qed

text \<open>
  One candle per opening time: once an event is accepted, every event with the same opening time
  is refused, whatever its symbol and sequence, so with several symbols only the first of each hour
  is traded.
\<close>

theorem second_symbol_refused:
  assumes "on_market_event e pe = Inr (True, pe')"
    "pc_open_time (me_candle e') = pc_open_time (me_candle e)" "validate_candle (me_candle e') = Inr u"
  shows "on_market_event e' pe' = Inr (False, pe')"
  by (rule same_open_time_refused [OF assms])

lemma second_symbol_refused_witness:
  "\<exists>es pe'. fst (emit_rows [''BTCUSDT'', ''ETHUSDT''] []
        [ex_hour_candle ''BTCUSDT'' 1 100, ex_hour_candle ''ETHUSDT'' 1 50]) = es \<and>
     map me_sequence es = [36000, 36001] \<and>
     on_market_event (es ! 0) ex_paper = Inr (True, pe') \<and>
     on_market_event (es ! 1) pe' = Inr (False, pe')"
proof -
  let ?b = "\<lparr>me_candle = ex_hour_candle ''BTCUSDT'' 1 100, me_sequence = 36000\<rparr>"
  let ?e = "\<lparr>me_candle = ex_hour_candle ''ETHUSDT'' 1 50, me_sequence = 36001\<rparr>"
  have es: "fst (emit_rows [''BTCUSDT'', ''ETHUSDT''] []
      [ex_hour_candle ''BTCUSDT'' 1 100, ex_hour_candle ''ETHUSDT'' 1 50]) = [?b, ?e]"
    by (simp add: ex_hour_candle_def bybit_sequence_def HOUR_def seconds_def)
  obtain pe' where b: "on_market_event ?b ex_paper = Inr (True, pe')" using ex_event_accepted by blast
  have "on_market_event ?e pe' = Inr (False, pe')"
    by (rule second_symbol_refused [OF b, of _ "()"])
      (simp_all add: ex_hour_candle_def validate_candle_def HOUR_def seconds_def)
  with es b show ?thesis by simp
qed

text \<open>
  C21: Resuming. After the boundaries are restored from the last processed event (the hour \<open>a\<close> of the
  symbol with index \<open>i\<close>), a candle of the hour \<open>b\<close> of symbol \<open>j\<close> passes the emission boundary if and
  only if its sequence number is greater than that of the processed event: nothing processed is
  emitted again and nothing unprocessed is lost, for up to ten symbols.
\<close>

theorem restart_emits_exactly_unprocessed:
  assumes "distinct (bs_symbols bs)" "length (bs_symbols bs) \<le> 10"
    "i < length (bs_symbols bs)" "j < length (bs_symbols bs)" "0 < bybit_sequence (HOUR * a) i"
  shows "\<exists>t. map_of (bs_last_emitted
       (restore_boundary (bybit_sequence (HOUR * a) i) (Some (HOUR * a)) bs)) (bs_symbols bs ! j) = Some t \<and>
     (t < HOUR * b \<longleftrightarrow> bybit_sequence (HOUR * a) i < bybit_sequence (HOUR * b) j)"
proof -
  have "i < 10" "j < 10" using assms(2-4) by simp_all
  with restored_boundary [OF assms(1,4,5), of "HOUR * a"] restored_boundary_exact [of i j a b]
  show ?thesis by blast
qed

definition ex_source :: bybit_source where
  "ex_source =
     \<lparr>bs_symbols = [''BTCUSDT'', ''ETHUSDT''], bs_warmup_candles = 2, bs_backfill_buffer = 1,
      bs_stale_grace = 0, bs_ready = False, bs_last_emitted = []\<rparr>"

lemma restart_emits_exactly_unprocessed_witness:
  "\<exists>t. map_of (bs_last_emitted
       (restore_boundary (bybit_sequence (HOUR * 5) 0) (Some (HOUR * 5)) ex_source)) ''ETHUSDT'' = Some t \<and>
     t < HOUR * 5"
  using restart_emits_exactly_unprocessed [of ex_source 0 1 5 5]
  by (simp add: ex_source_def hour_sequence)

section \<open>Market data\<close>

text \<open>
  C20: The history loader terminates, on every answer of the exchange.
\<close>

theorem history_load_terminates:
  "\<exists>outcome st'. load_historical_candles exchange symbol interval start_date end_date batch_size st
     = Some (outcome, st')"
  using load_pages_returns interval_duration_pos
  by (fastforce simp: load_historical_candles_def split: sum.splits)

text \<open>
  C19: A history load that reports success leaves no hole: every candle slot from the aligned start
  up to the end, exclusive, is in the table; the rows inserted lie in the requested range, their number
  is the result, rows stored before are kept, and no candle is stored twice.
\<close>

theorem history_load_has_no_holes:
  assumes "interval_duration interval = Inr d"
    "load_historical_candles exchange symbol interval start_date end_date batch_size st
       = Some (Inr n, st')"
    "\<forall>a b k cs. exchange symbol interval a b k = Inr cs \<longrightarrow>
       (\<forall>c \<in> set cs. ec_symbol c = symbol \<and> ec_interval_code c = interval)"
  shows "(\<forall>i::nat. align_to_interval start_date d + d * int i < end_date \<longrightarrow>
        (\<exists>c \<in> set (rs_candles st'). ec_symbol c = symbol \<and> ec_interval_code c = interval \<and>
            ec_open_time c = align_to_interval start_date d + d * int i)) \<and>
     (\<exists>new. rs_candles st' = rs_candles st @ new \<and> n = int (length new) \<and>
        (\<forall>c \<in> set new. align_to_interval start_date d \<le> ec_open_time c \<and> ec_open_time c < end_date)) \<and>
     (distinct (map candle_key (rs_candles st)) \<longrightarrow> distinct (map candle_key (rs_candles st')))"
proof -
  have "load_pages exchange symbol interval d (min batch_size 1000) end_date
      (align_to_interval start_date d) 0 st = Some (Inr n, st')"
    using assms(1,2) by (auto simp: load_historical_candles_def split: if_splits)
  from load_pages_covers [OF _ this] interval_duration_pos [OF assms(1)] assms(3)
  show ?thesis by simp
qed

definition ex_exchange :: get_candles where
  "ex_exchange symbol interval start stop limit =
     Inr (map (\<lambda>i. \<lparr>ec_exchange_name = ''bybit'', ec_symbol = symbol, ec_interval_code = interval,
                ec_open_time = start + HOUR * int i, ec_close_time = None, ec_open_price = 1,
                ec_high_price = 1, ec_low_price = 1, ec_close_price = 1, ec_volume = 1,
                ec_quote_volume = None, ec_trade_count = None\<rparr>) [0..<2])"

lemma ex_load:
  "\<exists>st'. load_historical_candles ex_exchange ''BTCUSDT'' ''1h'' 0 (HOUR * 3) 2
     \<lparr>rs_candles = [], rs_journal = []\<rparr> = Some (Inr 3, st')"
  by (simp add: load_historical_candles_def interval_duration_def INTERVAL_DURATIONS_def
      load_pages.simps load_page_def ex_exchange_def align_to_interval_def HOUR_def seconds_def
      validate_batch_def store_candles_def insert_candle_def candle_key_def upt_rec Let_def)

lemma history_load_has_no_holes_witness:
  "\<exists>st'. load_historical_candles ex_exchange ''BTCUSDT'' ''1h'' 0 (HOUR * 3) 2
       \<lparr>rs_candles = [], rs_journal = []\<rparr> = Some (Inr 3, st') \<and>
     (\<exists>c \<in> set (rs_candles st'). ec_open_time c = HOUR * 2)"
proof -
  obtain st' where run: "load_historical_candles ex_exchange ''BTCUSDT'' ''1h'' 0 (HOUR * 3) 2
      \<lparr>rs_candles = [], rs_journal = []\<rparr> = Some (Inr 3, st')"
    using ex_load by blast
  have dur: "interval_duration ''1h'' = Inr HOUR"
    by (simp add: interval_duration_def INTERVAL_DURATIONS_def HOUR_def)
  have align: "align_to_interval 0 HOUR + HOUR * int 2 = HOUR * 2" "HOUR * 2 < HOUR * 3"
    by (simp_all add: align_to_interval_def seconds_def HOUR_def)
  have "\<forall>a b k cs. ex_exchange ''BTCUSDT'' ''1h'' a b k = Inr cs \<longrightarrow>
      (\<forall>c \<in> set cs. ec_symbol c = ''BTCUSDT'' \<and> ec_interval_code c = ''1h'')"
    by (auto simp: ex_exchange_def)
  from conjunct1 [OF history_load_has_no_holes [OF dur run this]]
  have "\<exists>c \<in> set (rs_candles st'). ec_open_time c = HOUR * 2"
    using align by metis
  with run show ?thesis by blast
qed

text \<open>
  The replay of a list of valid candles publishes each opening time once, numbered from one, and
  a fresh engine accepts every published event.
\<close>

theorem replay_is_accepted:
  assumes "\<forall>c \<in> set candles. validate_candle c = Inr ()" "market_stream candles = (es, err)"
  shows "err = None \<and> map me_sequence es = map int [1..<Suc (length es)] \<and>
     pc_open_time ` me_candle ` set es = pc_open_time ` set candles \<and>
     (\<exists>pe'. accepts (new_paper_engine store) es pe')"
proof -
  let ?sorted = "sort_key pc_open_time candles"
  obtain cs e where r: "replay_candles None ?sorted = (cs, e)" by force
  then have es: "es = number_events 1 cs" "err = e" using assms(2) by (auto simp: market_stream_def)
  have ok: "e = None \<and> pc_open_time ` set cs = pc_open_time ` set candles"
    using replay_candles_complete [OF _ r] assms(1) by simp
  have len: "length cs = length es" using es(1) by (metis length_map map_number_events)
  have "pc_open_time ` me_candle ` set es = pc_open_time ` set cs"
    using es(1) by (metis list.set_map map_number_events)
  moreover have "map me_sequence es = map int [1..<Suc (length es)]"
    using len by (simp add: es(1) sequence_number_events)
  moreover have "\<exists>pe'. accepts (new_paper_engine store) es pe'"
    unfolding es(1)
    by (rule numbered_events_accepted)
      (use replay_candles_spec [OF r] in \<open>simp_all add: new_paper_engine_def\<close>)
  ultimately show ?thesis using ok es(2) by simp
qed

lemma replay_is_accepted_witness:
  "\<exists>pe'. accepts (new_paper_engine None) (fst (market_stream
      [ex_hour_candle ''BTCUSDT'' 2 100, ex_hour_candle ''BTCUSDT'' 1 100])) pe'"
proof -
  have "\<forall>c \<in> set [ex_hour_candle ''BTCUSDT'' 2 100, ex_hour_candle ''BTCUSDT'' 1 100].
      validate_candle c = Inr ()"
    by (simp add: ex_hour_candle_def validate_candle_def HOUR_def seconds_def)
  from replay_is_accepted [OF this surjective_pairing, of None] show ?thesis by blast
qed

text \<open>
  C35: When a bootstrap leaves the source ready, then for every configured symbol the database holds
  at least the warm-up number of candles, hour after hour without gap or duplicate, the last of them
  no staler than the grace period.
\<close>

theorem ready_source_has_gap_free_history:
  assumes "bootstrap ingest now bs db = (err, bs', db')" "bs_ready bs'" "symbol \<in> set (bs_symbols bs)"
  shows "(\<exists>first. sort (map pc_open_time (symbol_rows db' symbol)) =
        map (\<lambda>i. first + HOUR * int i) [0..<length (symbol_rows db' symbol)]) \<and>
     bs_warmup_candles bs \<le> int (length (symbol_rows db' symbol)) \<and>
     align_to_interval now HOUR
       \<le> Max (pc_close_time ` set (symbol_rows db' symbol)) + bs_stale_grace bs"
  using source_ready_rows [of bs db' "align_to_interval now HOUR" symbol]
    bootstrap_ready [OF assms(1,2)] assms(3) by blast

definition ex_db :: "paper_candle list" where
  "ex_db = [ex_hour_candle s h 1. s \<leftarrow> [''BTCUSDT'', ''ETHUSDT''], h \<leftarrow> [1, 2]]"

lemma ex_bootstrap_ready:
  "\<exists>bs'. bootstrap (\<lambda>s a b db. (None, db)) (HOUR * 3) ex_source ex_db = (None, bs', ex_db) \<and> bs_ready bs'"
  by (simp add: bootstrap_def source_ready_def ex_source_def ex_db_def ex_hour_candle_def
      source_stats_def symbol_stats_def symbol_rows_def backfill_symbol_def recover_symbol_def
      ingest_range_def align_to_interval_def HOUR_def seconds_def Let_def insort_key_def)

lemma ready_source_has_gap_free_history_witness:
  "\<exists>first. sort (map pc_open_time (symbol_rows ex_db ''ETHUSDT'')) =
     map (\<lambda>i. first + HOUR * int i) [0..<length (symbol_rows ex_db ''ETHUSDT'')]"
proof -
  obtain bs' where "bootstrap (\<lambda>s a b db. (None, db)) (HOUR * 3) ex_source ex_db = (None, bs', ex_db)"
      "bs_ready bs'"
    using ex_bootstrap_ready by blast
  from ready_source_has_gap_free_history [OF this, of "''ETHUSDT''"] show ?thesis
    by (simp add: ex_source_def)
qed

end
