(* ===== verification/Runtime_Control.thy ===== *)
theory Runtime_Control
  imports Paper_Session
begin

text \<open>
  The control of the paper runtime in \<open>app/runtime\<close>: the lifecycle machine (\<open>lifecycle.py\<close>), the
  trading calendar (\<open>scheduler.py\<close>), sessions (\<open>session_manager.py\<close>) and the start-up gates
  (\<open>preflight.py\<close>). The time-zone database is the function \<open>zone\<close>; times of day are microseconds.
\<close>

section \<open>Lifecycle\<close>

datatype lifecycle_state = CREATED | PREFLIGHT | RESTORING | WARMUP | RUNNING | STOPPING | STOPPED

fun next_states :: "lifecycle_state \<Rightarrow> lifecycle_state list" where
  "next_states CREATED = [PREFLIGHT, STOPPING]"
| "next_states PREFLIGHT = [RESTORING, STOPPING]"
| "next_states RESTORING = [WARMUP, STOPPING]"
| "next_states WARMUP = [RUNNING, STOPPING]"
| "next_states RUNNING = [STOPPING]"
| "next_states STOPPING = [STOPPED]"
| "next_states STOPPED = []"

record lifecycle =
  lc_state :: lifecycle_state
  lc_history :: "lifecycle_state list"

definition new_lifecycle :: lifecycle where
  "new_lifecycle = \<lparr>lc_state = CREATED, lc_history = [CREATED]\<rparr>"

definition transition :: "lifecycle_state \<Rightarrow> lifecycle \<Rightarrow> py_error option \<times> lifecycle" where
  "transition target lc =
     (if target \<in> set (next_states (lc_state lc))
      then (None, \<lparr>lc_state = target, lc_history = lc_history lc @ [target]\<rparr>)
      else (Some (RuntimeError ''Invalid runtime transition''), lc))"

text \<open>The table as a step relation, and the states a lifecycle passes through.\<close>

inductive lifecycle_step :: "lifecycle_state \<Rightarrow> lifecycle_state \<Rightarrow> bool" where
  step: "t \<in> set (next_states s) \<Longrightarrow> lifecycle_step s t"

inductive_cases lifecycle_stepE: "lifecycle_step s t"
inductive_simps lifecycle_step_iff: "lifecycle_step s t"

definition lifecycle_ok :: "lifecycle \<Rightarrow> bool" where
  "lifecycle_ok lc \<longleftrightarrow>
     lc_history lc \<noteq> [] \<and> hd (lc_history lc) = CREATED \<and> last (lc_history lc) = lc_state lc \<and>
     successively lifecycle_step (lc_history lc)"

lemma lifecycle_ok_new: "lifecycle_ok new_lifecycle"
  by (simp add: lifecycle_ok_def new_lifecycle_def)

lemma lifecycle_ok_transition: "lifecycle_ok lc \<Longrightarrow> lifecycle_ok (snd (transition target lc))"
  by (auto simp: lifecycle_ok_def transition_def successively_append_iff lifecycle_step_iff)

lemma no_step_from_stopped: "\<not> lifecycle_step STOPPED t"
  by (auto elim: lifecycle_stepE)

text \<open>Every step makes progress, so no state is visited twice.\<close>

fun progress :: "lifecycle_state \<Rightarrow> nat" where
  "progress CREATED = 0"
| "progress PREFLIGHT = 1"
| "progress RESTORING = 2"
| "progress WARMUP = 3"
| "progress RUNNING = 4"
| "progress STOPPING = 5"
| "progress STOPPED = 6"

lemma lifecycle_step_progress: "lifecycle_step s t \<Longrightarrow> progress s < progress t"
  by (auto elim!: lifecycle_stepE) (cases s; auto)

lemma lifecycle_history_increasing:
  assumes "lifecycle_ok lc"
  shows "sorted_wrt (<) (map progress (lc_history lc))"
proof -
  have "successively (<) (map progress (lc_history lc))"
    using assms by (auto simp: lifecycle_ok_def successively_map
        intro: successively_mono lifecycle_step_progress)
  then show ?thesis by (simp add: successively_conv_sorted_wrt)
qed

lemma lifecycle_history_distinct: "lifecycle_ok lc \<Longrightarrow> distinct (lc_history lc)"
  using lifecycle_history_increasing [of lc] strict_sorted_iff [of "map progress (lc_history lc)"]
  by (simp add: distinct_map)

section \<open>The trading calendar\<close>

datatype moment = Aware timestamp | Naive timestamp

record local_time =
  lt_year :: nat
  lt_month :: nat
  lt_day :: nat
  lt_weekday :: nat
  lt_time :: int

record trading_schedule =
  ts_timezone :: string
  ts_start :: int
  ts_end :: int
  ts_weekdays :: "nat list"

type_synonym zone_db = "string \<Rightarrow> timestamp \<Rightarrow> local_time"

definition hours :: "int \<Rightarrow> int" where
  "hours n = seconds (n * 3600)"

definition default_trading_schedule :: trading_schedule where
  "default_trading_schedule =
     \<lparr>ts_timezone = ''UTC'', ts_start = hours 9, ts_end = hours 19, ts_weekdays = [0..<5]\<rparr>"

definition new_trading_schedule ::
    "(string \<Rightarrow> bool) \<Rightarrow> string \<Rightarrow> int \<Rightarrow> int \<Rightarrow> nat list \<Rightarrow> trading_schedule result" where
  "new_trading_schedule known timezone start_time end_time weekdays =
     (if \<not> known timezone then Inl (KeyError timezone)
      else if end_time \<le> start_time
      then Inl (ValueError ''Trading schedule end must be later than start'')
      else Inr \<lparr>ts_timezone = timezone, ts_start = start_time, ts_end = end_time,
                ts_weekdays = weekdays\<rparr>)"

definition localize :: "zone_db \<Rightarrow> trading_schedule \<Rightarrow> moment \<Rightarrow> local_time result" where
  "localize zone sch m =
     (case m of
        Naive _ \<Rightarrow> Inl (ValueError ''Trading-window checks require a timezone-aware datetime'')
      | Aware t \<Rightarrow> Inr (zone (ts_timezone sch) t))"

definition inside_window :: "trading_schedule \<Rightarrow> local_time \<Rightarrow> bool" where
  "inside_window sch l \<longleftrightarrow>
     lt_weekday l \<in> set (ts_weekdays sch) \<and> ts_start sch \<le> lt_time l \<and> lt_time l < ts_end sch"

definition schedule_contains :: "zone_db \<Rightarrow> trading_schedule \<Rightarrow> moment \<Rightarrow> bool result" where
  "schedule_contains zone sch m = bind_result (localize zone sch m) (\<lambda>l. Inr (inside_window sch l))"

definition session_name :: "local_time \<Rightarrow> string" where
  "session_name l =
     ''paper_session_'' @ zero_pad 4 (lt_year l) @ zero_pad 2 (lt_month l) @ zero_pad 2 (lt_day l)"

definition schedule_session_id :: "zone_db \<Rightarrow> trading_schedule \<Rightarrow> moment \<Rightarrow> string option result" where
  "schedule_session_id zone sch m =
     bind_result (localize zone sch m)
       (\<lambda>l. Inr (if inside_window sch l then Some (session_name l) else None))"

text \<open>The close of the session: the local date at the end of the window.\<close>

definition schedule_close_at :: "zone_db \<Rightarrow> trading_schedule \<Rightarrow> moment \<Rightarrow> local_time option result" where
  "schedule_close_at zone sch m =
     bind_result (localize zone sch m)
       (\<lambda>l. Inr (if inside_window sch l then Some (l\<lparr>lt_time := ts_end sch\<rparr>) else None))"

text \<open>Both ends carry the same zone, so Python subtracts their wall-clock times.\<close>

definition schedule_until_close :: "zone_db \<Rightarrow> trading_schedule \<Rightarrow> moment \<Rightarrow> int option result" where
  "schedule_until_close zone sch m =
     bind_result (schedule_close_at zone sch m)
       (\<lambda>close. case close of
          None \<Rightarrow> Inr None
        | Some c \<Rightarrow> bind_result (localize zone sch m) (\<lambda>l. Inr (Some (max 0 (lt_time c - lt_time l)))))"

text \<open>\<open>HH:MM\<close>, on ASCII text.\<close>

definition char_digit :: "char \<Rightarrow> nat" where
  "char_digit c = of_char c - 48"

definition parse_hhmm :: "string \<Rightarrow> int result" where
  "parse_hhmm value =
     (case value of
        [a, b, c, d, e] \<Rightarrow>
          if c = CHR '':'' \<and> list_all (\<lambda>x. (of_char x :: nat) \<in> {48..57}) [a, b, d, e]
          then (let h = 10 * char_digit a + char_digit b; m = 10 * char_digit d + char_digit e
                in if h < 24 \<and> m < 60 then Inr (seconds (int (60 * (60 * h + m))))
                   else Inl (ValueError ''expected HH:MM''))
          else Inl (ValueError ''expected HH:MM'')
      | _ \<Rightarrow> Inl (ValueError ''expected HH:MM''))"

section \<open>Sessions\<close>

record trading_session =
  tss_session_id :: string
  tss_started_at :: moment
  tss_scheduled_close_at :: local_time

record session_manager =
  sm_schedule :: trading_schedule
  sm_current :: "trading_session option"

definition session_open ::
    "zone_db \<Rightarrow> moment \<Rightarrow> session_manager \<Rightarrow> (trading_session option \<times> session_manager) result" where
  "session_open zone now sm =
     bind_result (schedule_session_id zone (sm_schedule sm) now) (\<lambda>sid.
     bind_result (schedule_close_at zone (sm_schedule sm) now) (\<lambda>close.
       Inr (case (sid, close) of
              (Some i, Some c) \<Rightarrow>
                let s = \<lparr>tss_session_id = i, tss_started_at = now, tss_scheduled_close_at = c\<rparr>
                in (Some s, sm\<lparr>sm_current := Some s\<rparr>)
            | _ \<Rightarrow> (None, sm\<lparr>sm_current := None\<rparr>))))"

definition entries_allowed :: "zone_db \<Rightarrow> moment \<Rightarrow> session_manager \<Rightarrow> bool result" where
  "entries_allowed zone now sm =
     (if sm_current sm = None then Inr False else schedule_contains zone (sm_schedule sm) now)"

definition session_until_close :: "zone_db \<Rightarrow> moment \<Rightarrow> session_manager \<Rightarrow> int option result" where
  "session_until_close zone now sm =
     (if sm_current sm = None then Inr None else schedule_until_close zone (sm_schedule sm) now)"

definition session_close :: "session_manager \<Rightarrow> trading_session option \<times> session_manager" where
  "session_close sm = (sm_current sm, sm\<lparr>sm_current := None\<rparr>)"

section \<open>Preflight\<close>

text \<open>What the injected checks answer; \<open>pf_load_state\<close> is \<open>None\<close> when there is no repository.\<close>

record preflight =
  pf_trading_mode :: string
  pf_exchange :: string
  pf_symbols :: "string list"
  pf_initial_capital :: decimal
  pf_risk_config :: bool
  pf_database_check :: "bool result"
  pf_migration_check :: "bool result"
  pf_load_state :: "py_error option option"

record preflight_result =
  pr_success :: bool
  pr_checks :: "string list"
  pr_errors :: "string list"

definition is_space :: "char \<Rightarrow> bool" where
  "is_space c \<longleftrightarrow> (of_char c :: nat) \<in> {9..13} \<union> {28..32}"

definition nonblank :: "string \<Rightarrow> bool" where
  "nonblank s \<longleftrightarrow> list_ex (\<lambda>c. \<not> is_space c) s"

text \<open>The gates in order: whether the gate holds, what it reports if so, and if not.\<close>

definition preflight_gates :: "preflight \<Rightarrow> (bool \<times> string \<times> string) list" where
  "preflight_gates pf =
     (let database_ok = (pf_database_check pf = Inr True);
          migrations_ok = (database_ok \<and> pf_migration_check pf = Inr True)
      in [(pf_trading_mode pf = ''paper'', ''trading_mode=paper'',
             if pf_trading_mode pf = ''live'' then ''Live mode cannot start the paper runtime''
             else ''Unknown trading mode: '' @ pf_trading_mode pf),
          (nonblank (pf_exchange pf), ''exchange_configuration'', ''Exchange configuration is missing''),
          (pf_symbols pf \<noteq> [] \<and> list_all nonblank (pf_symbols pf), ''symbol_list'',
             ''Symbol list is missing''),
          (0 < pf_initial_capital pf, ''initial_capital'', ''Initial capital must be positive''),
          (pf_risk_config pf, ''risk_configuration'', ''Risk configuration is missing''),
          (database_ok, ''database_connection'', ''Database unavailable''),
          (migrations_ok, ''migration_state'', ''Database migration state is unavailable''),
          (pf_load_state pf = Some None, ''restore_available'',
             if pf_load_state pf = None then ''Paper state repository is unavailable''
             else ''Paper state restore is unavailable'')])"

definition run_preflight :: "preflight \<Rightarrow> preflight_result" where
  "run_preflight pf =
     (let gates = preflight_gates pf;
          checks = [ok. (holds, ok, err) \<leftarrow> gates, holds];
          errors = [err. (holds, ok, err) \<leftarrow> gates, \<not> holds]
      in \<lparr>pr_success = (errors = []), pr_checks = checks, pr_errors = errors\<rparr>)"


section \<open>Facts about the gates\<close>

lemma preflight_success_iff:
  "pr_success (run_preflight pf) \<longleftrightarrow>
     pf_trading_mode pf = ''paper'' \<and> nonblank (pf_exchange pf) \<and>
     pf_symbols pf \<noteq> [] \<and> list_all nonblank (pf_symbols pf) \<and> 0 < pf_initial_capital pf \<and>
     pf_risk_config pf \<and> pf_database_check pf = Inr True \<and> pf_migration_check pf = Inr True \<and>
     pf_load_state pf = Some None"
  by (auto simp: run_preflight_def preflight_gates_def Let_def)

lemma preflight_reports_all:
  "length (pr_checks (run_preflight pf)) + length (pr_errors (run_preflight pf)) = 8"
proof -
  have "length [ok. (p, ok, err) \<leftarrow> xs, p] + length [err. (p, ok, err) \<leftarrow> xs, \<not> p] = length xs"
    for xs :: "(bool \<times> string \<times> string) list"
    by (induction xs) auto
  from this [of "preflight_gates pf"] show ?thesis
    by (simp add: run_preflight_def Let_def) (simp add: preflight_gates_def Let_def)
qed

lemma preflight_success_no_errors: "pr_success (run_preflight pf) \<longleftrightarrow> pr_errors (run_preflight pf) = []"
  by (simp add: run_preflight_def Let_def)

section \<open>Facts about the calendar\<close>

lemma schedule_contains_aware:
  "schedule_contains zone sch (Aware t) = Inr (inside_window sch (zone (ts_timezone sch) t))"
  by (simp add: schedule_contains_def localize_def)

lemma close_boundary_excluded: "lt_time l = ts_end sch \<Longrightarrow> \<not> inside_window sch l"
  by (simp add: inside_window_def)

lemma session_open_aware:
  "session_open zone (Aware t) sm =
     (let l = zone (ts_timezone (sm_schedule sm)) t
      in if inside_window (sm_schedule sm) l
         then let s = \<lparr>tss_session_id = session_name l, tss_started_at = Aware t,
                       tss_scheduled_close_at = l\<lparr>lt_time := ts_end (sm_schedule sm)\<rparr>\<rparr>
              in Inr (Some s, sm\<lparr>sm_current := Some s\<rparr>)
         else Inr (None, sm\<lparr>sm_current := None\<rparr>))"
  by (simp add: session_open_def schedule_session_id_def schedule_close_at_def localize_def Let_def)

lemma schedule_until_close_aware:
  "schedule_until_close zone sch (Aware t) =
     (let l = zone (ts_timezone sch) t
      in Inr (if inside_window sch l then Some (ts_end sch - lt_time l) else None))"
  by (simp add: schedule_until_close_def schedule_close_at_def localize_def Let_def inside_window_def)

lemma length_nat_string_le: "n < 10 ^ w \<Longrightarrow> 0 < w \<Longrightarrow> length (nat_string n) \<le> w"
proof (induction n arbitrary: w rule: nat_string.induct)
  case (1 n)
  show ?case
  proof (cases "n < 10")
    case False
    then obtain v where v: "w = Suc v" "0 < v"
      using "1.prems" by (cases w; cases "w - 1") auto
    have "n div 10 < 10 ^ v" using "1.prems"(1) v(1) by (simp add: less_mult_imp_div_less mult.commute)
    with "1.IH" [OF False] v show ?thesis using False by (simp add: nat_string.simps [of n])
  qed (use 1 in \<open>simp add: nat_string.simps [of n]\<close>)
qed

lemma length_zero_pad: "n < 10 ^ w \<Longrightarrow> 0 < w \<Longrightarrow> length (zero_pad w n) = w"
  using length_nat_string_le [of n w] by (simp add: zero_pad_def)

definition proper_date :: "local_time \<Rightarrow> bool" where
  "proper_date l \<longleftrightarrow> lt_year l < 10000 \<and> lt_month l < 100 \<and> lt_day l < 100"

lemma session_name_inject:
  assumes "proper_date l" "proper_date l'" "session_name l = session_name l'"
  shows "lt_year l = lt_year l' \<and> lt_month l = lt_month l' \<and> lt_day l = lt_day l'"
  using assms length_zero_pad [of "lt_year l" 4] length_zero_pad [of "lt_year l'" 4]
    length_zero_pad [of "lt_month l" 2] length_zero_pad [of "lt_month l'" 2]
  by (simp add: session_name_def proper_date_def append_eq_append_conv)

lemma zero_pad_two:
  "n < 100 \<Longrightarrow> zero_pad 2 n = [digit_char (n div 10), digit_char (n mod 10)]"
proof -
  assume "n < 100"
  show ?thesis
  proof (cases "n < 10")
    case False
    then have "n div 10 < 10" using \<open>n < 100\<close> by (simp add: less_mult_imp_div_less)
    with False show ?thesis by (simp add: zero_pad_def nat_string.simps)
  qed (simp add: zero_pad_def nat_string.simps [of n] numeral_2_eq_2)
qed

lemma of_char_digit_range: "d < 10 \<Longrightarrow> (of_char (digit_char d) :: nat) \<in> {48..57}"
  by (simp add: of_char_digit_char)

lemma char_digit_digit_char [simp]: "d < 10 \<Longrightarrow> char_digit (digit_char d) = d"
  by (simp add: char_digit_def of_char_digit_char)

lemma digit_char_char_digit: "(of_char c :: nat) \<in> {48..57} \<Longrightarrow> digit_char (char_digit c) = c"
  by (simp add: char_digit_def digit_char_def)

lemma parse_hhmm_format:
  assumes "h < 24" "m < 60"
  shows "parse_hhmm (zero_pad 2 h @ '':'' @ zero_pad 2 m) = Inr (seconds (int (60 * (60 * h + m))))"
proof -
  have "h div 10 < 10" "m div 10 < 10" using assms by (simp_all add: less_mult_imp_div_less)
  moreover have "10 * (h div 10) + h mod 10 = h" "10 * (m div 10) + m mod 10 = m" by simp_all
  ultimately show ?thesis
    using assms of_char_digit_range
    by (simp add: zero_pad_two parse_hhmm_def Let_def del: mult_div_mod_eq)
qed

lemma parse_hhmm_Inr:
  assumes "parse_hhmm s = Inr t"
  obtains h m where "h < 24" "m < 60" "s = zero_pad 2 h @ '':'' @ zero_pad 2 m"
    "t = seconds (int (60 * (60 * h + m)))"
proof -
  obtain a b d e where s: "s = [a, b, CHR '':'', d, e]"
    and digits: "list_all (\<lambda>x. (of_char x :: nat) \<in> {48..57}) [a, b, d, e]"
    and rest: "10 * char_digit a + char_digit b < 24" "10 * char_digit d + char_digit e < 60"
      "t = seconds (int (60 * (60 * (10 * char_digit a + char_digit b) + (10 * char_digit d + char_digit e))))"
    using assms by (auto simp: parse_hhmm_def Let_def split: list.splits if_splits)
  have digit: "char_digit x < 10" if "(of_char x :: nat) \<in> {48..57}" for x
    using that unfolding char_digit_def atLeastAtMost_iff by linarith
  have two: "zero_pad 2 (10 * char_digit x + char_digit y) = [x, y]"
    if "(of_char x :: nat) \<in> {48..57}" "(of_char y :: nat) \<in> {48..57}" for x y
  proof -
    have d: "char_digit x < 10" "char_digit y < 10" using that digit by blast+
    then have "10 * char_digit x + char_digit y < 100" by linarith
    with d show ?thesis
      using digit_char_char_digit [OF that(1)] digit_char_char_digit [OF that(2)]
      by (simp add: zero_pad_two)
  qed
  with s digits show ?thesis by (intro that [OF rest(1,2) _ rest(3)]) (simp add: two)
qed

end
