(* ===== verification/Reconciler.thy ===== *)
theory Reconciler
  imports Paper_Session
begin

text \<open>
  \<open>app/reconciliation/paper_reconciler.py\<close>: the live engine compared with the rows a database reader
  returns. A row is a dictionary or an object of the state models; the code reads orders and fills
  with \<open>row.get\<close>, which only dictionaries have. A Python set has no order: the discrepancies of one
  kind are listed in the order of the dictionary the keys come from.
\<close>

section \<open>Rows and results\<close>

datatype 'a db_row = DictRow 'a | ObjectRow 'a

fun row_content :: "'a db_row \<Rightarrow> 'a" where
  "row_content (DictRow a) = a"
| "row_content (ObjectRow a) = a"

datatype severity = RECOVERABLE | FATAL

record discrepancy =
  di_category :: string
  di_severity :: severity
  di_subject :: string
  di_runtime_quantity :: "decimal option"
  di_db_quantity :: "decimal option"

record reconciliation_result =
  rr_checked_at :: timestamp
  rr_discrepancies :: "discrepancy list"
  rr_orders_runtime :: nat
  rr_orders_db :: nat
  rr_fills_runtime :: nat
  rr_fills_db :: nat
  rr_balance_runtime :: decimal
  rr_balance_db :: decimal
  rr_position_symbols_runtime :: nat
  rr_position_symbols_db :: nat
  rr_success :: bool

definition has_fatal :: "reconciliation_result \<Rightarrow> bool" where
  "has_fatal r = list_ex (\<lambda>d. di_severity d = FATAL) (rr_discrepancies r)"

definition fatal_count :: "reconciliation_result \<Rightarrow> nat" where
  "fatal_count r = length (filter (\<lambda>d. di_severity d = FATAL) (rr_discrepancies r))"

definition recoverable_count :: "reconciliation_result \<Rightarrow> nat" where
  "recoverable_count r = length (filter (\<lambda>d. di_severity d = RECOVERABLE) (rr_discrepancies r))"

text \<open>What the reader loads: the identifiers of orders and fills, the positions, the state.\<close>

record database_rows =
  dr_orders :: "string db_row list"
  dr_fills :: "string db_row list"
  dr_positions :: "paper_position db_row list"
  dr_state :: "runtime_state option"

record reconciler =
  rc_balance_tolerance :: decimal
  rc_position_tolerance :: decimal
  rc_on_reconciled :: "(reconciliation_result \<Rightarrow> py_error option) option"
  rc_last_result :: "reconciliation_result option"
  rc_consecutive_fatal :: nat
  rc_total_checks :: nat

definition new_reconciler :: "(reconciliation_result \<Rightarrow> py_error option) option \<Rightarrow> reconciler" where
  "new_reconciler callback =
     \<lparr>rc_balance_tolerance = 1 / 100, rc_position_tolerance = 1 / 10 ^ 8,
      rc_on_reconciled = callback, rc_last_result = None, rc_consecutive_fatal = 0,
      rc_total_checks = 0\<rparr>"

section \<open>Comparing\<close>

text \<open>\<open>{row.get(key): row for row in rows}\<close>, which raises at the first row that is an object.\<close>

definition rows_by_id :: "string db_row list \<Rightarrow> string dict result" where
  "rows_by_id rows =
     fold_result (\<lambda>row d. case row of
                    ObjectRow _ \<Rightarrow> Inl (AttributeError ''get'')
                  | DictRow i \<Rightarrow> Inr (AList.update i i d)) rows []"

definition positions_by_symbol :: "paper_position db_row list \<Rightarrow> paper_position dict" where
  "positions_by_symbol rows = keyed pp_symbol (map row_content rows)"

definition only_in :: "'a dict \<Rightarrow> 'b dict \<Rightarrow> string list" where
  "only_in d d' = filter (\<lambda>k. map_of d' k = None) (map fst d)"

definition both_in :: "'a dict \<Rightarrow> 'b dict \<Rightarrow> string list" where
  "both_in d d' = filter (\<lambda>k. map_of d' k \<noteq> None) (map fst d)"

definition id_discrepancies :: "string \<Rightarrow> 'a dict \<Rightarrow> string dict \<Rightarrow> discrepancy list" where
  "id_discrepancies kind runtime db =
     map (\<lambda>i. \<lparr>di_category = kind @ ''_missing_in_db'', di_severity = RECOVERABLE, di_subject = i,
               di_runtime_quantity = None, di_db_quantity = None\<rparr>) (only_in runtime db) @
     map (\<lambda>i. \<lparr>di_category = kind @ ''_missing_in_runtime'', di_severity = FATAL, di_subject = i,
               di_runtime_quantity = None, di_db_quantity = None\<rparr>) (only_in db runtime)"

definition quantity_in :: "paper_position dict \<Rightarrow> string \<Rightarrow> decimal" where
  "quantity_in d s = (case map_of d s of None \<Rightarrow> 0 | Some p \<Rightarrow> pp_quantity p)"

definition position_discrepancies ::
    "decimal \<Rightarrow> paper_position dict \<Rightarrow> paper_position dict \<Rightarrow> discrepancy list" where
  "position_discrepancies tolerance runtime db =
     map (\<lambda>s. \<lparr>di_category = ''position_missing_in_db'', di_severity = FATAL, di_subject = s,
               di_runtime_quantity = Some (quantity_in runtime s), di_db_quantity = None\<rparr>)
       (filter (\<lambda>s. tolerance < quantity_in runtime s) (only_in runtime db)) @
     map (\<lambda>s. \<lparr>di_category = ''position_missing_in_runtime'', di_severity = FATAL, di_subject = s,
               di_runtime_quantity = None, di_db_quantity = Some (quantity_in db s)\<rparr>)
       (filter (\<lambda>s. tolerance < quantity_in db s) (only_in db runtime)) @
     map (\<lambda>s. \<lparr>di_category = ''position_quantity_mismatch'', di_severity = FATAL, di_subject = s,
               di_runtime_quantity = Some (quantity_in runtime s),
               di_db_quantity = Some (quantity_in db s)\<rparr>)
       (filter (\<lambda>s. tolerance < dabs (dsub (quantity_in runtime s) (quantity_in db s)))
         (both_in runtime db))"

definition balance_discrepancies :: "decimal \<Rightarrow> decimal \<Rightarrow> decimal \<Rightarrow> discrepancy list" where
  "balance_discrepancies tolerance runtime db =
     (if tolerance < dabs (dsub runtime db)
      then [\<lparr>di_category = ''balance_mismatch'', di_severity = FATAL, di_subject = '''',
             di_runtime_quantity = Some runtime, di_db_quantity = Some db\<rparr>] else [])"

definition compare_states ::
    "reconciler \<Rightarrow> timestamp \<Rightarrow> paper_engine \<Rightarrow> database_rows \<Rightarrow> reconciliation_result result" where
  "compare_states rc now pe rows =
     bind_result (rows_by_id (dr_orders rows)) (\<lambda>orders.
     bind_result (rows_by_id (dr_fills rows)) (\<lambda>fills.
       let positions = positions_by_symbol (dr_positions rows);
           balance = (case dr_state rows of None \<Rightarrow> 0 | Some s \<Rightarrow> rts_cash_balance s)
       in Inr \<lparr>rr_checked_at = now,
               rr_discrepancies =
                 id_discrepancies ''order'' (pe_orders pe) orders @
                 id_discrepancies ''fill'' (pe_fills pe) fills @
                 position_discrepancies (rc_position_tolerance rc) (pe_positions pe) positions @
                 balance_discrepancies (rc_balance_tolerance rc) (pe_cash_balance pe) balance,
               rr_orders_runtime = length (pe_orders pe), rr_orders_db = length orders,
               rr_fills_runtime = length (pe_fills pe), rr_fills_db = length fills,
               rr_balance_runtime = pe_cash_balance pe, rr_balance_db = balance,
               rr_position_symbols_runtime = length (pe_positions pe),
               rr_position_symbols_db = length positions, rr_success = True\<rparr>))"

text \<open>One cycle. \<open>None\<close> stands for a reader that is not configured; the first cause of an error ends it.\<close>

definition reconcile ::
    "timestamp \<Rightarrow> paper_engine option \<Rightarrow> database_rows result option \<Rightarrow> reconciler
     \<Rightarrow> reconciliation_result result \<times> reconciler" where
  "reconcile now state_reader db_reader rc =
     (let rc1 = rc\<lparr>rc_total_checks := Suc (rc_total_checks rc)\<rparr>
      in case (state_reader, db_reader) of
           (Some pe, Some loaded) \<Rightarrow>
             (case bind_result loaded (compare_states rc1 now pe) of
                Inl e \<Rightarrow> (Inl e, rc1)
              | Inr r \<Rightarrow>
                  let rc2 = rc1\<lparr>rc_consecutive_fatal :=
                                  (if has_fatal r then Suc (rc_consecutive_fatal rc1) else 0),
                                rc_last_result := Some r\<rparr>
                  in (case rc_on_reconciled rc2 of
                        None \<Rightarrow> (Inr r, rc2)
                      | Some callback \<Rightarrow>
                          (case callback r of None \<Rightarrow> (Inr r, rc2) | Some e \<Rightarrow> (Inl e, rc2))))
         | _ \<Rightarrow>
             let r = \<lparr>rr_checked_at = now, rr_discrepancies = [], rr_orders_runtime = 0,
                      rr_orders_db = 0, rr_fills_runtime = 0, rr_fills_db = 0,
                      rr_balance_runtime = 0, rr_balance_db = 0, rr_position_symbols_runtime = 0,
                      rr_position_symbols_db = 0, rr_success = False\<rparr>
             in (Inr r, rc1\<lparr>rc_last_result := Some r\<rparr>))"

text \<open>The rows of the repository's tables: the state models \<open>load_orders\<close> and the others build.\<close>

definition repository_rows :: "paper_store \<Rightarrow> database_rows" where
  "repository_rows st =
     \<lparr>dr_orders = map (\<lambda>o1. ObjectRow (po_order_id o1)) (map snd (sto_orders st)),
      dr_fills = map (\<lambda>f. ObjectRow (pf_fill_id f)) (map snd (sto_fills st)),
      dr_positions = map ObjectRow (map snd (sto_positions st)), dr_state = sto_state st\<rparr>"

text \<open>The same tables through a reader that returns dictionaries, as the protocol announces.\<close>

definition dictionary_rows :: "paper_store \<Rightarrow> database_rows" where
  "dictionary_rows st =
     \<lparr>dr_orders = map (\<lambda>o1. DictRow (po_order_id o1)) (map snd (sto_orders st)),
      dr_fills = map (\<lambda>f. DictRow (pf_fill_id f)) (map snd (sto_fills st)),
      dr_positions = map DictRow (map snd (sto_positions st)), dr_state = sto_state st\<rparr>"

section \<open>Facts\<close>

lemma rows_by_id_dict:
  "fold_result (\<lambda>row d. case row of ObjectRow _ \<Rightarrow> Inl (AttributeError ''get'')
                  | DictRow i \<Rightarrow> Inr (AList.update i i d)) (map DictRow is) d =
     Inr (foldl (\<lambda>d i. AList.update i i d) d is)"
  by (induction "is" arbitrary: d) simp_all

lemma rows_by_id_DictRow: "rows_by_id (map DictRow is) = Inr (keyed (\<lambda>i. i) is)"
  by (simp add: rows_by_id_def rows_by_id_dict keyed_def)

lemma rows_by_id_raises: "ObjectRow i \<in> set rows \<Longrightarrow> rows_by_id rows = Inl (AttributeError ''get'')"
proof -
  have "ObjectRow i \<in> set rows \<Longrightarrow>
      fold_result (\<lambda>row d. case row of ObjectRow _ \<Rightarrow> Inl (AttributeError ''get'')
        | DictRow i \<Rightarrow> Inr (AList.update i i d)) rows d = Inl (AttributeError ''get'')" for d
    by (induction rows arbitrary: d) (auto split: db_row.splits)
  then show "ObjectRow i \<in> set rows \<Longrightarrow> ?thesis" by (simp add: rows_by_id_def)
qed

lemma map_of_keyed_Some_iff: "map_of (keyed key xs) k \<noteq> None \<longleftrightarrow> k \<in> key ` set xs"
  unfolding keyed_def by (induction xs rule: rev_induct) auto

lemma set_only_in: "set (only_in d d') = dom (map_of d) - dom (map_of d')"
  by (auto simp: only_in_def dom_map_of_conv_image_fst map_of_eq_None_iff)

lemma set_both_in: "set (both_in d d') = dom (map_of d) \<inter> dom (map_of d')"
  by (auto simp: both_in_def dom_map_of_conv_image_fst map_of_eq_None_iff simp del: not_None_eq)

lemma only_in_same: "dom (map_of d) = dom (map_of d') \<Longrightarrow> only_in d d' = []"
  using set_only_in [of d d'] by (metis Diff_cancel set_empty)

lemma id_discrepancies_fatal:
  "(\<exists>x \<in> set (id_discrepancies kind d d'). di_severity x = FATAL) \<longleftrightarrow>
     \<not> dom (map_of d') \<subseteq> dom (map_of d)"
  unfolding id_discrepancies_def set_append set_map set_only_in by (simp add: bex_Un) blast

lemma position_discrepancies_fatal:
  "(\<exists>x \<in> set (position_discrepancies tol d d'). di_severity x = FATAL) \<longleftrightarrow>
     (\<exists>s. (map_of d' s = None \<and> map_of d s \<noteq> None \<and> tol < quantity_in d s) \<or>
          (map_of d s = None \<and> map_of d' s \<noteq> None \<and> tol < quantity_in d' s) \<or>
          (map_of d s \<noteq> None \<and> map_of d' s \<noteq> None \<and>
           tol < dabs (dsub (quantity_in d s) (quantity_in d' s))))"
  (is "?l \<longleftrightarrow> ?r")
proof
  show "?l \<Longrightarrow> ?r" 
    unfolding position_discrepancies_def by (auto simp: set_only_in set_both_in)
next
  assume ?r
  then obtain s where "s \<in> set (only_in d d') \<and> tol < quantity_in d s \<or>
      s \<in> set (only_in d' d) \<and> tol < quantity_in d' s \<or>
      s \<in> set (both_in d d') \<and> tol < dabs (dsub (quantity_in d s) (quantity_in d' s))"
    unfolding set_only_in set_both_in by blast
  then show ?l unfolding position_discrepancies_def by (elim disjE conjE) force+
qed

lemma balance_discrepancies_fatal:
  "(\<exists>x \<in> set (balance_discrepancies tol b b'). di_severity x = FATAL) \<longleftrightarrow> tol < dabs (dsub b b')"
  by (simp add: balance_discrepancies_def)

lemma dom_keyed: "dom (map_of (keyed key xs)) = key ` set xs"
  using map_of_keyed_Some_iff [of key xs] by (auto simp: dom_def)

lemma has_fatal_iff:
  assumes "compare_states rc now pe rows = Inr r"
    "dr_orders rows = map DictRow order_ids" "dr_fills rows = map DictRow fill_ids"
    "db = positions_by_symbol (dr_positions rows)"
  shows "has_fatal r \<longleftrightarrow>
     \<not> set order_ids \<subseteq> dom (map_of (pe_orders pe)) \<or>
     \<not> set fill_ids \<subseteq> dom (map_of (pe_fills pe)) \<or>
     (\<exists>s. (map_of db s = None \<and> map_of (pe_positions pe) s \<noteq> None \<and>
           rc_position_tolerance rc < quantity_in (pe_positions pe) s) \<or>
          (map_of (pe_positions pe) s = None \<and> map_of db s \<noteq> None \<and>
           rc_position_tolerance rc < quantity_in db s) \<or>
          (map_of (pe_positions pe) s \<noteq> None \<and> map_of db s \<noteq> None \<and>
           rc_position_tolerance rc < dabs (dsub (quantity_in (pe_positions pe) s) (quantity_in db s)))) \<or>
     rc_balance_tolerance rc < dabs (dsub (pe_cash_balance pe)
        (case dr_state rows of None \<Rightarrow> 0 | Some s \<Rightarrow> rts_cash_balance s))"
proof -
  have r: "rr_discrepancies r =
      id_discrepancies ''order'' (pe_orders pe) (keyed (\<lambda>i. i) order_ids) @
      id_discrepancies ''fill'' (pe_fills pe) (keyed (\<lambda>i. i) fill_ids) @
      position_discrepancies (rc_position_tolerance rc) (pe_positions pe) db @
      balance_discrepancies (rc_balance_tolerance rc) (pe_cash_balance pe)
        (case dr_state rows of None \<Rightarrow> 0 | Some s \<Rightarrow> rts_cash_balance s)"
    using assms by (auto simp: compare_states_def rows_by_id_DictRow Let_def)
  show ?thesis
    unfolding has_fatal_def list_ex_iff r set_append bex_Un id_discrepancies_fatal
      position_discrepancies_fatal balance_discrepancies_fatal dom_keyed image_ident ..
qed

text \<open>A repository that agrees with the engine.\<close>

lemma position_discrepancies_same:
  "0 \<le> tol \<Longrightarrow> position_discrepancies tol d d = []"
  by (simp add: position_discrepancies_def only_in_same dabs_def dneg_def)

lemma id_discrepancies_same: "dom (map_of d) = dom (map_of d') \<Longrightarrow> id_discrepancies kind d d' = []"
  using only_in_same [of d d'] only_in_same [of d' d] by (simp add: id_discrepancies_def)

lemma dom_keyed_ids:
  "self_keyed key d \<Longrightarrow> dom (map_of (keyed (\<lambda>i. i) (map (key \<circ> snd) d))) = dom (map_of d)"
proof -
  assume "self_keyed key d"
  then have "map (key \<circ> snd) d = map fst d" by (auto simp: self_keyed_def)
  then show ?thesis unfolding dom_keyed by (simp add: dom_map_of_conv_image_fst)
qed

lemma compare_states_agree:
  assumes "paper_ok pe" "tables st = (pe_orders pe, pe_fills pe, pe_positions pe)"
    "sto_state st = Some s" "rts_cash_balance s = pe_cash_balance pe"
    "0 \<le> rc_position_tolerance rc" "0 \<le> rc_balance_tolerance rc"
  shows "\<exists>r. compare_states rc now pe (dictionary_rows st) = Inr r \<and> rr_discrepancies r = [] \<and> rr_success r"
proof -
  have keys: "self_keyed po_order_id (pe_orders pe)" "self_keyed pf_fill_id (pe_fills pe)"
      "positions_by_symbol (map DictRow (map snd (pe_positions pe))) = pe_positions pe"
    using assms(1) by (auto simp: paper_ok_def positions_by_symbol_def comp_def intro: keyed_self)
  have ids: "rows_by_id (map (\<lambda>x. DictRow (key (snd x))) d) = Inr (keyed (\<lambda>i. i) (map (key \<circ> snd) d))"
    for key :: "'x \<Rightarrow> string" and d :: "'x dict"
    using rows_by_id_DictRow [of "map (key \<circ> snd) d"] by (simp add: comp_def)
  have dabs0: "dabs 0 = 0" by (simp add: dabs_def)
  have d: "id_discrepancies kind d (keyed (\<lambda>i. i) (map (\<lambda>x. key (snd x)) d)) = []"
    if "self_keyed key d" for kind and key :: "'x \<Rightarrow> string" and d
    using id_discrepancies_same [OF dom_keyed_ids [OF that, symmetric]] by (simp add: comp_def)
  show ?thesis
    using assms(2-6) keys
    by (simp add: compare_states_def dictionary_rows_def tables_def ids Let_def dabs0
        d position_discrepancies_same balance_discrepancies_def comp_def)
qed

lemma reconcile_fresh_repository:
  assumes "pe_orders pe = []" "pe_fills pe = []"
    "rc_balance_tolerance rc < dabs (dsub (pe_cash_balance pe) 0)" "rc_on_reconciled rc = None"
  shows "\<exists>r. fst (reconcile now (Some pe) (Some (Inr (repository_rows empty_store))) rc) = Inr r \<and> has_fatal r"
  using assms
  by (simp add: reconcile_def Let_def compare_states_def repository_rows_def empty_store_def
      rows_by_id_def has_fatal_def balance_discrepancies_def)

lemma reconcile_state:
  "rc_total_checks (snd (reconcile now sr dr rc)) = Suc (rc_total_checks rc)"
  by (simp add: reconcile_def Let_def split: option.split sum.split)

lemma reconcile_repository_raises:
  assumes "sto_orders st \<noteq> []"
  shows "fst (reconcile now (Some pe) (Some (Inr (repository_rows st))) rc) = Inl (AttributeError ''get'')"
proof -
  obtain k o1 d where "sto_orders st = (k, o1) # d" using assms by (cases "sto_orders st") auto
  then have "rows_by_id (dr_orders (repository_rows st)) = Inl (AttributeError ''get'')"
    by (intro rows_by_id_raises [of "po_order_id o1"]) (simp add: repository_rows_def)
  then show ?thesis by (simp add: reconcile_def Let_def compare_states_def)
qed

end
