(* ===== verification/Paper_Application.thy ===== *)
theory Paper_Application
  imports Runtime_Control Reconciler
begin

text \<open>
  \<open>app/runtime/paper_application.py\<close> over the adapters that \<open>build_paper_dependencies\<close> of
  \<open>dependencies.py\<close> wires: start-up behind its gates, the run task, and durable shutdown. What the
  outside world answers (database, exchange, clock, notifier) is an argument, a fault being an
  exception; the effects on it are a log. The run task is executed when its outcome is awaited, on the
  events that reached it before the shutdown.
\<close>

section \<open>State\<close>

datatype run_task = NoTask | RunTask | TaskDone "py_error option"

datatype app_effect = HealthStarted | HealthStopped | Beat string int | StartNotified | PnlSaved
  | DependenciesClosed

record 's application =
  ap_lifecycle :: lifecycle
  ap_trading_enabled :: bool
  ap_runtime :: "('s, risk_adapter) paper_runtime"
  ap_session_manager :: "session_manager option"
  ap_reconciler :: "reconciler option"
  ap_health_coordinator :: bool
  ap_heartbeat :: bool
  ap_notifier :: bool
  ap_run_task :: run_task
  ap_session_close_task :: "int option"
  ap_stop_requested :: bool
  ap_effects :: "app_effect list"

text \<open>A bootstrap or profit-and-loss checkpoint that is not configured is \<open>None\<close>.\<close>

record start_env =
  sv_preflight :: preflight
  sv_restore_fault :: "py_error option"
  sv_bootstrap :: "py_error option option"
  sv_warmup :: "int dict result"
  sv_warmup_candles :: int
  sv_market_data_ready :: bool
  sv_zone :: zone_db
  sv_now :: moment
  sv_now_after :: moment
  sv_db_rows :: "database_rows result"
  sv_reconciled_at :: timestamp
  sv_beat_fault :: "py_error option"
  sv_notify_fault :: "py_error option"
  sv_close_fault :: "py_error option"

record stop_env =
  sp_stream :: "market_event list \<times> py_error option"
  sp_checkpoint_fault :: "py_error option"
  sp_pnl_checkpoint :: "py_error option option"
  sp_beat_fault :: "py_error option"
  sp_close_fault :: "py_error option"

definition try_then ::
    "py_error option \<times> 'a \<Rightarrow> ('a \<Rightarrow> py_error option \<times> 'a) \<Rightarrow> py_error option \<times> 'a" where
  "try_then r f = (case r of (Some e, a) \<Rightarrow> (Some e, a) | (None, a) \<Rightarrow> f a)"

definition effect :: "py_error option \<Rightarrow> app_effect \<Rightarrow> 's application \<Rightarrow> py_error option \<times> 's application" where
  "effect fault x ap =
     (case fault of Some e \<Rightarrow> (Some e, ap) | None \<Rightarrow> (None, ap\<lparr>ap_effects := ap_effects ap @ [x]\<rparr>))"

definition ap_transition :: "lifecycle_state \<Rightarrow> 's application \<Rightarrow> py_error option \<times> 's application" where
  "ap_transition target ap =
     (case transition target (ap_lifecycle ap) of (e, lc) \<Rightarrow> (e, ap\<lparr>ap_lifecycle := lc\<rparr>))"

definition set_trading :: "bool \<Rightarrow> 's application \<Rightarrow> 's application" where
  "set_trading b ap =
     ap\<lparr>ap_trading_enabled := b, ap_runtime := (ap_runtime ap)\<lparr>rt_trading_enabled := b\<rparr>\<rparr>"

text \<open>\<open>_stop_at_session_close\<close>, when its delay is over.\<close>

definition stop_at_session_close :: "'s application \<Rightarrow> 's application" where
  "stop_at_session_close ap = (set_trading False ap)\<lparr>ap_stop_requested := True\<rparr>"

section \<open>Start\<close>

definition preflight_failed ::
    "start_env \<Rightarrow> string list \<Rightarrow> 's application \<Rightarrow> py_error option \<times> 's application" where
  "preflight_failed env errors ap =
     try_then (ap_transition STOPPING ap) (\<lambda>ap.
     try_then (effect (sv_close_fault env) DependenciesClosed (ap\<lparr>ap_trading_enabled := False\<rparr>)) (\<lambda>ap.
     try_then (ap_transition STOPPED ap) (\<lambda>ap.
       (Some (RuntimeError (''Paper runtime preflight failed: '' @ concat errors)), ap))))"

definition start_restore :: "start_env \<Rightarrow> 's application \<Rightarrow> py_error option \<times> 's application" where
  "start_restore env ap =
     (case sv_restore_fault env of
        Some e \<Rightarrow> (Some e, ap)
      | None \<Rightarrow>
          (case rt_restore_state (ap_runtime ap) of (e, rt) \<Rightarrow> (e, ap\<lparr>ap_runtime := rt\<rparr>)))"

definition warmed_up :: "string list \<Rightarrow> int \<Rightarrow> int dict \<Rightarrow> bool" where
  "warmed_up symbols required available \<longleftrightarrow>
     list_all (\<lambda>(s, count). required \<le> count) available \<and>
     list_all (\<lambda>s. map_of available s \<noteq> None) symbols"

definition open_session ::
    "start_env \<Rightarrow> 's application \<Rightarrow> (trading_session option \<times> session_manager option) result" where
  "open_session env ap =
     (case ap_session_manager ap of
        None \<Rightarrow> Inr (None, None)
      | Some sm \<Rightarrow>
          bind_result (session_open (sv_zone env) (sv_now env) sm) (\<lambda>(s, sm'). Inr (s, Some sm')))"

definition start_warmup :: "start_env \<Rightarrow> 's application \<Rightarrow> py_error option \<times> 's application" where
  "start_warmup env ap =
     (case sv_warmup env of
        Inl e \<Rightarrow> (Some e, ap)
      | Inr available \<Rightarrow>
          (case open_session env ap of
             Inl e \<Rightarrow> (Some e, ap)
           | Inr (session, sm) \<Rightarrow>
               let bootstrap_ok = (case sv_bootstrap env of Some (Some _) \<Rightarrow> False | _ \<Rightarrow> True);
                   inside = (ap_session_manager ap = None \<or> session \<noteq> None);
                   enabled = (bootstrap_ok \<and> sv_market_data_ready env \<and>
                     warmed_up (pf_symbols (sv_preflight env)) (sv_warmup_candles env) available \<and> inside);
                   ap1 = set_trading enabled (ap\<lparr>ap_session_manager := sm\<rparr>)
               in (None, ap1\<lparr>ap_runtime := (ap_runtime ap1)
                     \<lparr>rt_session_id := map_option tss_session_id session\<rparr>\<rparr>)))"

definition set_reconciliation :: "bool \<Rightarrow> 's application \<Rightarrow> 's application" where
  "set_reconciliation ok ap =
     ap\<lparr>ap_runtime := (ap_runtime ap)\<lparr>rt_risk := (rt_risk (ap_runtime ap))
         \<lparr>ra_engine := update_reconciliation (ra_engine (rt_risk (ap_runtime ap))) ok\<rparr>\<rparr>\<rparr>"

definition start_reconcile :: "start_env \<Rightarrow> 's application \<Rightarrow> 's application" where
  "start_reconcile env ap =
     (case ap_reconciler ap of
        None \<Rightarrow> ap
      | Some rc \<Rightarrow>
          (case reconcile (sv_reconciled_at env) (Some (rt_engine (ap_runtime ap)))
                  (Some (sv_db_rows env)) rc of
             (Inl e, rc') \<Rightarrow> set_reconciliation False (ap\<lparr>ap_reconciler := Some rc'\<rparr>)
           | (Inr r, rc') \<Rightarrow> set_reconciliation (\<not> has_fatal r) (ap\<lparr>ap_reconciler := Some rc'\<rparr>)))"

definition start_timer :: "start_env \<Rightarrow> 's application \<Rightarrow> py_error option \<times> 's application" where
  "start_timer env ap =
     (case ap_session_manager ap of
        None \<Rightarrow> (None, ap)
      | Some sm \<Rightarrow>
          (case session_until_close (sv_zone env) (sv_now_after env) sm of
             Inl e \<Rightarrow> (Some e, ap)
           | Inr delay \<Rightarrow> (None, ap\<lparr>ap_session_close_task := delay\<rparr>)))"

definition start_announce :: "start_env \<Rightarrow> 's application \<Rightarrow> py_error option \<times> 's application" where
  "start_announce env ap =
     try_then
       (if ap_heartbeat ap
        then effect (sv_beat_fault env)
               (Beat ''RUNNING'' (rt_last_checkpoint_sequence (ap_runtime ap))) ap
        else (None, ap))
       (\<lambda>ap. if ap_notifier ap then effect (sv_notify_fault env) StartNotified ap else (None, ap))"

definition start_running :: "start_env \<Rightarrow> 's application \<Rightarrow> py_error option \<times> 's application" where
  "start_running env ap =
     try_then (ap_transition RUNNING ap) (\<lambda>ap.
       let ap1 = ap\<lparr>ap_run_task := RunTask\<rparr>;
           ap2 = (if ap_health_coordinator ap1
                  then ap1\<lparr>ap_effects := ap_effects ap1 @ [HealthStarted]\<rparr> else ap1)
       in try_then (start_timer env (start_reconcile env ap2)) (start_announce env))"

definition start :: "start_env \<Rightarrow> 's application \<Rightarrow> py_error option \<times> 's application" where
  "start env ap =
     (if lc_state (ap_lifecycle ap) \<noteq> CREATED
      then (Some (RuntimeError ''Paper application can only be started once''), ap)
      else try_then (ap_transition PREFLIGHT ap) (\<lambda>ap.
        let result = run_preflight (sv_preflight env)
        in if \<not> pr_success result then preflight_failed env (pr_errors result) ap
           else try_then (ap_transition RESTORING ap) (\<lambda>ap.
                try_then (start_restore env ap) (\<lambda>ap.
                try_then (ap_transition WARMUP ap) (\<lambda>ap.
                try_then (start_warmup env ap) (start_running env))))))"

section \<open>Stop\<close>

definition await_task ::
    "('s, risk_adapter) runtime_ops \<Rightarrow> stop_env \<Rightarrow> 's application \<Rightarrow> py_error option \<times> 's application" where
  "await_task ops env ap =
     (case ap_run_task ap of
        TaskDone e \<Rightarrow> (e, ap)
      | RunTask \<Rightarrow>
          (case run_async ops False (sp_stream env) (ap_runtime ap) of
             (e, rt) \<Rightarrow> (e, ap\<lparr>ap_runtime := rt, ap_run_task := TaskDone e\<rparr>))
      | NoTask \<Rightarrow>
          (case sp_checkpoint_fault env of
             Some e \<Rightarrow> (Some e, ap)
           | None \<Rightarrow> (None, ap\<lparr>ap_runtime := rt_checkpoint (ap_runtime ap)\<rparr>)))"

text \<open>
  The events of the run task came before the shutdown, so the task is executed first; its exception, if
  any, is raised where the code awaits it. The flags do not influence its final checkpoint.
\<close>

definition release :: "stop_env \<Rightarrow> 's application \<Rightarrow> py_error option \<times> 's application" where
  "release env ap =
     try_then (case sp_pnl_checkpoint env of
                 None \<Rightarrow> (None, ap) | Some fault \<Rightarrow> effect fault PnlSaved ap) (\<lambda>ap.
     try_then (ap_transition STOPPED (ap\<lparr>ap_session_manager :=
         map_option (\<lambda>sm. snd (session_close sm)) (ap_session_manager ap)\<rparr>)) (\<lambda>ap.
     try_then (if ap_heartbeat ap
               then effect (sp_beat_fault env)
                      (Beat ''STOPPED'' (rt_last_checkpoint_sequence (ap_runtime ap))) ap
               else (None, ap)) (effect (sp_close_fault env) DependenciesClosed)))"

definition disable :: "'s application \<Rightarrow> 's application" where
  "disable ap =
     (let ap1 = (set_trading False ap)\<lparr>ap_stop_requested := True, ap_session_close_task := None\<rparr>
      in if ap_health_coordinator ap1
         then ap1\<lparr>ap_effects := ap_effects ap1 @ [HealthStopped]\<rparr> else ap1)"

definition shut_down :: "stop_env \<Rightarrow> py_error option \<times> 's application \<Rightarrow> py_error option \<times> 's application" where
  "shut_down env awaited =
     (case awaited of (task_error, ap) \<Rightarrow> try_then (task_error, disable ap) (release env))"

definition stop ::
    "('s, risk_adapter) runtime_ops \<Rightarrow> stop_env \<Rightarrow> 's application \<Rightarrow> py_error option \<times> 's application" where
  "stop ops env ap =
     (if lc_state (ap_lifecycle ap) = STOPPED then (None, ap)
      else try_then (if lc_state (ap_lifecycle ap) = STOPPING then (None, ap) else ap_transition STOPPING ap)
             (\<lambda>ap. shut_down env (await_task ops env ap)))"

section \<open>Run\<close>

text \<open>
  \<open>signalled\<close>: a signal asked for the shutdown before the run task ended. An exception of \<open>stop\<close> in
  the \<open>finally\<close> clause replaces the one that was on its way.
\<close>

definition run_application ::
    "('s, risk_adapter) runtime_ops \<Rightarrow> start_env \<Rightarrow> bool \<Rightarrow> stop_env \<Rightarrow> 's application
     \<Rightarrow> py_error option \<times> 's application" where
  "run_application ops senv signalled penv ap =
     (case try_then (start senv ap) (\<lambda>ap. if signalled then (None, ap) else await_task ops penv ap) of
        (e, ap1) \<Rightarrow>
          (case stop ops penv ap1 of
             (Some e', ap2) \<Rightarrow> (Some e', ap2)
           | (None, ap2) \<Rightarrow> (e, ap2)))"

definition new_application ::
    "('s, risk_adapter) paper_runtime \<Rightarrow> session_manager option \<Rightarrow> reconciler option \<Rightarrow> bool \<Rightarrow> bool
     \<Rightarrow> bool \<Rightarrow> 's application" where
  "new_application rt sm rc health heartbeat notifier =
     \<lparr>ap_lifecycle = new_lifecycle, ap_trading_enabled = False, ap_runtime = rt,
      ap_session_manager = sm, ap_reconciler = rc, ap_health_coordinator = health,
      ap_heartbeat = heartbeat, ap_notifier = notifier, ap_run_task = NoTask,
      ap_session_close_task = None, ap_stop_requested = False, ap_effects = []\<rparr>"

section \<open>Sequencing\<close>

lemma try_then_simps [simp]:
  "try_then (None, a) f = f a"
  "try_then (Some e, a) f = (Some e, a)"
  by (simp_all add: try_then_def)

lemma try_then_snd: "P (snd r) \<Longrightarrow> (\<And>a. P a \<Longrightarrow> P (snd (f a))) \<Longrightarrow> P (snd (try_then r f))"
  by (cases r; cases "fst r") auto

lemma try_then_None_iff: "try_then r f = (None, b) \<longleftrightarrow> (\<exists>a. r = (None, a) \<and> f a = (None, b))"
  by (cases r; cases "fst r") auto

lemma effect_keeps [simp]:
  "ap_lifecycle (snd (effect fault x ap)) = ap_lifecycle ap"
  "ap_trading_enabled (snd (effect fault x ap)) = ap_trading_enabled ap"
  "ap_runtime (snd (effect fault x ap)) = ap_runtime ap"
  by (simp_all add: effect_def split: option.split)

lemma ap_transition_keeps [simp]:
  "ap_trading_enabled (snd (ap_transition t ap)) = ap_trading_enabled ap"
  "ap_runtime (snd (ap_transition t ap)) = ap_runtime ap"
  "ap_effects (snd (ap_transition t ap)) = ap_effects ap"
  by (simp_all add: ap_transition_def split: prod.splits)

lemma set_trading_fields [simp]:
  "ap_lifecycle (set_trading b ap) = ap_lifecycle ap"
  "ap_trading_enabled (set_trading b ap) = b"
  "rt_trading_enabled (ap_runtime (set_trading b ap)) = b"
  by (simp_all add: set_trading_def)

lemma set_reconciliation_fields [simp]:
  "ap_lifecycle (set_reconciliation ok ap) = ap_lifecycle ap"
  "ap_trading_enabled (set_reconciliation ok ap) = ap_trading_enabled ap"
  "rt_trading_enabled (ap_runtime (set_reconciliation ok ap)) = rt_trading_enabled (ap_runtime ap)"
  "re_reconciliation_ok (ra_engine (rt_risk (ap_runtime (set_reconciliation ok ap)))) = ok"
  by (simp_all add: set_reconciliation_def update_reconciliation_def)

lemma start_reconcile_keeps [simp]:
  "ap_lifecycle (start_reconcile env ap) = ap_lifecycle ap"
  "ap_trading_enabled (start_reconcile env ap) = ap_trading_enabled ap"
  "rt_trading_enabled (ap_runtime (start_reconcile env ap)) = rt_trading_enabled (ap_runtime ap)"
  by (auto simp: start_reconcile_def split: option.split sum.split prod.split)

lemma start_timer_keeps [simp]:
  "ap_lifecycle (snd (start_timer env ap)) = ap_lifecycle ap"
  "ap_trading_enabled (snd (start_timer env ap)) = ap_trading_enabled ap"
  "ap_runtime (snd (start_timer env ap)) = ap_runtime ap"
  by (simp_all add: start_timer_def split: option.split sum.split)

lemma start_announce_keeps [simp]:
  "ap_lifecycle (snd (start_announce env ap)) = ap_lifecycle ap"
  "ap_trading_enabled (snd (start_announce env ap)) = ap_trading_enabled ap"
  "ap_runtime (snd (start_announce env ap)) = ap_runtime ap"
  by (auto simp: start_announce_def effect_def split: option.split)

lemma start_restore_keeps [simp]:
  "ap_lifecycle (snd (start_restore env ap)) = ap_lifecycle ap"
  "ap_trading_enabled (snd (start_restore env ap)) = ap_trading_enabled ap"
  by (auto simp: start_restore_def split: option.split prod.split)

lemma start_warmup_lifecycle [simp]: "ap_lifecycle (snd (start_warmup env ap)) = ap_lifecycle ap"
  by (auto simp: start_warmup_def Let_def split: option.split sum.split prod.split)

section \<open>The lifecycle of the application\<close>

definition ap_ok :: "'s application \<Rightarrow> bool" where
  "ap_ok ap \<longleftrightarrow> lifecycle_ok (ap_lifecycle ap)"

lemma ap_ok_transition: "ap_ok ap \<Longrightarrow> ap_ok (snd (ap_transition t ap))"
  using lifecycle_ok_transition by (auto simp: ap_ok_def ap_transition_def split: prod.splits) (metis snd_conv)

lemma ap_ok_cong: "ap_lifecycle ap' = ap_lifecycle ap \<Longrightarrow> ap_ok ap \<Longrightarrow> ap_ok ap'"
  by (simp add: ap_ok_def)

lemma ap_ok_try:
  "ap_ok (snd r) \<Longrightarrow> (\<And>a. ap_ok a \<Longrightarrow> ap_ok (snd (f a))) \<Longrightarrow> ap_ok (snd (try_then r f))"
  by (rule try_then_snd)

lemma ap_ok_steps:
  "ap_ok ap \<Longrightarrow> ap_ok (snd (effect fault x ap))"
  "ap_ok ap \<Longrightarrow> ap_ok (snd (start_restore env ap))"
  "ap_ok ap \<Longrightarrow> ap_ok (snd (start_warmup env ap))"
  "ap_ok ap \<Longrightarrow> ap_ok (snd (start_timer env ap))"
  "ap_ok ap \<Longrightarrow> ap_ok (snd (start_announce env ap))"
  "ap_ok ap \<Longrightarrow> ap_ok (start_reconcile env ap)"
  "ap_ok ap \<Longrightarrow> ap_ok (disable ap)"
  by (simp_all add: ap_ok_def disable_def Let_def)

lemma ap_ok_running: "ap_ok ap \<Longrightarrow> ap_ok (snd (start_running env ap))"
  unfolding start_running_def Let_def
  by (intro ap_ok_try ap_ok_transition ap_ok_steps) (simp_all add: ap_ok_def)

lemma ap_ok_failed: "ap_ok ap \<Longrightarrow> ap_ok (snd (preflight_failed env errors ap))"
  unfolding preflight_failed_def
  by (intro ap_ok_try ap_ok_transition ap_ok_steps) (simp_all add: ap_ok_def)

lemma ap_ok_if: "(b \<Longrightarrow> ap_ok (snd x)) \<Longrightarrow> (\<not> b \<Longrightarrow> ap_ok (snd y)) \<Longrightarrow> ap_ok (snd (if b then x else y))"
  by simp

lemma ap_ok_start: "ap_ok ap \<Longrightarrow> ap_ok (snd (start env ap))"
  unfolding start_def Let_def
  by (intro ap_ok_if ap_ok_try ap_ok_transition ap_ok_steps ap_ok_failed ap_ok_running) simp_all

lemma await_task_lifecycle [simp]: "ap_lifecycle (snd (await_task ops env ap)) = ap_lifecycle ap"
  by (simp add: await_task_def split: run_task.split option.split prod.split)

lemma release_ok: "ap_ok ap \<Longrightarrow> ap_ok (snd (release env ap))"
  unfolding release_def
  by (cases "sp_pnl_checkpoint env"; simp only: option.case;
      intro ap_ok_if ap_ok_try ap_ok_transition ap_ok_steps) (simp_all add: ap_ok_def)

lemma shut_down_ok: "ap_ok (snd awaited) \<Longrightarrow> ap_ok (snd (shut_down env awaited))"
  by (cases awaited) (simp add: shut_down_def ap_ok_try release_ok ap_ok_steps)

lemma stop_ok: "ap_ok ap \<Longrightarrow> ap_ok (snd (stop ops env ap))"
  unfolding stop_def
  by (intro ap_ok_if ap_ok_try ap_ok_transition shut_down_ok) (simp_all add: ap_ok_def)

lemma run_application_ok: "ap_ok ap \<Longrightarrow> ap_ok (snd (run_application ops senv signalled penv ap))"
proof -
  assume ok: "ap_ok ap"
  define r where "r = try_then (start senv ap) (\<lambda>ap. if signalled then (None, ap) else await_task ops penv ap)"
  have "ap_ok (snd r)"
    unfolding r_def by (intro ap_ok_try ap_ok_start [OF ok]) (simp add: ap_ok_def)
  then have "ap_ok (snd (stop ops penv (snd r)))" by (rule stop_ok)
  then show ?thesis
    unfolding run_application_def r_def [symmetric]
    by (cases r; cases "stop ops penv (snd r)") (auto split: option.split)
qed

section \<open>What shutdown guarantees\<close>

lemma stopping_allowed: "s \<noteq> STOPPED \<Longrightarrow> s \<noteq> STOPPING \<Longrightarrow> STOPPING \<in> set (next_states s)"
  by (cases s) simp_all

lemma stop_running:
  assumes "lc_state (ap_lifecycle ap) \<noteq> STOPPED"
  obtains ap1 where "stop ops env ap = shut_down env (await_task ops env ap1)"
    "lc_state (ap_lifecycle ap1) = STOPPING"
    "\<exists>lc. ap1 = ap\<lparr>ap_lifecycle := lc\<rparr>"
proof (cases "lc_state (ap_lifecycle ap) = STOPPING")
  case True
  then show ?thesis using assms
    by (intro that [of ap]) (simp_all add: stop_def, metis application.surjective application.update_convs(1))
next
  case False
  then have "ap_transition STOPPING ap =
      (None, ap\<lparr>ap_lifecycle := \<lparr>lc_state = STOPPING, lc_history = lc_history (ap_lifecycle ap) @ [STOPPING]\<rparr>\<rparr>)"
    using stopping_allowed [OF assms] by (simp add: ap_transition_def transition_def)
  then show ?thesis using assms False by (intro that) (auto simp: stop_def)
qed

lemma await_task_lifecycle_update:
  "await_task ops env (ap\<lparr>ap_lifecycle := lc\<rparr>) =
     (case await_task ops env ap of (e, ap') \<Rightarrow> (e, ap'\<lparr>ap_lifecycle := lc\<rparr>))"
  by (auto simp: await_task_def split: run_task.split option.split prod.split)

lemma disable_fields [simp]:
  "ap_lifecycle (disable ap) = ap_lifecycle ap"
  "\<not> ap_trading_enabled (disable ap)"
  "\<not> rt_trading_enabled (ap_runtime (disable ap))"
  "ap_stop_requested (disable ap)"
  by (simp_all add: disable_def Let_def)

lemma release_keeps [simp]:
  "ap_trading_enabled (snd (release env ap)) = ap_trading_enabled ap"
  "ap_runtime (snd (release env ap)) = ap_runtime ap"
  "ap_stop_requested (snd (release env ap)) = ap_stop_requested ap"
proof -
  define P where "P = (\<lambda>b :: 'a application. ap_trading_enabled b = ap_trading_enabled ap \<and> ap_runtime b = ap_runtime ap \<and>
      ap_stop_requested b = ap_stop_requested ap)"
  have "P (snd (release env ap))"
    unfolding release_def
    by (intro try_then_snd [where P = P])
      (auto simp: P_def effect_def ap_transition_def split: option.split prod.split)
  then show "ap_trading_enabled (snd (release env ap)) = ap_trading_enabled ap"
      "ap_runtime (snd (release env ap)) = ap_runtime ap"
      "ap_stop_requested (snd (release env ap)) = ap_stop_requested ap"
    by (simp_all add: P_def)
qed

lemma shut_down_fields:
  "\<not> ap_trading_enabled (snd (shut_down env awaited))"
  "\<not> rt_trading_enabled (ap_runtime (snd (shut_down env awaited)))"
  "ap_stop_requested (snd (shut_down env awaited))"
  by (cases awaited; cases "fst awaited"; simp add: shut_down_def)+

definition pnl_ok :: "stop_env \<Rightarrow> bool" where
  "pnl_ok env \<longleftrightarrow> (case sp_pnl_checkpoint env of Some (Some _) \<Rightarrow> False | _ \<Rightarrow> True)"

lemma release_state:
  assumes "lc_state (ap_lifecycle ap) = STOPPING"
  shows "lc_state (ap_lifecycle (snd (release env ap))) = (if pnl_ok env then STOPPED else STOPPING)"
proof (cases "pnl_ok env")
  case True
  obtain ap1 where "(case sp_pnl_checkpoint env of
        None \<Rightarrow> (None, ap) | Some fault \<Rightarrow> effect fault PnlSaved ap) = (None, ap1)"
      "ap_lifecycle ap1 = ap_lifecycle ap"
    using True by (auto simp: pnl_ok_def effect_def split: option.splits)
  then show ?thesis
    using True assms
    by (auto simp: release_def ap_transition_def transition_def effect_def split: option.split)
next
  case False
  then show ?thesis using assms
    by (auto simp: release_def pnl_ok_def effect_def split: option.splits)
qed

lemma release_None_iff:
  assumes "lc_state (ap_lifecycle ap) = STOPPING"
  shows "fst (release env ap) = None \<longleftrightarrow>
     pnl_ok env \<and> (ap_heartbeat ap \<longrightarrow> sp_beat_fault env = None) \<and> sp_close_fault env = None"
  using assms
  by (auto simp: release_def pnl_ok_def ap_transition_def transition_def effect_def split: option.splits)

lemma await_task_same:
  "fst (await_task ops env (ap\<lparr>ap_lifecycle := lc\<rparr>)) = fst (await_task ops env ap)"
  by (simp add: await_task_lifecycle_update split: prod.split)

lemma stop_state:
  assumes "lc_state (ap_lifecycle ap) \<noteq> STOPPED"
  shows "lc_state (ap_lifecycle (snd (stop ops env ap))) =
     (if fst (await_task ops env ap) = None \<and> pnl_ok env then STOPPED else STOPPING)"
proof -
  obtain ap1 lc where ap1: "stop ops env ap = shut_down env (await_task ops env ap1)"
      "lc_state (ap_lifecycle ap1) = STOPPING" "ap1 = ap\<lparr>ap_lifecycle := lc\<rparr>"
    using stop_running [OF assms] by metis
  obtain e ap2 where aw: "await_task ops env ap1 = (e, ap2)" by force
  have "lc_state (ap_lifecycle (disable ap2)) = STOPPING"
    using ap1(2) await_task_lifecycle [of ops env ap1] aw by simp
  moreover have "e = fst (await_task ops env ap)" using aw ap1(3) await_task_same by (metis fst_conv)
  ultimately show ?thesis
    by (cases "fst (await_task ops env ap)") (simp_all add: ap1(1) aw shut_down_def release_state)
qed

lemma stop_fields:
  assumes "lc_state (ap_lifecycle ap) \<noteq> STOPPED"
  shows "\<not> ap_trading_enabled (snd (stop ops env ap))"
    "\<not> rt_trading_enabled (ap_runtime (snd (stop ops env ap)))"
    "ap_stop_requested (snd (stop ops env ap))"
  using stop_running [OF assms] shut_down_fields by metis+

section \<open>What start-up guarantees\<close>

definition in_window :: "start_env \<Rightarrow> 's application \<Rightarrow> bool" where
  "in_window env ap \<longleftrightarrow>
     (case ap_session_manager ap of
        None \<Rightarrow> True
      | Some sm \<Rightarrow> schedule_contains (sv_zone env) (sm_schedule sm) (sv_now env) = Inr True)"

lemma session_open_naive: "session_open zone (Naive t) sm \<noteq> Inr r"
  by (simp add: session_open_def schedule_session_id_def localize_def)

lemma open_session_cases:
  assumes "open_session env ap = Inr (session, sm)"
  shows "(ap_session_manager ap = None \<or> session \<noteq> None) = in_window env ap"
proof (cases "sv_now env")
  case (Aware t)
  then show ?thesis using assms
    by (auto simp: open_session_def in_window_def session_open_aware schedule_contains_aware Let_def
        split: option.splits if_splits)
next
  case (Naive t)
  then show ?thesis using assms session_open_naive [of "sv_zone env" t]
    by (auto simp: open_session_def in_window_def bind_result_Inr_iff split: option.splits)
qed

lemma start_warmup_trading:
  assumes "fst (start_warmup env ap) = None"
  shows "ap_trading_enabled (snd (start_warmup env ap)) \<longleftrightarrow>
       sv_bootstrap env \<in> {None, Some None} \<and> sv_market_data_ready env \<and>
       (\<exists>available. sv_warmup env = Inr available \<and>
          warmed_up (pf_symbols (sv_preflight env)) (sv_warmup_candles env) available) \<and>
       in_window env ap"
    and "rt_trading_enabled (ap_runtime (snd (start_warmup env ap))) =
       ap_trading_enabled (snd (start_warmup env ap))"
  using assms open_session_cases [of env ap]
  by (auto simp: start_warmup_def Let_def split: sum.splits option.splits)

lemma start_running_trading:
  "ap_trading_enabled (snd (start_running env ap)) = ap_trading_enabled ap"
  "rt_trading_enabled (ap_runtime (snd (start_running env ap))) = rt_trading_enabled (ap_runtime ap)"
proof -
  define P where "P = (\<lambda>b :: 'a application. ap_trading_enabled b = ap_trading_enabled ap \<and>
      rt_trading_enabled (ap_runtime b) = rt_trading_enabled (ap_runtime ap))"
  have "P (snd (start_running env ap))"
    unfolding start_running_def Let_def
    by (intro try_then_snd [where P = P]) (simp_all add: P_def)
  then show "ap_trading_enabled (snd (start_running env ap)) = ap_trading_enabled ap"
      "rt_trading_enabled (ap_runtime (snd (start_running env ap))) = rt_trading_enabled (ap_runtime ap)"
    by (simp_all add: P_def)
qed

text \<open>The gates a start passes before it launches the run task.\<close>

definition restored :: "start_env \<Rightarrow> 's application \<Rightarrow> bool" where
  "restored env ap \<longleftrightarrow> sv_restore_fault env = None \<and> fst (rt_restore_state (ap_runtime ap)) = None"

lemma start_restore_None: "fst (start_restore env ap) = None \<longleftrightarrow> restored env ap"
  by (auto simp: start_restore_def restored_def split: option.split prod.split)

lemma start_restore_session [simp]:
  "ap_session_manager (snd (start_restore env ap)) = ap_session_manager ap"
  by (auto simp: start_restore_def split: option.split prod.split)

lemma ap_transition_allowed:
  "t \<in> set (next_states (lc_state (ap_lifecycle ap))) \<Longrightarrow>
     ap_transition t ap =
       (None, ap\<lparr>ap_lifecycle := \<lparr>lc_state = t, lc_history = lc_history (ap_lifecycle ap) @ [t]\<rparr>\<rparr>)"
  by (simp add: ap_transition_def transition_def)

lemma preflight_failed_trading: "\<not> ap_trading_enabled ap \<Longrightarrow> \<not> ap_trading_enabled (snd (preflight_failed env errors ap))"
  unfolding preflight_failed_def
  by (intro try_then_snd [where P = "\<lambda>b. \<not> ap_trading_enabled b"]) simp_all

text \<open>The application as it enters the warm-up, when it does.\<close>

definition warmup_state :: "start_env \<Rightarrow> 's application \<Rightarrow> 's application" where
  "warmup_state env ap =
     (snd (start_restore env (ap\<lparr>ap_lifecycle := \<lparr>lc_state = RESTORING,
        lc_history = lc_history (ap_lifecycle ap) @ [PREFLIGHT, RESTORING]\<rparr>\<rparr>)))
       \<lparr>ap_lifecycle := \<lparr>lc_state = WARMUP,
          lc_history = lc_history (ap_lifecycle ap) @ [PREFLIGHT, RESTORING, WARMUP]\<rparr>\<rparr>"

lemma start_cases:
  assumes "lc_state (ap_lifecycle ap) = CREATED"
  shows "start env ap =
     (if \<not> pr_success (run_preflight (sv_preflight env))
      then preflight_failed env (pr_errors (run_preflight (sv_preflight env)))
             (ap\<lparr>ap_lifecycle := \<lparr>lc_state = PREFLIGHT, lc_history = lc_history (ap_lifecycle ap) @ [PREFLIGHT]\<rparr>\<rparr>)
      else if \<not> restored env ap
      then start_restore env (ap\<lparr>ap_lifecycle := \<lparr>lc_state = RESTORING,
             lc_history = lc_history (ap_lifecycle ap) @ [PREFLIGHT, RESTORING]\<rparr>\<rparr>)
      else try_then (start_warmup env (warmup_state env ap)) (start_running env))"
proof -
  define ap2 where "ap2 = ap\<lparr>ap_lifecycle := \<lparr>lc_state = RESTORING,
      lc_history = lc_history (ap_lifecycle ap) @ [PREFLIGHT, RESTORING]\<rparr>\<rparr>"
  obtain e ap3 where r: "start_restore env ap2 = (e, ap3)" by force
  have "e = None \<longleftrightarrow> restored env ap"
    using start_restore_None [of env ap2] r by (simp add: ap2_def restored_def)
  moreover have "ap_lifecycle ap3 = ap_lifecycle ap2" using start_restore_keeps(1) [of env ap2] r by simp
  ultimately show ?thesis
    using assms r
    by (cases e)
      (simp_all add: start_def ap_transition_allowed Let_def warmup_state_def flip: ap2_def,
       simp_all add: ap_transition_allowed ap2_def)
qed

lemma start_trading_iff:
  assumes "lc_state (ap_lifecycle ap) = CREATED" "\<not> ap_trading_enabled ap"
  shows "ap_trading_enabled (snd (start env ap)) \<longleftrightarrow>
     pr_success (run_preflight (sv_preflight env)) \<and> restored env ap \<and>
     sv_bootstrap env \<in> {None, Some None} \<and> sv_market_data_ready env \<and>
     (\<exists>available. sv_warmup env = Inr available \<and>
        warmed_up (pf_symbols (sv_preflight env)) (sv_warmup_candles env) available) \<and>
     in_window env ap"
proof (cases "pr_success (run_preflight (sv_preflight env)) \<and> restored env ap")
  case False
  then show ?thesis
    using assms
      preflight_failed_trading [of "ap\<lparr>ap_lifecycle := \<lparr>lc_state = PREFLIGHT,
        lc_history = lc_history (ap_lifecycle ap) @ [PREFLIGHT]\<rparr>\<rparr>" env
        "pr_errors (run_preflight (sv_preflight env))"]
    by (auto simp: start_cases)
next
  case True
  have w: "in_window env (warmup_state env ap) = in_window env ap"
      "\<not> ap_trading_enabled (warmup_state env ap)"
    using assms(2) by (simp_all add: in_window_def warmup_state_def)
  obtain e ap4 where s: "start_warmup env (warmup_state env ap) = (e, ap4)" by force
  show ?thesis
  proof (cases e)
    case None
    then show ?thesis
      using True assms(1) s start_warmup_trading(1) [of env "warmup_state env ap"] w
      by (simp add: start_cases start_running_trading)
  next
    case (Some x)
    then have "ap4 = warmup_state env ap" "\<not> (\<exists>a. sv_warmup env = Inr a) \<or> \<not> in_window env ap"
      using s w(1)
      by (auto simp: start_warmup_def Let_def open_session_def in_window_def session_open_def
          schedule_session_id_def schedule_close_at_def schedule_contains_def localize_def bind_result_def
          split: sum.splits option.splits moment.splits)
    then show ?thesis using True assms(1) s Some w(2) by (auto simp: start_cases)
  qed
qed

section \<open>Without permission to trade\<close>

lemma run_strategy_disabled: "\<not> rt_trading_enabled rt \<Longrightarrow> run_strategy ops e rt = (None, rt)"
  by (simp add: run_strategy_def split: option.split)

lemma checkpoint_books [simp]:
  "same_books (rt_engine rt) (rt_engine (rt_checkpoint rt))"
  "rt_trading_enabled (rt_checkpoint rt) = rt_trading_enabled rt"
  by (simp_all add: rt_checkpoint_def same_books_def pe_save_state_def flush_def)

lemma same_books_refl [simp]: "same_books pe pe"
  by (simp add: same_books_def)

lemma same_books_trans: "same_books a b \<Longrightarrow> same_books b c \<Longrightarrow> same_books a c"
  by (simp add: same_books_def)

lemma on_market_event_books: "on_market_event e pe = Inr (b, pe') \<Longrightarrow> same_books pe pe'"
  using on_market_event_keeps by (auto simp: same_books_def)

lemma finish_candle_books:
  "same_books (rt_engine rt) (rt_engine (snd (finish_candle e rt)))"
  "rt_trading_enabled (snd (finish_candle e rt)) = rt_trading_enabled rt"
  using checkpoint_books(1) [of "rt\<lparr>rt_candles_processed := rt_candles_processed rt + 1\<rparr>"]
  by (simp_all add: finish_candle_def Let_def)

lemma process_candle_disabled:
  assumes "\<not> rt_trading_enabled rt"
  shows "same_books (rt_engine rt) (rt_engine (snd (process_candle ops e rt))) \<and>
     \<not> rt_trading_enabled (snd (process_candle ops e rt))"
proof -
  have "same_books (rt_engine rt) (rt_engine (snd (finish_candle e (rt\<lparr>rt_engine := pe\<rparr>)))) \<and>
      \<not> rt_trading_enabled (snd (finish_candle e (rt\<lparr>rt_engine := pe\<rparr>)))"
    if "on_market_event e (rt_engine rt) = Inr (True, pe)" for pe
    using on_market_event_books [OF that] finish_candle_books [where rt = "rt\<lparr>rt_engine := pe\<rparr>" and e = e] assms
    by (auto intro: same_books_trans)
  then show ?thesis
    using assms
    by (auto simp: process_candle_def run_strategy_disabled split: sum.split bool.split)
qed

lemma run_async_disabled:
  assumes "\<not> rt_trading_enabled rt"
  shows "same_books (rt_engine rt) (rt_engine (snd (run_async ops False stream rt)))"
proof -
  define P where "P = (\<lambda>b :: ('a, 'b) paper_runtime. same_books (rt_engine rt) (rt_engine b) \<and> \<not> rt_trading_enabled b)"
  have "P (snd (try_fold (process_candle ops) (fst stream) (rt\<lparr>rt_running := True\<rparr>)))"
  proof (rule try_fold_invariant [where P = P])
    show "P (rt\<lparr>rt_running := True\<rparr>)" using assms by (simp add: P_def)
    show "P (snd (process_candle ops x s))" if "P s" for x s
      using that process_candle_disabled same_books_trans unfolding P_def by blast
  qed
  then have "same_books (rt_engine rt) (rt_engine (snd (try_fold (process_candle ops) (fst stream) (rt\<lparr>rt_running := True\<rparr>))))"
    by (simp add: P_def)
  then show ?thesis
    using same_books_trans [OF _ checkpoint_books(1)]
    by (auto simp: run_async_def Let_def split: prod.splits option.splits)
qed

lemma await_task_disabled:
  assumes "\<not> rt_trading_enabled (ap_runtime ap)"
  shows "same_books (rt_engine (ap_runtime ap)) (rt_engine (ap_runtime (snd (await_task ops env ap))))"
  using run_async_disabled [OF assms, of ops "sp_stream env"]
  by (auto simp: await_task_def split: run_task.split option.split prod.split)

section \<open>A restore that fails\<close>

lemma run_application_restore_fault:
  assumes "ap = new_application rt sm rc health heartbeat notifier"
    "pr_success (run_preflight (sv_preflight senv))" "sv_restore_fault senv = Some e"
    "sp_checkpoint_fault penv = None"
  shows "ap_runtime (snd (run_application ops senv signalled penv ap)) =
     (rt_checkpoint rt)\<lparr>rt_trading_enabled := False\<rparr>"
proof -
  have s: "start senv ap = (Some e, ap\<lparr>ap_lifecycle := \<lparr>lc_state = RESTORING,
      lc_history = lc_history (ap_lifecycle ap) @ [PREFLIGHT, RESTORING]\<rparr>\<rparr>)"
    using assms(1-3) start_cases [of ap senv]
    by (simp add: new_application_def new_lifecycle_def restored_def start_restore_def)
  have t: "ap_run_task ap = NoTask" "ap_runtime ap = rt" using assms(1) by (simp_all add: new_application_def)
  have st: "ap_runtime (snd (stop ops penv (ap\<lparr>ap_lifecycle := \<lparr>lc_state = RESTORING,
      lc_history = lc_history (ap_lifecycle ap) @ [PREFLIGHT, RESTORING]\<rparr>\<rparr>))) =
      (rt_checkpoint rt)\<lparr>rt_trading_enabled := False\<rparr>"
    by (simp add: stop_def ap_transition_allowed await_task_def t assms(4) shut_down_def)
      (simp add: disable_def Let_def set_trading_def t)
  show ?thesis
    using st
    by (cases "stop ops penv (ap\<lparr>ap_lifecycle := \<lparr>lc_state = RESTORING,
        lc_history = lc_history (ap_lifecycle ap) @ [PREFLIGHT, RESTORING]\<rparr>\<rparr>)")
      (auto simp: run_application_def s split: option.splits)
qed

section \<open>Reconciliation at the start\<close>

lemma start_announce_timer_risk:
  "fst (try_then (start_timer env ap) (start_announce env)) = None \<Longrightarrow>
     ap_runtime (snd (try_then (start_timer env ap) (start_announce env))) = ap_runtime ap"
  by (cases "start_timer env ap"; cases "fst (start_timer env ap)")
    (use start_timer_keeps(3) [of env ap] in \<open>auto simp: try_then_def\<close>)

lemma start_reconcile_repository:
  assumes "ap_reconciler ap = Some rc" "sv_db_rows env = Inr (repository_rows st)" "sto_orders st \<noteq> []"
  shows "\<not> re_reconciliation_ok (ra_engine (rt_risk (ap_runtime (start_reconcile env ap))))"
proof -
  obtain rc' where "reconcile (sv_reconciled_at env) (Some (rt_engine (ap_runtime ap)))
      (Some (sv_db_rows env)) rc = (Inl (AttributeError ''get''), rc')"
    using reconcile_repository_raises [OF assms(3)] assms(2) by (metis prod.collapse)
  then show ?thesis using assms(1) by (simp add: start_reconcile_def)
qed

lemma start_warmup_reconciler [simp]:
  "ap_reconciler (snd (start_warmup env ap)) = ap_reconciler ap"
  "ap_reconciler (warmup_state env ap) = ap_reconciler ap"
  by (auto simp: start_warmup_def warmup_state_def start_restore_def set_trading_def Let_def
      split: option.split sum.split prod.split)

lemma start_running_repository:
  assumes "lc_state (ap_lifecycle ap) = WARMUP" "ap_reconciler ap = Some rc"
    "sv_db_rows env = Inr (repository_rows st)" "sto_orders st \<noteq> []" "fst (start_running env ap) = None"
  shows "\<not> re_reconciliation_ok (ra_engine (rt_risk (ap_runtime (snd (start_running env ap)))))"
proof -
  define ap1 where "ap1 = ap\<lparr>ap_lifecycle := \<lparr>lc_state = RUNNING, lc_history = lc_history (ap_lifecycle ap) @ [RUNNING]\<rparr>,
      ap_run_task := RunTask\<rparr>"
  define ap2 where "ap2 = (if ap_health_coordinator ap1
      then ap1\<lparr>ap_effects := ap_effects ap1 @ [HealthStarted]\<rparr> else ap1)"
  have r: "start_running env ap = try_then (start_timer env (start_reconcile env ap2)) (start_announce env)"
    using assms(1)
    by (simp add: start_running_def ap_transition_allowed Let_def ap2_def ap1_def)
  have "ap_reconciler ap2 = Some rc" using assms(2) by (simp add: ap2_def ap1_def)
  then show ?thesis
    using start_announce_timer_risk [of env "start_reconcile env ap2"] assms(5)
      start_reconcile_repository [OF _ assms(3,4)]
    by (simp add: r)
qed

lemma start_repository:
  assumes "lc_state (ap_lifecycle ap) = CREATED" "ap_reconciler ap = Some rc"
    "sv_db_rows env = Inr (repository_rows st)" "sto_orders st \<noteq> []" "fst (start env ap) = None"
  shows "\<not> re_reconciliation_ok (ra_engine (rt_risk (ap_runtime (snd (start env ap)))))"
proof -
  have ok: "pr_success (run_preflight (sv_preflight env))" "restored env ap"
  proof -
    have "fst (preflight_failed env errors b) \<noteq> None" for errors and b :: "'a application"
      by (auto simp: preflight_failed_def try_then_def split: prod.split option.split)
    then show success: "pr_success (run_preflight (sv_preflight env))"
      using assms(5) start_cases [OF assms(1), of env] by metis
    show "restored env ap"
    proof (rule ccontr)
      assume no: "\<not> restored env ap"
      then have "fst (start_restore env (ap\<lparr>ap_lifecycle := lc\<rparr>)) \<noteq> None" for lc
        using start_restore_None [of env "ap\<lparr>ap_lifecycle := lc\<rparr>"] by (simp add: restored_def)
      then show False using assms(5) start_cases [OF assms(1), of env] success no by (simp del: not_None_eq)
    qed
  qed
  define w where "w = start_warmup env (warmup_state env ap)"
  have s: "start env ap = try_then w (start_running env)"
    using ok assms(1) by (simp add: start_cases w_def)
  obtain b where b: "w = (None, b)" "fst (start_running env b) = None"
    using assms(5) unfolding s by (cases w; cases "fst w") auto
  have "ap_lifecycle b = ap_lifecycle (warmup_state env ap)"
    using start_warmup_lifecycle [of env "warmup_state env ap"] b(1) unfolding w_def by simp
  then have "lc_state (ap_lifecycle b) = WARMUP" by (simp add: warmup_state_def)
  moreover have "ap_reconciler b = Some rc"
    using start_warmup_reconciler [of env "warmup_state env ap"] b(1) assms(2) unfolding w_def by simp
  ultimately have "lc_state (ap_lifecycle b) = WARMUP" "ap_reconciler b = Some rc" by simp_all
  from start_running_repository [OF this assms(3,4) b(2)] show ?thesis by (simp add: s b(1))
qed

lemma adapter_blocked:
  assumes "\<not> re_reconciliation_ok (ra_engine ra)" "adapter_validate ra r pe = Inr (True, ra')"
  shows "reducing (adapter_trade_check ra r pe)"
proof -
  have "rc_approved (fst (check_trade (ra_engine ra) (adapter_trade_check ra r pe) (ra_clock ra pe)))"
    using assms(2) by (auto simp: adapter_validate_def split: prod.splits)
  then show ?thesis
    using assms(1) by (auto simp: check_trade_approved_iff operational_def override_def adapter_trade_check_def)
qed

end
