(* ===== verification/Health.thy ===== *)
theory Health
  imports Risk
begin

text \<open>
  Operational health: the monitors of \<open>app/monitoring\<close> (database, market, risk, pipeline,
  heartbeat), the coordinator that combines them (\<open>health_coordinator.py\<close>) and the emergency stop
  (\<open>app/risk/emergency_stop.py\<close>). What a callback answers, and whether it raises, is an argument;
  durations are microseconds.
\<close>

section \<open>Monitors\<close>

datatype database_health = DB_OK | DB_DEGRADED | DB_UNAVAILABLE

fun database_health_value :: "database_health \<Rightarrow> string" where
  "database_health_value DB_OK = ''OK''"
| "database_health_value DB_DEGRADED = ''DEGRADED''"
| "database_health_value DB_UNAVAILABLE = ''UNAVAILABLE''"

record database_health_result =
  dh_status :: database_health
  dh_latency :: int
  dh_checkpoint_available :: bool
  dh_trading_enabled :: bool

record database_monitor =
  dbm_latency_warning :: int
  dbm_transaction_errors :: nat

text \<open>The answers of the connection check and of the checkpoint check, if one is configured.\<close>

record database_probe =
  pb_connection :: "bool result"
  pb_checkpoint :: "bool result option"
  pb_latency :: int

definition database_check ::
    "database_monitor \<Rightarrow> database_probe \<Rightarrow> database_health_result \<times> database_monitor" where
  "database_check m pb =
     (let unavailable = (\<lparr>dh_status = DB_UNAVAILABLE, dh_latency = pb_latency pb,
                          dh_checkpoint_available = False, dh_trading_enabled = False\<rparr>,
                         m\<lparr>dbm_transaction_errors := Suc (dbm_transaction_errors m)\<rparr>);
          checked = (\<lambda>checkpoint.
             let degraded = dbm_latency_warning m \<le> pb_latency pb \<or> \<not> checkpoint
             in (\<lparr>dh_status = (if degraded then DB_DEGRADED else DB_OK), dh_latency = pb_latency pb,
                  dh_checkpoint_available = checkpoint, dh_trading_enabled = \<not> degraded\<rparr>, m))
      in (case pb_connection pb of
            Inl _ \<Rightarrow> unavailable
          | Inr alive \<Rightarrow>
              if \<not> alive then unavailable
              else (case pb_checkpoint pb of
                      None \<Rightarrow> checked True
                    | Some (Inl _) \<Rightarrow> unavailable
                    | Some (Inr ok) \<Rightarrow> checked ok)))"

datatype market_health = MARKET_OK | MARKET_WARNING | MARKET_CRITICAL

record market_health_result =
  mh_status :: market_health
  mh_lag :: int
  mh_missing_intervals :: int
  mh_trading_enabled :: bool

record market_monitor =
  mm_warning_after :: int
  mm_critical_after :: int
  mm_last_candle :: "((string \<times> string) \<times> timestamp) list"

definition new_market_monitor :: "int \<Rightarrow> int \<Rightarrow> market_monitor result" where
  "new_market_monitor warning_after critical_after =
     (if critical_after \<le> warning_after
      then Inl (ValueError ''warning threshold must be below critical threshold'')
      else Inr \<lparr>mm_warning_after = warning_after, mm_critical_after = critical_after,
                mm_last_candle = []\<rparr>)"

definition market_check ::
    "string \<Rightarrow> string \<Rightarrow> timestamp \<Rightarrow> timestamp \<Rightarrow> int option \<Rightarrow> market_monitor
     \<Rightarrow> market_health_result \<times> market_monitor" where
  "market_check symbol interval candle_time now expected_interval m =
     (let lag = max 0 (now - candle_time); key = (symbol, interval);
          previous = map_of (mm_last_candle m) key;
          missing = (case (previous, expected_interval) of
                       (Some p, Some e) \<Rightarrow>
                         if 0 < e \<and> p \<le> candle_time then max 0 ((candle_time - p) div e - 1) else 0
                     | _ \<Rightarrow> 0);
          m' = (if (case previous of None \<Rightarrow> True | Some p \<Rightarrow> p < candle_time)
                then m\<lparr>mm_last_candle := AList.update key candle_time (mm_last_candle m)\<rparr> else m);
          status = (if mm_critical_after m < lag \<or> missing \<noteq> 0 then MARKET_CRITICAL
                    else if mm_warning_after m \<le> lag then MARKET_WARNING else MARKET_OK)
      in (\<lparr>mh_status = status, mh_lag = lag, mh_missing_intervals = missing,
           mh_trading_enabled = (status \<noteq> MARKET_CRITICAL)\<rparr>, m'))"

datatype risk_health = RISK_OK | RISK_WARNING | RISK_CRITICAL

fun risk_health_value :: "risk_health \<Rightarrow> string" where
  "risk_health_value RISK_OK = ''OK''"
| "risk_health_value RISK_WARNING = ''WARNING''"
| "risk_health_value RISK_CRITICAL = ''CRITICAL''"

record risk_health_result =
  rh_risk_status :: risk_health
  rh_capital_usage :: decimal
  rh_drawdown :: decimal
  rh_trading_enabled :: bool
  rh_reasons :: "string list"

definition engine_drawdown :: "risk_engine \<Rightarrow> decimal" where
  "engine_drawdown re =
     (if 0 < re_peak_equity re
      then ddiv (dsub (re_peak_equity re) (re_current_equity re)) (re_peak_equity re) else 0)"

definition risk_health_checks :: "risk_engine \<Rightarrow> (bool \<times> string) list" where
  "risk_health_checks re =
     [(re_is_emergency_stop re, ''emergency stop active''),
      (\<not> re_database_available re, ''database unavailable''),
      (\<not> re_reconciliation_ok re, ''reconciliation failed''),
      (max_drawdown (re_config re) < engine_drawdown re, ''maximum drawdown exceeded''),
      (dmul (max (re_current_equity re) 0) (daily_loss_limit (re_config re))
         < dabs (min (re_daily_pnl re) 0), ''daily loss exceeded'')]"

definition risk_health_check :: "risk_engine \<Rightarrow> decimal \<Rightarrow> risk_health_result" where
  "risk_health_check re capital_usage =
     (let reasons = [reason. (failed, reason) \<leftarrow> risk_health_checks re, failed] @
            (if max_capital_utilization (re_config re) < capital_usage
             then [''capital utilization exceeded''] else []);
          critical = (reasons \<noteq> [])
      in \<lparr>rh_risk_status = (if critical then RISK_CRITICAL else RISK_OK),
          rh_capital_usage = capital_usage, rh_drawdown = engine_drawdown re,
          rh_trading_enabled = \<not> critical, rh_reasons = reasons\<rparr>)"

datatype pipeline_health = PIPE_READY | PIPE_DEGRADED | PIPE_FAILED

record pipeline_health_result =
  ph_status :: pipeline_health
  ph_trading_enabled :: bool
  ph_emergency_stop :: bool
  ph_missing :: "string list"

definition pipeline_health_check ::
    "string list \<Rightarrow> string list \<Rightarrow> py_error option \<Rightarrow> py_error option \<Rightarrow> pipeline_health_result" where
  "pipeline_health_check indicators required execution_error pipeline_error =
     (if execution_error \<noteq> None \<or> pipeline_error \<noteq> None
      then \<lparr>ph_status = PIPE_FAILED, ph_trading_enabled = False, ph_emergency_stop = True, ph_missing = []\<rparr>
      else
        (let missing = filter (\<lambda>n. n \<notin> set indicators) required
         in if missing \<noteq> []
            then \<lparr>ph_status = PIPE_DEGRADED, ph_trading_enabled = False, ph_emergency_stop = False,
                  ph_missing = missing\<rparr>
            else \<lparr>ph_status = PIPE_READY, ph_trading_enabled = True, ph_emergency_stop = False,
                  ph_missing = []\<rparr>))"

section \<open>Heartbeat\<close>

record runtime_health =
  hb_runtime_id :: string
  hb_status :: string
  hb_sequence :: int
  hb_heartbeat_time :: timestamp
  hb_last_market_event_time :: "timestamp option"
  hb_created_at :: timestamp

definition uptime :: "runtime_health \<Rightarrow> int" where
  "uptime h = max 0 (hb_heartbeat_time h - hb_created_at h)"

record heartbeat =
  ht_runtime_id :: string
  ht_started_at :: timestamp
  ht_last_successful_cycle :: "timestamp option"
  ht_last_market_event_time :: "timestamp option"
  ht_sequence :: int
  ht_state :: string
  ht_saved :: "runtime_health list"

definition new_heartbeat :: "string \<Rightarrow> timestamp \<Rightarrow> heartbeat" where
  "new_heartbeat runtime_id started_at =
     \<lparr>ht_runtime_id = runtime_id, ht_started_at = started_at, ht_last_successful_cycle = None,
      ht_last_market_event_time = None, ht_sequence = 0, ht_state = ''CREATED'', ht_saved = []\<rparr>"

text \<open>The state is assigned before the sequence is checked.\<close>

definition beat ::
    "string \<Rightarrow> int option \<Rightarrow> timestamp option \<Rightarrow> timestamp \<Rightarrow> heartbeat \<Rightarrow> py_error option \<times> heartbeat"
    where
  "beat state sequence event_time now ht =
     (let ht1 = ht\<lparr>ht_state := str_upper state\<rparr>
      in if (case sequence of None \<Rightarrow> False | Some s \<Rightarrow> s < ht_sequence ht)
         then (Some (ValueError ''heartbeat sequence cannot move backwards''), ht1)
         else
           (let ht2 = ht1\<lparr>ht_sequence := (case sequence of None \<Rightarrow> ht_sequence ht1 | Some s \<Rightarrow> s),
                  ht_last_market_event_time :=
                    (case event_time of None \<Rightarrow> ht_last_market_event_time ht1 | Some t \<Rightarrow> Some t),
                  ht_last_successful_cycle := Some now\<rparr>;
                snapshot = \<lparr>hb_runtime_id = ht_runtime_id ht2, hb_status = ht_state ht2,
                  hb_sequence = ht_sequence ht2, hb_heartbeat_time = now,
                  hb_last_market_event_time = ht_last_market_event_time ht2,
                  hb_created_at = ht_started_at ht2\<rparr>
            in (None, ht2\<lparr>ht_saved := ht_saved ht2 @ [snapshot]\<rparr>)))"

section \<open>Emergency stop\<close>

datatype emergency_reason = EMERGENCY_DB_FAILURE | EMERGENCY_MARKET_DATA_STALE
  | EMERGENCY_RECONCILIATION_FAILED | EMERGENCY_RUNTIME_ERROR | EMERGENCY_MANUAL_STOP

datatype safety_step = DISABLE_TRADING | CLOSE_EXECUTION | SAVE_CHECKPOINT | RECORD_RISK_EVENT
  | SEND_NOTIFICATION | STOP_RUNTIME

record emergency_stop =
  es_active :: bool
  es_reason :: "emergency_reason option"
  es_attempted :: "safety_step list"

definition new_emergency_stop :: emergency_stop where
  "new_emergency_stop = \<lparr>es_active = False, es_reason = None, es_attempted = []\<rparr>"

datatype activation = NotActivated | Activated | StepsFailed "safety_step list" | NotificationFailed

text \<open>\<open>fails\<close> are the steps whose callback raises; the notification is outside the try blocks.\<close>

definition activate ::
    "(safety_step \<Rightarrow> bool) \<Rightarrow> emergency_reason \<Rightarrow> emergency_stop \<Rightarrow> activation \<times> emergency_stop" where
  "activate fails reason es =
     (if es_active es then (NotActivated, es)
      else
        (let steps = [DISABLE_TRADING, CLOSE_EXECUTION, SAVE_CHECKPOINT, RECORD_RISK_EVENT];
             es1 = es\<lparr>es_active := True, es_reason := Some reason,
                      es_attempted := es_attempted es @ steps @ [SEND_NOTIFICATION]\<rparr>
         in if fails SEND_NOTIFICATION then (NotificationFailed, es1)
            else
              (let failed = filter fails (steps @ [STOP_RUNTIME]);
                   es2 = es1\<lparr>es_attempted := es_attempted es1 @ [STOP_RUNTIME]\<rparr>
               in (if failed \<noteq> [] then StepsFailed failed else Activated, es2))))"

section \<open>The coordinator\<close>

datatype system_health = HEALTHY | DEGRADED | SYSTEM_CRITICAL

record system_health_result =
  sh_status :: system_health
  sh_database :: "database_health option"
  sh_risk :: "risk_health option"
  sh_reasons :: "string list"
  sh_checked_at :: timestamp

record health_coordinator =
  hc_database_monitor :: "database_monitor option"
  hc_risk_monitor :: bool
  hc_risk_engine :: "risk_engine option"
  hc_emergency_stop :: "emergency_stop option"
  hc_notifier :: bool
  hc_last_status :: "system_health option"
  hc_check_count :: nat
  hc_critical_count :: nat
  hc_history :: "system_health_result list"
  hc_alerts :: nat

text \<open>The status enumerations are strings: a value is looked up among the values of all of them.\<close>

definition overall_status :: "string list \<Rightarrow> system_health" where
  "overall_status statuses =
     (if \<exists>s \<in> set statuses. s \<in> {''UNAVAILABLE'', ''CRITICAL'', ''FAILED''} then SYSTEM_CRITICAL
      else if \<exists>s \<in> set statuses. s \<in> {''DEGRADED'', ''WARNING''} then DEGRADED else HEALTHY)"

definition classify_emergency :: "system_health_result \<Rightarrow> emergency_reason" where
  "classify_emergency r =
     (if sh_database r = Some DB_UNAVAILABLE then EMERGENCY_DB_FAILURE
      else if sh_risk r = Some RISK_CRITICAL then EMERGENCY_RECONCILIATION_FAILED
      else EMERGENCY_RUNTIME_ERROR)"

definition observe_database ::
    "database_probe \<Rightarrow> health_coordinator \<Rightarrow> (database_health option \<times> string list) \<times> health_coordinator" where
  "observe_database pb hc =
     (case hc_database_monitor hc of
        None \<Rightarrow> ((None, []), hc)
      | Some m \<Rightarrow>
          (case database_check m pb of
             (r, m') \<Rightarrow>
               ((Some (dh_status r),
                 if dh_trading_enabled r then []
                 else [''database: '' @ database_health_value (dh_status r)]),
                hc\<lparr>hc_database_monitor := Some m',
                   hc_risk_engine := map_option
                     (\<lambda>re. update_system_health re (dh_status r \<noteq> DB_UNAVAILABLE) True)
                     (hc_risk_engine hc)\<rparr>)))"

definition observe_risk :: "health_coordinator \<Rightarrow> risk_health option \<times> string list" where
  "observe_risk hc =
     (case (hc_risk_monitor hc, hc_risk_engine hc) of
        (True, Some re) \<Rightarrow>
          let r = risk_health_check re 0
          in (Some (rh_risk_status r), if rh_trading_enabled r then [] else rh_reasons r)
      | _ \<Rightarrow> (None, []))"

text \<open>
  \<open>fails\<close> are the steps that raise, the alert of the coordinator included: a failing notifier raises
  before the emergency stop is reached and before the status is remembered.
\<close>

definition handle_transition ::
    "(safety_step \<Rightarrow> bool) \<Rightarrow> system_health_result \<Rightarrow> health_coordinator
     \<Rightarrow> py_error option \<times> health_coordinator" where
  "handle_transition fails r hc =
     (let alert = (\<lambda>c. if hc_notifier c then c\<lparr>hc_alerts := Suc (hc_alerts c)\<rparr> else c);
          broken = hc_notifier hc \<and> fails SEND_NOTIFICATION
      in if hc_last_status hc = Some (sh_status r) then (None, hc)
         else (case sh_status r of
           SYSTEM_CRITICAL \<Rightarrow>
             let hc1 = alert (hc\<lparr>hc_critical_count := Suc (hc_critical_count hc)\<rparr>)
             in if broken then (Some (RuntimeError ''notification failed''), hc1)
                else (None, hc1\<lparr>hc_emergency_stop := map_option
                        (\<lambda>es. snd (activate fails (classify_emergency r) es)) (hc_emergency_stop hc1)\<rparr>)
         | DEGRADED \<Rightarrow>
             if broken then (Some (RuntimeError ''notification failed''), alert hc) else (None, alert hc)
         | HEALTHY \<Rightarrow>
             if hc_last_status hc = None then (None, hc)
             else if broken then (Some (RuntimeError ''notification failed''), alert hc)
             else (None, alert hc)))"

definition check_now ::
    "(safety_step \<Rightarrow> bool) \<Rightarrow> database_probe \<Rightarrow> timestamp \<Rightarrow> health_coordinator
     \<Rightarrow> system_health_result result \<times> health_coordinator" where
  "check_now fails pb now hc =
     (let hc0 = hc\<lparr>hc_check_count := Suc (hc_check_count hc)\<rparr>;
          ((db, db_reasons), hc1) = observe_database pb hc0;
          (risk, risk_reasons) = observe_risk hc1;
          statuses = (case db of None \<Rightarrow> [] | Some s \<Rightarrow> [database_health_value s]) @
                     (case risk of None \<Rightarrow> [] | Some s \<Rightarrow> [risk_health_value s]);
          r = \<lparr>sh_status = overall_status statuses, sh_database = db, sh_risk = risk,
               sh_reasons = db_reasons @ risk_reasons, sh_checked_at = now\<rparr>;
          hc2 = hc1\<lparr>hc_history := last_n 100 (hc_history hc1 @ [r])\<rparr>
      in (case handle_transition fails r hc2 of
            (Some e, hc3) \<Rightarrow> (Inl e, hc3)
          | (None, hc3) \<Rightarrow> (Inr r, hc3\<lparr>hc_last_status := Some (sh_status r)\<rparr>)))"

section \<open>Facts\<close>

lemma activate_once: "es_active es \<Longrightarrow> activate fails reason es = (NotActivated, es)"
  by (simp add: activate_def)

lemma activate_active: "es_active (snd (activate fails reason es))"
  by (simp add: activate_def Let_def)

lemma activate_attempts:
  "\<not> es_active es \<Longrightarrow> es_attempted (snd (activate fails reason es)) =
     es_attempted es @ [DISABLE_TRADING, CLOSE_EXECUTION, SAVE_CHECKPOINT, RECORD_RISK_EVENT,
       SEND_NOTIFICATION] @ (if fails SEND_NOTIFICATION then [] else [STOP_RUNTIME])"
  by (simp add: activate_def Let_def)

lemma activate_result:
  "\<not> es_active es \<Longrightarrow> fst (activate fails reason es) =
     (if fails SEND_NOTIFICATION then NotificationFailed
      else if \<exists>s. s \<noteq> SEND_NOTIFICATION \<and> fails s
      then StepsFailed (filter fails [DISABLE_TRADING, CLOSE_EXECUTION, SAVE_CHECKPOINT,
             RECORD_RISK_EVENT, STOP_RUNTIME])
      else Activated)"
proof -
  have "(\<exists>s. s \<noteq> SEND_NOTIFICATION \<and> fails s) \<longleftrightarrow>
      filter fails [DISABLE_TRADING, CLOSE_EXECUTION, SAVE_CHECKPOINT, RECORD_RISK_EVENT, STOP_RUNTIME] \<noteq> []"
    (is "?l \<longleftrightarrow> ?r")
  proof
    assume ?l
    then obtain s where "s \<noteq> SEND_NOTIFICATION" "fails s" by blast
    then have "s \<in> set [DISABLE_TRADING, CLOSE_EXECUTION, SAVE_CHECKPOINT, RECORD_RISK_EVENT, STOP_RUNTIME]"
      by (cases s) simp_all
    with \<open>fails s\<close> show ?r by (metis filter_empty_conv)
  next
    assume ?r
    then obtain s where "fails s"
      "s \<in> set [DISABLE_TRADING, CLOSE_EXECUTION, SAVE_CHECKPOINT, RECORD_RISK_EVENT, STOP_RUNTIME]"
      by (metis filter_empty_conv)
    then show ?l by auto
  qed
  then show "\<not> es_active es \<Longrightarrow> ?thesis" by (simp add: activate_def Let_def del: filter.simps)
qed

text \<open>A run of activations: whatever the reasons, the steps are attempted once.\<close>

definition activate_all :: "(safety_step \<Rightarrow> bool) \<Rightarrow> emergency_reason list \<Rightarrow> emergency_stop \<Rightarrow> emergency_stop"
  where
  "activate_all fails reasons es = fold (\<lambda>r es. snd (activate fails r es)) reasons es"

lemma activate_all_active: "es_active es \<Longrightarrow> activate_all fails reasons es = es"
  by (induction reasons) (simp_all add: activate_all_def activate_once)

lemma activate_all_Cons:
  "activate_all fails (r # rs) es = snd (activate fails r es)"
  using activate_all_active [OF activate_active, of fails rs fails r es]
  by (simp add: activate_all_def)

lemma observe_database_engine:
  "hc_database_monitor hc = Some m \<Longrightarrow> hc_risk_engine hc = Some re \<Longrightarrow>
     hc_risk_engine (snd (observe_database pb hc)) =
       Some (update_system_health re (dh_status (fst (database_check m pb)) \<noteq> DB_UNAVAILABLE) True)"
  by (simp add: observe_database_def split: prod.splits)

lemma handle_transition_engine [simp]:
  "hc_risk_engine (snd (handle_transition fails r hc)) = hc_risk_engine hc"
  by (simp add: handle_transition_def Let_def split: system_health.split)

lemma check_now_engine:
  assumes "hc_database_monitor hc = Some m" "hc_risk_engine hc = Some re"
  shows "hc_risk_engine (snd (check_now fails pb now hc)) =
     Some (update_system_health re (dh_status (fst (database_check m pb)) \<noteq> DB_UNAVAILABLE) True)"
proof -
  obtain db reasons hc1 where o: "observe_database pb (hc\<lparr>hc_check_count := Suc (hc_check_count hc)\<rparr>) =
      ((db, reasons), hc1)"
    by (metis surj_pair)
  have "hc_risk_engine (snd (check_now fails pb now hc)) = hc_risk_engine hc1"
  proof -
    have *: "hc_risk_engine (snd (case handle_transition fails x c of
          (Some e, hc3) \<Rightarrow> (Inl e, hc3) | (None, hc3) \<Rightarrow> (Inr x, hc3\<lparr>hc_last_status := Some (sh_status x)\<rparr>)))
        = hc_risk_engine c" for x :: system_health_result and c
      using handle_transition_engine [of fails x c]
      by (cases "handle_transition fails x c") (auto split: option.splits)
    show ?thesis
      by (simp add: check_now_def Let_def o * split: prod.splits)
  qed
  then show ?thesis
    using observe_database_engine [of "hc\<lparr>hc_check_count := Suc (hc_check_count hc)\<rparr>" m re pb] assms o
    by simp
qed

lemma database_unavailable_iff:
  "dh_status (fst (database_check m pb)) = DB_UNAVAILABLE \<longleftrightarrow>
     pb_connection pb \<noteq> Inr True \<or> (\<exists>e. pb_checkpoint pb = Some (Inl e))"
  by (auto simp: database_check_def Let_def split: sum.splits option.splits)

end
