(* ===== verification/Pipeline.thy ===== *)
theory Pipeline
  imports Models Paper_Engine "HOL-Library.Sublist"
begin

text \<open>
  The managed market pipeline of \<open>app/pipeline\<close>: readiness and state (\<open>pipeline_state.py\<close>), results
  (\<open>events.py\<close>) and the orchestration of one closed candle from RAW to CHECKPOINT
  (\<open>market_pipeline.py\<close>). The injected services are functions over a world of type \<open>'w\<close> that may
  raise; one that is not configured is a function that raises. Instants are in UTC. The background refresh of the
  marts and the logging are not modelled.
\<close>

section \<open>Readiness and state\<close>

datatype pipeline_state = PS_STARTING | PS_WARMUP | PS_READY | PS_RUNNING | PS_DEGRADED | PS_STOPPED

record market_readiness =
  mr_required_candles :: int
  mr_candle_counts :: "int dict"
  mr_indicators :: "(string list) dict"
  mr_regimes :: "string list"

definition candle_count :: "market_readiness \<Rightarrow> string \<Rightarrow> int" where
  "candle_count r s = (case map_of (mr_candle_counts r) s of None \<Rightarrow> 0 | Some n \<Rightarrow> n)"

definition observe :: "string \<Rightarrow> string list \<Rightarrow> bool \<Rightarrow> market_readiness \<Rightarrow> market_readiness" where
  "observe symbol indicator_names has_regime r =
     (let r1 = r\<lparr>mr_candle_counts := AList.update symbol (candle_count r symbol + 1) (mr_candle_counts r),
                 mr_indicators := AList.update symbol (map str_upper indicator_names) (mr_indicators r)\<rparr>
      in if has_regime then r1\<lparr>mr_regimes := List.insert symbol (mr_regimes r1)\<rparr> else r1)"

definition seed :: "string \<Rightarrow> int \<Rightarrow> market_readiness \<Rightarrow> market_readiness" where
  "seed symbol count r =
     r\<lparr>mr_candle_counts := AList.update symbol (max count (candle_count r symbol)) (mr_candle_counts r)\<rparr>"

definition symbol_ready :: "market_readiness \<Rightarrow> string \<Rightarrow> bool" where
  "symbol_ready r s \<longleftrightarrow>
     mr_required_candles r \<le> candle_count r s \<and>
     {''EMA'', ''RSI'', ''ATR''} \<subseteq>
       set (case map_of (mr_indicators r) s of None \<Rightarrow> [] | Some names \<Rightarrow> names) \<and>
     s \<in> set (mr_regimes r)"

definition all_ready :: "market_readiness \<Rightarrow> string list \<Rightarrow> bool" where
  "all_ready r symbols \<longleftrightarrow> symbols \<noteq> [] \<and> list_all (symbol_ready r) symbols"

record tracker =
  tk_state :: pipeline_state
  tk_readiness :: market_readiness
  tk_last_sequences :: "int dict"

definition tk_last_sequence :: "tracker \<Rightarrow> string \<Rightarrow> int" where
  "tk_last_sequence tk s = (case map_of (tk_last_sequences tk) s of None \<Rightarrow> 0 | Some n \<Rightarrow> n)"

definition mark_processed :: "string \<Rightarrow> int \<Rightarrow> tracker \<Rightarrow> tracker" where
  "mark_processed s n tk = tk\<lparr>tk_last_sequences := AList.update s n (tk_last_sequences tk)\<rparr>"

section \<open>Services, pipeline and results\<close>

type_synonym ('w, 'a) service = "'w \<Rightarrow> 'a result \<times> 'w"

record ('w, 'v, 'r, 'x) services =
  svc_save :: "market_event \<Rightarrow> ('w, unit) service"
  svc_normalize :: "market_event \<Rightarrow> ('w, paper_candle) service"
  svc_on_market_event :: "(market_event \<Rightarrow> ('w, unit) service) option"
  svc_calculate :: "paper_candle \<Rightarrow> ('w, 'v dict) service"
  svc_detect :: "paper_candle \<Rightarrow> 'v dict \<Rightarrow> ('w, 'r option) service"
  svc_evaluate :: "paper_candle \<Rightarrow> 'v dict \<Rightarrow> 'r option \<Rightarrow> ('w, signal option) service"
  svc_risk :: "signal \<Rightarrow> ('w, bool) service"
  svc_execute :: "signal \<Rightarrow> int \<Rightarrow> ('w, 'x) service"
  svc_persist :: "market_event \<Rightarrow> paper_candle \<Rightarrow> 'v dict \<Rightarrow> 'r option \<Rightarrow> signal option \<Rightarrow> bool option
     \<Rightarrow> 'x option \<Rightarrow> ('w, unit) service"
  svc_checkpoint :: "string \<Rightarrow> int \<Rightarrow> ('w, unit) service"
  svc_record :: "market_event \<Rightarrow> string \<Rightarrow> bool option \<Rightarrow> ('w, unit) service"

record 'w pipeline =
  pl_world :: 'w
  pl_tracker :: tracker
  pl_symbols :: "string list"
  pl_run_id :: string
  pl_stages :: "string list"

datatype pipeline_status = PROCESSED | IGNORED | PIPELINE_WARMUP | FAILED

record 'x pipeline_result =
  pres_status :: pipeline_status
  pres_sequence :: int
  pres_trading_ready :: bool
  pres_signal :: "signal option"
  pres_risk_decision :: "bool option"
  pres_execution :: "'x option"
  pres_reason :: "py_error option"
  pres_stages :: "string list"

definition is_trading_ready :: "string \<Rightarrow> 'w pipeline \<Rightarrow> bool" where
  "is_trading_ready s p \<longleftrightarrow>
     tk_state (pl_tracker p) = PS_READY \<and> (s = '''' \<or> symbol_ready (tk_readiness (pl_tracker p)) s)"

definition restore_checkpoint :: "int dict \<Rightarrow> 'w pipeline \<Rightarrow> 'w pipeline" where
  "restore_checkpoint sequences p =
     p\<lparr>pl_tracker := (pl_tracker p)\<lparr>tk_last_sequences :=
         AList.updates (map fst sequences) (map snd sequences) (tk_last_sequences (pl_tracker p))\<rparr>\<rparr>"

section \<open>Stages\<close>

text \<open>A stage runs on the pipeline and may raise; what it did before stays done.\<close>

type_synonym ('w, 'a) stage = "'w pipeline \<Rightarrow> 'a result \<times> 'w pipeline"

definition seq :: "('w, 'a) stage \<Rightarrow> ('a \<Rightarrow> ('w, 'b) stage) \<Rightarrow> ('w, 'b) stage" where
  "seq m f p = (case m p of (Inl e, p') \<Rightarrow> (Inl e, p') | (Inr a, p') \<Rightarrow> f a p')"

definition pure :: "'a \<Rightarrow> ('w, 'a) stage" where
  "pure a p = (Inr a, p)"

definition call :: "('w, 'a) service \<Rightarrow> ('w, 'a) stage" where
  "call svc p = (case svc (pl_world p) of (r, w) \<Rightarrow> (r, p\<lparr>pl_world := w\<rparr>))"

definition check :: "'a result \<Rightarrow> ('w, 'a) stage" where
  "check r p = (r, p)"

definition done_stage :: "string \<Rightarrow> ('w, unit) stage" where
  "done_stage name p = (Inr (), p\<lparr>pl_stages := pl_stages p @ [name]\<rparr>)"

definition validate_closed_event :: "timestamp \<Rightarrow> market_event \<Rightarrow> unit result" where
  "validate_closed_event now e =
     (if now < pc_close_time (me_candle e) then Inl (ValueError ''open candle is not processable'')
      else Inr ())"

definition ingest_event ::
    "('w, 'v, 'r, 'x) services \<Rightarrow> timestamp \<Rightarrow> market_event
     \<Rightarrow> ('w, paper_candle \<times> 'v dict \<times> 'r option) stage" where
  "ingest_event svc now e =
     seq (call (svc_save svc e)) (\<lambda>_.
     seq (done_stage ''RAW'') (\<lambda>_.
     seq (check (validate_closed_event now e)) (\<lambda>_.
     seq (call (svc_normalize svc e)) (\<lambda>candle.
     seq (check (validate_candle candle)) (\<lambda>_.
     seq (done_stage ''DDS'') (\<lambda>_.
     seq (case svc_on_market_event svc of None \<Rightarrow> pure () | Some f \<Rightarrow> call (f e)) (\<lambda>_.
     seq (call (svc_calculate svc candle)) (\<lambda>inds.
     seq (done_stage ''INDICATORS'') (\<lambda>_.
     seq (call (svc_detect svc candle inds)) (\<lambda>reg.
     seq (done_stage ''REGIME'') (\<lambda>_.
       pure (candle, inds, reg))))))))))))"

definition update_readiness :: "string \<Rightarrow> string list \<Rightarrow> bool \<Rightarrow> 'w pipeline \<Rightarrow> 'w pipeline" where
  "update_readiness symbol names has_regime p =
     (let symbols = List.insert symbol (pl_symbols p);
          readiness = observe symbol names has_regime (tk_readiness (pl_tracker p))
      in p\<lparr>pl_symbols := symbols,
           pl_tracker := (pl_tracker p)\<lparr>tk_readiness := readiness,
             tk_state := (if all_ready readiness symbols then PS_READY else PS_WARMUP)\<rparr>\<rparr>)"

text \<open>A failing risk-event store is logged and ignored.\<close>

definition record_risk_event ::
    "('w, 'v, 'r, 'x) services \<Rightarrow> market_event \<Rightarrow> string \<Rightarrow> bool option \<Rightarrow> 'w pipeline \<Rightarrow> 'w pipeline" where
  "record_risk_event svc e reason detail p = snd (call (svc_record svc e reason detail) p)"

text \<open>The signal carries the run of the pipeline, unless it has one.\<close>

definition stamped :: "'w pipeline \<Rightarrow> signal \<Rightarrow> signal" where
  "stamped p s = (if sig_run_id s = '''' then s\<lparr>sig_run_id := pl_run_id p\<rparr> else s)"

definition decide ::
    "('w, 'v, 'r, 'x) services \<Rightarrow> market_event \<Rightarrow> signal
     \<Rightarrow> ('w, signal option \<times> bool option \<times> 'x option) stage" where
  "decide svc e s =
     seq (call (svc_risk svc s)) (\<lambda>approved.
     seq (done_stage ''RISK'') (\<lambda>_.
       if approved
       then seq (call (svc_execute svc s (me_sequence e))) (\<lambda>x.
            seq (done_stage ''EXECUTION'') (\<lambda>_. pure (Some s, Some True, Some x)))
       else (\<lambda>q. pure (Some s, Some False, None)
               (record_risk_event svc e ''risk rejected signal'' (Some False) q))))"

definition trade_stages ::
    "('w, 'v, 'r, 'x) services \<Rightarrow> market_event \<Rightarrow> paper_candle \<times> 'v dict \<times> 'r option
     \<Rightarrow> ('w, signal option \<times> bool option \<times> 'x option) stage" where
  "trade_stages svc e facts p =
     (case facts of (candle, inds, reg) \<Rightarrow>
        if \<not> is_trading_ready (me_symbol e) p then (Inr (None, None, None), p)
        else
          seq (call (svc_evaluate svc candle inds reg)) (\<lambda>sg.
          seq (done_stage ''STRATEGY'') (\<lambda>_.
            case sg of None \<Rightarrow> pure (None, None, None) | Some s \<Rightarrow> decide svc e (stamped p s))) p)"

definition finish ::
    "('w, 'v, 'r, 'x) services \<Rightarrow> market_event \<Rightarrow> paper_candle \<times> 'v dict \<times> 'r option
     \<Rightarrow> signal option \<times> bool option \<times> 'x option \<Rightarrow> ('w, 'x pipeline_result) stage" where
  "finish svc e facts outcome =
     (case (facts, outcome) of ((candle, inds, reg), (sg, decision, execution)) \<Rightarrow>
        seq (call (svc_persist svc e candle inds reg sg decision execution)) (\<lambda>_.
        seq (call (svc_checkpoint svc (me_symbol e) (me_sequence e))) (\<lambda>_.
        seq (done_stage ''PERSISTENCE'') (\<lambda>_.
        seq (done_stage ''CHECKPOINT'') (\<lambda>_ p.
          let p' = p\<lparr>pl_tracker := mark_processed (me_symbol e) (me_sequence e) (pl_tracker p)\<rparr>;
              ready = is_trading_ready (me_symbol e) p'
          in (Inr \<lparr>pres_status = (if ready then PROCESSED else PIPELINE_WARMUP),
                   pres_sequence = me_sequence e, pres_trading_ready = ready, pres_signal = sg,
                   pres_risk_decision = decision, pres_execution = execution, pres_reason = None,
                   pres_stages = pl_stages p'\<rparr>, p'))))))"

definition process_event ::
    "('w, 'v, 'r, 'x) services \<Rightarrow> timestamp \<Rightarrow> market_event \<Rightarrow> ('w, 'x pipeline_result) stage" where
  "process_event svc now e =
     seq (ingest_event svc now e) (\<lambda>(candle, inds, reg) p.
       seq (trade_stages svc e (candle, inds, reg))
         (finish svc e (candle, inds, reg))
         (update_readiness (me_symbol e) (map fst inds) (reg \<noteq> None) p))"

definition process_market_event ::
    "('w, 'v, 'r, 'x) services \<Rightarrow> timestamp \<Rightarrow> market_event \<Rightarrow> 'w pipeline
     \<Rightarrow> 'x pipeline_result \<times> 'w pipeline" where
  "process_market_event svc now e p0 =
     (let p = p0\<lparr>pl_stages := []\<rparr>; symbol = me_symbol e
      in if me_sequence e \<le> tk_last_sequence (pl_tracker p) symbol
         then (\<lparr>pres_status = IGNORED, pres_sequence = me_sequence e,
                pres_trading_ready = is_trading_ready symbol p, pres_signal = None,
                pres_risk_decision = None, pres_execution = None,
                pres_reason = Some (ValueError ''duplicate sequence''), pres_stages = []\<rparr>, p)
         else (case process_event svc now e p of
                 (Inr r, p') \<Rightarrow> (r, p')
               | (Inl err, p') \<Rightarrow>
                   let p1 = p'\<lparr>pl_tracker := (pl_tracker p')\<lparr>tk_state := PS_DEGRADED\<rparr>\<rparr>;
                       p2 = record_risk_event svc e ''pipeline failure'' None p1;
                       p3 = snd (call (svc_checkpoint svc symbol (me_sequence e)) p2)
                   in (\<lparr>pres_status = FAILED, pres_sequence = me_sequence e,
                        pres_trading_ready = False, pres_signal = None, pres_risk_decision = None,
                        pres_execution = None, pres_reason = Some err, pres_stages = pl_stages p3\<rparr>, p3)))"

definition stop_pipeline :: "'w pipeline \<Rightarrow> 'w pipeline" where
  "stop_pipeline p = p\<lparr>pl_tracker := (pl_tracker p)\<lparr>tk_state := PS_STOPPED\<rparr>\<rparr>"

section \<open>What the stages leave alone\<close>

definition keeps :: "('w, 'a) stage \<Rightarrow> bool" where
  "keeps f \<longleftrightarrow>
     (\<forall>p. pl_tracker (snd (f p)) = pl_tracker p \<and> pl_symbols (snd (f p)) = pl_symbols p \<and>
          pl_run_id (snd (f p)) = pl_run_id p)"

lemma keeps_seq: "keeps f \<Longrightarrow> (\<And>a. keeps (g a)) \<Longrightarrow> keeps (seq f g)"
  unfolding keeps_def seq_def by (auto split: prod.split sum.split) (metis snd_conv)+

lemma keeps_basic:
  "keeps (pure a)" "keeps (call svc)" "keeps (check r)" "keeps (done_stage name)"
  by (auto simp: keeps_def pure_def call_def check_def done_stage_def split: prod.split)

lemmas keeps_intros = keeps_seq keeps_basic

lemma keeps_ingest: "keeps (ingest_event svc now e)"
  unfolding ingest_event_def by (intro keeps_intros) (simp add: keeps_basic split: option.split)

lemma risk_event_keeps [simp]:
  "pl_tracker (record_risk_event svc e reason d p) = pl_tracker p"
  "pl_symbols (record_risk_event svc e reason d p) = pl_symbols p"
  "pl_run_id (record_risk_event svc e reason d p) = pl_run_id p"
  "pl_stages (record_risk_event svc e reason d p) = pl_stages p"
  by (simp_all add: record_risk_event_def call_def split: prod.split)

section \<open>The stages in order\<close>

text \<open>
  A stage completes names in the order of \<open>done\<close> when it returns, and of \<open>part\<close> when it raises.
\<close>

definition emits :: "string list \<Rightarrow> string list \<Rightarrow> ('w, 'a) stage \<Rightarrow> bool" where
  "emits full part f \<longleftrightarrow>
     (\<forall>p. \<exists>ys. pl_stages (snd (f p)) = pl_stages p @ ys \<and>
        subseq ys (if \<exists>a. fst (f p) = Inr a then full else part))"

lemma emits_InrE:
  assumes "emits full part f" "f p = (Inr a, p')"
  obtains ys where "pl_stages p' = pl_stages p @ ys" "subseq ys full"
  using assms unfolding emits_def by (auto dest!: spec [of _ p])

lemma emits_InlE:
  assumes "emits full part f" "f p = (Inl e, p')"
  obtains ys where "pl_stages p' = pl_stages p @ ys" "subseq ys part"
  using assms unfolding emits_def by (auto dest!: spec [of _ p])

lemma emits_basic:
  "emits [] [] (pure a)" "emits [] [] (call svc)" "emits [] [] (check r)"
  "emits [name] [] (done_stage name)"
  by (auto simp: emits_def pure_def call_def check_def done_stage_def split: prod.split)

lemma seq_InrE:
  assumes "seq f g p = (Inr b, p')"
  obtains a p1 where "f p = (Inr a, p1)" "g a p1 = (Inr b, p')"
  using assms by (auto simp: seq_def split: prod.splits sum.splits)

lemma seq_InlE:
  assumes "seq f g p = (Inl e, p')"
  obtains "f p = (Inl e, p')" | a p1 where "f p = (Inr a, p1)" "g a p1 = (Inl e, p')"
  using assms by (auto simp: seq_def split: prod.splits sum.splits)

lemma emits_seq:
  assumes f: "emits full1 part1 f" and g: "\<And>a. emits full2 part2 (g a)"
    and part: "subseq part1 part" "subseq (full1 @ part2) part"
  shows "emits (full1 @ full2) part (seq f g)"
  unfolding emits_def
proof
  fix p
  obtain r p' where run: "seq f g p = (r, p')" by force
  have "\<exists>ys. pl_stages p' = pl_stages p @ ys \<and> subseq ys (if \<exists>a. r = Inr a then full1 @ full2 else part)"
  proof (cases r)
    case (Inr b)
    with run obtain a p1 where 1: "f p = (Inr a, p1)" "g a p1 = (Inr b, p')" by (blast elim: seq_InrE)
    obtain xs where xs: "pl_stages p1 = pl_stages p @ xs" "subseq xs full1"
      by (rule emits_InrE [OF f 1(1)])
    obtain ys where ys: "pl_stages p' = pl_stages p1 @ ys" "subseq ys full2"
      by (rule emits_InrE [OF g 1(2)])
    have "subseq (xs @ ys) (full1 @ full2)" using xs(2) ys(2) by (rule list_emb_append_mono)
    with xs(1) ys(1) Inr show ?thesis by simp
  next
    case (Inl e)
    with run have "seq f g p = (Inl e, p')" by simp
    then show ?thesis
    proof (cases rule: seq_InlE)
      case 1
      obtain xs where "pl_stages p' = pl_stages p @ xs" "subseq xs part1"
        by (rule emits_InlE [OF f 1])
      with part(1) Inl show ?thesis by (auto intro: subseq_order.order_trans)
    next
      case (2 a p1)
      obtain xs where xs: "pl_stages p1 = pl_stages p @ xs" "subseq xs full1"
        by (rule emits_InrE [OF f 2(1)])
      obtain ys where ys: "pl_stages p' = pl_stages p1 @ ys" "subseq ys part2"
        by (rule emits_InlE [OF g 2(2)])
      have "subseq (xs @ ys) (full1 @ part2)" using xs(2) ys(2) by (rule list_emb_append_mono)
      then have "subseq (xs @ ys) part" using part(2) by (rule subseq_order.order_trans)
      with xs(1) ys(1) Inl show ?thesis by simp
    qed
  qed
  then show "\<exists>ys. pl_stages (snd (seq f g p)) = pl_stages p @ ys \<and>
      subseq ys (if \<exists>a. fst (seq f g p) = Inr a then full1 @ full2 else part)"
    by (simp add: run)
qed

text \<open>The two shapes of a stage: a silent call, and a completed name.\<close>

lemma emits_silent:
  "emits [] [] f \<Longrightarrow> (\<And>a. emits full part (g a)) \<Longrightarrow> emits full part (seq f g)"
  using emits_seq [of "[]" "[]" f full part g part] by simp

lemma emits_named:
  "emits full part f \<Longrightarrow> emits (name # full) (name # part) (seq (done_stage name) (\<lambda>_. f))"
  using emits_seq [OF emits_basic(4), of full part "\<lambda>_. f" "name # part" name] by simp

lemma emits_weaken: "emits full part f \<Longrightarrow> subseq full full' \<Longrightarrow> subseq part part' \<Longrightarrow> emits full' part' f"
  unfolding emits_def by (smt (verit) subseq_order.order_trans)

lemma emits_pure: "emits full part (pure a)"
  by (simp add: emits_def pure_def)

lemma emits_after:
  assumes "emits full part f" "\<And>p. pl_stages (h p) = pl_stages p"
  shows "emits full part (\<lambda>p. f (h p))"
  unfolding emits_def
proof
  fix p
  show "\<exists>ys. pl_stages (snd (f (h p))) = pl_stages p @ ys \<and>
      subseq ys (if \<exists>a. fst (f (h p)) = Inr a then full else part)"
    using spec [OF assms(1) [unfolded emits_def], of "h p"] assms(2) by simp
qed

lemma emits_ingest:
  "emits [''RAW'', ''DDS'', ''INDICATORS'', ''REGIME''] [''RAW'', ''DDS'', ''INDICATORS'', ''REGIME'']
     (ingest_event svc now e)"
proof -
  have opt: "emits [] [] (case svc_on_market_event svc of None \<Rightarrow> pure () | Some f \<Rightarrow> call (f e))"
    by (simp add: emits_basic split: option.split)
  show ?thesis
    unfolding ingest_event_def by (intro emits_silent emits_named opt emits_basic)
qed

section \<open>Trading\<close>

lemma call_InrE:
  assumes "call svc p = (Inr a, p')"
  obtains w where "svc (pl_world p) = (Inr a, w)" "p' = p\<lparr>pl_world := w\<rparr>"
  using assms by (auto simp: call_def split: prod.splits)

lemma call_stages: "call svc p = (r, p') \<Longrightarrow> pl_stages p' = pl_stages p"
  by (auto simp: call_def split: prod.splits)

text \<open>What a trading step that returns has done.\<close>

lemma trade_cases:
  assumes "trade_stages svc e (c, i, r) p = (Inr (sg, d, x), p')"
  obtains
    (not_ready) "\<not> is_trading_ready (me_symbol e) p" "sg = None" "d = None" "x = None" "p' = p"
  | (no_signal) "is_trading_ready (me_symbol e) p" "sg = None" "d = None" "x = None"
      "pl_stages p' = pl_stages p @ [''STRATEGY'']"
  | (rejected) s where "is_trading_ready (me_symbol e) p" "sg = Some (stamped p s)" "d = Some False"
      "x = None" "pl_stages p' = pl_stages p @ [''STRATEGY'', ''RISK'']"
  | (executed) s y w w' where "is_trading_ready (me_symbol e) p" "sg = Some (stamped p s)"
      "d = Some True" "x = Some y" "svc_risk svc (stamped p s) w = (Inr True, w')"
      "pl_stages p' = pl_stages p @ [''STRATEGY'', ''RISK'', ''EXECUTION'']"
proof (cases "is_trading_ready (me_symbol e) p")
  case False
  then show ?thesis using assms by (intro not_ready) (simp_all add: trade_stages_def)
next
  case True
  from assms True obtain sg0 p1 where 1: "call (svc_evaluate svc c i r) p = (Inr sg0, p1)"
    and 2: "(case sg0 of None \<Rightarrow> pure (None, None, None) | Some s \<Rightarrow> decide svc e (stamped p s))
      (p1\<lparr>pl_stages := pl_stages p1 @ [''STRATEGY'']\<rparr>) = (Inr (sg, d, x), p')"
    by (auto simp: trade_stages_def done_stage_def elim!: seq_InrE)
  show ?thesis
  proof (cases sg0)
    case None
    then show ?thesis using 2 True call_stages [OF 1] by (intro no_signal) (auto simp: pure_def)
  next
    case (Some s)
    obtain approved p2 where 3: "call (svc_risk svc (stamped p s))
        (p1\<lparr>pl_stages := pl_stages p1 @ [''STRATEGY'']\<rparr>) = (Inr approved, p2)"
      and 4: "(if approved
          then seq (call (svc_execute svc (stamped p s) (me_sequence e)))
                 (\<lambda>x. seq (done_stage ''EXECUTION'') (\<lambda>_. pure (Some (stamped p s), Some True, Some x)))
          else (\<lambda>q. pure (Some (stamped p s), Some False, None)
                 (record_risk_event svc e ''risk rejected signal'' (Some False) q)))
        (p2\<lparr>pl_stages := pl_stages p2 @ [''RISK'']\<rparr>) = (Inr (sg, d, x), p')"
      using 2 Some by (auto elim!: seq_InrE simp: done_stage_def decide_def)
    have st: "pl_stages p2 = pl_stages p @ [''STRATEGY'']"
      using call_stages [OF 1] call_stages [OF 3] by simp
    show ?thesis
    proof (cases approved)
      case False
      with 4 st True show ?thesis by (intro rejected [of s]) (auto simp: pure_def)
    next
      case approved: True
      then obtain y p3 where 5: "call (svc_execute svc (stamped p s) (me_sequence e))
          (p2\<lparr>pl_stages := pl_stages p2 @ [''RISK'']\<rparr>) = (Inr y, p3)"
        "sg = Some (stamped p s)" "d = Some True" "x = Some y"
        "p' = p3\<lparr>pl_stages := pl_stages p3 @ [''EXECUTION'']\<rparr>"
        using 4 by (auto elim!: seq_InrE simp: done_stage_def pure_def)
      obtain w w' where "svc_risk svc (stamped p s) w = (Inr True, w')"
        using 3 approved by (auto elim: call_InrE)
      then show ?thesis
        using 5 st True call_stages [OF 5(1)] by (intro executed [of s y]) auto
    qed
  qed
qed

lemma keeps_decide: "keeps (decide svc e s)"
proof -
  have "keeps (\<lambda>q. pure a (record_risk_event svc e reason d q))" for a :: 'e and reason d
    by (simp add: keeps_def pure_def)
  then show ?thesis unfolding decide_def by (auto intro!: keeps_intros)
qed

lemma keeps_trade: "keeps (trade_stages svc e facts)"
  unfolding keeps_def
proof
  fix p :: "'a pipeline"
  obtain c i r where facts: "facts = (c, i, r)" by (cases facts)
  have "keeps (seq (call (svc_evaluate svc c i r)) (\<lambda>sg. seq (done_stage ''STRATEGY'') (\<lambda>_.
      case sg of None \<Rightarrow> pure (None, None, None) | Some s \<Rightarrow> decide svc e (stamped p s))))"
    by (intro keeps_intros) (simp add: keeps_decide keeps_basic split: option.split)
  then show "pl_tracker (snd (trade_stages svc e facts p)) = pl_tracker p \<and>
      pl_symbols (snd (trade_stages svc e facts p)) = pl_symbols p \<and>
      pl_run_id (snd (trade_stages svc e facts p)) = pl_run_id p"
    unfolding facts keeps_def trade_stages_def by simp
qed

lemma emits_decide: "emits [''RISK'', ''EXECUTION''] [''RISK''] (decide svc e s)"
proof -
  have pass: "emits [''EXECUTION''] [] (seq (call (svc_execute svc s (me_sequence e))) (\<lambda>x.
      seq (done_stage ''EXECUTION'') (\<lambda>_. pure (Some s, Some True, Some x))))"
  proof (rule emits_silent [OF emits_basic(2)])
    show "emits [''EXECUTION''] [] (seq (done_stage ''EXECUTION'') (\<lambda>_. pure a))" for a :: 'e
      by (simp add: emits_def seq_def done_stage_def pure_def)
  qed
  have "emits [''EXECUTION''] [] (if b then seq (call (svc_execute svc s (me_sequence e))) (\<lambda>x.
      seq (done_stage ''EXECUTION'') (\<lambda>_. pure (Some s, Some True, Some x)))
    else (\<lambda>q. pure (Some s, Some False, None) (record_risk_event svc e ''risk rejected signal'' (Some False) q)))" for b
    using pass by (simp add: emits_def pure_def)
  then show ?thesis
    unfolding decide_def by (intro emits_silent emits_named emits_basic)
qed

lemma emits_trade: "emits [''STRATEGY'', ''RISK'', ''EXECUTION''] [''STRATEGY'', ''RISK''] (trade_stages svc e facts)"
  unfolding emits_def
proof
  fix p :: "'a pipeline"
  obtain c i r where facts: "facts = (c, i, r)" by (cases facts)
  have "emits [''RISK'', ''EXECUTION''] [''RISK''] (case sg of None \<Rightarrow> pure (None, None, None)
      | Some s \<Rightarrow> decide svc e (stamped p s))" for sg
    by (simp add: emits_decide emits_pure split: option.split)
  then have "emits [''STRATEGY'', ''RISK'', ''EXECUTION''] [''STRATEGY'', ''RISK'']
    (seq (call (svc_evaluate svc c i r)) (\<lambda>sg. seq (done_stage ''STRATEGY'') (\<lambda>_.
      case sg of None \<Rightarrow> pure (None, None, None) | Some s \<Rightarrow> decide svc e (stamped p s))))"
    by (intro emits_silent emits_named emits_basic)
  then show "\<exists>ys. pl_stages (snd (trade_stages svc e facts p)) = pl_stages p @ ys \<and>
      subseq ys (if \<exists>a. fst (trade_stages svc e facts p) = Inr a then [''STRATEGY'', ''RISK'', ''EXECUTION'']
        else [''STRATEGY'', ''RISK''])"
    by (cases "is_trading_ready (me_symbol e) p")
      (simp_all add: facts trade_stages_def emits_def del: split_paired_Ex)
qed

lemma emits_finish: "emits [''PERSISTENCE'', ''CHECKPOINT''] [] (finish svc e facts outcome)"
  by (cases facts; cases outcome)
    (auto simp: emits_def finish_def seq_def call_def done_stage_def Let_def split: prod.split sum.split)

section \<open>One event\<close>

definition all_stages :: "string list" where
  "all_stages = [''RAW'', ''DDS'', ''INDICATORS'', ''REGIME'', ''STRATEGY'', ''RISK'', ''EXECUTION'',
     ''PERSISTENCE'', ''CHECKPOINT'']"

lemma update_readiness_fields [simp]:
  "pl_stages (update_readiness s names b p) = pl_stages p"
  "pl_run_id (update_readiness s names b p) = pl_run_id p"
  "tk_last_sequences (pl_tracker (update_readiness s names b p)) = tk_last_sequences (pl_tracker p)"
  by (simp_all add: update_readiness_def Let_def)

lemma emits_process_event: "emits all_stages (butlast (butlast all_stages)) (process_event svc now e)"
proof -
  have tail: "emits [''STRATEGY'', ''RISK'', ''EXECUTION'', ''PERSISTENCE'', ''CHECKPOINT'']
      [''STRATEGY'', ''RISK'', ''EXECUTION''] (seq (trade_stages svc e facts) (finish svc e facts))" for facts
    using emits_seq [OF emits_trade emits_finish, of "[''STRATEGY'', ''RISK'', ''EXECUTION'']"] by simp
  have "emits [''STRATEGY'', ''RISK'', ''EXECUTION'', ''PERSISTENCE'', ''CHECKPOINT'']
      [''STRATEGY'', ''RISK'', ''EXECUTION''] (\<lambda>p. seq (trade_stages svc e facts) (finish svc e facts)
        (update_readiness s names b p))" for facts s names b
    using tail by (rule emits_after) simp
  then have "emits [''STRATEGY'', ''RISK'', ''EXECUTION'', ''PERSISTENCE'', ''CHECKPOINT'']
      [''STRATEGY'', ''RISK'', ''EXECUTION''] (case a of (candle, inds, reg) \<Rightarrow> \<lambda>p.
        seq (trade_stages svc e (candle, inds, reg)) (finish svc e (candle, inds, reg))
          (update_readiness (me_symbol e) (map fst inds) (reg \<noteq> None) p))" for a
    by (cases a) simp
  from emits_seq [OF emits_ingest this, of "butlast (butlast all_stages)"] show ?thesis
    unfolding process_event_def by (simp add: all_stages_def case_prod_unfold)
qed

lemma keeps_run: "keeps f \<Longrightarrow> f p = (r, p') \<Longrightarrow> pl_tracker p' = pl_tracker p \<and> pl_symbols p' = pl_symbols p"
  by (metis keeps_def snd_conv)

lemma finish_run:
  assumes "finish svc e facts outcome p = (r, p')"
  shows "pl_symbols p' = pl_symbols p \<and>
     (case r of
        Inr res \<Rightarrow>
          pl_tracker p' = mark_processed (me_symbol e) (me_sequence e) (pl_tracker p) \<and>
          pres_status res = (if is_trading_ready (me_symbol e) p' then PROCESSED else PIPELINE_WARMUP) \<and>
          pres_sequence res = me_sequence e \<and> pres_stages res = pl_stages p' \<and>
          (pres_signal res, pres_risk_decision res, pres_execution res) = outcome
      | Inl err \<Rightarrow> pl_tracker p' = pl_tracker p)"
  using assms
  by (cases facts; cases outcome)
    (auto simp: finish_def seq_def call_def done_stage_def is_trading_ready_def mark_processed_def Let_def
      split: prod.splits sum.splits)

text \<open>What a run of the stages does to the tracker, and when it executes.\<close>

lemma process_event_sequences:
  assumes "process_event svc now e p = (r, p')"
  shows "tk_last_sequences (pl_tracker p') =
     (if \<exists>res. r = Inr res then AList.update (me_symbol e) (me_sequence e) (tk_last_sequences (pl_tracker p))
      else tk_last_sequences (pl_tracker p))"
proof -
  obtain ri p1 where 1: "ingest_event svc now e p = (ri, p1)" by force
  note k1 = keeps_run [OF keeps_ingest 1]
  show ?thesis
  proof (cases ri)
    case (Inl err)
    then show ?thesis using assms 1 k1 by (auto simp: process_event_def seq_def)
  next
    case (Inr facts)
    obtain c i g where facts: "facts = (c, i, g)" by (cases facts)
    define q where "q = update_readiness (me_symbol e) (map fst i) (g \<noteq> None) p1"
    obtain rt p2 where 2: "trade_stages svc e (c, i, g) q = (rt, p2)" by force
    note k2 = keeps_run [OF keeps_trade 2]
    show ?thesis
    proof (cases rt)
      case (Inl err)
      then show ?thesis using assms 1 k1 k2 2
        by (auto simp: process_event_def seq_def Inr facts q_def)
    next
      case (Inr o1)
      have "finish svc e (c, i, g) o1 p2 = (r, p')"
        using assms 1 2 Inr \<open>ri = Inr facts\<close> by (auto simp: process_event_def seq_def facts q_def)
      from finish_run [OF this] k1 k2 show ?thesis
        by (auto simp: mark_processed_def q_def split: sum.splits)
    qed
  qed
qed

text \<open>A run that reaches \<open>EXECUTION\<close>: every symbol was ready and the risk service approved.\<close>

lemma process_event_executes:
  assumes "process_event svc now e p = (r, p')" "''EXECUTION'' \<in> set (pl_stages p')" "pl_stages p = []"
  obtains s w w' where "svc_risk svc s w = (Inr True, w')"
    "all_ready (tk_readiness (pl_tracker p')) (pl_symbols p')" "me_symbol e \<in> set (pl_symbols p')"
proof -
  have member: "''EXECUTION'' \<notin> set ys" if "subseq ys zs" "''EXECUTION'' \<notin> set zs" for ys zs
    using list_emb_set [OF that(1), of "''EXECUTION''"] that(2) by metis
  obtain ri p1 where 1: "ingest_event svc now e p = (ri, p1)" by force
  show ?thesis
  proof (cases ri)
    case (Inl err)
    then have "r = Inl err" "p' = p1" using assms(1) 1 by (auto simp: process_event_def seq_def)
    moreover obtain ys where "pl_stages p1 = pl_stages p @ ys"
        "subseq ys [''RAW'', ''DDS'', ''INDICATORS'', ''REGIME'']"
      using 1 Inl by (blast elim: emits_InlE [OF emits_ingest])
    ultimately show ?thesis using member assms(2,3) by force
  next
    case (Inr facts)
    obtain c i g where facts: "facts = (c, i, g)" by (cases facts)
    define q where "q = update_readiness (me_symbol e) (map fst i) (g \<noteq> None) p1"
    obtain xs where xs: "pl_stages p1 = pl_stages p @ xs"
        "subseq xs [''RAW'', ''DDS'', ''INDICATORS'', ''REGIME'']"
      using 1 Inr by (blast elim: emits_InrE [OF emits_ingest])
    then have no: "''EXECUTION'' \<notin> set (pl_stages q)" using member assms(3) by (force simp: q_def)
    obtain rt p2 where 2: "trade_stages svc e (c, i, g) q = (rt, p2)" by force
    note k2 = keeps_run [OF keeps_trade 2]
    show ?thesis
    proof (cases rt)
      case (Inl err)
      then have "p' = p2" using assms(1) 1 2 Inr by (auto simp: process_event_def seq_def facts q_def)
      moreover obtain ys where "pl_stages p2 = pl_stages q @ ys" "subseq ys [''STRATEGY'', ''RISK'']"
        using 2 Inl by (blast elim: emits_InlE [OF emits_trade])
      ultimately show ?thesis using member no assms(2) by force
    next
      case (Inr o1)
      have f: "finish svc e (c, i, g) o1 p2 = (r, p')"
        using assms(1) 1 2 Inr \<open>ri = Inr facts\<close> by (auto simp: process_event_def seq_def facts q_def)
      obtain ys where ys: "pl_stages p' = pl_stages p2 @ ys" "subseq ys [''PERSISTENCE'', ''CHECKPOINT'']"
      proof (cases r)
        case (Inl err) then show ?thesis using f that by (auto elim: emits_InlE [OF emits_finish])
      next
        case (Inr res) then show ?thesis using f that by (auto elim: emits_InrE [OF emits_finish])
      qed
      then have ex: "''EXECUTION'' \<in> set (pl_stages p2)" using member assms(2) by force
      obtain sg d x where o1: "o1 = (sg, d, x)" by (cases o1)
      have end_state: "tk_readiness (pl_tracker q) = tk_readiness (pl_tracker p')" "pl_symbols q = pl_symbols p'"
        using finish_run [OF f] k2 by (auto simp: mark_processed_def split: sum.splits)
      have sym: "me_symbol e \<in> set (pl_symbols q)" by (simp add: q_def update_readiness_def Let_def)
      have ready: "all_ready (tk_readiness (pl_tracker q)) (pl_symbols q)" if "is_trading_ready (me_symbol e) q"
        using that by (auto simp: is_trading_ready_def q_def update_readiness_def Let_def split: if_splits)
      from 2 [unfolded Inr o1] show ?thesis
      proof (cases rule: trade_cases)
        case (executed s y w w')
        show ?thesis
          using that [OF executed(5)] ready [OF executed(1)] sym end_state by simp
      qed (use ex no in auto)
    qed
  qed
qed

lemma process_market_event_cases:
  assumes "process_market_event svc now e p = (res, p')"
  obtains
    (duplicate) "me_sequence e \<le> tk_last_sequence (pl_tracker p) (me_symbol e)"
      "pres_status res = IGNORED" "p' = p\<lparr>pl_stages := []\<rparr>" "pres_stages res = []"
  | (success) "tk_last_sequence (pl_tracker p) (me_symbol e) < me_sequence e"
      "process_event svc now e (p\<lparr>pl_stages := []\<rparr>) = (Inr res, p')"
  | (failure) err p1 where "tk_last_sequence (pl_tracker p) (me_symbol e) < me_sequence e"
      "process_event svc now e (p\<lparr>pl_stages := []\<rparr>) = (Inl err, p1)"
      "pres_status res = FAILED" "\<not> pres_trading_ready res" "pres_stages res = pl_stages p1"
      "pl_tracker p' = (pl_tracker p1)\<lparr>tk_state := PS_DEGRADED\<rparr>" "pl_symbols p' = pl_symbols p1"
      "\<exists>w. pl_world p' = snd (svc_checkpoint svc (me_symbol e) (me_sequence e) w)"
proof (cases "me_sequence e \<le> tk_last_sequence (pl_tracker p) (me_symbol e)")
  case True
  then show ?thesis using assms by (intro duplicate) (auto simp: process_market_event_def Let_def)
next
  case False
  obtain r p1 where r: "process_event svc now e (p\<lparr>pl_stages := []\<rparr>) = (r, p1)" by force
  show ?thesis
  proof (cases r)
    case (Inr res')
    then show ?thesis using assms False r
      by (intro success) (auto simp: process_market_event_def Let_def)
  next
    case (Inl err)
    define p2 where "p2 = record_risk_event svc e ''pipeline failure'' None (p1\<lparr>pl_tracker := (pl_tracker p1)\<lparr>tk_state := PS_DEGRADED\<rparr>\<rparr>)"
    have p': "p' = snd (call (svc_checkpoint svc (me_symbol e) (me_sequence e)) p2)"
        "pres_status res = FAILED" "\<not> pres_trading_ready res" "pres_stages res = pl_stages p'"
      using assms False r Inl by (auto simp: process_market_event_def Let_def p2_def)
    have fields: "pl_stages p2 = pl_stages p1" "pl_tracker p2 = (pl_tracker p1)\<lparr>tk_state := PS_DEGRADED\<rparr>"
        "pl_symbols p2 = pl_symbols p1"
      by (simp_all add: p2_def)
    have "p' = p2\<lparr>pl_world := snd (svc_checkpoint svc (me_symbol e) (me_sequence e) (pl_world p2))\<rparr>"
      using p'(1) by (simp add: call_def split: prod.splits)
    then show ?thesis
      using False r Inl p' fields by (intro failure [of err p1]) auto
  qed
qed

section \<open>A run of events\<close>

primrec run_events ::
    "('w, 'v, 'r, 'x) services \<Rightarrow> (timestamp \<times> market_event) list \<Rightarrow> 'w pipeline
     \<Rightarrow> (market_event \<times> 'x pipeline_result) list \<times> 'w pipeline" where
  "run_events svc [] p = ([], p)"
| "run_events svc (te # tes) p =
     (case process_market_event svc (fst te) (snd te) p of
        (res, p') \<Rightarrow>
          (case run_events svc tes p' of (rs, p'') \<Rightarrow> ((snd te, res) # rs, p'')))"

definition completed :: "(market_event \<times> 'x pipeline_result) list \<Rightarrow> (string \<times> int) list" where
  "completed rs =
     map (\<lambda>(e, r). (me_symbol e, me_sequence e))
       (filter (\<lambda>(e, r). pres_status r \<in> {PROCESSED, PIPELINE_WARMUP}) rs)"

lemma process_event_status:
  "process_event svc now e p = (Inr res, p') \<Longrightarrow> pres_status res \<in> {PROCESSED, PIPELINE_WARMUP}"
  by (auto simp: process_event_def elim!: seq_InrE dest!: finish_run split: if_splits)

lemma process_event_stages:
  "process_event svc now e p = (Inr res, p') \<Longrightarrow> pres_stages res = pl_stages p'"
  by (auto simp: process_event_def elim!: seq_InrE dest!: finish_run)

lemma tk_last_sequence_update:
  assumes "tk_last_sequences tk' = AList.update s n (tk_last_sequences tk)"
  shows "tk_last_sequence tk' t = (if t = s then n else tk_last_sequence tk t)"
  using assms by (simp add: tk_last_sequence_def)

text \<open>A completed event advances its symbol; nothing else moves a sequence.\<close>

lemma process_market_event_sequences:
  assumes "process_market_event svc now e p = (res, p')"
  shows "if pres_status res \<in> {PROCESSED, PIPELINE_WARMUP}
    then tk_last_sequence (pl_tracker p) (me_symbol e) < me_sequence e \<and>
      (\<forall>t. tk_last_sequence (pl_tracker p') t =
             (if t = me_symbol e then me_sequence e else tk_last_sequence (pl_tracker p) t))
    else tk_last_sequences (pl_tracker p') = tk_last_sequences (pl_tracker p)"
  using assms
proof (cases rule: process_market_event_cases)
  case duplicate
  then show ?thesis by simp
next
  case success
  from process_event_status [OF success(2)] process_event_sequences [OF success(2)] success(1)
  show ?thesis using tk_last_sequence_update [of "pl_tracker p'" "me_symbol e" "me_sequence e" "pl_tracker p"]
    by simp
next
  case (failure err p1)
  from process_event_sequences [OF failure(2)] failure show ?thesis by simp
qed

lemma completed_Cons:
  "completed ((e, r) # rs) =
     (if pres_status r \<in> {PROCESSED, PIPELINE_WARMUP} then [(me_symbol e, me_sequence e)] else []) @ completed rs"
  by (simp add: completed_def)

lemma completed_increasing:
  assumes "run_events svc tes p = (rs, p')"
  shows "sorted_wrt (\<lambda>(s, m) (t, n). s = t \<longrightarrow> m < n) (completed rs) \<and>
     (\<forall>(s, n) \<in> set (completed rs). tk_last_sequence (pl_tracker p) s < n)"
  using assms
proof (induction tes arbitrary: p rs)
  case Nil
  then show ?case by (simp add: completed_def)
next
  case (Cons te tes)
  obtain res p1 where 1: "process_market_event svc (fst te) (snd te) p = (res, p1)" by force
  obtain rs1 where 2: "run_events svc tes p1 = (rs1, p')" "rs = (snd te, res) # rs1"
    using Cons.prems 1 by (auto split: prod.splits)
  note IH = Cons.IH [OF 2(1)] and step = process_market_event_sequences [OF 1]
  show ?case
  proof (cases "pres_status res \<in> {PROCESSED, PIPELINE_WARMUP}")
    case True
    then have s: "tk_last_sequence (pl_tracker p) (me_symbol (snd te)) < me_sequence (snd te)"
        "\<And>t. tk_last_sequence (pl_tracker p1) t =
           (if t = me_symbol (snd te) then me_sequence (snd te) else tk_last_sequence (pl_tracker p) t)"
      using step by auto
    have later: "tk_last_sequence (pl_tracker p) t < n \<and> (t = me_symbol (snd te) \<longrightarrow> me_sequence (snd te) < n)"
      if "(t, n) \<in> set (completed rs1)" for t n
      using IH that s by (force split: if_splits)
    show ?thesis using IH s(1) later True by (auto simp: 2(2) completed_Cons)
  next
    case False
    then have "tk_last_sequences (pl_tracker p1) = tk_last_sequences (pl_tracker p)" using step by simp
    then show ?thesis using IH False by (simp add: 2(2) completed_Cons tk_last_sequence_def)
  qed
qed

lemma completed_distinct:
  assumes "sorted_wrt (\<lambda>(s, m :: int) (t, n). s = t \<longrightarrow> m < n) xs"
  shows "distinct xs"
  using assms by (induction xs) auto

section \<open>A failed event after a restart\<close>

lemma restored_sequence:
  assumes "map_of sequences s = Some n" "distinct (map fst sequences)"
  shows "tk_last_sequence (pl_tracker (restore_checkpoint sequences p)) s = n"
proof -
  have "map_of (AList.updates (map fst d) (map snd d) al) s = (case map_of d s of None \<Rightarrow> map_of al s | Some v \<Rightarrow> Some v)"
    if "distinct (map fst d)" for d al :: "int dict"
    using that
  proof (induction d arbitrary: al)
    case (Cons kv d)
    obtain k v where kv: "kv = (k, v)" by (cases kv)
    have "k = s \<Longrightarrow> map_of d s = None" using Cons.prems by (auto simp: kv map_of_eq_None_iff)
    then show ?case using Cons.IH [of "AList.update k v al"] Cons.prems by (auto simp: kv split: option.split)
  qed simp
  from this [OF assms(2)] assms(1) show ?thesis
    by (simp add: restore_checkpoint_def tk_last_sequence_def)
qed

lemma failed_event_skipped:
  assumes run: "process_market_event svc now e p = (res, p')" and failed: "pres_status res = FAILED"
    and checkpoint: "\<And>s n w. map_of (saved (snd (svc_checkpoint svc s n w))) s = Some n"
    and wf: "\<And>w. distinct (map fst (saved w))"
    and q: "q = restore_checkpoint (saved (pl_world p')) q0"
  shows "pres_status (fst (process_market_event svc now' e q)) = IGNORED"
proof -
  obtain w where "pl_world p' = snd (svc_checkpoint svc (me_symbol e) (me_sequence e) w)"
    using run
  proof (cases rule: process_market_event_cases)
    case success
    with process_event_status [OF success(2)] failed show ?thesis by simp
  qed (use failed that in auto)
  then have "map_of (saved (pl_world p')) (me_symbol e) = Some (me_sequence e)"
    using checkpoint by simp
  then have "tk_last_sequence (pl_tracker q) (me_symbol e) = me_sequence e"
    unfolding q using wf by (rule restored_sequence)
  then show ?thesis by (simp add: process_market_event_def Let_def)
qed

lemma process_market_event_stages:
  assumes "process_market_event svc now e p = (res, p')"
  shows "subseq (pres_stages res) all_stages \<and>
     (pres_status res = FAILED \<longrightarrow> ''CHECKPOINT'' \<notin> set (pres_stages res) \<and>
        \<not> pres_trading_ready res \<and> tk_state (pl_tracker p') = PS_DEGRADED) \<and>
     (''EXECUTION'' \<in> set (pres_stages res) \<longrightarrow>
        all_ready (tk_readiness (pl_tracker p')) (pl_symbols p') \<and> me_symbol e \<in> set (pl_symbols p') \<and>
        (\<exists>s w w'. svc_risk svc s w = (Inr True, w')))"
  using assms
proof (cases rule: process_market_event_cases)
  case duplicate
  then show ?thesis by simp
next
  case success
  obtain ys where "pl_stages p' = pl_stages (p\<lparr>pl_stages := []\<rparr>) @ ys" "subseq ys all_stages"
    by (rule emits_InrE [OF emits_process_event success(2)])
  then show ?thesis
    using process_event_stages [OF success(2)] process_event_status [OF success(2)]
    by (auto elim!: process_event_executes [OF success(2)])
next
  case (failure err p1)
  obtain ys where ys: "pl_stages p1 = pl_stages (p\<lparr>pl_stages := []\<rparr>) @ ys"
      "subseq ys (butlast (butlast all_stages))"
    by (rule emits_InlE [OF emits_process_event failure(2)])
  then have st: "pres_stages res = ys" using failure(5) by simp
  have "subseq ys all_stages"
    by (rule subseq_order.order_trans [OF ys(2)]) (simp add: all_stages_def)
  moreover have "''CHECKPOINT'' \<notin> set ys"
    using list_emb_set [OF ys(2), of "''CHECKPOINT''"] by (auto simp: all_stages_def)
  moreover have "''EXECUTION'' \<in> set ys \<longrightarrow>
      all_ready (tk_readiness (pl_tracker p1)) (pl_symbols p1) \<and> me_symbol e \<in> set (pl_symbols p1) \<and>
      (\<exists>s w w'. svc_risk svc s w = (Inr True, w'))"
    using st failure(5) by (auto elim!: process_event_executes [OF failure(2)])
  ultimately show ?thesis using failure st by simp
qed

end
