(* ===== verification/Properties_Operations.thy ===== *)
theory Properties_Operations
  imports Paper_Application Health Pipeline
begin

text \<open>
  The properties of the operation of the paper runtime: start-up gates and shutdown, reconciliation,
  health monitoring and the market pipeline, with their witnesses.
\<close>

section \<open>Examples\<close>

definition ex_risk_adapter :: risk_adapter where
  "ex_risk_adapter = \<lparr>ra_engine = fresh_risk_engine default_risk_config None, ra_total_capital = 10000,
     ra_clock = (\<lambda>pe. 0)\<rparr>"

definition ex_store :: paper_store where
  "ex_store =
     \<lparr>sto_state = Some \<lparr>rts_last_processed_timestamp = Some 5, rts_last_market_sequence = 7,
                       rts_cash_balance = 900\<rparr>,
      sto_orders = [], sto_fills = [], sto_positions = []\<rparr>"

definition ex_order :: paper_order where
  "ex_order =
     \<lparr>po_order_id = ''o'', po_order_symbol = ''BTCUSDT'', po_order_side = BUY_SIDE,
      po_order_quantity = 2, po_status = ''FILLED'', po_created_at = 0,
      po_client_order_id = Some ''o'', po_run_id = None, po_signal_id = None\<rparr>"

definition ex_traded_store :: paper_store where
  "ex_traded_store = ex_store\<lparr>sto_orders := [(''o'', ex_order)]\<rparr>"

definition ex_app_runtime :: "paper_store \<Rightarrow> (unit, risk_adapter) paper_runtime" where
  "ex_app_runtime st =
     \<lparr>rt_engine = (new_paper_engine (Some st))\<lparr>pe_cash_balance := 1000\<rparr>, rt_strategy = (),
      rt_risk = ex_risk_adapter, rt_candles_processed = 0, rt_last_checkpoint_sequence = 0,
      rt_trading_enabled = True, rt_session_id = None, rt_run_id = ''r'', rt_checkpoint_interval = 1,
      rt_reconciliation_interval = 50, rt_reconcile_callback = False, rt_reconciliations = 0,
      rt_heartbeats = [], rt_running = False\<rparr>"

definition ex_app_ops :: "(unit, risk_adapter) runtime_ops" where
  "ex_app_ops =
     \<lparr>ro_on_candle = None, ro_validate_request = Some adapter_validate, ro_ready = (\<lambda>e. True),
      ro_order_uuid = (\<lambda>pe. ''u''), ro_fill_uuid = (\<lambda>pe. ''f''), ro_now = (\<lambda>pe. 0)\<rparr>"

definition ex_app :: "paper_store \<Rightarrow> unit application" where
  "ex_app st =
     new_application (ex_app_runtime st) (Some \<lparr>sm_schedule = default_trading_schedule, sm_current = None\<rparr>)
       (Some (new_reconciler None)) True True True"

definition ex_preflight :: preflight where
  "ex_preflight =
     \<lparr>pf_trading_mode = ''paper'', pf_exchange = ''testnet'', pf_symbols = [''BTCUSDT''],
      pf_initial_capital = 1000, pf_risk_config = True, pf_database_check = Inr True,
      pf_migration_check = Inr True, pf_load_state = Some None\<rparr>"

text \<open>A zone in which every instant is ten o'clock on Wednesday, 7 January 2026.\<close>

definition ex_zone :: zone_db where
  "ex_zone tz t = \<lparr>lt_year = 2026, lt_month = 1, lt_day = 7, lt_weekday = 2, lt_time = hours 10\<rparr>"

definition ex_start_env :: "database_rows \<Rightarrow> start_env" where
  "ex_start_env rows =
     \<lparr>sv_preflight = ex_preflight, sv_restore_fault = None, sv_bootstrap = Some None,
      sv_warmup = Inr [(''BTCUSDT'', 200)], sv_warmup_candles = 200, sv_market_data_ready = True,
      sv_zone = ex_zone, sv_now = Aware 0, sv_now_after = Aware 0, sv_db_rows = Inr rows,
      sv_reconciled_at = 0, sv_beat_fault = None, sv_notify_fault = None, sv_close_fault = None\<rparr>"

definition ex_stop_env :: stop_env where
  "ex_stop_env =
     \<lparr>sp_stream = ([], None), sp_checkpoint_fault = None, sp_pnl_checkpoint = Some None,
      sp_beat_fault = None, sp_close_fault = None\<rparr>"

lemma ex_env_fields [simp]:
  "sv_preflight (ex_start_env rows) = ex_preflight" "sv_restore_fault (ex_start_env rows) = None"
  "sv_bootstrap (ex_start_env rows) = Some None" "sv_warmup (ex_start_env rows) = Inr [(''BTCUSDT'', 200)]"
  "sv_warmup_candles (ex_start_env rows) = 200" "sv_market_data_ready (ex_start_env rows)"
  "sv_db_rows (ex_start_env rows) = Inr rows" "pf_symbols ex_preflight = [''BTCUSDT'']"
  by (simp_all add: ex_start_env_def ex_preflight_def)

lemma ex_preflight_ok: "pr_success (run_preflight ex_preflight)"
  by (simp add: preflight_success_iff ex_preflight_def nonblank_def is_space_def)

lemma ex_app_created:
  "lc_state (ap_lifecycle (ex_app st)) = CREATED" "\<not> ap_trading_enabled (ex_app st)"
  "ap_reconciler (ex_app st) = Some (new_reconciler None)" "ap_runtime (ex_app st) = ex_app_runtime st"
  by (simp_all add: ex_app_def new_application_def new_lifecycle_def)

lemma ex_restored: "restored (ex_start_env rows) (ex_app ex_store)"
    "restored (ex_start_env rows) (ex_app ex_traded_store)"
  by (simp_all add: restored_def ex_start_env_def ex_app_created ex_app_runtime_def rt_restore_state_def
      new_paper_engine_def ex_store_def ex_traded_store_def pe_restore_state_def Let_def)

lemma ex_in_window: "in_window (ex_start_env rows) (ex_app st)"
  by (simp add: in_window_def ex_start_env_def ex_app_def new_application_def schedule_contains_aware
      inside_window_def default_trading_schedule_def ex_zone_def hours_def seconds_def)

section \<open>Start-up and shutdown\<close>

text \<open>
  C6: Starting fails closed: after a start, whether it returned or raised, trading is enabled exactly when
  the preflight succeeded, the stored state was restored, the market data bootstrap (if any) did not
  raise, the source is ready, the warm-up has the required candles for every configured symbol, and
  the clock is inside the trading window of the schedule (if any).
\<close>

theorem start_enables_trading_iff:
  assumes "lc_state (ap_lifecycle ap) = CREATED" "\<not> ap_trading_enabled ap"
  shows "ap_trading_enabled (snd (start env ap)) \<longleftrightarrow>
     pr_success (run_preflight (sv_preflight env)) \<and>
     sv_restore_fault env = None \<and> fst (rt_restore_state (ap_runtime ap)) = None \<and>
     sv_bootstrap env \<in> {None, Some None} \<and> sv_market_data_ready env \<and>
     (\<exists>available. sv_warmup env = Inr available \<and>
        (\<forall>(s, count) \<in> set available. sv_warmup_candles env \<le> count) \<and>
        set (pf_symbols (sv_preflight env)) \<subseteq> dom (map_of available)) \<and>
     (case ap_session_manager ap of
        None \<Rightarrow> True
      | Some sm \<Rightarrow> schedule_contains (sv_zone env) (sm_schedule sm) (sv_now env) = Inr True)"
  using start_trading_iff [OF assms, of env]
  by (simp add: restored_def warmed_up_def in_window_def list_all_iff dom_def subset_eq conj_ac)

lemma start_enables_trading_iff_witness:
  "ap_trading_enabled (snd (start (ex_start_env (dictionary_rows ex_store)) (ex_app ex_store)))"
  using start_enables_trading_iff [OF ex_app_created(1,2), of "ex_start_env (dictionary_rows ex_store)" ex_store]
    ex_restored(1) [of "dictionary_rows ex_store"] ex_in_window [of "dictionary_rows ex_store" ex_store]
    ex_preflight_ok
  unfolding restored_def in_window_def by simp

text \<open>
  Without permission to trade no order is executed: a run task whose runtime is disabled leaves
  orders, fills, positions and client order ids as they were, whatever the events, the strategy and the risk
  manager do.
\<close>

theorem disabled_runtime_trades_nothing:
  assumes "\<not> rt_trading_enabled rt" "run_async ops False stream rt = (err, rt')"
  shows "pe_orders (rt_engine rt') = pe_orders (rt_engine rt) \<and>
     pe_fills (rt_engine rt') = pe_fills (rt_engine rt) \<and>
     pe_positions (rt_engine rt') = pe_positions (rt_engine rt) \<and>
     pe_client_orders (rt_engine rt') = pe_client_orders (rt_engine rt)"
  using run_async_disabled [OF assms(1), of ops stream] assms(2) by (simp add: same_books_def)

definition ex_disabled_runtime :: "(unit, risk_adapter) paper_runtime" where
  "ex_disabled_runtime = (ex_app_runtime ex_store)\<lparr>rt_trading_enabled := False\<rparr>"

definition ex_tick :: market_event where
  "ex_tick =
     \<lparr>me_candle = \<lparr>pc_symbol = ''BTCUSDT'', pc_open_time = 10, pc_close_time = 20, pc_open = 100,
                   pc_high = 101, pc_low = 99, pc_close = 100, pc_volume = 1\<rparr>, me_sequence = 8\<rparr>"

definition ex_buying_ops :: "(unit, risk_adapter) runtime_ops" where
  "ex_buying_ops = ex_app_ops\<lparr>ro_on_candle := Some (\<lambda>s c pe.
     Inr ([\<lparr>er_symbol = ''BTCUSDT'', er_side = BUY_SIDE, er_quantity = 1\<rparr>], s))\<rparr>"

lemma disabled_runtime_trades_nothing_witness:
  "pe_orders (rt_engine (snd (run_async ex_buying_ops False ([ex_tick], None) ex_disabled_runtime))) = []"
  using disabled_runtime_trades_nothing [of ex_disabled_runtime ex_buying_ops "([ex_tick], None)"
      "fst (run_async ex_buying_ops False ([ex_tick], None) ex_disabled_runtime)"]
  by (simp add: ex_disabled_runtime_def ex_app_runtime_def new_paper_engine_def)

text \<open>
  C24: However an application run goes (failed gates, a raising run task, failing shutdown steps), its
  lifecycle passes only through transitions of the table, starting from CREATED, in strictly
  increasing order of progress, so that no state is entered twice.
\<close>

theorem application_lifecycle_is_a_path:
  "hd (lc_history (ap_lifecycle (snd (run_application ops senv signalled penv
        (new_application rt sm rc health heartbeat notifier))))) = CREATED \<and>
   successively (\<lambda>s t. t \<in> set (next_states s)) (lc_history (ap_lifecycle (snd (run_application ops senv
        signalled penv (new_application rt sm rc health heartbeat notifier))))) \<and>
   distinct (lc_history (ap_lifecycle (snd (run_application ops senv signalled penv
        (new_application rt sm rc health heartbeat notifier)))))"
proof -
  define ap where "ap = snd (run_application ops senv signalled penv
      (new_application rt sm rc health heartbeat notifier))"
  have "lifecycle_ok (ap_lifecycle ap)"
    using run_application_ok [of "new_application rt sm rc health heartbeat notifier" ops senv signalled penv]
      lifecycle_ok_new
    by (simp add: ap_def ap_ok_def new_application_def)
  then show ?thesis
    using lifecycle_history_distinct
    by (auto simp: lifecycle_ok_def lifecycle_step_iff simp flip: ap_def)
qed



section \<open>Restoring and reconciling\<close>




lemma ex_session_ok: "session_ok (new_paper_engine (Some empty_store))"
  using paper_ok_new [of "Some empty_store"] client_keyed_new [of "Some empty_store"] stored_new
  by (simp add: session_ok_def) (simp add: new_paper_engine_def)


text \<open>
  The severity of a comparison is exact: over dictionary rows a reconciliation is fatal exactly when
  the database holds an order or fill the runtime does not know, a position is missing on either side or
  differs by more than the tolerance, or the balances differ by more than theirs. Orders and fills missing
  from the database alone are never fatal.
\<close>

theorem fatal_discrepancies_exact:
  assumes "compare_states rc now pe rows = Inr r"
    "dr_orders rows = map DictRow order_ids" "dr_fills rows = map DictRow fill_ids"
    "db = positions_by_symbol (dr_positions rows)"
  shows "has_fatal r \<longleftrightarrow>
     \<not> set order_ids \<subseteq> dom (map_of (pe_orders pe)) \<or>
     \<not> set fill_ids \<subseteq> dom (map_of (pe_fills pe)) \<or>
     (\<exists>s. (map_of db s = None \<and> map_of (pe_positions pe) s \<noteq> None \<and>
           rc_position_tolerance rc < quantity_in (pe_positions pe) s) \<or>
          (map_of (pe_positions pe) s = None \<and> map_of db s \<noteq> None \<and>
           rc_position_tolerance rc < quantity_in db s) \<or>
          (map_of (pe_positions pe) s \<noteq> None \<and> map_of db s \<noteq> None \<and>
           rc_position_tolerance rc < dabs (dsub (quantity_in (pe_positions pe) s) (quantity_in db s)))) \<or>
     rc_balance_tolerance rc < dabs (dsub (pe_cash_balance pe)
        (case dr_state rows of None \<Rightarrow> 0 | Some s \<Rightarrow> rts_cash_balance s))"
  by (rule has_fatal_iff [OF assms])

lemma fatal_discrepancies_exact_witness:
  "\<exists>r. compare_states (new_reconciler None) 0 (new_paper_engine None) (dictionary_rows ex_traded_store) = Inr r \<and>
     has_fatal r"
proof -
  define r where "r = projr (compare_states (new_reconciler None) 0 (new_paper_engine None)
      (dictionary_rows ex_traded_store))"
  have r: "compare_states (new_reconciler None) 0 (new_paper_engine None) (dictionary_rows ex_traded_store) = Inr r"
    by (simp add: r_def compare_states_def rows_by_id_def dictionary_rows_def ex_traded_store_def ex_store_def Let_def)
  have "dr_orders (dictionary_rows ex_traded_store) = map DictRow [''o'']"
      "dr_fills (dictionary_rows ex_traded_store) = map DictRow []"
    by (simp_all add: dictionary_rows_def ex_traded_store_def ex_store_def ex_order_def)
  from fatal_discrepancies_exact [OF r this refl] r show ?thesis by (simp add: new_paper_engine_def)
qed


definition ex_sell :: execution_request where
  "ex_sell = \<lparr>er_symbol = ''BTCUSDT'', er_side = SELL_SIDE, er_quantity = 1\<rparr>"

definition ex_holding :: paper_engine where
  "ex_holding = (new_paper_engine None)\<lparr>
     pe_last_candle := Some (me_candle ex_tick),
     pe_positions := [(''BTCUSDT'', \<lparr>pp_symbol = ''BTCUSDT'', pp_quantity = 2, pp_average_price = 100\<rparr>)]\<rparr>"

lemma ex_sell_reduces:
  assumes "ra_total_capital ra = 10000"
  shows "\<exists>ra'. adapter_validate ra ex_sell ex_holding = Inr (True, ra')"
proof -
  define tc where "tc = adapter_trade_check ra ex_sell ex_holding"
  have tc: "tc_side tc = ''SELL''" "tc_quantity tc = 1" "tc_price tc = 100" "tc_total_capital tc = 10000"
      "tc_symbol tc = ''BTCUSDT''" "tc_current_positions tc = [(''BTCUSDT'',
         \<lparr>pv_symbol = Some ''BTCUSDT'', pv_side = Some ''buy'', pv_value = Some 200\<rparr>)]"
    using assms
    by (simp_all add: tc_def adapter_trade_check_def ex_sell_def ex_holding_def last_close_or_zero_def
        ex_tick_def dmul_def)
  have low: "str_lower ''SELL'' = ''sell''" "str_lower ''buy'' = ''buy''" by code_simp+
  have before: "exposure_before tc = 200"
    by (simp add: exposure_before_def tc position_signed_value_def low dsum_def decimal_ops Let_def)
  have after: "exposure_after tc = 100"
    unfolding exposure_after_def before
    by (simp add: tc order_value_def low decimal_ops)
  have "reducing tc" by (simp add: reducing_def exposure_increase_def before after decimal_ops)
  moreover have "\<not> invalid_trade tc" by (simp add: invalid_trade_def tc low)
  ultimately have "rc_approved (fst (check_trade (ra_engine ra) tc (ra_clock ra ex_holding)))"
    by (simp add: check_trade_approved_iff)
  then show ?thesis by (auto simp: adapter_validate_def tc_def split: prod.split)
qed

lemma ex_start_returns:
  obtains ap' where "start (ex_start_env (repository_rows ex_traded_store)) (ex_app ex_traded_store) = (None, ap')"
    "ra_total_capital (rt_risk (ap_runtime ap')) = 10000"
proof -
  define env where "env = ex_start_env (repository_rows ex_traded_store)"
  have env: "sv_zone env = ex_zone" "sv_now env = Aware 0" "sv_now_after env = Aware 0"
      "sv_beat_fault env = None" "sv_notify_fault env = None" "sv_warmup env = Inr [(''BTCUSDT'', 200)]"
    by (simp_all add: env_def ex_start_env_def)
  define w where "w = warmup_state env (ex_app ex_traded_store)"
  have risk: "rt_risk (ap_runtime w) = ex_risk_adapter" "ap_session_manager w = Some \<lparr>sm_schedule = default_trading_schedule, sm_current = None\<rparr>"
      "lc_state (ap_lifecycle w) = WARMUP"
    by (simp_all add: w_def warmup_state_def start_restore_def env_def ex_app_def new_application_def
        ex_app_runtime_def rt_restore_state_def new_paper_engine_def ex_traded_store_def ex_store_def
        pe_restore_state_def Let_def)
  have inside: "inside_window default_trading_schedule (ex_zone tz t)" for tz t
    by (simp add: inside_window_def default_trading_schedule_def ex_zone_def hours_def seconds_def)
  define b where "b = snd (start_warmup env w)"
  have b: "start_warmup env w = (None, b)" "rt_risk (ap_runtime b) = ex_risk_adapter"
      "ap_lifecycle b = ap_lifecycle w" "ap_session_manager b \<noteq> None"
    using risk(1,2)
    by (simp_all add: b_def start_warmup_def open_session_def session_open_aware env inside Let_def set_trading_def)
  have keep: "ra_total_capital (rt_risk (ap_runtime (start_reconcile env ap))) = ra_total_capital (rt_risk (ap_runtime ap))"
      "ap_session_manager (start_reconcile env ap) = ap_session_manager ap" for ap :: "unit application"
    by (auto simp: start_reconcile_def set_reconciliation_def split: option.split sum.split prod.split)
  have timer: "fst (start_timer env ap) = None" if "ap_session_manager ap = Some sm" for ap :: "unit application" and sm
    using that by (simp add: start_timer_def session_until_close_def schedule_until_close_aware env Let_def)
  have announce: "fst (start_announce env ap) = None" for ap :: "unit application"
    by (simp add: start_announce_def effect_def env)
  obtain c where "start_running env b = (None, c)" "ra_total_capital (rt_risk (ap_runtime c)) = 10000"
  proof -
    define b1 where "b1 = (let ap1 = b\<lparr>ap_lifecycle := \<lparr>lc_state = RUNNING, lc_history = lc_history (ap_lifecycle b) @ [RUNNING]\<rparr>,
        ap_run_task := RunTask\<rparr> in if ap_health_coordinator ap1
                  then ap1\<lparr>ap_effects := ap_effects ap1 @ [HealthStarted]\<rparr> else ap1)"
    have run: "start_running env b = try_then (start_timer env (start_reconcile env b1)) (start_announce env)"
      using b(3) risk(3) by (simp add: start_running_def ap_transition_allowed Let_def b1_def)
    obtain sm where "ap_session_manager (start_reconcile env b1) = Some sm"
      using b(4) by (auto simp: keep b1_def Let_def)
    then obtain d where d: "start_timer env (start_reconcile env b1) = (None, d)"
      using timer by (metis prod.collapse)
    then have "fst (start_running env b) = None" using announce by (simp add: run)
    moreover have "ap_runtime (snd (start_running env b)) = ap_runtime (start_reconcile env b1)"
      using start_announce_timer_risk [of env "start_reconcile env b1"] d announce run by simp
    ultimately show ?thesis using that [of "snd (start_running env b)"] b(2)
      by (cases "start_running env b") (simp add: keep b1_def Let_def ex_risk_adapter_def)
  qed
  then show ?thesis
    using that ex_app_created(1) [of ex_traded_store] ex_restored(2) ex_preflight_ok b(1)
    by (simp add: start_cases env_def w_def)
qed


section \<open>Gates, sessions and settings\<close>

text \<open>
  The preflight runs all its gates without short-circuiting: every gate reports exactly once, as a
  passed check or as an error, and it succeeds exactly when all of them hold.
\<close>

theorem preflight_exact:
  "length (pr_checks (run_preflight pf)) + length (pr_errors (run_preflight pf)) = 8 \<and>
   (pr_success (run_preflight pf) \<longleftrightarrow> pr_errors (run_preflight pf) = []) \<and>
   (pr_success (run_preflight pf) \<longleftrightarrow>
      pf_trading_mode pf = ''paper'' \<and> nonblank (pf_exchange pf) \<and>
      pf_symbols pf \<noteq> [] \<and> list_all nonblank (pf_symbols pf) \<and> 0 < pf_initial_capital pf \<and>
      pf_risk_config pf \<and> pf_database_check pf = Inr True \<and> pf_migration_check pf = Inr True \<and>
      pf_load_state pf = Some None)"
  using preflight_reports_all preflight_success_no_errors preflight_success_iff by blast

text \<open>
  The HH:MM setting is parsed strictly: a text is accepted exactly when it is the two-digit rendering
  of an hour below 24 and a minute below 60, and its value is that time of day.
\<close>

theorem parse_hhmm_exact:
  "parse_hhmm s = Inr t \<longleftrightarrow>
     (\<exists>h m. h < 24 \<and> m < 60 \<and> s = zero_pad 2 h @ '':'' @ zero_pad 2 m \<and>
        t = seconds (int (60 * (60 * h + m))))"
proof
  show "parse_hhmm s = Inr t \<Longrightarrow> \<exists>h m. h < 24 \<and> m < 60 \<and> s = zero_pad 2 h @ '':'' @ zero_pad 2 m \<and>
        t = seconds (int (60 * (60 * h + m)))"
    by (erule parse_hhmm_Inr) blast
  show "\<exists>h m. h < 24 \<and> m < 60 \<and> s = zero_pad 2 h @ '':'' @ zero_pad 2 m \<and>
        t = seconds (int (60 * (60 * h + m))) \<Longrightarrow> parse_hhmm s = Inr t"
    using parse_hhmm_format by blast
qed

text \<open>
  A session is opened exactly inside the trading window, the closing boundary excluded, is closed
  within the window's length, and its identity names the local date: two sessions share an identifier
  exactly when they were opened on the same date.
\<close>

theorem session_identity_is_local_date:
  assumes "session_open zone (Aware t) sm = Inr (Some s, sm1)"
    "session_open zone (Aware t') sm = Inr (Some s', sm2)"
    "l = zone (ts_timezone (sm_schedule sm)) t" "l' = zone (ts_timezone (sm_schedule sm)) t'"
    "proper_date l" "proper_date l'"
  shows "(tss_session_id s = tss_session_id s' \<longleftrightarrow>
       lt_year l = lt_year l' \<and> lt_month l = lt_month l' \<and> lt_day l = lt_day l') \<and>
     (\<exists>d. session_until_close zone (Aware t) sm1 = Inr (Some d) \<and> 0 < d \<and>
        d \<le> ts_end (sm_schedule sm) - ts_start (sm_schedule sm))"
proof -
  have ids: "tss_session_id s = session_name l" "tss_session_id s' = session_name l'"
    and inside: "inside_window (sm_schedule sm) l" and sm1: "sm1 = sm\<lparr>sm_current := Some s\<rparr>"
    using assms(1-4) by (auto simp: session_open_aware Let_def split: if_splits)
  have "tss_session_id s = tss_session_id s' \<longleftrightarrow>
       lt_year l = lt_year l' \<and> lt_month l = lt_month l' \<and> lt_day l = lt_day l'"
    using session_name_inject [OF assms(5,6)] by (auto simp: ids session_name_def)
  moreover have "\<exists>d. session_until_close zone (Aware t) sm1 = Inr (Some d) \<and> 0 < d \<and>
        d \<le> ts_end (sm_schedule sm) - ts_start (sm_schedule sm)"
    using inside
    by (simp add: session_until_close_def sm1 schedule_until_close_aware Let_def inside_window_def
        flip: assms(3))
  ultimately show ?thesis by blast
qed

lemma session_identity_is_local_date_witness:
  "\<exists>s sm1. session_open ex_zone (Aware 0) \<lparr>sm_schedule = default_trading_schedule, sm_current = None\<rparr> =
     Inr (Some s, sm1) \<and> (\<exists>d. session_until_close ex_zone (Aware 0) sm1 = Inr (Some d) \<and> 0 < d)"
proof -
  have "inside_window default_trading_schedule (ex_zone tz 0)" for tz
    by (simp add: inside_window_def default_trading_schedule_def ex_zone_def hours_def seconds_def)
  then obtain s sm1 where "session_open ex_zone (Aware 0)
      \<lparr>sm_schedule = default_trading_schedule, sm_current = None\<rparr> = Inr (Some s, sm1)"
    by (simp add: session_open_aware Let_def)
  moreover have "proper_date (ex_zone tz 0)" for tz by (simp add: proper_date_def ex_zone_def)
  ultimately show ?thesis
    using session_identity_is_local_date [OF _ _ refl refl, of ex_zone 0 _ s sm1 0 s sm1] by fast
qed

section \<open>Health and emergency stop\<close>


text \<open>
  A database that does not answer blocks new exposure: after a health check whose connection fails,
  answers no, or whose checkpoint query raises, the risk engine approves only trades that reduce exposure.
\<close>

theorem database_outage_blocks_opening_trades:
  assumes "hc_database_monitor hc = Some m" "hc_risk_engine hc = Some re"
    "pb_connection pb \<noteq> Inr True \<or> (\<exists>e. pb_checkpoint pb = Some (Inl e))"
    "check_now fails pb now hc = (r, hc')" "hc_risk_engine hc' = Some re'"
    "tc_database_available tc = None" "rc_approved (fst (check_trade re' tc now'))"
  shows "reducing tc"
proof -
  have "dh_status (fst (database_check m pb)) = DB_UNAVAILABLE"
    using database_unavailable_iff [of m pb] assms(3) by simp
  then have "re' = update_system_health re False True"
    using check_now_engine [OF assms(1,2), of fails pb now] assms(4,5) by simp
  then show ?thesis
    using assms(6,7) by (simp add: check_trade_approved_iff operational_def update_system_health_def override_def)
qed

definition ex_coordinator :: health_coordinator where
  "ex_coordinator =
     \<lparr>hc_database_monitor = Some \<lparr>dbm_latency_warning = 1000000, dbm_transaction_errors = 0\<rparr>,
      hc_risk_monitor = False, hc_risk_engine = Some (fresh_risk_engine default_risk_config None),
      hc_emergency_stop = Some new_emergency_stop, hc_notifier = True, hc_last_status = None,
      hc_check_count = 0, hc_critical_count = 0, hc_history = [], hc_alerts = 0\<rparr>"

definition ex_outage :: database_probe where
  "ex_outage = \<lparr>pb_connection = Inl (RuntimeError ''refused''), pb_checkpoint = None, pb_latency = 10\<rparr>"

lemma database_outage_blocks_opening_trades_witness:
  "\<exists>re'. hc_risk_engine (snd (check_now (\<lambda>s. False) ex_outage 0 ex_coordinator)) = Some re' \<and>
     rc_approved (fst (check_trade re' (adapter_trade_check ex_risk_adapter ex_sell ex_holding) 0)) \<and>
     reducing (adapter_trade_check ex_risk_adapter ex_sell ex_holding)"
proof -
  define tc where "tc = adapter_trade_check ex_risk_adapter ex_sell ex_holding"
  obtain re' where re': "hc_risk_engine (snd (check_now (\<lambda>s. False) ex_outage 0 ex_coordinator)) = Some re'"
    using check_now_engine [of ex_coordinator _ "fresh_risk_engine default_risk_config None" "\<lambda>s. False" ex_outage 0]
    by (simp add: ex_coordinator_def)
  obtain ra' where "adapter_validate (ex_risk_adapter\<lparr>ra_engine := re'\<rparr>) ex_sell ex_holding = Inr (True, ra')"
    using ex_sell_reduces [of "ex_risk_adapter\<lparr>ra_engine := re'\<rparr>"] by (auto simp: ex_risk_adapter_def)
  then have approved: "rc_approved (fst (check_trade re' tc 0))"
    by (auto simp: adapter_validate_def tc_def adapter_trade_check_def ex_risk_adapter_def split: prod.splits)
  have "reducing tc"
  proof (rule database_outage_blocks_opening_trades [of ex_coordinator _
        "fresh_risk_engine default_risk_config None" ex_outage "\<lambda>s. False" 0
        "fst (check_now (\<lambda>s. False) ex_outage 0 ex_coordinator)"
        "snd (check_now (\<lambda>s. False) ex_outage 0 ex_coordinator)" re' tc 0])
    show "hc_database_monitor ex_coordinator = Some \<lparr>dbm_latency_warning = 1000000, dbm_transaction_errors = 0\<rparr>"
      by (simp add: ex_coordinator_def)
  qed (use re' approved in \<open>simp_all add: ex_coordinator_def ex_outage_def tc_def adapter_trade_check_def\<close>)
  with re' approved show ?thesis by (simp add: tc_def)
qed

section \<open>The market pipeline\<close>


definition ex_services :: "(int dict, unit, unit, unit) services" where
  "ex_services =
     \<lparr>svc_save = (\<lambda>e w. (Inr (), w)), svc_normalize = (\<lambda>e w. (Inr (me_candle e), w)),
      svc_on_market_event = None, svc_calculate = (\<lambda>c w. (Inr [(''ema'', ()), (''rsi'', ()), (''atr'', ())], w)),
      svc_detect = (\<lambda>c i w. (Inr (Some ()), w)), svc_evaluate = (\<lambda>c i r w. (Inr None, w)),
      svc_risk = (\<lambda>s w. (Inr False, w)), svc_execute = (\<lambda>s n w. (Inr (), w)),
      svc_persist = (\<lambda>e c i r s d x w. (Inl (RuntimeError ''disk full''), w)),
      svc_checkpoint = (\<lambda>s n w. (Inr (), if dict_wf w then AList.update s n w else [(s, n)])),
      svc_record = (\<lambda>e r d w. (Inr (), w))\<rparr>"

definition ex_pipeline :: "int dict pipeline" where
  "ex_pipeline =
     \<lparr>pl_world = [],
      pl_tracker = \<lparr>tk_state = PS_STARTING,
        tk_readiness = \<lparr>mr_required_candles = 1, mr_candle_counts = [], mr_indicators = [], mr_regimes = []\<rparr>,
        tk_last_sequences = []\<rparr>,
      pl_symbols = [], pl_run_id = ''r'', pl_stages = []\<rparr>"

lemma ex_pipeline_fails:
  "pres_status (fst (process_market_event ex_services 20 ex_tick ex_pipeline)) = FAILED"
  by (simp add: process_market_event_def process_event_def ingest_event_def trade_stages_def finish_def seq_def call_def
      check_def pure_def done_stage_def validate_closed_event_def validate_candle_def ex_services_def
      ex_pipeline_def ex_tick_def me_symbol_def tk_last_sequence_def Let_def
      split: prod.split sum.split option.split)


text \<open>
  C27: Whatever events arrive, in whatever order and however often, the pipeline completes each event of a
  symbol at most once and in strictly increasing sequence.
\<close>

theorem pipeline_completes_each_event_once:
  "distinct (completed (fst (run_events svc tes p))) \<and>
   sorted_wrt (\<lambda>(s, m) (t, n). s = t \<longrightarrow> m < n) (completed (fst (run_events svc tes p)))"
proof -
  obtain rs p' where "run_events svc tes p = (rs, p')" by force
  then have "sorted_wrt (\<lambda>(s, m) (t, n). s = t \<longrightarrow> m < n) (completed rs)"
    using completed_increasing [of svc tes p rs p'] by simp
  with completed_distinct [OF this] \<open>run_events svc tes p = (rs, p')\<close> show ?thesis by simp
qed

text \<open>The same event arriving twice is completed once.\<close>

definition ex_good_services :: "(int dict, unit, unit, unit) services" where
  "ex_good_services = ex_services\<lparr>svc_persist := (\<lambda>e c i r s d x w. (Inr (), w))\<rparr>"

lemma pipeline_completes_each_event_once_witness:
  "completed (fst (run_events ex_good_services [(20, ex_tick), (30, ex_tick)] ex_pipeline)) =
     [(me_symbol ex_tick, me_sequence ex_tick)] \<and>
   distinct (completed (fst (run_events ex_good_services [(20, ex_tick), (30, ex_tick)] ex_pipeline)))"
proof -
  have "completed (fst (run_events ex_good_services [(20, ex_tick), (30, ex_tick)] ex_pipeline)) =
     [(me_symbol ex_tick, me_sequence ex_tick)]"
    by (simp add: completed_def process_market_event_def process_event_def ingest_event_def trade_stages_def
        finish_def seq_def call_def check_def pure_def done_stage_def validate_closed_event_def
        validate_candle_def ex_good_services_def ex_services_def ex_pipeline_def ex_tick_def me_symbol_def
        tk_last_sequence_def update_readiness_def observe_def candle_count_def is_trading_ready_def
        symbol_ready_def all_ready_def mark_processed_def Let_def)
  with pipeline_completes_each_event_once [of ex_good_services "[(20, ex_tick), (30, ex_tick)]" ex_pipeline]
  show ?thesis by blast
qed

text \<open>
  C15: An event whose processing failed is lost by a restart: the failure handler stores its sequence as the
  checkpoint of its symbol, so a pipeline that restores the stored checkpoints ignores the event as a
  duplicate, although it was never completed.
\<close>

theorem failed_event_lost_after_restart:
  assumes "process_market_event svc now e p = (res, p')" "pres_status res = FAILED"
    "\<And>s n w. map_of (saved (snd (svc_checkpoint svc s n w))) s = Some n"
    "\<And>w. distinct (map fst (saved w))"
  shows "pres_status (fst (process_market_event svc now' e (restore_checkpoint (saved (pl_world p')) q))) = IGNORED \<and>
     tk_last_sequences (pl_tracker p') = tk_last_sequences (pl_tracker p)"
  using failed_event_skipped [where saved = saved, OF assms refl] process_market_event_sequences [OF assms(1)] assms(2)
  by simp

lemma failed_event_lost_after_restart_witness:
  "\<exists>w. pres_status (fst (process_market_event ex_services 30 ex_tick (restore_checkpoint w ex_pipeline))) = IGNORED"
proof -
  define saved where "saved = (\<lambda>w :: int dict. if dict_wf w then w else [])"
  have wf: "distinct (map fst (saved w))" for w by (simp add: saved_def dict_wf_def)
  have "map_of (saved (snd (svc_checkpoint ex_services s n w))) s = Some n" for s n w
    by (simp add: saved_def ex_services_def) (simp add: dict_wf_def)
  from failed_event_lost_after_restart [where saved = saved and svc = ex_services and now = 20 and e = ex_tick
      and p = ex_pipeline and now' = 30 and q = ex_pipeline, OF prod.collapse [symmetric] ex_pipeline_fails this wf]
  show ?thesis by blast
qed

end
