(* ===== verification/Indicators.thy ===== *)
theory Indicators
  imports Decimal
begin

text \<open>
  The technical indicators of \<open>app/indicators\<close>: exponential moving average, true range, relative
  strength index, volume and price measures, historical volatility and the market regime. Periods
  are natural numbers. Volatility computes in floating point: the operations of the \<open>math\<close> module
  and the conversions from and to decimals are the fields of a record, with nothing assumed of them.
\<close>

section \<open>Series\<close>

text \<open>\<open>xs[-n:]\<close> of Python, where \<open>xs[-0:]\<close> is the whole list.\<close>

definition py_tail :: "nat \<Rightarrow> 'a list \<Rightarrow> 'a list" where
  "py_tail n xs = (if n = 0 then xs else last_n n xs)"

definition py_sum :: "decimal list \<Rightarrow> decimal" where
  "py_sum xs = dsum xs"

definition mean_of :: "decimal list \<Rightarrow> nat \<Rightarrow> decimal result" where
  "mean_of xs n = ddiv_or_raise (py_sum xs) (dec_of_nat n)"

text \<open>A loop that appends every value of its accumulator.\<close>

fun scan :: "('a \<Rightarrow> 'b \<Rightarrow> 'b) \<Rightarrow> 'b \<Rightarrow> 'a list \<Rightarrow> 'b list" where
  "scan f a [] = []"
| "scan f a (x # xs) = f x a # scan f (f x a) xs"

lemma length_scan [simp]: "length (scan f a xs) = length xs"
  by (induction xs arbitrary: a) simp_all

lemma scan_append: "scan f a (xs @ ys) = scan f a xs @ scan f (fold f xs a) ys"
  by (induction xs arbitrary: a) simp_all

lemma last_Cons_scan: "last (a # scan f a xs) = fold f xs a"
proof (induction xs arbitrary: a)
  case (Cons x xs)
  from Cons.IH [of "f x a"] show ?case by simp
qed simp

lemma take_scan: "take n (scan f a xs) = scan f a (take n xs)"
  by (induction xs arbitrary: a n) (simp_all add: take_Cons split: nat.split)

section \<open>Exponential moving average\<close>

definition ema_multiplier :: "nat \<Rightarrow> decimal" where
  "ema_multiplier period = ddiv 2 (dec_of_nat (period + 1))"

definition ema_step :: "decimal \<Rightarrow> decimal \<Rightarrow> decimal \<Rightarrow> decimal" where
  "ema_step multiplier price ema = dadd (dmul (dsub price ema) multiplier) ema"

definition calculate_ema :: "decimal list \<Rightarrow> nat \<Rightarrow> decimal option \<Rightarrow> decimal option result" where
  "calculate_ema prices period previous_ema =
     (if length prices < period then Inr None
      else (case previous_ema of
              None \<Rightarrow> bind_result (mean_of (take period prices) period) (\<lambda>sma. Inr (Some sma))
            | Some e \<Rightarrow>
                if prices = [] then Inl IndexError
                else Inr (Some (ema_step (ema_multiplier period) (last prices) e))))"

definition calculate_ema_series :: "decimal list \<Rightarrow> nat \<Rightarrow> decimal option list result" where
  "calculate_ema_series prices period =
     (if length prices < period then Inr (replicate (length prices) None)
      else bind_result (mean_of (take period prices) period)
        (\<lambda>sma. Inr (replicate (period - 1) None @ Some sma #
           map Some (scan (ema_step (ema_multiplier period)) sma (drop period prices)))))"

definition calculate_ema_slope :: "decimal option list \<Rightarrow> nat \<Rightarrow> decimal option result" where
  "calculate_ema_slope ema_values lookback =
     (let valid_values = [v. Some v \<leftarrow> ema_values]
      in if length valid_values < lookback then Inr None
         else if valid_values = [] then Inl IndexError
         else (let current = last valid_values;
                   past = (if lookback = 0 then hd valid_values
                           else valid_values ! (length valid_values - lookback))
               in if past = 0 then Inr None else Inr (Some (ddiv (dsub current past) past))))"

section \<open>True range\<close>

definition calculate_true_range :: "decimal \<Rightarrow> decimal \<Rightarrow> decimal \<Rightarrow> decimal" where
  "calculate_true_range high low previous_close =
     (let hl = dsub high low; hc = dabs (dsub high previous_close); lc = dabs (dsub low previous_close)
      in max (max hl hc) lc)"

definition true_ranges :: "decimal list \<Rightarrow> decimal list \<Rightarrow> decimal list \<Rightarrow> decimal list result" where
  "true_ranges highs lows closes =
     (if 1 < length highs \<and> (length lows < length highs \<or> length closes < length highs - 1)
      then Inl IndexError
      else Inr (map (\<lambda>i. calculate_true_range (highs ! i) (lows ! i) (closes ! (i - 1)))
                  [1..<length highs]))"

definition wilder_step :: "nat \<Rightarrow> decimal \<Rightarrow> decimal \<Rightarrow> decimal" where
  "wilder_step period x average =
     ddiv (dadd (dmul average (dec_of_nat (period - 1))) x) (dec_of_nat period)"

definition too_short :: "decimal list \<Rightarrow> decimal list \<Rightarrow> decimal list \<Rightarrow> nat \<Rightarrow> bool" where
  "too_short highs lows closes period \<longleftrightarrow>
     length highs < period + 1 \<or> length lows < period + 1 \<or> length closes < period + 1"

definition calculate_atr ::
    "decimal list \<Rightarrow> decimal list \<Rightarrow> decimal list \<Rightarrow> nat \<Rightarrow> decimal option result" where
  "calculate_atr highs lows closes period =
     (if too_short highs lows closes period then Inr None
      else bind_result (true_ranges highs lows closes)
        (\<lambda>trs. bind_result (mean_of (take period trs) period)
           (\<lambda>atr. Inr (Some (fold (wilder_step period) (drop period trs) atr)))))"

definition calculate_atr_series ::
    "decimal list \<Rightarrow> decimal list \<Rightarrow> decimal list \<Rightarrow> nat \<Rightarrow> decimal option list result" where
  "calculate_atr_series highs lows closes period =
     (if too_short highs lows closes period then Inr (replicate (length highs) None)
      else bind_result (true_ranges highs lows closes)
        (\<lambda>trs. bind_result (mean_of (take period trs) period)
           (\<lambda>atr. Inr (replicate period None @ Some atr #
              map Some (scan (wilder_step period) atr (drop period trs))))))"

definition calculate_atr_percentage :: "decimal \<Rightarrow> decimal \<Rightarrow> decimal" where
  "calculate_atr_percentage atr price = (if price = 0 then 0 else ddiv atr price)"

section \<open>Relative strength index\<close>

definition rsi_from_averages :: "decimal \<Rightarrow> decimal \<Rightarrow> decimal result" where
  "rsi_from_averages avg_gain avg_loss =
     (if avg_gain = 0 \<and> avg_loss = 0 then Inr 50
      else if avg_loss = 0 then Inr 100
      else (let rs = ddiv avg_gain avg_loss
            in bind_result (ddiv_or_raise 100 (dadd 1 rs)) (\<lambda>q. Inr (dsub 100 q))))"

definition price_changes :: "decimal list \<Rightarrow> decimal list" where
  "price_changes prices = map (\<lambda>i. dsub (prices ! i) (prices ! (i - 1))) [1..<length prices]"

definition gains :: "decimal list \<Rightarrow> decimal list" where
  "gains prices = map (\<lambda>change. max change 0) (price_changes prices)"

definition losses :: "decimal list \<Rightarrow> decimal list" where
  "losses prices = map (\<lambda>change. dabs (min change 0)) (price_changes prices)"

text \<open>The averages after the first \<open>period\<close> changes, and one step of both.\<close>

definition first_averages :: "decimal list \<Rightarrow> nat \<Rightarrow> (decimal \<times> decimal) result" where
  "first_averages prices period =
     bind_result (mean_of (take period (gains prices)) period)
       (\<lambda>g. bind_result (mean_of (take period (losses prices)) period) (\<lambda>l. Inr (g, l)))"

definition averages_step :: "nat \<Rightarrow> decimal \<times> decimal \<Rightarrow> decimal \<times> decimal \<Rightarrow> decimal \<times> decimal" where
  "averages_step period change averages =
     (wilder_step period (fst change) (fst averages), wilder_step period (snd change) (snd averages))"

definition later_changes :: "decimal list \<Rightarrow> nat \<Rightarrow> (decimal \<times> decimal) list" where
  "later_changes prices period = drop period (zip (gains prices) (losses prices))"

fun collect :: "('a \<Rightarrow> 'b result) \<Rightarrow> 'a list \<Rightarrow> 'b list result" where
  "collect f [] = Inr []"
| "collect f (x # xs) =
     bind_result (f x) (\<lambda>y. bind_result (collect f xs) (\<lambda>ys. Inr (y # ys)))"

definition calculate_rsi :: "decimal list \<Rightarrow> nat \<Rightarrow> decimal option result" where
  "calculate_rsi prices period =
     (if length prices < period + 1 then Inr None
      else bind_result (first_averages prices period)
        (\<lambda>a. case fold (averages_step period) (later_changes prices period) a of
               (g, l) \<Rightarrow> bind_result (rsi_from_averages g l) (\<lambda>r. Inr (Some r))))"

definition calculate_rsi_series :: "decimal list \<Rightarrow> nat \<Rightarrow> decimal option list result" where
  "calculate_rsi_series prices period =
     (if length prices < period + 1 then Inr (replicate (length prices) None)
      else bind_result (first_averages prices period)
        (\<lambda>a. bind_result
           (collect (\<lambda>(g, l). rsi_from_averages g l)
              (a # scan (averages_step period) a (later_changes prices period)))
           (\<lambda>rs. Inr (replicate period None @ map Some rs))))"

section \<open>Price measures\<close>

definition calculate_price_change :: "decimal \<Rightarrow> decimal \<Rightarrow> decimal" where
  "calculate_price_change current previous =
     (if previous = 0 then 0 else ddiv (dsub current previous) previous)"

definition calculate_price_change_series :: "decimal list \<Rightarrow> nat \<Rightarrow> decimal option list" where
  "calculate_price_change_series closes period =
     (if length closes < period + 1 then replicate (length closes) None
      else replicate period None @
        map (\<lambda>i. if 0 < closes ! (i - period)
                 then Some (ddiv (dsub (closes ! i) (closes ! (i - period))) (closes ! (i - period)))
                 else None) [period..<length closes])"

definition calculate_distance_to_ema :: "decimal \<Rightarrow> decimal \<Rightarrow> decimal" where
  "calculate_distance_to_ema price ema = (if ema = 0 then 0 else ddiv (dsub price ema) ema)"

definition calculate_high_low_range :: "decimal \<Rightarrow> decimal \<Rightarrow> decimal" where
  "calculate_high_low_range high low = (if low = 0 then 0 else ddiv (dsub high low) low)"

definition calculate_max_period :: "decimal list \<Rightarrow> nat \<Rightarrow> decimal option result" where
  "calculate_max_period prices period =
     (if length prices < period then Inr None
      else if prices = [] then Inl (ValueError ''max() arg is an empty sequence'')
      else Inr (Some (Max (set (py_tail period prices)))))"

definition calculate_min_period :: "decimal list \<Rightarrow> nat \<Rightarrow> decimal option result" where
  "calculate_min_period prices period =
     (if length prices < period then Inr None
      else if prices = [] then Inl (ValueError ''min() arg is an empty sequence'')
      else Inr (Some (Min (set (py_tail period prices)))))"

section \<open>Volume measures\<close>

definition calculate_average_volume :: "decimal list \<Rightarrow> nat \<Rightarrow> decimal option result" where
  "calculate_average_volume volumes period =
     (if length volumes < period then Inr None
      else bind_result (mean_of (py_tail period volumes) period) (\<lambda>a. Inr (Some a)))"

definition calculate_volume_ratio :: "decimal \<Rightarrow> decimal \<Rightarrow> decimal" where
  "calculate_volume_ratio current average = (if average = 0 then 0 else ddiv current average)"

definition calculate_volume_trend :: "decimal list \<Rightarrow> nat \<Rightarrow> nat \<Rightarrow> string option result" where
  "calculate_volume_trend volumes short_period long_period =
     (if length volumes < long_period then Inr None
      else bind_result (mean_of (py_tail short_period volumes) short_period)
        (\<lambda>short_avg. bind_result (mean_of (py_tail long_period volumes) long_period)
           (\<lambda>long_avg.
              if long_avg = 0 then Inr (Some ''STABLE'')
              else (let ratio = ddiv short_avg long_avg
                    in Inr (Some (if 6 / 5 < ratio then ''INCREASING''
                                  else if ratio < 4 / 5 then ''DECREASING'' else ''STABLE''))))))"

fun obv_step :: "decimal list \<Rightarrow> decimal list \<Rightarrow> nat \<Rightarrow> decimal list \<Rightarrow> decimal list result" where
  "obv_step closes volumes i obv =
     (let prev = last obv
      in if closes ! (i - 1) < closes ! i
         then (if length volumes \<le> i then Inl IndexError else Inr (obv @ [dadd prev (volumes ! i)]))
         else if closes ! i < closes ! (i - 1)
         then (if length volumes \<le> i then Inl IndexError else Inr (obv @ [dsub prev (volumes ! i)]))
         else Inr (obv @ [prev]))"

definition calculate_on_balance_volume ::
    "decimal list \<Rightarrow> decimal list \<Rightarrow> decimal list option result" where
  "calculate_on_balance_volume closes volumes =
     (if length closes < 2 \<or> length volumes < 2 then Inr None
      else bind_result (fold_result (obv_step closes volumes) [1..<length closes] [hd volumes])
        (\<lambda>obv. Inr (Some obv)))"

definition calculate_vwap ::
    "decimal list \<Rightarrow> decimal list \<Rightarrow> decimal list \<Rightarrow> decimal list \<Rightarrow> decimal option" where
  "calculate_vwap highs lows closes volumes =
     (if highs = [] \<or> lows = [] \<or> closes = [] \<or> volumes = [] then None
      else if length highs \<noteq> length lows \<or> length highs \<noteq> length closes \<or>
              length highs \<noteq> length volumes then None
      else
        (let typical_prices =
               map (\<lambda>i. ddiv (dadd (dadd (highs ! i) (lows ! i)) (closes ! i)) 3) [0..<length highs];
             (tpv, volume) =
               fold (\<lambda>(tp, v) (a, b). (dadd a (dmul tp v), dadd b v)) (zip typical_prices volumes) (0, 0)
         in if volume = 0 then None else Some (ddiv tpv volume)))"

section \<open>Volatility\<close>

text \<open>
  Floating point: the logarithm of a quotient of decimals, arithmetic, the built-in \<open>sum\<close>,
  \<open>math.isclose\<close> with the tolerance of the source, and the conversions \<open>float(d)\<close> and
  \<open>Decimal(str(f))\<close>.
\<close>

record 'f float_ops =
  fl_log :: "'f \<Rightarrow> 'f"
  fl_sqrt :: "'f \<Rightarrow> 'f"
  fl_of_decimal :: "decimal \<Rightarrow> 'f"
  fl_to_decimal :: "'f \<Rightarrow> decimal"
  fl_isclose :: "'f \<Rightarrow> 'f \<Rightarrow> bool"
  fl_sum :: "'f list \<Rightarrow> 'f"
  fl_sub :: "'f \<Rightarrow> 'f \<Rightarrow> 'f"
  fl_square :: "'f \<Rightarrow> 'f"
  fl_div_int :: "'f \<Rightarrow> int \<Rightarrow> 'f"
  fl_of_int :: "int \<Rightarrow> 'f"

text \<open>\<open>int(s)\<close> for an optional sign and decimal digits; blanks and underscores are not read.\<close>

definition is_digit :: "char \<Rightarrow> bool" where
  "is_digit c = (let n = of_char c :: nat in 48 \<le> n \<and> n \<le> 57)"

definition py_int :: "string \<Rightarrow> int option" where
  "py_int s =
     (let (sign, digits) =
        (case s of
           [] \<Rightarrow> (1, [])
         | c # cs \<Rightarrow> if c = CHR ''-'' then (- 1, cs) else if c = CHR ''+'' then (1, cs) else (1, s))
      in if digits = [] \<or> \<not> list_all is_digit digits then None else Some (sign * int (read_nat digits)))"

definition periods_per_year :: "'f float_ops \<Rightarrow> string \<Rightarrow> 'f result" where
  "periods_per_year fl timeframe =
     (if length timeframe < 2 then Inl (ValueError ''Unsupported timeframe'')
      else
        (let unit = lower_char (last timeframe)
         in (case py_int (butlast timeframe) of
               None \<Rightarrow> Inl (ValueError ''Unsupported timeframe'')
             | Some value \<Rightarrow>
                 if value \<le> 0 then Inl (ValueError ''timeframe value must be positive'')
                 else if unit = CHR ''m'' then Inr (fl_div_int fl (fl_of_int fl 525600) value)
                 else if unit = CHR ''h'' then Inr (fl_div_int fl (fl_of_int fl 8760) value)
                 else if unit = CHR ''d'' then Inr (fl_div_int fl (fl_of_int fl 365) value)
                 else if unit = CHR ''w'' then Inr (fl_div_int fl (fl_of_int fl 365) (7 * value))
                 else Inl (ValueError ''Unsupported timeframe''))))"

definition annualization_factor :: "'f float_ops \<Rightarrow> string \<Rightarrow> decimal result" where
  "annualization_factor fl timeframe =
     bind_result (periods_per_year fl timeframe) (\<lambda>f. Inr (fl_to_decimal fl (fl_sqrt fl f)))"

definition std_dev :: "'f float_ops \<Rightarrow> 'f list \<Rightarrow> decimal" where
  "std_dev fl returns =
     (let n = int (length returns); mean_return = fl_div_int fl (fl_sum fl returns) n;
          variance = fl_div_int fl
            (fl_sum fl (map (\<lambda>r. fl_square fl (fl_sub fl r mean_return)) returns)) (n - 1)
      in fl_to_decimal fl (fl_sqrt fl variance))"

definition log_return :: "'f float_ops \<Rightarrow> decimal \<Rightarrow> decimal \<Rightarrow> 'f option" where
  "log_return fl previous current =
     (if 0 < previous \<and> 0 < current then Some (fl_log fl (fl_of_decimal fl (ddiv current previous))) else None)"

definition log_returns :: "'f float_ops \<Rightarrow> decimal list \<Rightarrow> 'f option list" where
  "log_returns fl closes =
     map (\<lambda>i. log_return fl (closes ! (i - 1)) (closes ! i)) [1..<length closes]"

definition window_deviation :: "'f float_ops \<Rightarrow> 'f list \<Rightarrow> decimal option" where
  "window_deviation fl returns =
     (if list_all (\<lambda>v. fl_isclose fl v (hd returns)) (tl returns) then None
      else Some (std_dev fl returns))"

definition calculate_historical_volatility ::
    "'f float_ops \<Rightarrow> decimal list \<Rightarrow> nat \<Rightarrow> bool \<Rightarrow> string \<Rightarrow> decimal option result" where
  "calculate_historical_volatility fl closes period annualize timeframe =
     (if length closes < period + 1 then Inr None
      else
        (let returns = [r. Some r \<leftarrow> log_returns fl closes]
         in if length returns < period then Inr None
            else if py_tail period returns = [] then Inl IndexError
            else (case window_deviation fl (py_tail period returns) of
                    None \<Rightarrow> Inr (Some 0)
                  | Some d \<Rightarrow>
                      if annualize
                      then bind_result (annualization_factor fl timeframe) (\<lambda>a. Inr (Some (dmul d a)))
                      else Inr (Some d))))"

definition window_at :: "'f float_ops \<Rightarrow> decimal list \<Rightarrow> nat \<Rightarrow> nat \<Rightarrow> 'f option list" where
  "window_at fl closes period i = take period (drop (i - period) (log_returns fl closes))"

definition series_value :: "'f float_ops \<Rightarrow> decimal list \<Rightarrow> nat \<Rightarrow> decimal \<Rightarrow> nat \<Rightarrow> decimal option" where
  "series_value fl closes period factor i =
     (if None \<in> set (window_at fl closes period i) then None
      else (case window_deviation fl [r. Some r \<leftarrow> window_at fl closes period i] of
              None \<Rightarrow> Some 0 | Some d \<Rightarrow> Some (dmul d factor)))"

definition calculate_historical_volatility_series ::
    "'f float_ops \<Rightarrow> decimal list \<Rightarrow> nat \<Rightarrow> bool \<Rightarrow> string \<Rightarrow> decimal option list result" where
  "calculate_historical_volatility_series fl closes period annualize timeframe =
     (if length closes < period + 1 then Inr (replicate (length closes) None)
      else bind_result (if annualize then annualization_factor fl timeframe else Inr 1)
        (\<lambda>factor. Inr (replicate period None @
           map (series_value fl closes period factor) [period..<length closes])))"

definition calculate_volatility_regime :: "decimal \<Rightarrow> decimal \<Rightarrow> decimal \<Rightarrow> string" where
  "calculate_volatility_regime volatility low_threshold high_threshold =
     (if volatility < low_threshold then ''LOW''
      else if high_threshold < volatility then ''HIGH'' else ''NORMAL'')"

definition calculate_bollinger_bands ::
    "'f float_ops \<Rightarrow> decimal list \<Rightarrow> nat \<Rightarrow> decimal \<Rightarrow> (decimal \<times> decimal \<times> decimal) option result" where
  "calculate_bollinger_bands fl closes period std_dev_multiplier =
     (if length closes < period then Inr None
      else bind_result (mean_of (py_tail period closes) period)
        (\<lambda>sma. bind_result
           (mean_of (map (\<lambda>c. dmul (dsub c sma) (dsub c sma)) (py_tail period closes)) period)
           (\<lambda>variance.
              let deviation = fl_to_decimal fl (fl_sqrt fl (fl_of_decimal fl variance))
              in Inr (Some (dadd sma (dmul deviation std_dev_multiplier), sma,
                            dsub sma (dmul deviation std_dev_multiplier))))))"

definition calculate_keltner_channels ::
    "decimal list \<Rightarrow> decimal list \<Rightarrow> decimal list \<Rightarrow> nat \<Rightarrow> nat \<Rightarrow> decimal
     \<Rightarrow> (decimal \<times> decimal \<times> decimal) option result" where
  "calculate_keltner_channels highs lows closes ema_period atr_period atr_multiplier =
     (if length closes < max ema_period atr_period then Inr None
      else bind_result (calculate_ema closes ema_period None)
        (\<lambda>ema. case ema of
             None \<Rightarrow> Inr None
           | Some e \<Rightarrow>
               bind_result (calculate_atr highs lows closes atr_period)
                 (\<lambda>atr. case atr of
                      None \<Rightarrow> Inr None
                    | Some a \<Rightarrow>
                        Inr (Some (dadd e (dmul a atr_multiplier), e,
                                   dsub e (dmul a atr_multiplier))))))"

end
