(* ===== verification/Indicator_Facts.thy ===== *)
theory Indicator_Facts
  imports Indicators
begin

text \<open>
  Facts on the indicators: a series never looks ahead (its prefix is the series of the prefix), its
  last value is what the single-value function computes, and the ranges of the values.
\<close>

section \<open>Causality\<close>

lemma price_changes_take: "n \<le> length prices \<Longrightarrow> price_changes (take n prices) = take (n - 1) (price_changes prices)"
  by (rule nth_equalityI) (auto simp: price_changes_def)

lemma gains_take: "n \<le> length prices \<Longrightarrow> gains (take n prices) = take (n - 1) (gains prices)"
  by (simp add: gains_def price_changes_take take_map)

lemma losses_take: "n \<le> length prices \<Longrightarrow> losses (take n prices) = take (n - 1) (losses prices)"
  by (simp add: losses_def price_changes_take take_map)

lemma length_gains [simp]: "length (gains prices) = length prices - 1" "length (losses prices) = length prices - 1"
  by (simp_all add: gains_def losses_def price_changes_def)

lemma true_ranges_take:
  assumes "true_ranges highs lows closes = Inr trs" "length lows = length highs" "length closes = length highs"
    "n \<le> length highs"
  shows "true_ranges (take n highs) (take n lows) (take n closes) = Inr (take (n - 1) trs)"
proof -
  have trs: "trs = map (\<lambda>i. calculate_true_range (highs ! i) (lows ! i) (closes ! (i - 1))) [1..<length highs]"
    using assms(1) by (auto simp: true_ranges_def split: if_splits)
  have "map (\<lambda>i. calculate_true_range (take n highs ! i) (take n lows ! i) (take n closes ! (i - 1))) [1..<n]
      = take (n - 1) trs"
    using assms(4) by (intro nth_equalityI) (auto simp: trs)
  then show ?thesis using assms by (cases n) (simp_all add: true_ranges_def)
qed

lemma length_true_ranges: "true_ranges highs lows closes = Inr trs \<Longrightarrow> length trs = length highs - 1"
  by (auto simp: true_ranges_def split: if_splits)

lemma take_series:
  "k \<le> n \<Longrightarrow> take n (replicate k None @ Some a # map Some (scan f a xs)) =
     (if n = k then replicate k None
      else replicate k None @ Some a # map Some (scan f a (take (n - k - 1) xs)))"
  by (cases "n - k") (auto simp: take_map take_scan)

lemma take_replicate_le: "n \<le> k \<Longrightarrow> take n (replicate k None @ xs) = replicate n None"
  by (simp add: min_def)

lemma ema_series_causal:
  assumes "calculate_ema_series prices period = Inr s" "n \<le> length prices" "0 < period"
  shows "calculate_ema_series (take n prices) period = Inr (take n s)"
proof (cases "length prices < period")
  case True
  then show ?thesis using assms by (auto simp: calculate_ema_series_def min_def)
next
  case False
  then obtain sma where sma: "mean_of (take period prices) period = Inr sma"
    and s: "s = replicate (period - 1) None @ Some sma #
        map Some (scan (ema_step (ema_multiplier period)) sma (drop period prices))"
    using assms(1) by (auto simp: calculate_ema_series_def bind_result_Inr_iff)
  show ?thesis
  proof (cases "n < period")
    case True
    then have "take n s = replicate n None" using take_replicate_le [of n "period - 1"] s by simp
    with True assms(2) show ?thesis by (simp add: calculate_ema_series_def min_def)
  next
    case F2: False
    have "take n s = replicate (period - 1) None @ Some sma #
        map Some (scan (ema_step (ema_multiplier period)) sma (take (n - period) (drop period prices)))"
    proof -
      have "n - (period - 1) = Suc (n - period)" using F2 assms(3) by simp
      then show ?thesis using F2 by (simp add: s take_map take_scan)
    qed
    with F2 assms(2) sma show ?thesis
      by (simp add: calculate_ema_series_def min_def drop_take)
  qed
qed

lemma atr_series_causal:
  assumes "calculate_atr_series highs lows closes period = Inr s" "n \<le> length highs" "0 < period"
    "length lows = length highs" "length closes = length highs"
  shows "calculate_atr_series (take n highs) (take n lows) (take n closes) period = Inr (take n s)"
proof (cases "too_short highs lows closes period")
  case True
  then show ?thesis using assms by (auto simp: calculate_atr_series_def too_short_def min_def)
next
  case False
  then obtain trs atr where trs: "true_ranges highs lows closes = Inr trs"
    and atr: "mean_of (take period trs) period = Inr atr"
    and s: "s = replicate period None @ Some atr # map Some (scan (wilder_step period) atr (drop period trs))"
    using assms(1) by (auto simp: calculate_atr_series_def bind_result_Inr_iff)
  show ?thesis
  proof (cases "n \<le> period")
    case True
    then have "take n s = replicate n None" using take_replicate_le [of n period] s by simp
    with True assms show ?thesis by (simp add: calculate_atr_series_def too_short_def min_def)
  next
    case F2: False
    have "take n s = replicate period None @ Some atr #
        map Some (scan (wilder_step period) atr (take (n - period - 1) (drop period trs)))"
      using take_series [of period n atr] F2 s by auto
    moreover have "drop period (take (n - 1) trs) = take (n - period - 1) (drop period trs)"
      by (simp add: drop_take diff_commute)
    moreover have "take period (take (n - 1) trs) = take period trs"
      using F2 by (intro take_take [THEN trans]) (auto simp: min_def)
    ultimately show ?thesis
      using F2 assms atr true_ranges_take [OF trs assms(4,5,2)]
      by (simp add: calculate_atr_series_def too_short_def)
  qed
qed

lemma collect_append:
  "collect f (xs @ ys) = bind_result (collect f xs) (\<lambda>as. bind_result (collect f ys) (\<lambda>bs. Inr (as @ bs)))"
proof (induction xs)
  case (Cons x xs)
  then show ?case by (cases "f x"; cases "collect f xs"; cases "collect f ys") simp_all
qed simp

lemma length_collect: "collect f xs = Inr ys \<Longrightarrow> length ys = length xs"
  by (induction xs arbitrary: ys) (auto simp: bind_result_Inr_iff)

lemma collect_take: "collect f xs = Inr ys \<Longrightarrow> collect f (take n xs) = Inr (take n ys)"
proof -
  assume c: "collect f xs = Inr ys"
  then have "collect f (take n xs @ drop n xs) = Inr ys" by simp
  then obtain as bs where as: "collect f (take n xs) = Inr as" "ys = as @ bs"
    unfolding collect_append by (auto simp: bind_result_Inr_iff)
  then have "as = take n ys"
    using length_collect [OF c] length_collect [OF as(1)] by (cases "n \<le> length xs") auto
  with as(1) show ?thesis by simp
qed

lemma collect_last: "collect f xs = Inr ys \<Longrightarrow> xs \<noteq> [] \<Longrightarrow> f (last xs) = Inr (last ys)"
proof (induction xs arbitrary: ys)
  case (Cons x xs)
  then show ?case by (cases xs) (auto simp: bind_result_Inr_iff)
qed simp

lemma first_averages_take:
  "n \<le> length prices \<Longrightarrow> period < n \<Longrightarrow> first_averages (take n prices) period = first_averages prices period"
  by (cases n) (simp_all add: first_averages_def gains_take losses_take min_def)

lemma later_changes_take:
  "n \<le> length prices \<Longrightarrow>
     later_changes (take n prices) period = take (n - 1 - period) (later_changes prices period)"
  by (simp add: later_changes_def gains_take losses_take drop_take flip: take_zip)

lemma rsi_series_causal:
  assumes "calculate_rsi_series prices period = Inr s" "n \<le> length prices" "0 < period"
  shows "calculate_rsi_series (take n prices) period = Inr (take n s)"
proof (cases "length prices < period + 1")
  case True
  then show ?thesis using assms by (auto simp: calculate_rsi_series_def min_def)
next
  case False
  then obtain a rs where a: "first_averages prices period = Inr a"
    and rs: "collect (\<lambda>(g, l). rsi_from_averages g l)
        (a # scan (averages_step period) a (later_changes prices period)) = Inr rs"
    and s: "s = replicate period None @ map Some rs"
    using assms(1) by (auto simp: calculate_rsi_series_def bind_result_Inr_iff)
  show ?thesis
  proof (cases "n \<le> period")
    case True
    then have "take n s = replicate n None" using take_replicate_le [of n period] s by simp
    with True assms show ?thesis by (simp add: calculate_rsi_series_def min_def)
  next
    case F2: False
    have "take (n - period) (a # scan (averages_step period) a (later_changes prices period)) =
        a # scan (averages_step period) a (later_changes (take n prices) period)"
    proof -
      have "n - period = Suc (n - 1 - period)" using F2 by simp
      then show ?thesis by (simp only: take_Suc_Cons take_scan later_changes_take [OF assms(2)])
    qed
    then have "collect (\<lambda>(g, l). rsi_from_averages g l)
        (a # scan (averages_step period) a (later_changes (take n prices) period)) = Inr (take (n - period) rs)"
      using collect_take [OF rs, of "n - period"] by simp
    with F2 assms(2) a s show ?thesis
      by (simp add: calculate_rsi_series_def first_averages_take take_map)
  qed
qed

section \<open>The last value of a series\<close>

lemma last_scan_series: "last (xs @ Some a # map Some (scan f a ys)) = Some (fold f ys a)"
proof -
  have "Some a # map Some (scan f a ys) = map Some (a # scan f a ys)" by simp
  moreover have "last (map Some (a # scan f a ys)) = Some (last (a # scan f a ys))"
    by (rule last_map) simp
  ultimately show ?thesis by (metis last_appendR last_Cons_scan list.discI)
qed

lemma ema_series_last:
  assumes "calculate_ema_series prices period = Inr s" "period < length prices" "0 < period"
    "calculate_ema_series (butlast prices) period = Inr s'"
  shows "calculate_ema prices period (last s') = Inr (last s)"
proof -
  obtain p q where pq: "prices = q @ [p]" using assms(2) by (cases prices rule: rev_cases) auto
  with assms(2) have len: "period \<le> length q" by simp
  obtain sma where sma: "mean_of (take period prices) period = Inr sma"
    and s: "s = replicate (period - 1) None @ Some sma #
        map Some (scan (ema_step (ema_multiplier period)) sma (drop period prices))"
    using assms(1,2) by (auto simp: calculate_ema_series_def bind_result_Inr_iff)
  have s': "s' = replicate (period - 1) None @ Some sma #
      map Some (scan (ema_step (ema_multiplier period)) sma (drop period q))"
    using assms(4) sma len by (simp add: pq calculate_ema_series_def)
  have "last s' = Some (fold (ema_step (ema_multiplier period)) (drop period q) sma)"
    by (simp only: s s' last_scan_series)
  moreover have "last s = Some (fold (ema_step (ema_multiplier period)) (drop period prices) sma)"
    by (simp only: s s' last_scan_series)
  ultimately show ?thesis
    using len by (simp add: calculate_ema_def pq)
qed

lemma atr_series_last:
  assumes "calculate_atr_series highs lows closes period = Inr s" "\<not> too_short highs lows closes period"
  shows "calculate_atr highs lows closes period = Inr (last s)"
proof -
  obtain trs atr where trs: "true_ranges highs lows closes = Inr trs" "mean_of (take period trs) period = Inr atr"
      "s = replicate period None @ Some atr # map Some (scan (wilder_step period) atr (drop period trs))"
    using assms by (auto simp: calculate_atr_series_def bind_result_Inr_iff)
  have "last s = Some (fold (wilder_step period) (drop period trs) atr)"
    by (simp only: trs(3) last_scan_series)
  with assms(2) trs show ?thesis by (simp add: calculate_atr_def)
qed

lemma rsi_series_last:
  assumes "calculate_rsi_series prices period = Inr s" "period < length prices"
  shows "calculate_rsi prices period = Inr (last s)"
proof -
  obtain a rs where a: "first_averages prices period = Inr a"
    and rs: "collect (\<lambda>(g, l). rsi_from_averages g l)
        (a # scan (averages_step period) a (later_changes prices period)) = Inr rs"
    and s: "s = replicate period None @ map Some rs"
    using assms by (auto simp: calculate_rsi_series_def bind_result_Inr_iff)
  have "rs \<noteq> []" using length_collect [OF rs] by auto
  then have "last s = Some (last rs)" by (simp add: s last_map)
  moreover have "(case fold (averages_step period) (later_changes prices period) a of
      (g, l) \<Rightarrow> rsi_from_averages g l) = Inr (last rs)"
    using collect_last [OF rs] by (simp only: last_Cons_scan) simp
  ultimately show ?thesis
    using a assms(2) by (auto simp: calculate_rsi_def split: prod.splits)
qed

text \<open>Every value of a series is the single-value function on the prefix that ends there.\<close>

lemma rsi_series_values:
  assumes "calculate_rsi_series prices period = Inr s" "0 < period" "i < length prices"
  shows "calculate_rsi (take (Suc i) prices) period = Inr (s ! i)"
proof -
  have len: "length s = length prices"
    using assms(1,3)
    by (auto simp: calculate_rsi_series_def bind_result_Inr_iff later_changes_def
        dest!: length_collect split: if_splits)
  have pre: "calculate_rsi_series (take (Suc i) prices) period = Inr (take (Suc i) s)"
    using assms by (intro rsi_series_causal) simp_all
  show ?thesis
  proof (cases "period < Suc i")
    case True
    from rsi_series_last [OF pre] True assms(3) len show ?thesis by (simp add: take_Suc_conv_app_nth)
  next
    case False
    then have "calculate_rsi_series (take (Suc i) prices) period = Inr (replicate (Suc i) None)"
      using assms(3) by (simp add: calculate_rsi_series_def)
    with pre have "take (Suc i) s = replicate (Suc i) None" by simp
    then have "s ! i = None" by (metis lessI nth_replicate nth_take)
    with False assms(3) show ?thesis by (simp add: calculate_rsi_def)
  qed
qed

lemma atr_series_values:
  assumes "calculate_atr_series highs lows closes period = Inr s" "0 < period" "i < length highs"
    "length lows = length highs" "length closes = length highs"
  shows "calculate_atr (take (Suc i) highs) (take (Suc i) lows) (take (Suc i) closes) period = Inr (s ! i)"
proof -
  have pre: "calculate_atr_series (take (Suc i) highs) (take (Suc i) lows) (take (Suc i) closes) period =
      Inr (take (Suc i) s)"
    using assms by (intro atr_series_causal) simp_all
  have len: "i < length s"
    using assms(1,3-5)
    by (auto simp: calculate_atr_series_def bind_result_Inr_iff too_short_def
        dest!: length_true_ranges split: if_splits)
  show ?thesis
  proof (cases "period < Suc i")
    case True
    then have "\<not> too_short (take (Suc i) highs) (take (Suc i) lows) (take (Suc i) closes) period"
      using assms(3-5) by (simp add: too_short_def)
    from atr_series_last [OF pre this] len show ?thesis by (simp add: take_Suc_conv_app_nth)
  next
    case False
    then have short: "too_short (take (Suc i) highs) (take (Suc i) lows) (take (Suc i) closes) period"
      using assms(3) by (simp add: too_short_def)
    then have "take (Suc i) s = replicate (Suc i) None"
      using pre assms(3) by (simp add: calculate_atr_series_def)
    then have "s ! i = None" by (metis lessI nth_replicate nth_take)
    with short show ?thesis by (simp add: calculate_atr_def)
  qed
qed

section \<open>Ranges\<close>

lemma rsi_from_averages_bounds:
  assumes "rsi_from_averages g l = Inr r" "0 \<le> g" "0 \<le> l"
  shows "0 \<le> r \<and> r \<le> 100"
proof (cases "g = 0 \<and> l = 0 \<or> l = 0")
  case True
  then show ?thesis using assms(1) by (auto simp: rsi_from_averages_def split: if_splits)
next
  case False
  define q where "q = ddiv 100 (dadd 1 (ddiv g l))"
  have one: "1 \<le> dadd 1 (ddiv g l)"
    using dadd_mono [of 1 1 0 "ddiv g l"] assms(2,3) by (simp add: dadd_def)
  then have "100 / dadd 1 (ddiv g l) \<le> 100" by (simp add: field_simps)
  then have "q \<le> 100" using rnd_mono [of "100 / dadd 1 (ddiv g l)" 100] by (simp add: q_def ddiv_def)
  moreover have "0 \<le> q" using one by (simp add: q_def)
  moreover have "r = dsub 100 q"
    using assms(1) False by (auto simp: rsi_from_averages_def Let_def bind_result_Inr_iff
        ddiv_or_raise_Inr_iff q_def split: if_splits)
  ultimately show ?thesis
    using rnd_mono [of "100 - q" 100] by (simp add: dsub_def ctx.nonneg_iff)
qed

lemma wilder_nonneg: "0 \<le> x \<Longrightarrow> 0 \<le> a \<Longrightarrow> 0 \<le> wilder_step period x a"
  by (simp add: wilder_step_def dec_of_nat_def)

lemma mean_of_nonneg: "mean_of xs n = Inr m \<Longrightarrow> \<forall>x \<in> set xs. 0 \<le> x \<Longrightarrow> 0 \<le> m"
  using dsum_nonneg [of xs] by (auto simp: mean_of_def py_sum_def ddiv_or_raise_Inr_iff dec_of_nat_def)

lemma gains_losses_nonneg: "x \<in> set (gains prices) \<union> set (losses prices) \<Longrightarrow> 0 \<le> x"
  by (auto simp: gains_def losses_def)

lemma averages_nonneg:
  assumes "\<forall>(g, l) \<in> set xs. 0 \<le> g \<and> 0 \<le> l" "0 \<le> fst a" "0 \<le> snd a"
  shows "0 \<le> fst (fold (averages_step period) xs a) \<and> 0 \<le> snd (fold (averages_step period) xs a)"
  using assms by (induction xs arbitrary: a) (auto simp: averages_step_def wilder_nonneg)

lemma rsi_bounds:
  assumes "calculate_rsi prices period = Inr (Some r)"
  shows "0 \<le> r \<and> r \<le> 100"
proof -
  obtain a where a: "first_averages prices period = Inr a"
    and r: "rsi_from_averages (fst (fold (averages_step period) (later_changes prices period) a))
        (snd (fold (averages_step period) (later_changes prices period) a)) = Inr r"
    using assms by (fastforce simp: calculate_rsi_def bind_result_Inr_iff case_prod_beta split: if_splits)
  have "0 \<le> fst a \<and> 0 \<le> snd a"
    using a gains_losses_nonneg mean_of_nonneg set_take_subset
    by (fastforce simp: first_averages_def bind_result_Inr_iff)
  moreover have "\<forall>(g, l) \<in> set (later_changes prices period). 0 \<le> g \<and> 0 \<le> l"
    unfolding later_changes_def
    by (auto dest!: in_set_dropD) (metis UnI1 UnI2 gains_losses_nonneg set_zip_leftD set_zip_rightD)+
  ultimately show ?thesis
    using averages_nonneg rsi_from_averages_bounds [OF r] by blast
qed

lemma true_range_ge: "dsub high low \<le> calculate_true_range high low close"
  by (simp add: calculate_true_range_def Let_def)

lemma atr_nonneg:
  assumes "calculate_atr highs lows closes period = Inr (Some a)"
    "\<forall>i < length highs. lows ! i \<le> highs ! i"
  shows "0 \<le> a"
proof -
  obtain trs m where trs: "true_ranges highs lows closes = Inr trs" "mean_of (take period trs) period = Inr m"
      "a = fold (wilder_step period) (drop period trs) m"
    using assms(1) by (auto simp: calculate_atr_def bind_result_Inr_iff split: if_splits)
  have nn: "\<forall>x \<in> set trs. 0 \<le> x"
    using trs(1) assms(2) by (auto simp: true_ranges_def calculate_true_range_def Let_def
        le_max_iff_disj split: if_splits)
  then have "0 \<le> m" using mean_of_nonneg [OF trs(2)] set_take_subset by (metis subsetD)
  moreover have "0 \<le> fold (wilder_step period) xs m'" if "\<forall>x \<in> set xs. 0 \<le> x" "0 \<le> m'" for xs m'
    using that by (induction xs arbitrary: m') (simp_all add: wilder_nonneg)
  ultimately show ?thesis using nn set_drop_subset trs(3) by (metis subsetD)
qed

section \<open>Volatility\<close>

lemma log_returns_positive:
  assumes "\<forall>c \<in> set closes. 0 < c"
  shows "\<exists>rs. log_returns fl closes = map Some rs \<and> length rs = length closes - 1"
proof -
  have "log_returns fl closes =
      map Some (map (\<lambda>i. fl_log fl (fl_of_decimal fl (ddiv (closes ! i) (closes ! (i - 1))))) [1..<length closes])"
    using assms by (auto simp: log_returns_def log_return_def)
  then show ?thesis by (metis length_map length_upt)
qed

lemma concat_Some: "[r. Some r \<leftarrow> map Some rs] = rs"
  by (induction rs) simp_all

lemma log_returns_take:
  "n \<le> length closes \<Longrightarrow> log_returns fl (take n closes) = take (n - 1) (log_returns fl closes)"
  by (rule nth_equalityI) (auto simp: log_returns_def)

text \<open>
  On positive prices one value of the series is the single-value function on the prefix. The law on
  \<open>Decimal(str(f))\<close>: the shortest text of a float has fewer digits than the context's precision.
\<close>

lemma volatility_value:
  assumes "\<forall>c \<in> set closes. 0 < c" "0 < period" "period \<le> i" "i < length closes"
    "(if annualize then annualization_factor fl timeframe else Inr 1) = Inr factor"
    "\<forall>f. rnd (fl_to_decimal fl f) = fl_to_decimal fl f"
  shows "calculate_historical_volatility fl (take (Suc i) closes) period annualize timeframe =
     Inr (series_value fl closes period factor i)"
proof -
  obtain rs where rs: "log_returns fl closes = map Some rs" "length rs = length closes - 1"
    using log_returns_positive [OF assms(1)] by blast
  have win: "window_at fl closes period i = map Some (take period (drop (i - period) rs))"
    by (simp add: window_at_def rs(1) take_map drop_map)
  have ret: "log_returns fl (take (Suc i) closes) = map Some (take i rs)"
    using log_returns_take [of "Suc i" closes fl] assms(4) by (simp add: rs(1) take_map)
  have tail: "py_tail period (take i rs) = take period (drop (i - period) rs)"
  proof -
    have "length (take i rs) = i" using assms(4) rs(2) by simp
    then show ?thesis using assms(2,3) by (simp add: py_tail_def last_n_def drop_take)
  qed
  have ne: "take period (drop (i - period) rs) \<noteq> []" using assms(2-4) rs(2) by auto
  have one: "dmul d 1 = d" if "window_deviation fl returns = Some d" for returns d
    using that assms(6) by (auto simp: window_deviation_def std_dev_def Let_def dmul_def split: if_splits)
  show ?thesis
    using assms ne rs(2) one
    unfolding calculate_historical_volatility_def series_value_def ret win concat_Some Let_def tail
    by (auto split: option.splits if_splits)
qed

lemma volatility_series_values:
  assumes "calculate_historical_volatility_series fl closes period annualize timeframe = Inr s"
    "\<forall>c \<in> set closes. 0 < c" "0 < period" "i < length closes"
    "\<forall>f. rnd (fl_to_decimal fl f) = fl_to_decimal fl f"
  shows "calculate_historical_volatility fl (take (Suc i) closes) period annualize timeframe = Inr (s ! i)"
proof (cases "i < period")
  case True
  then have "s ! i = None"
    using assms by (auto simp: calculate_historical_volatility_series_def nth_append bind_result_Inr_iff
        split: if_splits)
  with True assms(4) show ?thesis by (simp add: calculate_historical_volatility_def)
next
  case False
  then obtain factor where "(if annualize then annualization_factor fl timeframe else Inr 1) = Inr factor"
      "s = replicate period None @ map (series_value fl closes period factor) [period..<length closes]"
    using assms(1,4) by (auto simp: calculate_historical_volatility_series_def bind_result_Inr_iff
        split: if_splits)
  with False assms volatility_value [of closes period i annualize fl timeframe factor] show ?thesis
    by (simp add: nth_append)
qed

end
