(* ===== verification/Market_Regime.thy ===== *)
theory Market_Regime
  imports Indicator_Facts
begin

text \<open>
  The market regime detector (\<open>app/indicators/market_regime.py\<close>). The reasons it gives are
  constructors with the numbers their texts quote.
\<close>

datatype market_regime = REGIME_UNKNOWN | REGIME_TREND_UP | REGIME_TREND_DOWN | REGIME_RANGE | REGIME_HIGH_VOLATILITY

datatype regime_reason =
    HighVolatilityReason decimal
  | InsufficientEma200
  | InsufficientSlopeHistory
  | PriceAboveEma decimal decimal
  | EmaAboveEma decimal decimal
  | SlopeAbove decimal
  | PriceBelowEma decimal decimal
  | EmaBelowEma decimal decimal
  | SlopeBelow decimal
  | NoClearTrend
  | SlopeNearZero decimal
  | EmasClose decimal

record regime_result =
  rr_regime :: market_regime
  rr_confidence :: decimal
  rr_reasons :: "regime_reason list"
  rr_ema_20 :: "decimal option"
  rr_ema_50 :: "decimal option"
  rr_ema_200 :: "decimal option"
  rr_atr_percentage :: "decimal option"
  rr_volatility :: "decimal option"

record regime_detector =
  rd_ema_short_period :: nat
  rd_ema_medium_period :: nat
  rd_ema_long_period :: nat
  rd_atr_period :: nat
  rd_volatility_period :: nat
  rd_high_volatility_threshold :: decimal
  rd_range_distance_threshold :: decimal
  rd_slope_threshold :: decimal

definition default_regime_detector :: regime_detector where
  "default_regime_detector =
     \<lparr>rd_ema_short_period = 20, rd_ema_medium_period = 50, rd_ema_long_period = 200,
      rd_atr_period = 14, rd_volatility_period = 20, rd_high_volatility_threshold = 4 / 5,
      rd_range_distance_threshold = 1 / 50, rd_slope_threshold = 1 / 1000\<rparr>"

definition last_value :: "decimal option list \<Rightarrow> decimal option" where
  "last_value xs = (if xs = [] then None else last xs)"

text \<open>What the classification reads, computed in the order of the source.\<close>

record regime_inputs =
  ri_price :: "decimal option"
  ri_ema_20 :: "decimal option"
  ri_ema_50 :: "decimal option"
  ri_ema_200 :: "decimal option"
  ri_ema_200_series :: "decimal option list"
  ri_atr_percentage :: "decimal option"
  ri_volatility :: "decimal option"

definition regime_inputs_of ::
    "'f float_ops \<Rightarrow> regime_detector \<Rightarrow> decimal list \<Rightarrow> decimal list \<Rightarrow> decimal list \<Rightarrow> string
     \<Rightarrow> regime_inputs result" where
  "regime_inputs_of fl rd closes highs lows timeframe =
     bind_result (calculate_ema_series closes (rd_ema_short_period rd)) (\<lambda>s20.
     bind_result (calculate_ema_series closes (rd_ema_medium_period rd)) (\<lambda>s50.
     bind_result (calculate_ema_series closes (rd_ema_long_period rd)) (\<lambda>s200.
     bind_result (calculate_atr highs lows closes (rd_atr_period rd)) (\<lambda>atr.
     bind_result (calculate_historical_volatility fl closes (rd_volatility_period rd) True timeframe)
       (\<lambda>volatility.
          let price = (if closes = [] then None else Some (last closes))
          in Inr \<lparr>ri_price = price, ri_ema_20 = last_value s20, ri_ema_50 = last_value s50,
                  ri_ema_200 = last_value s200, ri_ema_200_series = s200,
                  ri_atr_percentage =
                    (case (atr, price) of
                       (Some a, Some p) \<Rightarrow> if p \<noteq> 0 then Some (calculate_atr_percentage a p) else None
                     | _ \<Rightarrow> None),
                  ri_volatility = volatility\<rparr>)))))"

definition regime_result_of ::
    "regime_inputs \<Rightarrow> market_regime \<Rightarrow> decimal \<Rightarrow> regime_reason list \<Rightarrow> regime_result" where
  "regime_result_of ri regime confidence reasons =
     \<lparr>rr_regime = regime, rr_confidence = confidence, rr_reasons = reasons,
      rr_ema_20 = ri_ema_20 ri, rr_ema_50 = ri_ema_50 ri, rr_ema_200 = ri_ema_200 ri,
      rr_atr_percentage = ri_atr_percentage ri, rr_volatility = ri_volatility ri\<rparr>"

definition trend_confidence :: "decimal \<Rightarrow> decimal" where
  "trend_confidence distance = min (9 / 10) (dadd (1 / 2) (dmul distance 10))"

definition high_volatility :: "regime_detector \<Rightarrow> regime_inputs \<Rightarrow> bool" where
  "high_volatility rd ri \<longleftrightarrow>
     (case ri_volatility ri of
        None \<Rightarrow> False
      | Some v \<Rightarrow> calculate_volatility_regime v (3 / 10) (rd_high_volatility_threshold rd) = ''HIGH'')"

definition above_trend :: "regime_detector \<Rightarrow> regime_inputs \<Rightarrow> decimal \<Rightarrow> decimal \<Rightarrow> bool" where
  "above_trend rd ri ema_200 slope \<longleftrightarrow>
     (case (ri_price ri, ri_ema_50 ri) of
        (Some p, Some e) \<Rightarrow> ema_200 < p \<and> ema_200 < e \<and> rd_slope_threshold rd < slope
      | _ \<Rightarrow> False)"

definition below_trend :: "regime_detector \<Rightarrow> regime_inputs \<Rightarrow> decimal \<Rightarrow> decimal \<Rightarrow> bool" where
  "below_trend rd ri ema_200 slope \<longleftrightarrow>
     (case (ri_price ri, ri_ema_50 ri) of
        (Some p, Some e) \<Rightarrow> p < ema_200 \<and> e < ema_200 \<and> slope < dneg (rd_slope_threshold rd)
      | _ \<Rightarrow> False)"

definition classify_regime :: "regime_detector \<Rightarrow> regime_inputs \<Rightarrow> regime_result result" where
  "classify_regime rd ri =
     (if high_volatility rd ri
      then Inr (regime_result_of ri REGIME_HIGH_VOLATILITY (4 / 5)
                  [HighVolatilityReason (the (ri_volatility ri))])
      else (case ri_ema_200 ri of
        None \<Rightarrow> Inr (regime_result_of ri REGIME_UNKNOWN 0 [InsufficientEma200])
      | Some ema_200 \<Rightarrow>
          bind_result (calculate_ema_slope (ri_ema_200_series ri) 10)
            (\<lambda>slope. case slope of
               None \<Rightarrow> Inr (regime_result_of ri REGIME_UNKNOWN 0 [InsufficientSlopeHistory])
             | Some slope \<Rightarrow>
                 if above_trend rd ri ema_200 slope
                 then bind_result (ddiv_or_raise (dsub (the (ri_price ri)) ema_200) ema_200)
                   (\<lambda>distance. Inr (regime_result_of ri REGIME_TREND_UP (trend_confidence distance)
                      [PriceAboveEma (the (ri_price ri)) ema_200, EmaAboveEma (the (ri_ema_50 ri)) ema_200,
                       SlopeAbove slope]))
                 else if below_trend rd ri ema_200 slope
                 then bind_result (ddiv_or_raise (dsub ema_200 (the (ri_price ri))) ema_200)
                   (\<lambda>distance. Inr (regime_result_of ri REGIME_TREND_DOWN (trend_confidence distance)
                      [PriceBelowEma (the (ri_price ri)) ema_200, EmaBelowEma (the (ri_ema_50 ri)) ema_200,
                       SlopeBelow slope]))
                 else (case ri_ema_50 ri of
                   None \<Rightarrow> Inr (regime_result_of ri REGIME_RANGE (3 / 5) [NoClearTrend, SlopeNearZero slope])
                 | Some ema_50 \<Rightarrow>
                     bind_result (ddiv_or_raise (dabs (dsub ema_50 ema_200)) ema_200)
                       (\<lambda>ema_distance. Inr (regime_result_of ri REGIME_RANGE (3 / 5)
                          ([NoClearTrend, SlopeNearZero slope] @
                           (if ema_distance < rd_range_distance_threshold rd
                            then [EmasClose ema_distance] else []))))))))"

definition detect_regime ::
    "'f float_ops \<Rightarrow> regime_detector \<Rightarrow> decimal list \<Rightarrow> decimal list \<Rightarrow> decimal list \<Rightarrow> string
     \<Rightarrow> regime_result result" where
  "detect_regime fl rd closes highs lows timeframe =
     bind_result (regime_inputs_of fl rd closes highs lows timeframe) (classify_regime rd)"

section \<open>What a regime means\<close>

lemma trend_confidence_bounds:
  assumes "0 \<le> distance"
  shows "1 / 2 \<le> trend_confidence distance \<and> trend_confidence distance \<le> 9 / 10"
proof -
  have half: "rnd (1 / 2) = 1 / 2" using rnd_exact [of "1 / 2" 5 "-1"] by simp
  have "0 \<le> dmul distance 10" using assms by simp
  from dadd_mono [OF order_refl this, of "1 / 2"] half have "1 / 2 \<le> dadd (1 / 2) (dmul distance 10)"
    by (simp add: dadd_def)
  then show ?thesis by (simp add: trend_confidence_def)
qed

lemma trend_inputs:
  "above_trend rd ri e s \<or> below_trend rd ri e s \<Longrightarrow> \<exists>p m. ri_price ri = Some p \<and> ri_ema_50 ri = Some m"
  by (auto simp: above_trend_def below_trend_def split: option.splits)

lemma classify_regime_cases [consumes 1, case_names high unknown up down range]:
  assumes "classify_regime rd ri = Inr r"
  obtains "high_volatility rd ri" "rr_regime r = REGIME_HIGH_VOLATILITY" "rr_confidence r = 4 / 5"
  | "\<not> high_volatility rd ri" "rr_regime r = REGIME_UNKNOWN" "rr_confidence r = 0"
    "ri_ema_200 ri = None \<or> calculate_ema_slope (ri_ema_200_series ri) 10 = Inr None"
  | e s p where "\<not> high_volatility rd ri" "ri_ema_200 ri = Some e"
    "calculate_ema_slope (ri_ema_200_series ri) 10 = Inr (Some s)" "above_trend rd ri e s"
    "ri_price ri = Some p" "e \<noteq> 0" "rr_regime r = REGIME_TREND_UP"
    "rr_confidence r = trend_confidence (ddiv (dsub p e) e)"
  | e s p where "\<not> high_volatility rd ri" "ri_ema_200 ri = Some e"
    "calculate_ema_slope (ri_ema_200_series ri) 10 = Inr (Some s)" "\<not> above_trend rd ri e s"
    "below_trend rd ri e s" "ri_price ri = Some p" "e \<noteq> 0" "rr_regime r = REGIME_TREND_DOWN"
    "rr_confidence r = trend_confidence (ddiv (dsub e p) e)"
  | e s where "\<not> high_volatility rd ri" "ri_ema_200 ri = Some e"
    "calculate_ema_slope (ri_ema_200_series ri) 10 = Inr (Some s)" "\<not> above_trend rd ri e s"
    "\<not> below_trend rd ri e s" "rr_regime r = REGIME_RANGE" "rr_confidence r = 3 / 5"
proof (cases "high_volatility rd ri")
  case True
  with assms that(1) show ?thesis by (auto simp: classify_regime_def regime_result_of_def)
next
  case normal: False
  show ?thesis
  proof (cases "ri_ema_200 ri")
    case None
    with normal assms that(2) show ?thesis by (auto simp: classify_regime_def regime_result_of_def)
  next
    case (Some e)
    obtain slope where slope: "calculate_ema_slope (ri_ema_200_series ri) 10 = Inr slope"
      using assms normal Some by (auto simp: classify_regime_def)
    show ?thesis
    proof (cases slope)
      case None
      with normal assms that(2) Some slope show ?thesis
        by (auto simp: classify_regime_def regime_result_of_def)
    next
      case s: (Some s)
      consider "above_trend rd ri e s" | "\<not> above_trend rd ri e s" "below_trend rd ri e s"
        | "\<not> above_trend rd ri e s" "\<not> below_trend rd ri e s" by blast
      then show ?thesis
      proof cases
        case 1
        then obtain p where "ri_price ri = Some p" using trend_inputs by blast
        with 1 normal assms that(3) Some slope s show ?thesis
          by (auto simp: classify_regime_def regime_result_of_def bind_result_Inr_iff ddiv_or_raise_Inr_iff)
      next
        case 2
        then obtain p where "ri_price ri = Some p" using trend_inputs by blast
        with 2 normal assms that(4) Some slope s show ?thesis
          by (auto simp: classify_regime_def regime_result_of_def bind_result_Inr_iff ddiv_or_raise_Inr_iff)
      next
        case 3
        with normal assms that(5) Some slope s show ?thesis
          by (cases "ri_ema_50 ri")
            (auto simp: classify_regime_def regime_result_of_def bind_result_Inr_iff ddiv_or_raise_Inr_iff)
      qed
    qed
  qed
qed

text \<open>An uptrend and a downtrend exclude each other.\<close>

lemma above_not_below: "above_trend rd ri e s \<Longrightarrow> \<not> below_trend rd ri e s"
  by (auto simp: above_trend_def below_trend_def split: option.splits)

lemma classify_confidence:
  assumes "classify_regime rd ri = Inr r" "\<forall>e. ri_ema_200 ri = Some e \<longrightarrow> 0 < e"
  shows "0 \<le> rr_confidence r \<and> rr_confidence r \<le> 9 / 10 \<and>
     (rr_regime r \<in> {REGIME_TREND_UP, REGIME_TREND_DOWN} \<longrightarrow> 1 / 2 \<le> rr_confidence r)"
  using assms(1)
proof (cases rule: classify_regime_cases)
  case (up e s p)
  then have "0 \<le> ddiv (dsub p e) e" using assms(2) by (auto simp: above_trend_def split: option.splits)
  from trend_confidence_bounds [OF this] up show ?thesis by simp
next
  case (down e s p)
  then have "0 \<le> ddiv (dsub e p) e" using assms(2) by (auto simp: below_trend_def split: option.splits)
  from trend_confidence_bounds [OF this] down show ?thesis by simp
qed simp_all

text \<open>An exact description of the two trend regimes.\<close>

lemma trend_regimes_exact:
  assumes "classify_regime rd ri = Inr r"
  shows "(rr_regime r = REGIME_TREND_UP \<longleftrightarrow> \<not> high_volatility rd ri \<and>
        (\<exists>e s. ri_ema_200 ri = Some e \<and> calculate_ema_slope (ri_ema_200_series ri) 10 = Inr (Some s) \<and>
           above_trend rd ri e s)) \<and>
     (rr_regime r = REGIME_TREND_DOWN \<longleftrightarrow> \<not> high_volatility rd ri \<and>
        (\<exists>e s. ri_ema_200 ri = Some e \<and> calculate_ema_slope (ri_ema_200_series ri) 10 = Inr (Some s) \<and>
           below_trend rd ri e s))"
  using assms by (cases rule: classify_regime_cases) (auto dest: above_not_below)

end
