(* ===== verification/Walk_Forward.thy ===== *)
theory Walk_Forward
  imports Backtest
begin

text \<open>
  Walk-forward evaluation (\<open>app/backtest/walk_forward.py\<close>): the windows, the validation of the test
  candles and the run of a fresh backtest engine and a fresh strategy on every test window. What a
  fresh engine draws from outside (random numbers, identifiers, clock, risk engine) is the engine the
  caller supplies for the window.
\<close>

section \<open>Configuration and windows\<close>

record walk_forward_config =
  wf_train_days :: int
  wf_test_days :: int
  wf_step_days :: int
  wf_initial_balance :: decimal

definition check_walk_forward_config :: "walk_forward_config \<Rightarrow> walk_forward_config result" where
  "check_walk_forward_config cfg =
     (if wf_train_days cfg \<le> 0 then Inl (ValueError ''train_days must be > 0'')
      else if wf_test_days cfg \<le> 0 then Inl (ValueError ''test_days must be > 0'')
      else if wf_step_days cfg \<le> 0 then Inl (ValueError ''step_days must be > 0'')
      else if wf_initial_balance cfg \<le> 0 then Inl (ValueError ''initial_balance must be > 0'')
      else Inr cfg)"

definition default_walk_forward_config :: walk_forward_config where
  "default_walk_forward_config =
     \<lparr>wf_train_days = 180, wf_test_days = 60, wf_step_days = 60, wf_initial_balance = 500\<rparr>"

record walk_forward_window =
  wfw_index :: int
  wfw_train_start :: timestamp
  wfw_train_end :: timestamp
  wfw_test_start :: timestamp
  wfw_test_end :: timestamp

definition window_at_anchor :: "walk_forward_config \<Rightarrow> timestamp \<Rightarrow> int \<Rightarrow> walk_forward_window" where
  "window_at_anchor cfg anchor index =
     (let train_end = anchor + days (wf_train_days cfg)
      in \<lparr>wfw_index = index, wfw_train_start = anchor, wfw_train_end = train_end,
          wfw_test_start = train_end, wfw_test_end = train_end + days (wf_test_days cfg)\<rparr>)"

partial_function (option) window_loop ::
    "walk_forward_config \<Rightarrow> timestamp \<Rightarrow> timestamp \<Rightarrow> int \<Rightarrow> walk_forward_window list
     \<Rightarrow> walk_forward_window list option" where
  "window_loop cfg stop anchor index windows =
     (let w = window_at_anchor cfg anchor index
      in if stop < wfw_test_end w then Some windows
         else window_loop cfg stop (anchor + days (wf_step_days cfg)) (index + 1) (windows @ [w]))"

definition generate_walk_forward_windows ::
    "timestamp \<Rightarrow> timestamp \<Rightarrow> walk_forward_config \<Rightarrow> walk_forward_window list result option" where
  "generate_walk_forward_windows start stop cfg =
     (if stop \<le> start then Some (Inl (ValueError ''end must be greater than start''))
      else (case window_loop cfg stop start 1 [] of
              None \<Rightarrow> None
            | Some windows \<Rightarrow>
                Some (if windows = []
                      then Inl (ValueError ''Requested range is too short for one complete train/test walk-forward window'')
                      else Inr windows)))"

section \<open>Validation of the test candles\<close>

definition INTERVAL_SECONDS :: "int dict" where
  "INTERVAL_SECONDS =
     [(''5m'', 300), (''15m'', 900), (''1h'', 3600), (''4h'', 14400), (''1d'', 86400)]"

fun gaps_ok :: "int \<Rightarrow> timestamp list \<Rightarrow> bool" where
  "gaps_ok step (a # b # ts) = (b - a = seconds step \<and> gaps_ok step (b # ts))"
| "gaps_ok step _ = True"

definition validate_test_candles :: "candle list \<Rightarrow> string \<Rightarrow> walk_forward_window \<Rightarrow> unit result" where
  "validate_test_candles candles interval w =
     (case map_of INTERVAL_SECONDS interval of
        None \<Rightarrow> Inl (ValueError ''Unsupported interval'')
      | Some step \<Rightarrow>
          let expected = (wfw_test_end w - wfw_test_start w) div seconds step
          in if int (length candles) \<noteq> expected then Inl (ValueError ''Incomplete test window'')
             else if \<not> gaps_ok step (map cd_open_time candles)
             then Inl (ValueError ''Time gap in test window'') else Inr ())"

section \<open>The run\<close>

record walk_forward_window_result =
  wr_window :: walk_forward_window
  wr_candle_count :: nat
  wr_initial_balance :: decimal
  wr_final_equity :: decimal
  wr_total_pnl :: decimal
  wr_total_trades :: nat
  wr_winning_trades :: nat
  wr_losing_trades :: nat
  wr_win_rate :: decimal
  wr_profit_factor :: decimal
  wr_max_drawdown :: decimal

definition return_pct :: "walk_forward_window_result \<Rightarrow> decimal result" where
  "return_pct wr = ddiv_or_raise (wr_total_pnl wr) (wr_initial_balance wr)"

record walk_forward_result =
  wf_symbol :: string
  wf_interval :: string
  wf_config :: walk_forward_config
  wf_windows :: "walk_forward_window_result list"
  wf_total_oos_pnl :: decimal
  wf_profitable_windows :: nat
  wf_losing_windows :: nat
  wf_flat_windows :: int
  wf_total_oos_trades :: nat

definition profitable_window_rate :: "walk_forward_result \<Rightarrow> decimal" where
  "profitable_window_rate r =
     (let total = length (wf_windows r)
      in if total = 0 then 0 else ddiv (dec_of_nat (wf_profitable_windows r)) (dec_of_nat total))"

text \<open>
  \<open>candle["indicators"]\<close> raises on a candle without indicators, in the first step of the run; the
  engine of a window has a configuration that differs from the default in the balance and the seed.
\<close>

definition run_test_window ::
    "(nat \<Rightarrow> backtest_engine) \<Rightarrow> candle list \<Rightarrow> string \<Rightarrow> walk_forward_config
     \<Rightarrow> (string \<Rightarrow> 's bt_strategy \<times> 's) \<Rightarrow> nat \<Rightarrow> backtest_result result" where
  "run_test_window engines candles symbol cfg factory k =
     (if \<exists>c \<in> set candles. cd_indicators c = None then Inl (KeyError ''indicators'')
      else (case factory symbol of
              (strategy, s) \<Rightarrow>
                let be = engines k;
                    config = default_backtest_config\<lparr>bc_initial_balance := wf_initial_balance cfg\<rparr>;
                    be0 = be\<lparr>be_config := config, be_portfolio := new_portfolio (wf_initial_balance cfg)\<rparr>
                in bind_result
                     (run_backtest be0 candles strategy s (Some (\<lambda>c i. the (cd_indicators c))))
                     (\<lambda>(result, be', s'). Inr result)))"

definition test_candles :: "candle list \<Rightarrow> walk_forward_window \<Rightarrow> candle list" where
  "test_candles candles w =
     filter (\<lambda>c. wfw_test_start w \<le> cd_open_time c \<and> cd_open_time c < wfw_test_end w) candles"

definition window_result :: "walk_forward_config \<Rightarrow> walk_forward_window \<Rightarrow> nat \<Rightarrow> backtest_result
    \<Rightarrow> walk_forward_window_result" where
  "window_result cfg w n r =
     \<lparr>wr_window = w, wr_candle_count = n, wr_initial_balance = wf_initial_balance cfg,
      wr_final_equity = total_equity (br_portfolio r), wr_total_pnl = br_total_pnl r,
      wr_total_trades = br_total_trades r, wr_winning_trades = br_winning_trades r,
      wr_losing_trades = br_losing_trades r, wr_win_rate = br_win_rate r,
      wr_profit_factor = br_profit_factor r, wr_max_drawdown = br_max_drawdown r\<rparr>"

definition run_window ::
    "(nat \<Rightarrow> backtest_engine) \<Rightarrow> candle list \<Rightarrow> string \<Rightarrow> string \<Rightarrow> walk_forward_config
     \<Rightarrow> (string \<Rightarrow> 's bt_strategy \<times> 's) \<Rightarrow> nat \<times> walk_forward_window
     \<Rightarrow> walk_forward_window_result list \<Rightarrow> walk_forward_window_result list result" where
  "run_window engines candles symbol interval cfg factory kw results =
     (case kw of
        (k, w) \<Rightarrow>
          let test = test_candles candles w
          in bind_result (validate_test_candles test interval w)
               (\<lambda>_. bind_result (run_test_window engines test symbol cfg factory k)
                  (\<lambda>r. Inr (results @ [window_result cfg w (length test) r]))))"

definition summarise ::
    "string \<Rightarrow> string \<Rightarrow> walk_forward_config \<Rightarrow> walk_forward_window_result list \<Rightarrow> walk_forward_result" where
  "summarise symbol interval cfg results =
     (let profitable = length (filter (\<lambda>r. 0 < wr_total_pnl r) results);
          losing = length (filter (\<lambda>r. wr_total_pnl r < 0) results)
      in \<lparr>wf_symbol = symbol, wf_interval = interval, wf_config = cfg, wf_windows = results,
          wf_total_oos_pnl = dsum (map wr_total_pnl results), wf_profitable_windows = profitable,
          wf_losing_windows = losing,
          wf_flat_windows = int (length results) - int profitable - int losing,
          wf_total_oos_trades = sum_list (map wr_total_trades results)\<rparr>)"

definition run_fixed_parameter_walk_forward ::
    "(nat \<Rightarrow> backtest_engine) \<Rightarrow> candle list \<Rightarrow> string \<Rightarrow> string \<Rightarrow> timestamp \<Rightarrow> timestamp
     \<Rightarrow> walk_forward_config \<Rightarrow> (string \<Rightarrow> 's bt_strategy \<times> 's)
     \<Rightarrow> walk_forward_result result option" where
  "run_fixed_parameter_walk_forward engines candles symbol interval start stop cfg factory =
     map_option (\<lambda>windows. bind_result windows (\<lambda>ws.
         bind_result
           (fold_result (run_window engines candles symbol interval cfg factory)
              (zip [0..<length ws] ws) [])
           (\<lambda>results. Inr (summarise symbol interval cfg results))))
       (generate_walk_forward_windows start stop cfg)"

section \<open>The windows are all complete ones\<close>

definition window_count :: "walk_forward_config \<Rightarrow> timestamp \<Rightarrow> timestamp \<Rightarrow> nat" where
  "window_count cfg anchor stop =
     nat ((stop - anchor - days (wf_train_days cfg) - days (wf_test_days cfg))
            div days (wf_step_days cfg) + 1)"

lemma div_plus_one_nonpos: "0 < s \<Longrightarrow> x div s + 1 \<le> 0 \<longleftrightarrow> (x :: int) < 0"
  using pos_imp_zdiv_neg_iff [of s x] by linarith

lemma minus_div_self: "0 < s \<Longrightarrow> (x - s) div s = x div s - (1 :: int)"
  using div_mult_self1 [of s x "-1"] by simp

lemma window_count_0_iff:
  assumes "0 < wf_step_days cfg"
  shows "window_count cfg anchor stop = 0 \<longleftrightarrow> stop < wfw_test_end (window_at_anchor cfg anchor i)"
proof -
  have "0 < days (wf_step_days cfg)" using assms by (simp add: days_pos)
  from div_plus_one_nonpos [OF this] show ?thesis
    unfolding window_count_def nat_eq_iff2 window_at_anchor_def Let_def
    by (simp add: nat_le_iff algebra_simps)
qed

lemma window_count_less_iff:
  assumes "0 < wf_step_days cfg"
  shows "k < window_count cfg anchor stop \<longleftrightarrow>
     wfw_test_end (window_at_anchor cfg (anchor + int k * days (wf_step_days cfg)) i) \<le> stop"
proof -
  define x where "x = stop - anchor - days (wf_train_days cfg) - days (wf_test_days cfg)"
  define s where "s = days (wf_step_days cfg)"
  have s: "0 < s" using assms by (simp add: days_pos s_def)
  have "k < window_count cfg anchor stop \<longleftrightarrow> int k \<le> x div s"
    by (simp add: window_count_def x_def s_def) linarith
  also have "\<dots> \<longleftrightarrow> int k * s \<le> x"
  proof
    assume "int k \<le> x div s"
    then have "int k * s \<le> x div s * s" using s by simp
    also have "\<dots> \<le> x" using s by (metis div_mult_mod_eq le_add_same_cancel1 pos_mod_sign)
    finally show "int k * s \<le> x" .
  next
    assume "int k * s \<le> x"
    from zdiv_mono1 [OF this s] show "int k \<le> x div s" using s by simp
  qed
  finally show ?thesis by (auto simp: window_at_anchor_def Let_def x_def s_def)
qed

lemma window_count_step:
  assumes "0 < wf_step_days cfg" "\<not> stop < wfw_test_end (window_at_anchor cfg anchor i)"
  shows "window_count cfg anchor stop = Suc (window_count cfg (anchor + days (wf_step_days cfg)) stop)"
proof -
  define x where "x = stop - anchor - days (wf_train_days cfg) - days (wf_test_days cfg)"
  define s where "s = days (wf_step_days cfg)"
  have s: "0 < s" using assms(1) by (simp add: days_pos s_def)
  have x: "0 \<le> x" using assms(2) by (simp add: window_at_anchor_def Let_def x_def)
  then have "0 \<le> x div s" using s by (simp add: pos_imp_zdiv_nonneg_iff)
  moreover have "window_count cfg anchor stop = nat (x div s + 1)"
    by (simp add: window_count_def x_def s_def)
  moreover have "window_count cfg (anchor + s) stop = nat ((x - s) div s + 1)"
    by (simp add: window_count_def x_def s_def algebra_simps)
  ultimately show ?thesis by (simp add: minus_div_self [OF s] flip: s_def)
qed

lemma window_loop_exact:
  assumes "0 < wf_step_days cfg"
  shows "window_loop cfg stop anchor index windows = Some (windows @
     map (\<lambda>k. window_at_anchor cfg (anchor + int k * days (wf_step_days cfg)) (index + int k))
       [0..<window_count cfg anchor stop])"
proof (induction "window_count cfg anchor stop" arbitrary: anchor index windows)
  case 0
  then have "stop < wfw_test_end (window_at_anchor cfg anchor index)"
    using window_count_0_iff [OF assms] by metis
  with 0 show ?case by (subst window_loop.simps) simp
next
  case (Suc n)
  let ?a = "anchor + days (wf_step_days cfg)"
  have more: "\<not> stop < wfw_test_end (window_at_anchor cfg anchor index)"
    using Suc.hyps(2) window_count_0_iff [OF assms, of anchor stop index] by auto
  from window_count_step [OF assms more] Suc.hyps(2) have n: "n = window_count cfg ?a stop" by simp
  have upt: "[0..<Suc n] = 0 # map Suc [0..<n]" by (simp add: map_Suc_upt upt_conv_Cons del: upt_Suc)
  show ?case
    using more Suc.hyps(1) [OF n, of "index + 1" "windows @ [window_at_anchor cfg anchor index]"]
    unfolding Suc.hyps(2) [symmetric] upt
    by (subst window_loop.simps) (simp add: n [symmetric] comp_def algebra_simps)
qed

section \<open>The results are those of independent runs\<close>

lemma run_window_results:
  assumes "run_window engines candles symbol interval cfg factory (k, w) results = Inr results'"
  obtains r where "validate_test_candles (test_candles candles w) interval w = Inr ()"
    "run_test_window engines (test_candles candles w) symbol cfg factory k = Inr r"
    "results' = results @ [window_result cfg w (length (test_candles candles w)) r]"
  using assms by (auto simp: run_window_def Let_def bind_result_Inr_iff)

lemma run_windows_results:
  assumes "fold_result (run_window engines candles symbol interval cfg factory)
      (zip [k..<k + length ws] ws) results = Inr results'"
  shows "\<exists>new. results' = results @ new \<and> length new = length ws \<and>
     (\<forall>i < length ws. \<exists>r. validate_test_candles (test_candles candles (ws ! i)) interval (ws ! i) = Inr () \<and>
        run_test_window engines (test_candles candles (ws ! i)) symbol cfg factory (k + i) = Inr r \<and>
        new ! i = window_result cfg (ws ! i) (length (test_candles candles (ws ! i))) r)"
  using assms
proof (induction ws arbitrary: k results)
  case (Cons w ws)
  have zip: "zip [k..<k + length (w # ws)] (w # ws) = (k, w) # zip [Suc k..<Suc k + length ws] ws"
    by (simp add: upt_conv_Cons del: upt_Suc)
  obtain results1 where one: "run_window engines candles symbol interval cfg factory (k, w) results = Inr results1"
    and rest: "fold_result (run_window engines candles symbol interval cfg factory)
      (zip [Suc k..<Suc k + length ws] ws) results1 = Inr results'"
    using Cons.prems unfolding zip by (auto simp: bind_result_Inr_iff)
  obtain r where r: "validate_test_candles (test_candles candles w) interval w = Inr ()"
      "run_test_window engines (test_candles candles w) symbol cfg factory k = Inr r"
      "results1 = results @ [window_result cfg w (length (test_candles candles w)) r]"
    using run_window_results [OF one] by metis
  obtain new where new: "results' = results1 @ new" "length new = length ws"
      "\<forall>i < length ws. \<exists>r. validate_test_candles (test_candles candles (ws ! i)) interval (ws ! i) = Inr () \<and>
        run_test_window engines (test_candles candles (ws ! i)) symbol cfg factory (Suc k + i) = Inr r \<and>
        new ! i = window_result cfg (ws ! i) (length (test_candles candles (ws ! i))) r"
    using Cons.IH [OF rest] by blast
  let ?w = "window_result cfg w (length (test_candles candles w)) r"
  have "\<exists>r. validate_test_candles (test_candles candles ((w # ws) ! i)) interval ((w # ws) ! i) = Inr () \<and>
      run_test_window engines (test_candles candles ((w # ws) ! i)) symbol cfg factory (k + i) = Inr r \<and>
      (?w # new) ! i = window_result cfg ((w # ws) ! i) (length (test_candles candles ((w # ws) ! i))) r"
    if "i < length (w # ws)" for i
    using that r new(3) by (cases i) auto
  then show ?case
    using r(3) new(1,2) by (intro exI [of _ "?w # new"]) auto
qed simp

lemma gaps_ok_steps:
  "gaps_ok step ts \<Longrightarrow> i < length ts \<Longrightarrow> ts ! i = hd ts + seconds step * int i"
proof (induction ts arbitrary: i rule: induct_list012)
  case (3 x y zs)
  then show ?case by (cases i) (auto simp: algebra_simps)
qed auto

lemma validated_candles:
  assumes "validate_test_candles cs interval w = Inr ()"
  obtains step where "map_of INTERVAL_SECONDS interval = Some step"
    "int (length cs) = (wfw_test_end w - wfw_test_start w) div seconds step"
    "\<forall>i < length cs. cd_open_time (cs ! i) = cd_open_time (hd cs) + seconds step * int i"
proof -
  obtain step where step: "map_of INTERVAL_SECONDS interval = Some step"
      "int (length cs) = (wfw_test_end w - wfw_test_start w) div seconds step"
      "gaps_ok step (map cd_open_time cs)"
    using assms by (auto simp: validate_test_candles_def Let_def split: option.splits if_splits)
  have "cd_open_time (cs ! i) = cd_open_time (hd cs) + seconds step * int i" if "i < length cs" for i
  proof -
    have "cs \<noteq> []" using that by auto
    then show ?thesis using gaps_ok_steps [OF step(3), of i] that by (simp add: hd_map)
  qed
  with step that show ?thesis by blast
qed

text \<open>The candles of a validated test range start in its first slot.\<close>

lemma validated_first_slot:
  assumes "validate_test_candles (test_candles candles w) interval w = Inr ()"
    "map_of INTERVAL_SECONDS interval = Some step" "seconds step dvd wfw_test_end w - wfw_test_start w"
    "test_candles candles w \<noteq> []"
  shows "wfw_test_start w \<le> cd_open_time (hd (test_candles candles w)) \<and>
     cd_open_time (hd (test_candles candles w)) < wfw_test_start w + seconds step"
proof -
  let ?cs = "test_candles candles w"
  obtain step' where v: "map_of INTERVAL_SECONDS interval = Some step'"
      "int (length ?cs) = (wfw_test_end w - wfw_test_start w) div seconds step'"
      "\<forall>i < length ?cs. cd_open_time (?cs ! i) = cd_open_time (hd ?cs) + seconds step' * int i"
    by (rule validated_candles [OF assms(1)])
  have [simp]: "step' = step" using v(1) assms(2) by simp
  have inside: "\<forall>c \<in> set ?cs. wfw_test_start w \<le> cd_open_time c \<and> cd_open_time c < wfw_test_end w"
    by (auto simp: test_candles_def)
  let ?n = "length ?cs - 1"
  have "cd_open_time (?cs ! ?n) < wfw_test_end w" using inside assms(4) by simp
  then have "cd_open_time (hd ?cs) + seconds step * int ?n < wfw_test_end w" using v(3) assms(4) by simp
  moreover have "seconds step * int (length ?cs) = wfw_test_end w - wfw_test_start w"
    using v(2) assms(3) by simp
  moreover have "seconds step * int (length ?cs) = seconds step * int ?n + seconds step"
    using assms(4) by (simp add: Suc_le_eq of_nat_diff right_diff_distrib)
  ultimately have "cd_open_time (hd ?cs) < wfw_test_start w + seconds step" by linarith
  with inside assms(4) show ?thesis by simp
qed

lemma interval_divides_test_range:
  assumes "map_of INTERVAL_SECONDS interval = Some step"
  shows "0 < seconds step \<and> seconds step dvd days n"
proof -
  have "step \<in> {300, 900, 3600, 14400, 86400}"
    using assms by (auto simp: INTERVAL_SECONDS_def split: if_splits)
  then have "0 < step \<and> step dvd 86400" by auto
  then obtain k where "0 < step" "86400 = step * k" by (auto elim: dvdE)
  then have "0 < seconds step" "days n = seconds step * (k * n)" by (simp_all add: seconds_def days_def mult.commute)
  then show ?thesis by (metis dvd_triv_left)
qed

text \<open>A finished evaluation: its windows, each with its own run.\<close>

lemma run_fixed_results:
  assumes "run_fixed_parameter_walk_forward engines candles symbol interval start stop cfg factory = Some (Inr r)"
  obtains ws where "generate_walk_forward_windows start stop cfg = Some (Inr ws)"
    "r = summarise symbol interval cfg (wf_windows r)" "length (wf_windows r) = length ws"
    "\<forall>i < length ws. \<exists>b. validate_test_candles (test_candles candles (ws ! i)) interval (ws ! i) = Inr () \<and>
        run_test_window engines (test_candles candles (ws ! i)) symbol cfg factory i = Inr b \<and>
        wf_windows r ! i = window_result cfg (ws ! i) (length (test_candles candles (ws ! i))) b"
proof -
  obtain ws results where ws: "generate_walk_forward_windows start stop cfg = Some (Inr ws)"
    and results: "fold_result (run_window engines candles symbol interval cfg factory)
        (zip [0..<0 + length ws] ws) [] = Inr results"
    and r: "r = summarise symbol interval cfg results"
    using assms by (auto simp: run_fixed_parameter_walk_forward_def bind_result_Inr_iff)
  have "wf_windows r = results" by (simp add: r summarise_def Let_def)
  with ws r run_windows_results [OF results] that show ?thesis by simp
qed

lemma windows_of_generated:
  assumes "check_walk_forward_config cfg = Inr cfg" "generate_walk_forward_windows start stop cfg = Some (Inr ws)"
  shows "ws = map (\<lambda>k. window_at_anchor cfg (start + int k * days (wf_step_days cfg)) (1 + int k))
      [0..<window_count cfg start stop]"
proof -
  have "0 < wf_step_days cfg" using assms(1) by (simp add: check_walk_forward_config_def split: if_splits)
  from window_loop_exact [OF this] assms(2) show ?thesis
    by (auto simp: generate_walk_forward_windows_def split: if_splits)
qed

lemma validated_window:
  assumes "validate_test_candles (test_candles candles (window_at_anchor cfg anchor k)) interval
      (window_at_anchor cfg anchor k) = Inr ()" "0 < wf_test_days cfg"
  shows "\<exists>step. map_of INTERVAL_SECONDS interval = Some step \<and>
     int (length (test_candles candles (window_at_anchor cfg anchor k))) * seconds step = days (wf_test_days cfg) \<and>
     cd_open_time (hd (test_candles candles (window_at_anchor cfg anchor k))) <
       wfw_test_start (window_at_anchor cfg anchor k) + seconds step \<and>
     (\<forall>j < length (test_candles candles (window_at_anchor cfg anchor k)).
        cd_open_time (test_candles candles (window_at_anchor cfg anchor k) ! j) =
        cd_open_time (hd (test_candles candles (window_at_anchor cfg anchor k))) + seconds step * int j)"
proof -
  define w where "w = window_at_anchor cfg anchor k"
  have range: "wfw_test_end w - wfw_test_start w = days (wf_test_days cfg)"
    by (simp add: w_def window_at_anchor_def Let_def)
  note valid = assms(1) [folded w_def]
  obtain step where v: "map_of INTERVAL_SECONDS interval = Some step"
      "int (length (test_candles candles w)) = (wfw_test_end w - wfw_test_start w) div seconds step"
      "\<forall>i < length (test_candles candles w). cd_open_time (test_candles candles w ! i) =
         cd_open_time (hd (test_candles candles w)) + seconds step * int i"
    by (rule validated_candles [OF valid])
  note dvd = interval_divides_test_range [OF v(1), of "wf_test_days cfg"]
  have len: "int (length (test_candles candles w)) * seconds step = days (wf_test_days cfg)"
    using v(2) dvd range by simp
  moreover have "0 < days (wf_test_days cfg)" using assms(2) by (simp add: days_pos)
  ultimately have "test_candles candles w \<noteq> []" by auto
  from validated_first_slot [OF valid v(1) _ this] dvd range len v(1,3) show ?thesis
    unfolding w_def [symmetric] by auto
qed

end
