(* ===== verification/Paper_PnL.thy ===== *)
theory Paper_PnL
  imports Paper_Ledger
begin

text \<open>
  Profit and loss of paper trading: \<open>app/reporting/paper_pnl.py\<close> with its snapshot rows
  (\<open>app/models/paper_pnl_snapshot_state.py\<close>, stored by \<open>save_pnl_snapshot\<close> of
  \<open>app/database/paper_state_repository_pg.py\<close>).
\<close>

section \<open>The tracker\<close>

record pnl_record =
  pr_timestamp :: timestamp
  pr_equity :: decimal
  pr_realized_pnl :: decimal
  pr_unrealized_pnl :: decimal
  pr_total_pnl :: decimal
  pr_fees_paid :: decimal
  pr_slippage :: decimal
  pr_cash_balance :: decimal
  pr_position_value :: decimal

record equity_point =
  ep_timestamp :: timestamp
  ep_sequence :: int
  ep_equity :: decimal
  ep_drawdown :: decimal
  ep_drawdown_pct :: decimal

record trading_metrics =
  tm_total_realized_pnl :: decimal
  tm_total_unrealized_pnl :: decimal
  tm_total_fees :: decimal
  tm_total_slippage :: decimal
  tm_win_count :: nat
  tm_loss_count :: nat
  tm_total_trades :: nat
  tm_win_rate :: decimal
  tm_avg_win :: decimal
  tm_avg_loss :: decimal
  tm_profit_factor :: decimal
  tm_max_drawdown :: decimal
  tm_max_drawdown_pct :: decimal

definition empty_metrics :: trading_metrics where
  "empty_metrics =
     \<lparr>tm_total_realized_pnl = 0, tm_total_unrealized_pnl = 0, tm_total_fees = 0,
      tm_total_slippage = 0, tm_win_count = 0, tm_loss_count = 0, tm_total_trades = 0,
      tm_win_rate = 0, tm_avg_win = 0, tm_avg_loss = 0, tm_profit_factor = 0,
      tm_max_drawdown = 0, tm_max_drawdown_pct = 0\<rparr>"

record pnl_tracker =
  pt_initial_capital :: decimal
  pt_fee_rate :: decimal
  pt_pnl_records :: "pnl_record list"
  pt_equity_curve :: "equity_point list"
  pt_trade_pnl :: "decimal list"
  pt_fees_paid :: decimal
  pt_slippage_total :: decimal
  pt_peak_equity :: decimal

definition new_pnl_tracker :: "decimal \<Rightarrow> decimal \<Rightarrow> pnl_tracker" where
  "new_pnl_tracker initial_capital fee_rate =
     \<lparr>pt_initial_capital = initial_capital, pt_fee_rate = fee_rate, pt_pnl_records = [],
      pt_equity_curve = [], pt_trade_pnl = [], pt_fees_paid = 0, pt_slippage_total = 0,
      pt_peak_equity = initial_capital\<rparr>"

definition current_equity :: "pnl_tracker \<Rightarrow> decimal" where
  "current_equity pt =
     (if pt_pnl_records pt = [] then pt_initial_capital pt else pr_equity (last (pt_pnl_records pt)))"

definition current_drawdown :: "pnl_tracker \<Rightarrow> decimal" where
  "current_drawdown pt =
     (if pt_pnl_records pt = [] then 0 else max 0 (dsub (pt_peak_equity pt) (current_equity pt)))"

definition current_drawdown_pct :: "pnl_tracker \<Rightarrow> decimal" where
  "current_drawdown_pct pt =
     (if pt_peak_equity pt = 0 then 0
      else dmul (ddiv (current_drawdown pt) (pt_peak_equity pt)) 100)"

text \<open>The price provider on the engine: the close of its last candle, whatever the symbol.\<close>

definition engine_price :: "paper_engine \<Rightarrow> string \<Rightarrow> decimal option" where
  "engine_price pe symbol = map_option pc_close (pe_last_candle pe)"

section \<open>Realized profit and loss\<close>

record cost_tracker =
  ct_quantity :: decimal
  ct_avg_cost :: decimal
  ct_cost_basis :: decimal

definition empty_cost :: cost_tracker where
  "empty_cost = \<lparr>ct_quantity = 0, ct_avg_cost = 0, ct_cost_basis = 0\<rparr>"

record realized_state =
  rz_tracker :: "cost_tracker dict"
  rz_pnl :: decimal
  rz_trades :: "decimal list"

definition cost_of :: "realized_state \<Rightarrow> string \<Rightarrow> cost_tracker" where
  "cost_of rz symbol = (case map_of (rz_tracker rz) symbol of None \<Rightarrow> empty_cost | Some t \<Rightarrow> t)"

definition track_buy :: "decimal \<Rightarrow> decimal \<Rightarrow> cost_tracker \<Rightarrow> cost_tracker" where
  "track_buy qty price t =
     (let new_qty = dadd (ct_quantity t) qty; basis = dadd (ct_cost_basis t) (dmul qty price)
      in \<lparr>ct_quantity = new_qty,
          ct_avg_cost = (if 0 < new_qty then ddiv basis new_qty else ct_avg_cost t),
          ct_cost_basis = basis\<rparr>)"

definition track_sell :: "decimal \<Rightarrow> decimal \<Rightarrow> cost_tracker \<Rightarrow> (decimal \<times> cost_tracker) result" where
  "track_sell qty price t =
     (if ct_quantity t < qty then Inl (ValueError ''Sell quantity exceeds tracked position'')
      else
        (let new_qty = dsub (ct_quantity t) qty;
             trade_pnl = dsub (dmul qty price) (dmul qty (ct_avg_cost t))
         in Inr (trade_pnl,
              t\<lparr>ct_quantity := new_qty,
                ct_cost_basis := (if 0 < new_qty then dmul new_qty (ct_avg_cost t) else 0)\<rparr>)))"

definition track_fill :: "paper_order dict \<Rightarrow> paper_fill \<Rightarrow> realized_state \<Rightarrow> realized_state result" where
  "track_fill orders_by_id f rz =
     (case map_of orders_by_id (pf_order_id f) of
        None \<Rightarrow> Inl (ValueError ''Order not found for fill'')
      | Some o1 \<Rightarrow>
          let side = str_upper (side_value (po_order_side o1))
          in if side \<noteq> ''BUY'' \<and> side \<noteq> ''SELL'' then Inl (ValueError ''Unsupported order side'')
             else if side = ''BUY''
             then Inr (rz\<lparr>rz_tracker := AList.update (pf_symbol f)
                            (track_buy (pf_quantity f) (pf_price f) (cost_of rz (pf_symbol f)))
                            (rz_tracker rz)\<rparr>)
             else bind_result (track_sell (pf_quantity f) (pf_price f) (cost_of rz (pf_symbol f)))
               (\<lambda>(trade_pnl, t).
                  Inr (rz\<lparr>rz_tracker := AList.update (pf_symbol f) t (rz_tracker rz),
                          rz_pnl := dadd (rz_pnl rz) trade_pnl,
                          rz_trades := rz_trades rz @ [trade_pnl]\<rparr>)))"

definition track_fills :: "paper_fill list \<Rightarrow> paper_order list \<Rightarrow> realized_state result" where
  "track_fills fills orders =
     fold_result (track_fill (keyed po_order_id orders)) fills
       \<lparr>rz_tracker = [], rz_pnl = 0, rz_trades = []\<rparr>"

definition calculate_realized_pnl ::
    "paper_fill list \<Rightarrow> paper_order list \<Rightarrow> pnl_tracker \<Rightarrow> (decimal \<times> pnl_tracker) result" where
  "calculate_realized_pnl fills orders pt =
     bind_result (track_fills fills orders)
       (\<lambda>rz. Inr (rz_pnl rz, pt\<lparr>pt_trade_pnl := rz_trades rz\<rparr>))"

section \<open>Unrealized profit and loss, fees and slippage\<close>

definition calculate_unrealized_pnl :: "paper_position dict \<Rightarrow> (string \<Rightarrow> decimal option) \<Rightarrow> decimal" where
  "calculate_unrealized_pnl positions price =
     fold (\<lambda>(symbol, p) acc.
        if pp_quantity p = 0 then acc
        else (case price symbol of
                None \<Rightarrow> acc
              | Some c \<Rightarrow> dadd acc (dmul (dsub c (pp_average_price p)) (pp_quantity p)))) positions 0"

definition calculate_fees :: "paper_fill list \<Rightarrow> pnl_tracker \<Rightarrow> decimal \<times> pnl_tracker" where
  "calculate_fees fills pt =
     (let total = fold (\<lambda>f acc. dadd acc (dmul (dabs (dmul (pf_quantity f) (pf_price f))) (pt_fee_rate pt)))
                    fills 0
      in (total, pt\<lparr>pt_fees_paid := total\<rparr>))"

definition calculate_slippage_total ::
    "paper_fill list \<Rightarrow> decimal dict \<Rightarrow> pnl_tracker \<Rightarrow> decimal \<times> pnl_tracker" where
  "calculate_slippage_total fills expected_prices pt =
     (let total = fold (\<lambda>f acc.
            let expected = (case map_of expected_prices (pf_fill_id f) of
                              None \<Rightarrow> pf_price f | Some e \<Rightarrow> e)
            in dadd acc (dmul (dabs (dsub (pf_price f) expected)) (pf_quantity f))) fills 0
      in (total, pt\<lparr>pt_slippage_total := total\<rparr>))"

section \<open>Snapshots\<close>

definition position_values :: "paper_engine \<Rightarrow> decimal list" where
  "position_values pe =
     [dmul (pp_quantity p) price. (symbol, p) \<leftarrow> pe_positions pe, 0 < pp_quantity p,
        price \<leftarrow> (case engine_price pe symbol of None \<Rightarrow> [] | Some x \<Rightarrow> if x = 0 then [] else [x])]"

definition add_snapshot ::
    "timestamp \<Rightarrow> int \<Rightarrow> decimal \<Rightarrow> decimal \<Rightarrow> decimal \<Rightarrow> decimal \<Rightarrow> decimal \<Rightarrow> decimal \<Rightarrow> pnl_tracker
     \<Rightarrow> pnl_record \<times> pnl_tracker" where
  "add_snapshot t sequence realized unrealized total_pnl cash position_value equity pt =
     (let peak = (if pt_peak_equity pt < equity then equity else pt_peak_equity pt);
          drawdown = max 0 (dsub peak equity);
          drawdown_pct = (if 0 < peak then dmul (ddiv drawdown peak) 100 else 0);
          r = \<lparr>pr_timestamp = t, pr_equity = equity, pr_realized_pnl = realized,
               pr_unrealized_pnl = unrealized, pr_total_pnl = total_pnl, pr_fees_paid = pt_fees_paid pt,
               pr_slippage = pt_slippage_total pt, pr_cash_balance = cash,
               pr_position_value = position_value\<rparr>
      in (r, pt\<lparr>pt_peak_equity := peak, pt_pnl_records := pt_pnl_records pt @ [r],
                pt_equity_curve := pt_equity_curve pt @
                  [\<lparr>ep_timestamp = t, ep_sequence = sequence, ep_equity = equity,
                    ep_drawdown = drawdown, ep_drawdown_pct = drawdown_pct\<rparr>]\<rparr>))"

definition record_snapshot ::
    "timestamp \<Rightarrow> int \<Rightarrow> paper_engine option \<Rightarrow> decimal option \<Rightarrow> decimal option \<Rightarrow> pnl_tracker
     \<Rightarrow> pnl_record \<times> pnl_tracker" where
  "record_snapshot t sequence engine realized unrealized pt =
     (let rv = (case realized of None \<Rightarrow> 0 | Some x \<Rightarrow> x)
      in (case engine of
            Some pe \<Rightarrow>
              let uv = (case unrealized of
                          None \<Rightarrow> calculate_unrealized_pnl (pe_positions pe) (engine_price pe)
                        | Some x \<Rightarrow> x);
                  position_value = dsum (position_values pe)
              in add_snapshot t sequence rv uv (dadd rv uv) (pe_cash_balance pe) position_value
                   (dadd (pe_cash_balance pe) position_value) pt
          | None \<Rightarrow>
              let uv = (case unrealized of None \<Rightarrow> 0 | Some x \<Rightarrow> x); total = dadd rv uv
              in add_snapshot t sequence rv uv total (pt_initial_capital pt) 0
                   (dadd (pt_initial_capital pt) total) pt))"

section \<open>Metrics\<close>

definition calculate_metrics :: "pnl_tracker \<Rightarrow> trading_metrics" where
  "calculate_metrics pt =
     (let m = empty_metrics\<lparr>tm_total_fees := pt_fees_paid pt, tm_total_slippage := pt_slippage_total pt\<rparr>;
          trades = pt_trade_pnl pt
      in if trades = [] then m
         else
           (let wins = filter (\<lambda>p. 0 < p) trades; losses = filter (\<lambda>p. p < 0) trades;
                gross_profit = dsum wins; gross_loss = dabs (dsum losses)
            in m\<lparr>tm_win_count := length wins, tm_loss_count := length losses,
                 tm_total_trades := length trades,
                 tm_avg_win := (if wins = [] then 0 else ddiv (dsum wins) (dec_of_nat (length wins))),
                 tm_avg_loss :=
                   (if losses = [] then 0 else dabs (ddiv (dsum losses) (dec_of_nat (length losses)))),
                 tm_total_realized_pnl := dsum trades,
                 tm_win_rate := ddiv (dec_of_nat (length wins)) (dec_of_nat (length trades)),
                 tm_profit_factor :=
                   (if 0 < gross_loss then ddiv gross_profit gross_loss
                    else if 0 < gross_profit then 999 else 0),
                 tm_max_drawdown :=
                   (if pt_equity_curve pt = [] then 0
                    else Max (set (map ep_drawdown (pt_equity_curve pt)))),
                 tm_max_drawdown_pct :=
                   (if pt_equity_curve pt = [] then 0
                    else Max (set (map ep_drawdown_pct (pt_equity_curve pt))))\<rparr>))"

definition reset_tracker :: "pnl_tracker \<Rightarrow> pnl_tracker" where
  "reset_tracker pt = new_pnl_tracker (pt_initial_capital pt) (pt_fee_rate pt)"

section \<open>Snapshot rows\<close>

record pnl_snapshot =
  sn_timestamp :: timestamp
  sn_sequence :: int
  sn_equity :: decimal
  sn_realized_pnl :: decimal
  sn_unrealized_pnl :: decimal
  sn_total_pnl :: decimal
  sn_fees_paid :: decimal
  sn_slippage :: decimal
  sn_cash_balance :: decimal
  sn_position_value :: decimal
  sn_drawdown :: decimal
  sn_drawdown_pct :: decimal

definition validate_snapshot :: "pnl_snapshot \<Rightarrow> unit result" where
  "validate_snapshot sn =
     (if sn_sequence sn < 0 then Inl (ValueError ''Snapshot sequence cannot be negative'')
      else if sn_equity sn < 0 then Inl (ValueError ''Snapshot equity cannot be negative'')
      else if sn_fees_paid sn < 0 then Inl (ValueError ''Snapshot fees cannot be negative'')
      else if sn_drawdown sn < 0 \<or> sn_drawdown_pct sn < 0
      then Inl (ValueError ''Snapshot drawdown cannot be negative'') else Inr ())"

text \<open>\<open>ON CONFLICT (snapshot_time, sequence_no) DO UPDATE\<close>, and the ordered query.\<close>

definition snapshot_key :: "pnl_snapshot \<Rightarrow> timestamp \<times> int" where
  "snapshot_key sn = (sn_timestamp sn, sn_sequence sn)"

definition save_pnl_snapshot ::
    "pnl_snapshot \<Rightarrow> ((timestamp \<times> int) \<times> pnl_snapshot) list
     \<Rightarrow> ((timestamp \<times> int) \<times> pnl_snapshot) list result" where
  "save_pnl_snapshot sn table =
     bind_result (validate_snapshot sn) (\<lambda>_. Inr (AList.update (snapshot_key sn) sn table))"

definition load_pnl_snapshots :: "((timestamp \<times> int) \<times> pnl_snapshot) list \<Rightarrow> pnl_snapshot list" where
  "load_pnl_snapshots table =
     sort_key sn_timestamp (sort_key sn_sequence (map snd table))"

section \<open>The tracker agrees with the engine's ledger\<close>

lemma str_upper_side: "str_upper ''BUY'' = ''BUY''" "str_upper ''SELL'' = ''SELL''"
  by (simp_all add: str_upper_def upper_char_def)

lemma track_fill_BUY:
  "map_of orders (pf_order_id f) = Some o1 \<Longrightarrow> po_order_side o1 = BUY_SIDE \<Longrightarrow>
     track_fill orders f rz = Inr (rz\<lparr>rz_tracker := AList.update (pf_symbol f)
        (track_buy (pf_quantity f) (pf_price f) (cost_of rz (pf_symbol f))) (rz_tracker rz)\<rparr>)"
  by (simp add: track_fill_def str_upper_side Let_def)

lemma track_fill_SELL:
  "map_of orders (pf_order_id f) = Some o1 \<Longrightarrow> po_order_side o1 = SELL_SIDE \<Longrightarrow>
     track_fill orders f rz = bind_result
       (track_sell (pf_quantity f) (pf_price f) (cost_of rz (pf_symbol f)))
       (\<lambda>(trade_pnl, t). Inr (rz\<lparr>rz_tracker := AList.update (pf_symbol f) t (rz_tracker rz),
          rz_pnl := dadd (rz_pnl rz) trade_pnl, rz_trades := rz_trades rz @ [trade_pnl]\<rparr>))"
  by (simp add: track_fill_def str_upper_side Let_def)

lemma cost_of_update: "cost_of (rz\<lparr>rz_tracker := AList.update s t (rz_tracker rz)\<rparr>) s' =
    (if s' = s then t else cost_of rz s')"
  by (simp add: cost_of_def)

text \<open>One fill: where the engine's replay succeeds the tracker succeeds with the same quantity.\<close>

lemma track_fill_step:
  assumes "map_of orders (pf_order_id f) = Some o1"
    "apply_fill (po_order_side o1) (pf_quantity f) (pf_price f) (q, p) = Inr (q', p')"
    "ct_quantity (cost_of rz (pf_symbol f)) = q"
  shows "\<exists>rz'. track_fill orders f rz = Inr rz' \<and> ct_quantity (cost_of rz' (pf_symbol f)) = q' \<and>
     (\<forall>s. s \<noteq> pf_symbol f \<longrightarrow> cost_of rz' s = cost_of rz s)"
proof (cases "po_order_side o1")
  case BUY_SIDE
  then have "q' = dadd q (pf_quantity f)"
    using assms(2) by (auto simp: apply_fill_def Let_def bind_result_Inr_iff split: if_splits)
  then show ?thesis
    using BUY_SIDE assms(1,3)
    by (simp add: track_fill_BUY cost_of_update) (simp add: track_buy_def Let_def)
next
  case SELL_SIDE
  then have "\<not> q < pf_quantity f" "q' = dsub q (pf_quantity f)"
    using assms(2) by (auto simp: apply_fill_def Let_def split: if_splits)
  then show ?thesis
    using SELL_SIDE assms(1,3)
    by (simp add: track_fill_SELL track_sell_def Let_def cost_of_def)
qed

definition tracks :: "realized_state \<Rightarrow> (string \<Rightarrow> decimal \<times> decimal) \<Rightarrow> bool" where
  "tracks rz h \<longleftrightarrow> (\<forall>s. ct_quantity (cost_of rz s) = fst (h s))"

lemma track_replay:
  assumes "\<forall>s. fold_result (replay_fill orders s) fills (h s) = Inr (h' s)" "tracks rz h"
    "\<forall>f \<in> set fills. map_of orders (pf_order_id f) \<noteq> None"
  shows "\<exists>rz'. fold_result (track_fill orders) fills rz = Inr rz' \<and> tracks rz' h'"
  using assms
proof (induction fills arbitrary: h rz)
  case (Cons f fills)
  obtain o1 where o1: "map_of orders (pf_order_id f) = Some o1" using Cons.prems(3) by auto
  have "\<exists>x. replay_fill orders s f (h s) = Inr x \<and> fold_result (replay_fill orders s) fills x = Inr (h' s)" for s
    using Cons.prems(1) by (simp add: bind_result_Inr_iff)
  then obtain h1 where h1: "\<And>s. replay_fill orders s f (h s) = Inr (h1 s)"
      "\<And>s. fold_result (replay_fill orders s) fills (h1 s) = Inr (h' s)" by metis
  obtain q p q' p' where hs: "h (pf_symbol f) = (q, p)" "h1 (pf_symbol f) = (q', p')" by fastforce
  have "apply_fill (po_order_side o1) (pf_quantity f) (pf_price f) (q, p) = Inr (q', p')"
    using h1(1) [of "pf_symbol f"] hs o1 by (simp add: replay_fill.simps)
  moreover have "ct_quantity (cost_of rz (pf_symbol f)) = q" using Cons.prems(2) hs by (simp add: tracks_def)
  ultimately obtain rz1 where rz1: "track_fill orders f rz = Inr rz1"
      "ct_quantity (cost_of rz1 (pf_symbol f)) = q'" "\<forall>s. s \<noteq> pf_symbol f \<longrightarrow> cost_of rz1 s = cost_of rz s"
    using track_fill_step [OF o1] by blast
  have same: "h1 s = h s" if "s \<noteq> pf_symbol f" for s
    using h1(1) [of s] that by (simp add: replay_fill.simps)
  have "tracks rz1 h1"
    using Cons.prems(2) rz1(2,3) hs same unfolding tracks_def by (metis fst_conv)
  from Cons.IH [of h1, OF _ this] h1(2) Cons.prems(3) rz1(1) show ?case by simp
qed (simp add: tracks_def)

lemma track_engine_fills:
  assumes "paper_ok pe"
  shows "\<exists>rz. track_fills (map snd (pe_fills pe)) (map snd (pe_orders pe)) = Inr rz \<and>
     (\<forall>s. ct_quantity (cost_of rz s) = fst (held pe s))"
proof -
  have "keyed po_order_id (map snd (pe_orders pe)) = pe_orders pe"
    using assms by (intro keyed_self) (simp add: paper_ok_def)
  moreover have "\<forall>s. fold_result (replay_fill (pe_orders pe) s) (map snd (pe_fills pe)) (0, 0) = Inr (held pe s)"
    using assms by (simp add: paper_ok_def replay_def)
  moreover have "tracks \<lparr>rz_tracker = [], rz_pnl = 0, rz_trades = []\<rparr> (\<lambda>s. (0, 0))"
    by (simp add: tracks_def cost_of_def empty_cost_def)
  ultimately show ?thesis
    using track_replay [of "pe_orders pe" "map snd (pe_fills pe)" "\<lambda>s. (0, 0)" "held pe"] assms
    by (auto simp: track_fills_def tracks_def paper_ok_def)
qed

section \<open>The equity curve\<close>

lemma drawdown_pct_bounds:
  assumes "0 \<le> equity" "equity \<le> peak" "0 < peak"
  shows "0 \<le> dmul (ddiv (max 0 (dsub peak equity)) peak) 100 \<and>
     dmul (ddiv (max 0 (dsub peak equity)) peak) 100 \<le> 100 * (1 + 1 / 10 ^ 20)"
proof -
  define x where "x = max 0 (dsub peak equity)"
  have x: "0 \<le> x" by (simp add: x_def)
  have "dsub peak equity \<le> (peak - equity) * (1 + half_ulp)"
    unfolding dsub_def using assms(2) by (intro rnd_upper) simp
  also have "\<dots> \<le> peak * (1 + half_ulp)"
    using assms(1) half_ulp_bounds by (intro mult_right_mono) simp_all
  finally have "x \<le> peak * (1 + half_ulp)" using assms(3) half_ulp_bounds by (simp add: x_def)
  then have q: "x / peak \<le> 1 + half_ulp" using assms(3) by (simp add: field_simps)
  have "ddiv x peak \<le> x / peak * (1 + half_ulp)"
    unfolding ddiv_def using x assms(3) by (intro rnd_upper) simp
  also have "\<dots> \<le> (1 + half_ulp) * (1 + half_ulp)"
    using q half_ulp_bounds by (intro mult_right_mono) simp_all
  finally have d: "ddiv x peak \<le> (1 + half_ulp) * (1 + half_ulp)" .
  have dn: "0 \<le> ddiv x peak" using x assms(3) by simp
  have "dmul (ddiv x peak) 100 \<le> ddiv x peak * 100 * (1 + half_ulp)"
    unfolding dmul_def using dn by (intro rnd_upper) simp
  also have "\<dots> \<le> (1 + half_ulp) * (1 + half_ulp) * 100 * (1 + half_ulp)"
    using d half_ulp_bounds by (intro mult_right_mono) simp_all
  also have "\<dots> \<le> 100 * (1 + 1 / 10 ^ 20)" by (simp add: half_ulp_def)
  finally show ?thesis using dn by (simp add: x_def)
qed

text \<open>The highest equity up to and with the first points of a curve.\<close>

definition peak_of :: "decimal \<Rightarrow> equity_point list \<Rightarrow> decimal" where
  "peak_of capital points = foldl max capital (map ep_equity points)"

definition curve_ok :: "pnl_tracker \<Rightarrow> bool" where
  "curve_ok pt \<longleftrightarrow>
     pt_peak_equity pt = peak_of (pt_initial_capital pt) (pt_equity_curve pt) \<and>
     (\<forall>i < length (pt_equity_curve pt).
        ep_drawdown (pt_equity_curve pt ! i) =
          max 0 (dsub (peak_of (pt_initial_capital pt) (take (Suc i) (pt_equity_curve pt)))
                   (ep_equity (pt_equity_curve pt ! i)))) \<and>
     (\<forall>i < length (pt_equity_curve pt). 0 < pt_initial_capital pt \<longrightarrow>
        ep_drawdown_pct (pt_equity_curve pt ! i) =
          dmul (ddiv (ep_drawdown (pt_equity_curve pt ! i))
            (peak_of (pt_initial_capital pt) (take (Suc i) (pt_equity_curve pt)))) 100) \<and>
     map ep_equity (pt_equity_curve pt) = map pr_equity (pt_pnl_records pt)"

lemma foldl_max_ge: "c \<le> foldl max c xs" "x \<in> set xs \<Longrightarrow> x \<le> foldl max c xs" for c :: decimal
proof (induction xs arbitrary: c)
  case (Cons y ys)
  { case 1 show ?case using Cons(1) [of "max c y"] by simp }
  { case 2 then show ?case using Cons(1) [of "max c y"] Cons(2) [of "max c y"] by auto }
qed simp_all

lemma peak_of_ge: "capital \<le> peak_of capital points" "p \<in> set points \<Longrightarrow> ep_equity p \<le> peak_of capital points"
  by (simp_all add: peak_of_def foldl_max_ge)

lemma curve_ok_new: "curve_ok (new_pnl_tracker c r)"
  by (simp add: curve_ok_def new_pnl_tracker_def peak_of_def)

lemma add_snapshot_curve:
  assumes "curve_ok pt"
  shows "curve_ok (snd (add_snapshot t sq rv uv tp cash pv equity pt))"
proof -
  define peak where "peak = (if pt_peak_equity pt < equity then equity else pt_peak_equity pt)"
  define pct where "pct = (if 0 < peak then dmul (ddiv (max 0 (dsub peak equity)) peak) 100 else 0)"
  define point where "point = \<lparr>ep_timestamp = t, ep_sequence = sq, ep_equity = equity,
      ep_drawdown = max 0 (dsub peak equity), ep_drawdown_pct = pct\<rparr>"
  define c where "c = pt_equity_curve pt"
  have new: "pt_equity_curve (snd (add_snapshot t sq rv uv tp cash pv equity pt)) = c @ [point]"
      "pt_peak_equity (snd (add_snapshot t sq rv uv tp cash pv equity pt)) = peak"
      "pt_initial_capital (snd (add_snapshot t sq rv uv tp cash pv equity pt)) = pt_initial_capital pt"
      "map pr_equity (pt_pnl_records (snd (add_snapshot t sq rv uv tp cash pv equity pt))) =
         map pr_equity (pt_pnl_records pt) @ [equity]"
    by (simp_all add: add_snapshot_def Let_def point_def pct_def peak_def c_def)
  have peak: "peak = peak_of (pt_initial_capital pt) (c @ [point])"
    using assms by (auto simp: curve_ok_def peak_of_def peak_def point_def c_def max_def)
  have "ep_drawdown ((c @ [point]) ! i) =
      max 0 (dsub (peak_of (pt_initial_capital pt) (take (Suc i) (c @ [point]))) (ep_equity ((c @ [point]) ! i)))"
    if "i < length (c @ [point])" for i
  proof (cases "i < length c")
    case True
    then show ?thesis using assms by (simp add: curve_ok_def nth_append flip: c_def)
  next
    case False
    with that have "i = length c" by simp
    then show ?thesis by (simp flip: peak) (simp add: point_def)
  qed
  moreover have "ep_drawdown_pct ((c @ [point]) ! i) =
      dmul (ddiv (ep_drawdown ((c @ [point]) ! i)) (peak_of (pt_initial_capital pt) (take (Suc i) (c @ [point])))) 100"
    if "i < length (c @ [point])" "0 < pt_initial_capital pt" for i
  proof (cases "i < length c")
    case True
    then show ?thesis using assms that(2) by (simp add: curve_ok_def nth_append flip: c_def)
  next
    case False
    with that have "i = length c" by simp
    moreover have "0 < peak" using that(2) peak_of_ge(1) [of "pt_initial_capital pt" "c @ [point]"] peak by simp
    ultimately show ?thesis by (simp flip: peak) (simp add: point_def pct_def)
  qed
  moreover have "map ep_equity (c @ [point]) = map pr_equity (pt_pnl_records pt) @ [equity]"
    using assms by (simp add: curve_ok_def point_def c_def)
  ultimately show ?thesis
    unfolding curve_ok_def new using peak by blast
qed

lemma record_snapshot_curve: "curve_ok pt \<Longrightarrow> curve_ok (snd (record_snapshot t sq engine rv uv pt))"
  by (auto simp: record_snapshot_def Let_def add_snapshot_curve split: option.splits)

lemma curve_pct_bounds:
  assumes "curve_ok pt" "i < length (pt_equity_curve pt)" "0 \<le> ep_equity (pt_equity_curve pt ! i)"
    "0 < pt_initial_capital pt"
  shows "0 \<le> ep_drawdown_pct (pt_equity_curve pt ! i) \<and>
     ep_drawdown_pct (pt_equity_curve pt ! i) \<le> 100 * (1 + 1 / 10 ^ 20)"
proof -
  let ?c = "pt_equity_curve pt" and ?k = "pt_initial_capital pt"
  let ?peak = "peak_of ?k (take (Suc i) ?c)"
  have "?c ! i \<in> set (take (Suc i) ?c)" using assms(2) by (simp add: take_Suc_conv_app_nth)
  then have "ep_equity (?c ! i) \<le> ?peak" by (rule peak_of_ge(2))
  moreover have "0 < ?peak" using peak_of_ge(1) [of ?k "take (Suc i) ?c"] assms(4) by simp
  ultimately show ?thesis
    using drawdown_pct_bounds [of "ep_equity (?c ! i)" ?peak] assms by (simp add: curve_ok_def)
qed

text \<open>A run of snapshots: their time, sequence, engine and given profits.\<close>

definition record_all ::
    "(timestamp \<times> int \<times> paper_engine option \<times> decimal option \<times> decimal option) list \<Rightarrow> pnl_tracker
     \<Rightarrow> pnl_tracker" where
  "record_all snapshots pt =
     foldl (\<lambda>pt (t, sq, engine, rv, uv). snd (record_snapshot t sq engine rv uv pt)) pt snapshots"

lemma record_all_curve: "curve_ok pt \<Longrightarrow> curve_ok (record_all snapshots pt)"
  unfolding record_all_def
  by (induction snapshots arbitrary: pt) (auto simp: record_snapshot_curve)

lemma record_snapshot_capital [simp]:
  "pt_initial_capital (snd (record_snapshot t sq engine rv uv pt)) = pt_initial_capital pt"
  by (simp add: record_snapshot_def add_snapshot_def Let_def split: option.split)

lemma record_all_capital [simp]: "pt_initial_capital (record_all snapshots pt) = pt_initial_capital pt"
  unfolding record_all_def by (induction snapshots arbitrary: pt) auto

lemma record_all_length: "length (pt_equity_curve (record_all snapshots pt)) =
    length (pt_equity_curve pt) + length snapshots"
proof -
  have "length (pt_equity_curve (snd (record_snapshot t sq engine rv uv pt))) = Suc (length (pt_equity_curve pt))"
    for t sq engine rv uv and pt
    by (simp add: record_snapshot_def add_snapshot_def Let_def split: option.split)
  then show ?thesis
    unfolding record_all_def by (induction snapshots arbitrary: pt) auto
qed

end
