(* ===== verification/Properties_Research.thy ===== *)
theory Properties_Research
  imports Indicator_Facts Market_Regime Walk_Forward Paper_PnL Properties_Backtest Properties_Paper
begin

text \<open>
  The properties of the research side (indicators, regimes, walk-forward evaluation) and of the
  profit-and-loss tracker, with their witnesses.
\<close>

section \<open>Indicators\<close>

lemma calculate_rsi_None_iff:
  assumes "calculate_rsi prices period = Inr x"
  shows "x = None \<longleftrightarrow> length prices < period + 1"
  using assms by (fastforce simp: calculate_rsi_def bind_result_Inr_iff case_prod_beta split: if_splits)

lemma calculate_atr_None_iff:
  assumes "calculate_atr highs lows closes period = Inr x" "length lows = length highs"
    "length closes = length highs"
  shows "x = None \<longleftrightarrow> length highs < period + 1"
  using assms by (auto simp: calculate_atr_def too_short_def bind_result_Inr_iff split: if_splits)

text \<open>
  C28: The RSI series is the RSI of every prefix: its value at a candle is what the single-value function
  computes from the prices up to that candle, it is missing exactly for the first \<open>period\<close> candles, and
  it lies between 0 and 100.
\<close>

theorem rsi_series_is_pointwise:
  assumes "calculate_rsi_series prices period = Inr s" "0 < period" "i < length prices"
  shows "calculate_rsi (take (Suc i) prices) period = Inr (s ! i) \<and>
     (s ! i = None \<longleftrightarrow> i < period) \<and> (\<forall>r. s ! i = Some r \<longrightarrow> 0 \<le> r \<and> r \<le> 100)"
proof -
  note val = rsi_series_values [OF assms]
  from calculate_rsi_None_iff [OF this] assms(3) have "s ! i = None \<longleftrightarrow> i < period" by auto
  with val rsi_bounds show ?thesis by auto
qed

lemma rsi_series_is_pointwise_witness:
  "\<exists>s r. calculate_rsi_series [10, 12, 10] 1 = Inr s \<and> s ! 2 = Some r \<and> 0 \<le> r \<and> r \<le> 100 \<and> s ! 0 = None"
proof -
  obtain s where s: "calculate_rsi_series [10, 12, 10] 1 = Inr s"
    by (simp add: calculate_rsi_series_def first_averages_def later_changes_def gains_def losses_def
        price_changes_def mean_of_def py_sum_def averages_step_def wilder_step_def rsi_from_averages_def
        ddiv_or_raise_def upt_rec decimal_ops dec_of_nat_def dsum_def Let_def)
  from rsi_series_is_pointwise [OF s, of 2] rsi_series_is_pointwise [OF s, of 0]
  show ?thesis using s by auto
qed

text \<open>
  The ATR series is the ATR of every prefix: its value at a candle is what the single-value function
  computes from the candles up to it, it is missing exactly for the first \<open>period\<close> candles, and it is
  never negative when no low exceeds its high.
\<close>

theorem atr_series_is_pointwise:
  assumes "calculate_atr_series highs lows closes period = Inr s" "0 < period" "i < length highs"
    "length lows = length highs" "length closes = length highs"
  shows "calculate_atr (take (Suc i) highs) (take (Suc i) lows) (take (Suc i) closes) period = Inr (s ! i) \<and>
     (s ! i = None \<longleftrightarrow> i < period) \<and>
     ((\<forall>j \<le> i. lows ! j \<le> highs ! j) \<longrightarrow> (\<forall>a. s ! i = Some a \<longrightarrow> 0 \<le> a))"
proof -
  note val = atr_series_values [OF assms]
  from calculate_atr_None_iff [OF this] assms(3-5) have "s ! i = None \<longleftrightarrow> i < period" by auto
  moreover have "0 \<le> a" if "\<forall>j \<le> i. lows ! j \<le> highs ! j" "s ! i = Some a" for a
    using atr_nonneg [OF val [unfolded that(2)]] that(1) by simp
  ultimately show ?thesis using val by blast
qed

lemma atr_series_is_pointwise_witness:
  "\<exists>s. calculate_atr_series [11, 13, 12] [9, 11, 10] [10, 12, 11] 1 = Inr s \<and>
     calculate_atr [11, 13, 12] [9, 11, 10] [10, 12, 11] 1 = Inr (s ! 2) \<and> s ! 2 \<noteq> None"
proof -
  obtain s where s: "calculate_atr_series [11, 13, 12] [9, 11, 10] [10, 12, 11] 1 = Inr s"
    by (simp add: calculate_atr_series_def too_short_def true_ranges_def calculate_true_range_def
        mean_of_def py_sum_def wilder_step_def ddiv_or_raise_def upt_rec decimal_ops dec_of_nat_def dsum_def)
  from atr_series_is_pointwise [OF s, of 2] show ?thesis using s by simp
qed

text \<open>
  C29: On positive prices the rolling volatility series equals the volatility of every prefix, as its
  documentation claims: the value at a candle, a missing one included, is what the single-value
  function computes from the closes up to it.
\<close>

theorem volatility_series_is_pointwise:
  assumes "calculate_historical_volatility_series fl closes period annualize timeframe = Inr s"
    "\<forall>c \<in> set closes. 0 < c" "0 < period" "i < length closes"
    "\<forall>f. rnd (fl_to_decimal fl f) = fl_to_decimal fl f"
  shows "calculate_historical_volatility fl (take (Suc i) closes) period annualize timeframe = Inr (s ! i)"
  using assms by (rule volatility_series_values)

text \<open>A rational arithmetic for the floating point parameter.\<close>

definition ex_floats :: "rat float_ops" where
  "ex_floats =
     \<lparr>fl_log = (\<lambda>x. x - 1), fl_sqrt = (\<lambda>x. x), fl_of_decimal = (\<lambda>x. x), fl_to_decimal = rnd,
      fl_isclose = (=), fl_sum = sum_list, fl_sub = (-), fl_square = (\<lambda>x. x * x),
      fl_div_int = (\<lambda>x n. x / of_int n), fl_of_int = of_int\<rparr>"

lemma volatility_series_is_pointwise_witness:
  "\<exists>s. calculate_historical_volatility_series ex_floats [10, 20, 30] 2 False ''1h'' = Inr s \<and>
     calculate_historical_volatility ex_floats [10, 20, 30] 2 False ''1h'' = Inr (s ! 2)"
proof -
  obtain s where s: "calculate_historical_volatility_series ex_floats [10, 20, 30] 2 False ''1h'' = Inr s"
    by (simp add: calculate_historical_volatility_series_def)
  from volatility_series_is_pointwise [OF this, of 2] s show ?thesis
    by (simp add: ex_floats_def rnd_idem)
qed

section \<open>Market regimes\<close>

text \<open>
  The trend regimes are exact. Outside high volatility, with a long average and a slope, the detector
  reports an up-trend exactly when the close and the medium average are above the long one and the
  slope exceeds the threshold, a down-trend exactly in the mirrored case; its confidence lies between
  0 and 0.9, and from 0.5 for a trend.
\<close>

theorem regime_is_exact:
  assumes "detect_regime fl rd closes highs lows timeframe = Inr r"
    "regime_inputs_of fl rd closes highs lows timeframe = Inr ri"
    "\<forall>e. ri_ema_200 ri = Some e \<longrightarrow> 0 < e"
  shows "(rr_regime r = REGIME_TREND_UP \<longleftrightarrow> \<not> high_volatility rd ri \<and>
        (\<exists>e s. ri_ema_200 ri = Some e \<and> calculate_ema_slope (ri_ema_200_series ri) 10 = Inr (Some s) \<and>
           above_trend rd ri e s)) \<and>
     (rr_regime r = REGIME_TREND_DOWN \<longleftrightarrow> \<not> high_volatility rd ri \<and>
        (\<exists>e s. ri_ema_200 ri = Some e \<and> calculate_ema_slope (ri_ema_200_series ri) 10 = Inr (Some s) \<and>
           below_trend rd ri e s)) \<and>
     0 \<le> rr_confidence r \<and> rr_confidence r \<le> 9 / 10 \<and>
     (rr_regime r \<in> {REGIME_TREND_UP, REGIME_TREND_DOWN} \<longrightarrow> 1 / 2 \<le> rr_confidence r)"
proof -
  have "classify_regime rd ri = Inr r" using assms(1,2) by (simp add: detect_regime_def)
  from trend_regimes_exact [OF this] classify_confidence [OF this assms(3)] show ?thesis by blast
qed

definition ex_detector :: regime_detector where
  "ex_detector = default_regime_detector\<lparr>rd_ema_short_period := 1, rd_ema_medium_period := 1,
     rd_ema_long_period := 3\<rparr>"

definition ex_closes :: "decimal list" where
  "ex_closes = [1, 1, 1, 1, 1, 1, 1, 1, 1, 1, 1, 1, 9]"

lemmas ex_regime_simps =
  ex_detector_def ex_closes_def default_regime_detector_def regime_inputs_of_def calculate_ema_series_def
  mean_of_def ema_step_def ema_multiplier_def py_sum_def dsum_def ddiv_or_raise_def decimal_ops
  dec_of_nat_def calculate_atr_def too_short_def calculate_historical_volatility_def last_value_def
  classify_regime_def high_volatility_def calculate_ema_slope_def above_trend_def detect_regime_def
  regime_result_of_def Let_def

lemma regime_is_exact_witness:
  "\<exists>r. detect_regime ex_floats ex_detector ex_closes ex_closes ex_closes ''1h'' = Inr r \<and>
     rr_regime r = REGIME_TREND_UP \<and> 1 / 2 \<le> rr_confidence r"
proof -
  obtain ri where ri: "regime_inputs_of ex_floats ex_detector ex_closes ex_closes ex_closes ''1h'' = Inr ri"
      "\<forall>e. ri_ema_200 ri = Some e \<longrightarrow> 0 < e"
    by (simp add: ex_regime_simps)
  obtain r where r: "detect_regime ex_floats ex_detector ex_closes ex_closes ex_closes ''1h'' = Inr r"
      "rr_regime r = REGIME_TREND_UP"
    by (simp add: ex_regime_simps)
  from regime_is_exact [OF r(1) ri] r show ?thesis by blast
qed

section \<open>Walk-forward evaluation\<close>

text \<open>
  C18: The window generation returns for every accepted configuration, and with exactly the complete
  windows: the k-th starts k steps after the start, its test range follows its training range, and
  k ranges over all positions whose test range ends within the requested range.
\<close>

theorem walk_forward_windows_exact:
  assumes "check_walk_forward_config cfg = Inr cfg" "start < stop"
  shows "generate_walk_forward_windows start stop cfg =
     (if stop < start + days (wf_train_days cfg) + days (wf_test_days cfg)
      then Some (Inl (ValueError ''Requested range is too short for one complete train/test walk-forward window''))
      else Some (Inr (map (\<lambda>k. window_at_anchor cfg (start + int k * days (wf_step_days cfg)) (1 + int k))
             [0..<window_count cfg start stop]))) \<and>
     (\<forall>k. k < window_count cfg start stop \<longleftrightarrow>
        wfw_test_end (window_at_anchor cfg (start + int k * days (wf_step_days cfg)) (1 + int k)) \<le> stop)"
proof -
  have step: "0 < wf_step_days cfg" using assms(1) by (simp add: check_walk_forward_config_def split: if_splits)
  have zero: "window_count cfg start stop = 0 \<longleftrightarrow>
      stop < start + days (wf_train_days cfg) + days (wf_test_days cfg)"
    using window_count_0_iff [OF step, of start stop 1] by (simp add: window_at_anchor_def Let_def)
  show ?thesis
    using assms(2) window_loop_exact [OF step] window_count_less_iff [OF step] zero
    by (simp add: generate_walk_forward_windows_def)
qed

lemma walk_forward_windows_exact_witness:
  "generate_walk_forward_windows 0 (days 5)
     \<lparr>wf_train_days = 2, wf_test_days = 1, wf_step_days = 1, wf_initial_balance = 500\<rparr> =
     Some (Inr (map (\<lambda>k. window_at_anchor
        \<lparr>wf_train_days = 2, wf_test_days = 1, wf_step_days = 1, wf_initial_balance = 500\<rparr>
        (int k * days 1) (1 + int k)) [0..<3]))"
  using walk_forward_windows_exact
    [of "\<lparr>wf_train_days = 2, wf_test_days = 1, wf_step_days = 1, wf_initial_balance = 500\<rparr>" 0 "days 5"]
  by (simp add: check_walk_forward_config_def window_count_def days_def seconds_def)

text \<open>
  C10: A walk-forward evaluation is a sequence of independent out-of-sample runs. Every complete window has
  one result; it is that of a fresh engine run on the candles opened in the test range alone, which
  are complete: as many as the range has intervals, equally spaced from its first slot on. The summary
  adds the results up.
\<close>

theorem walk_forward_runs_are_independent:
  assumes "check_walk_forward_config cfg = Inr cfg"
    "run_fixed_parameter_walk_forward engines candles symbol interval start stop cfg factory = Some (Inr r)"
  shows "length (wf_windows r) = window_count cfg start stop \<and>
     (\<forall>i < window_count cfg start stop. \<exists>step b.
        let w = window_at_anchor cfg (start + int i * days (wf_step_days cfg)) (1 + int i);
            cs = test_candles candles w
        in map_of INTERVAL_SECONDS interval = Some step \<and>
           int (length cs) * seconds step = days (wf_test_days cfg) \<and>
           cd_open_time (hd cs) < wfw_test_start w + seconds step \<and>
           (\<forall>j < length cs. cd_open_time (cs ! j) = cd_open_time (hd cs) + seconds step * int j) \<and>
           run_test_window engines cs symbol cfg factory i = Inr b \<and>
           wf_windows r ! i = window_result cfg w (length cs) b) \<and>
     wf_total_oos_pnl r = dsum (map wr_total_pnl (wf_windows r)) \<and>
     int (wf_profitable_windows r) + int (wf_losing_windows r) + wf_flat_windows r = int (length (wf_windows r))"
proof -
  obtain ws where gen: "generate_walk_forward_windows start stop cfg = Some (Inr ws)"
    and r: "r = summarise symbol interval cfg (wf_windows r)" "length (wf_windows r) = length ws"
    and each: "\<forall>i < length ws. \<exists>b. validate_test_candles (test_candles candles (ws ! i)) interval (ws ! i) = Inr () \<and>
        run_test_window engines (test_candles candles (ws ! i)) symbol cfg factory i = Inr b \<and>
        wf_windows r ! i = window_result cfg (ws ! i) (length (test_candles candles (ws ! i))) b"
    by (rule run_fixed_results [OF assms(2)])
  from windows_of_generated [OF assms(1) gen]
  have ws: "ws = map (\<lambda>k. window_at_anchor cfg (start + int k * days (wf_step_days cfg)) (1 + int k))
      [0..<window_count cfg start stop]" .
  have test: "0 < wf_test_days cfg" using assms(1) by (simp add: check_walk_forward_config_def split: if_splits)
  have "\<exists>step b. let w = window_at_anchor cfg (start + int i * days (wf_step_days cfg)) (1 + int i);
            cs = test_candles candles w
        in map_of INTERVAL_SECONDS interval = Some step \<and>
           int (length cs) * seconds step = days (wf_test_days cfg) \<and>
           cd_open_time (hd cs) < wfw_test_start w + seconds step \<and>
           (\<forall>j < length cs. cd_open_time (cs ! j) = cd_open_time (hd cs) + seconds step * int j) \<and>
           run_test_window engines cs symbol cfg factory i = Inr b \<and>
           wf_windows r ! i = window_result cfg w (length cs) b"
    if "i < window_count cfg start stop" for i
    using each that validated_window [OF _ test] unfolding Let_def ws by (simp add: Let_def)
  moreover have "wf_total_oos_pnl r = dsum (map wr_total_pnl (wf_windows r)) \<and>
     int (wf_profitable_windows r) + int (wf_losing_windows r) + wf_flat_windows r = int (length (wf_windows r))"
    by (subst (1 3 4 5) r(1)) (simp add: summarise_def Let_def)
  ultimately show ?thesis using r(2) by (simp add: ws)
qed

definition ex_walk_forward :: walk_forward_config where
  "ex_walk_forward = \<lparr>wf_train_days = 1, wf_test_days = 1, wf_step_days = 1, wf_initial_balance = 5000\<rparr>"

definition ex_daily :: "candle list" where
  "ex_daily = [(ex_bt_candle (days 1) 100)\<lparr>cd_indicators := Some no_indicators\<rparr>]"

lemma ex_walk_forward_checked: "check_walk_forward_config ex_walk_forward = Inr ex_walk_forward"
  by (simp add: check_walk_forward_config_def ex_walk_forward_def)

lemma ex_walk_forward_runs:
  "\<exists>r. run_fixed_parameter_walk_forward (\<lambda>k. ex_backtest) ex_daily ''BTCUSDT'' ''1d'' 0 (days 2)
     ex_walk_forward (\<lambda>s. (ex_legacy, False)) = Some (Inr r)"
proof -
  have windows: "generate_walk_forward_windows 0 (days 2) ex_walk_forward =
      Some (Inr [window_at_anchor ex_walk_forward 0 1])"
    by (simp add: generate_walk_forward_windows_def window_loop_exact window_count_def ex_walk_forward_def
        days_def seconds_def)
  have test: "test_candles ex_daily (window_at_anchor ex_walk_forward 0 1) = ex_daily"
    by (simp add: test_candles_def ex_daily_def window_at_anchor_def ex_walk_forward_def ex_bt_candle_def
        days_def seconds_def Let_def)
  have valid: "validate_test_candles ex_daily ''1d'' (window_at_anchor ex_walk_forward 0 1) = Inr ()"
    by (simp add: validate_test_candles_def INTERVAL_SECONDS_def ex_daily_def window_at_anchor_def
        ex_walk_forward_def days_def seconds_def Let_def)
  have "\<exists>b. run_test_window (\<lambda>k. ex_backtest) ex_daily ''BTCUSDT'' ex_walk_forward (\<lambda>s. (ex_legacy, False)) 0 = Inr b"
    by (simp add: run_test_window_def ex_daily_def default_backtest_config_def ex_walk_forward_def ex_run_simps)
  with windows test valid show ?thesis
    by (auto simp: run_fixed_parameter_walk_forward_def run_window_def Let_def)
qed

lemma walk_forward_runs_are_independent_witness:
  "\<exists>r. run_fixed_parameter_walk_forward (\<lambda>k. ex_backtest) ex_daily ''BTCUSDT'' ''1d'' 0 (days 2)
       ex_walk_forward (\<lambda>s. (ex_legacy, False)) = Some (Inr r) \<and> length (wf_windows r) = 1 \<and>
     wf_total_oos_pnl r = dsum (map wr_total_pnl (wf_windows r))"
proof -
  obtain r where r: "run_fixed_parameter_walk_forward (\<lambda>k. ex_backtest) ex_daily ''BTCUSDT'' ''1d'' 0 (days 2)
       ex_walk_forward (\<lambda>s. (ex_legacy, False)) = Some (Inr r)"
    using ex_walk_forward_runs by blast
  have "window_count ex_walk_forward 0 (days 2) = 1"
    by (simp add: window_count_def ex_walk_forward_def days_def seconds_def)
  with walk_forward_runs_are_independent [OF ex_walk_forward_checked r] r show ?thesis by auto
qed

section \<open>Profit and loss of the paper engine\<close>

text \<open>
  C22: The profit-and-loss tracker agrees with the engine: on the fills and orders of any state the engine
  reaches, computing the realized profit never raises, and the quantities the tracker is left with
  are those of the engine's positions, symbol by symbol.
\<close>

theorem pnl_tracker_follows_engine:
  assumes "paper_run (new_paper_engine (Some empty_store)) pe"
  shows "\<exists>rz. track_fills (map snd (pe_fills pe)) (map snd (pe_orders pe)) = Inr rz \<and>
     (\<forall>s. ct_quantity (cost_of rz s) = fst (held pe s)) \<and>
     calculate_realized_pnl (map snd (pe_fills pe)) (map snd (pe_orders pe)) pt =
       Inr (rz_pnl rz, pt\<lparr>pt_trade_pnl := rz_trades rz\<rparr>)"
proof -
  have "paper_ok pe"
    using paper_run_ok [OF assms paper_ok_new stored_new] by (simp add: new_paper_engine_def)
  from track_engine_fills [OF this] show ?thesis by (auto simp: calculate_realized_pnl_def)
qed

lemma pnl_tracker_follows_engine_witness:
  "\<exists>pe rz. paper_run ex_paper pe \<and> fst (held pe ''BTCUSDT'') = 2 \<and>
     track_fills (map snd (pe_fills pe)) (map snd (pe_orders pe)) = Inr rz \<and>
     ct_quantity (cost_of rz ''BTCUSDT'') = 2"
proof -
  obtain res pe where run: "execute_request Properties_Paper.ex_buy (Some 100) (ex_context ''a'' ''f'') ex_paper = Inr (res, pe)"
      "fst (held pe ''BTCUSDT'') = 2"
    using ex_buy_runs by auto
  have "paper_run ex_paper pe" by (rule run_execute [OF run_start ex_fresh_ids run(1)])
  with pnl_tracker_follows_engine [of pe] run(2) show ?thesis unfolding ex_paper_def by metis
qed

text \<open>
  C30: The equity curve is exact: after any run of snapshots there is one point per snapshot, the peak is the
  running maximum of the initial capital and the recorded equities, each drawdown is the distance of its point
  from the peak reached by then, and a point's drawdown percentage lies between 0 and 100 (up to
  rounding) whenever its equity is not negative.
\<close>

theorem equity_curve_tracks_peak:
  assumes "pt = record_all snapshots (new_pnl_tracker capital fee_rate)"
  shows "length (pt_equity_curve pt) = length snapshots \<and>
     pt_peak_equity pt = peak_of capital (pt_equity_curve pt) \<and>
     map ep_equity (pt_equity_curve pt) = map pr_equity (pt_pnl_records pt) \<and>
     (\<forall>i < length snapshots.
        ep_drawdown (pt_equity_curve pt ! i) =
          max 0 (dsub (peak_of capital (take (Suc i) (pt_equity_curve pt))) (ep_equity (pt_equity_curve pt ! i))) \<and>
        (0 \<le> ep_equity (pt_equity_curve pt ! i) \<and> 0 < capital \<longrightarrow>
          0 \<le> ep_drawdown_pct (pt_equity_curve pt ! i) \<and>
          ep_drawdown_pct (pt_equity_curve pt ! i) \<le> 100 * (1 + 1 / 10 ^ 20)))"
proof -
  have len: "length (pt_equity_curve pt) = length snapshots"
    using record_all_length [of snapshots "new_pnl_tracker capital fee_rate"] assms
    by (simp add: new_pnl_tracker_def)
  have cap: "pt_initial_capital pt = capital" by (simp add: assms) (simp add: new_pnl_tracker_def)
  have ok: "curve_ok pt" by (simp add: assms record_all_curve curve_ok_new)
  with len cap curve_pct_bounds [OF ok] show ?thesis by (simp add: curve_ok_def)
qed

lemma equity_curve_tracks_peak_witness:
  "\<exists>pt. pt = record_all [(0, 1, None, Some 250, None), (1, 2, None, Some 0, None)]
       (new_pnl_tracker 1000 (1 / 1000)) \<and>
     pt_peak_equity pt = 1250 \<and> map ep_drawdown (pt_equity_curve pt) = [0, 250]"
proof -
  define pt where "pt = record_all [(0, 1, None, Some 250, None), (1, 2, None, Some 0, None)]
       (new_pnl_tracker 1000 (1 / 1000))"
  have equity: "map ep_equity (pt_equity_curve pt) = [1250, 1000]"
    by (simp add: pt_def record_all_def record_snapshot_def add_snapshot_def new_pnl_tracker_def
        decimal_ops Let_def)
  from equity_curve_tracks_peak [OF pt_def]
  have "pt_peak_equity pt = peak_of 1000 (pt_equity_curve pt)" by simp
  also have "\<dots> = 1250" by (simp add: peak_of_def equity)
  finally have "pt_peak_equity pt = 1250" .
  moreover have "map ep_drawdown (pt_equity_curve pt) = [0, 250]"
    by (simp add: pt_def record_all_def record_snapshot_def add_snapshot_def new_pnl_tracker_def
        decimal_ops Let_def)
  ultimately show ?thesis by (intro exI [of _ pt] conjI pt_def) assumption+
qed

end
