(* ===== verification/Breakout_Retest_V2.thy ===== *)
theory Breakout_Retest_V2
  imports Backtest_Audit
begin

text \<open>
  \<open>BreakoutRetestV2Strategy\<close>, \<open>app/strategies/breakout_retest_v2.py\<close>: the breakout strategy with a
  failure watch, entered at most once per position when an aged position closes below both short
  averages and its breakout level, and left by a recovery or, after its last bar, by a close signal.
  The per-symbol dictionary is an extension of that of the base class; the strings the code stores for
  times and decimals are kept as times and decimals.
\<close>

section \<open>Configuration and state\<close>

definition FAILURE_DETECTION_AGE_BARS :: int where
  "FAILURE_DETECTION_AGE_BARS = 24"

definition FAILURE_WATCH_MAX_BARS :: int where
  "FAILURE_WATCH_MAX_BARS = 24"

datatype position_phase = NORMAL_POSITION | FAILURE_WATCH

record transition_event =
  te_event :: string
  te_timestamp :: timestamp
  te_strategy :: string
  te_parameters_version :: string
  te_metadata :: "meta_value dict"

record v2_symbol_state = br_symbol_state +
  vs_position_state :: "position_phase option"
  vs_entry_fill_time :: "timestamp option"
  vs_entry_price :: "decimal option"
  vs_breakout_level :: "decimal option"
  vs_age_bars :: int
  vs_last_position_time :: "timestamp option"
  vs_watch_used :: bool
  vs_watch_start_time :: "timestamp option"
  vs_watch_bars :: int
  vs_trigger_close :: "decimal option"
  vs_trigger_ema20 :: "decimal option"
  vs_trigger_ema50 :: "decimal option"
  vs_trigger_breakout_level :: "decimal option"
  vs_resolution :: "string option"
  vs_resolution_time :: "timestamp option"
  vs_transition_events :: "transition_event list"

definition new_v2_symbol_state :: v2_symbol_state where
  "new_v2_symbol_state =
     \<lparr>bs_phase = IDLE, bs_breakout = None, bs_recent_highs = [], bs_last_observed_time = None,
      bs_last_prior_resistance = None, vs_position_state = None, vs_entry_fill_time = None,
      vs_entry_price = None, vs_breakout_level = None, vs_age_bars = 0, vs_last_position_time = None,
      vs_watch_used = False, vs_watch_start_time = None, vs_watch_bars = 0, vs_trigger_close = None,
      vs_trigger_ema20 = None, vs_trigger_ema50 = None, vs_trigger_breakout_level = None,
      vs_resolution = None, vs_resolution_time = None, vs_transition_events = []\<rparr>"

record breakout_retest_v2 = "unit v2_symbol_state_ext breakout_retest" +
  v2_detection_age_bars :: int
  v2_watch_max_bars :: int

definition new_breakout_retest_v2 ::
    "dca_config \<Rightarrow> nat \<Rightarrow> int \<Rightarrow> int \<Rightarrow> int \<Rightarrow> int \<Rightarrow> string list \<Rightarrow> breakout_retest_v2 result" where
  "new_breakout_retest_v2 cfg lookback timeout detection_age watch_max episodes symbols =
     (if lookback \<noteq> RESISTANCE_LOOKBACK_BARS
      then Inl (ValueError ''resistance_lookback_bars is frozen at 20 for v2'')
      else if timeout \<noteq> RETEST_TIMEOUT_BARS
      then Inl (ValueError ''retest_timeout_bars is frozen at 24 for v2'')
      else if detection_age \<noteq> FAILURE_DETECTION_AGE_BARS
      then Inl (ValueError ''failure_detection_age_bars is frozen at 24 for v2'')
      else if watch_max \<noteq> FAILURE_WATCH_MAX_BARS
      then Inl (ValueError ''failure_watch_max_bars is frozen at 24 for v2'')
      else if episodes \<noteq> 1
      then Inl (ValueError ''max_failure_watch_episodes_per_position is frozen at 1 for v2'')
      else Inr \<lparr>td_name = ''BreakoutRetestV2'', td_config = cfg, td_dca_levels = [],
             td_trailing_highs = [], br_resistance_lookback_bars = lookback,
             br_retest_timeout_bars = timeout,
             br_state = br_fresh_states new_v2_symbol_state symbols,
             v2_detection_age_bars = detection_age, v2_watch_max_bars = watch_max\<rparr>)"

abbreviation v2_state :: "breakout_retest_v2 \<Rightarrow> string \<Rightarrow> v2_symbol_state" where
  "v2_state \<equiv> symbol_state new_v2_symbol_state"

section \<open>Position management\<close>

definition append_event ::
    "breakout_retest_v2 \<Rightarrow> string \<Rightarrow> timestamp \<Rightarrow> meta_value dict \<Rightarrow> v2_symbol_state \<Rightarrow> v2_symbol_state" where
  "append_event v event t meta ss =
     ss\<lparr>vs_transition_events := vs_transition_events ss @
         [\<lparr>te_event = event, te_timestamp = t, te_strategy = td_name v,
           te_parameters_version = dc_parameters_version (td_config v), te_metadata = meta\<rparr>]\<rparr>"

definition clear_watch_fields :: "v2_symbol_state \<Rightarrow> v2_symbol_state" where
  "clear_watch_fields ss =
     ss\<lparr>vs_watch_start_time := None, vs_watch_bars := 0, vs_trigger_close := None,
        vs_trigger_ema20 := None, vs_trigger_ema50 := None, vs_trigger_breakout_level := None\<rparr>"

definition reset_position_management :: "v2_symbol_state \<Rightarrow> v2_symbol_state" where
  "reset_position_management ss =
     (clear_watch_fields
        (ss\<lparr>vs_position_state := None, vs_entry_fill_time := None, vs_entry_price := None,
            vs_breakout_level := None, vs_age_bars := 0, vs_last_position_time := None,
            vs_watch_used := False\<rparr>))\<lparr>vs_resolution := None, vs_resolution_time := None\<rparr>"

definition observe_position_candle :: "timestamp \<Rightarrow> v2_symbol_state \<Rightarrow> bool \<times> v2_symbol_state" where
  "observe_position_candle t ss =
     (if vs_last_position_time ss = Some t then (False, ss)
      else (True, ss\<lparr>vs_last_position_time := Some t, vs_age_bars := vs_age_bars ss + 1\<rparr>))"

definition hard_exit_resolution :: "string \<Rightarrow> string" where
  "hard_exit_resolution reason =
     (case map_of [(''Regime changed to TREND_DOWN'', ''TREND_DOWN''),
                   (''Max holding period reached'', ''MAX_HOLDING''),
                   (''Trailing stop hit'', ''TRAILING''),
                   (''Take profit hit'', ''TAKE_PROFIT''),
                   (''Stop loss hit'', ''STOP_LOSS'')] reason of
        None \<Rightarrow> ''HARD_EXIT:'' @ reason
      | Some r \<Rightarrow> r)"

definition mark_watch_hard_exit ::
    "breakout_retest_v2 \<Rightarrow> signal \<Rightarrow> timestamp \<Rightarrow> v2_symbol_state \<Rightarrow> v2_symbol_state" where
  "mark_watch_hard_exit v g t ss =
     (if vs_position_state ss \<noteq> Some FAILURE_WATCH then ss
      else
        (let resolution = hard_exit_resolution (sig_reason g)
         in append_event v (''FAILURE_WATCH_RESOLVED_BY_'' @ resolution) t
              [(''reason'', MStr (sig_reason g))]
              (ss\<lparr>vs_resolution := Some resolution, vs_resolution_time := Some t\<rparr>)))"

definition build_watch_timeout_signal ::
    "breakout_retest_v2 \<Rightarrow> string \<Rightarrow> candle \<Rightarrow> indicators \<Rightarrow> position_state \<Rightarrow> v2_symbol_state \<Rightarrow> signal" where
  "build_watch_timeout_signal v u c ind po ss =
     close_signal v u c ind po (cd_close c) ''Failure watch timeout without structural recovery''
       [(''position_age_bars'', MInt (vs_age_bars ss)), (''failure_watch_bars'', MInt (vs_watch_bars ss)),
        (''failure_watch_start_time'', case vs_watch_start_time ss of None \<Rightarrow> MNone | Some t \<Rightarrow> MTime t),
        (''breakout_level'', case vs_breakout_level ss of None \<Rightarrow> MNone | Some l \<Rightarrow> MDec l),
        (''exit_source'', MStr ''failure_watch_timeout'')]"

section \<open>Entry\<close>

definition v2_should_enter ::
    "breakout_retest_v2 \<Rightarrow> string \<Rightarrow> candle \<Rightarrow> indicators \<Rightarrow> portfolio_state
     \<Rightarrow> (signal option \<times> breakout_retest_v2) result" where
  "v2_should_enter v u c ind ps =
     (let ss = v2_state v (cd_symbol c);
          v' = (if \<not> ps_has_position ps \<and> vs_position_state ss \<noteq> None
                then put_symbol_state (cd_symbol c) (reset_position_management ss) v else v)
      in br_should_enter new_v2_symbol_state v' u c ind ps)"

section \<open>Exit\<close>

text \<open>A bar of a normal position: the watch starts, or nothing happens.\<close>

definition normal_bar ::
    "breakout_retest_v2 \<Rightarrow> candle \<Rightarrow> indicators \<Rightarrow> v2_symbol_state \<Rightarrow> v2_symbol_state result" where
  "normal_bar v c ind ss =
     (if vs_watch_used ss then Inr ss
      else if vs_age_bars ss < v2_detection_age_bars v then Inr ss
      else (case (ema_20 ind, ema_50 ind) of
              (Some ema20, Some ema50) \<Rightarrow>
                (case vs_breakout_level ss of
                   None \<Rightarrow> Inl (ValueError ''Open v2 position is missing position_breakout_level'')
                 | Some level \<Rightarrow>
                     if level \<le> 0 then Inl (ValueError ''position_breakout_level must be positive'')
                     else
                       (let close = cd_close c; t = cd_open_time c
                        in if close < ema20 \<and> close < ema50 \<and> close < level
                           then Inr (append_event v ''FAILURE_WATCH_STARTED'' t
                             [(''position_age_bars'', MInt (vs_age_bars ss)), (''close'', MDec close),
                              (''ema20'', MDec ema20), (''ema50'', MDec ema50),
                              (''breakout_level'', MDec level),
                              (''regime'', case regime ind of None \<Rightarrow> MNone | Some r \<Rightarrow> MStr r)]
                             (ss\<lparr>vs_position_state := Some FAILURE_WATCH, vs_watch_used := True,
                                 vs_watch_start_time := Some t, vs_watch_bars := 0,
                                 vs_trigger_close := Some close, vs_trigger_ema20 := Some ema20,
                                 vs_trigger_ema50 := Some ema50,
                                 vs_trigger_breakout_level := Some level,
                                 vs_resolution := None, vs_resolution_time := None\<rparr>))
                           else Inr ss))
            | _ \<Rightarrow> Inr ss))"

definition watch_recovered ::
    "candle \<Rightarrow> indicators \<Rightarrow> v2_symbol_state \<Rightarrow> bool result" where
  "watch_recovered c ind ss =
     (case (ema_20 ind, ema_50 ind) of
        (Some ema20, Some ema50) \<Rightarrow>
          (case vs_breakout_level ss of
             None \<Rightarrow> Inl (ValueError ''FAILURE_WATCH is missing position_breakout_level'')
           | Some level \<Rightarrow> Inr (ema20 \<le> cd_close c \<and> ema50 \<le> cd_close c \<and> level \<le> cd_close c))
      | _ \<Rightarrow> Inr False)"

definition watch_bar ::
    "breakout_retest_v2 \<Rightarrow> string \<Rightarrow> candle \<Rightarrow> indicators \<Rightarrow> position_state \<Rightarrow> v2_symbol_state
     \<Rightarrow> (signal option \<times> v2_symbol_state) result" where
  "watch_bar v u c ind po ss =
     (let t = cd_open_time c; ss1 = ss\<lparr>vs_watch_bars := vs_watch_bars ss + 1\<rparr>
      in bind_result (watch_recovered c ind ss1)
           (\<lambda>recovered.
              if recovered
              then Inr (None,
                (append_event v ''FAILURE_WATCH_RECOVERED'' t [(''failure_watch_bars'', MInt (vs_watch_bars ss1))]
                   (ss1\<lparr>vs_position_state := Some NORMAL_POSITION, vs_resolution := Some ''RECOVERED'',
                        vs_resolution_time := Some t\<rparr>))\<lparr>vs_watch_bars := 0\<rparr>)
              else if v2_watch_max_bars v \<le> vs_watch_bars ss1
              then Inr (Some (build_watch_timeout_signal v u c ind po ss1),
                if vs_resolution ss1 \<noteq> Some ''TIMEOUT_SIGNAL''
                then append_event v ''FAILURE_WATCH_TIMEOUT_SIGNAL'' t
                       [(''failure_watch_bars'', MInt (vs_watch_bars ss1))]
                       (ss1\<lparr>vs_resolution := Some ''TIMEOUT_SIGNAL'', vs_resolution_time := Some t\<rparr>)
                else ss1)
              else Inr (None, ss1)))"

definition v2_should_exit ::
    "breakout_retest_v2 \<Rightarrow> string \<Rightarrow> candle \<Rightarrow> indicators \<Rightarrow> position_state
     \<Rightarrow> (signal option \<times> breakout_retest_v2) result" where
  "v2_should_exit v u c ind po =
     (let symbol = cd_symbol c; t = cd_open_time c
      in bind_result (br_should_exit new_v2_symbol_state v u c ind po)
           (\<lambda>(hard_exit, v1).
              let ss = v2_state v1 symbol
              in (case hard_exit of
                    Some g \<Rightarrow> Inr (Some g, put_symbol_state symbol (mark_watch_hard_exit v1 g t ss) v1)
                  | None \<Rightarrow>
                      (case vs_position_state ss of
                         None \<Rightarrow> Inl (ValueError ''Open portfolio position has no v2 position-management state'')
                       | Some phase \<Rightarrow>
                           (case observe_position_candle t ss of
                              (False, ss1) \<Rightarrow> Inr (None, v1)
                            | (True, ss1) \<Rightarrow>
                                (case phase of
                                   NORMAL_POSITION \<Rightarrow>
                                     bind_result (normal_bar v1 c ind ss1)
                                       (\<lambda>ss2. Inr (None, put_symbol_state symbol ss2 v1))
                                 | FAILURE_WATCH \<Rightarrow>
                                     bind_result (watch_bar v1 u c ind po ss1)
                                       (\<lambda>(g, ss2). Inr (g, put_symbol_state symbol ss2 v1))))))))"

section \<open>Additions and fills\<close>

definition v2_should_add_dca ::
    "breakout_retest_v2 \<Rightarrow> string \<Rightarrow> candle \<Rightarrow> indicators \<Rightarrow> position_state
     \<Rightarrow> (signal option \<times> breakout_retest_v2) result" where
  "v2_should_add_dca v u c ind po = Inr (None, snd (observe_candle new_v2_symbol_state v c))"

text \<open>\<open>_as_decimal\<close> on a metadata value; a text that is no number raises.\<close>

definition entry_level :: "signal \<Rightarrow> decimal result" where
  "entry_level g =
     (case map_of (sig_metadata g) ''breakout_level'' of
        None \<Rightarrow> Inl (ValueError ''Breakout Retest v2 entry fill is missing breakout_level metadata'')
      | Some MNone \<Rightarrow> Inl (ValueError ''Breakout Retest v2 entry fill is missing breakout_level metadata'')
      | Some (MDec level) \<Rightarrow> Inr level
      | Some (MInt n) \<Rightarrow> Inr (of_int n)
      | Some _ \<Rightarrow> Inl (ValueError ''InvalidOperation''))"

definition v2_on_fill :: "breakout_retest_v2 \<Rightarrow> signal \<Rightarrow> fill \<Rightarrow> breakout_retest_v2 result" where
  "v2_on_fill v g f =
     bind_result (br_on_fill v g f)
       (\<lambda>v1.
          let symbol = sig_symbol g; ss = v2_state v1 symbol
          in if fill_side f = ''buy''
             then bind_result (entry_level g)
               (\<lambda>level.
                  if level \<le> 0 then Inl (ValueError ''breakout_level must be positive'')
                  else Inr (put_symbol_state symbol
                    (append_event v1 ''POSITION_NORMAL_STARTED'' (fill_timestamp f)
                       [(''entry_price'', MDec (fill_price f)), (''breakout_level'', MDec level)]
                       ((reset_position_management ss)\<lparr>vs_position_state := Some NORMAL_POSITION,
                          vs_entry_fill_time := Some (fill_timestamp f),
                          vs_entry_price := Some (fill_price f), vs_breakout_level := Some level,
                          vs_age_bars := 0, vs_watch_used := False\<rparr>)) v1))
             else if fill_side f = ''sell''
             then Inr (put_symbol_state symbol
               (reset_position_management
                  (append_event v1 ''POSITION_CLOSED'' (fill_timestamp f)
                     [(''reason'', MStr (sig_reason g)), (''fill_price'', MDec (fill_price f))] ss)) v1)
             else Inr v1)"

definition breakout_retest_v2_strategy :: "breakout_retest_v2 strategy" where
  "breakout_retest_v2_strategy =
     \<lparr>st_should_enter = v2_should_enter, st_should_exit = v2_should_exit,
      st_should_add_dca = Some v2_should_add_dca, st_on_fill = v2_on_fill\<rparr>"

section \<open>What the base class leaves alone\<close>

text \<open>The operations of the base class keep the fields a subclass adds.\<close>

abbreviation base_more :: "'b br_symbol_state_scheme \<Rightarrow> 'b" where
  "base_more \<equiv> br_symbol_state.more"

lemma more_observe_high: "observe_high n t h ss = (r, ss') \<Longrightarrow> base_more ss' = base_more ss"
  by (auto simp: observe_high_def Let_def split: if_splits)

lemma more_observe_candle:
  assumes "observe_candle fresh br c = (r, br')"
  shows "base_more (symbol_state fresh br' s) = base_more (symbol_state fresh br s)"
  using observe_candle_state [OF assms] more_observe_high by fastforce

lemma more_clear [simp]: "base_more (clear_breakout ss) = base_more ss"
  by (simp add: clear_breakout_def)

lemma more_idle [simp]: "base_more (idle_candle p ss c ind ps) = base_more ss"
  by (auto simp: idle_candle_def Let_def split: option.splits)

lemma more_armed: "armed_candle br ss u c ind ps = Inr (r, ss') \<Longrightarrow> base_more ss' = base_more ss"
  by (auto simp: armed_candle_def Let_def bind_result_Inr_iff split: if_splits option.splits)

lemma more_should_enter:
  assumes "br_should_enter fresh br u c ind ps = Inr (r, br')"
  shows "base_more (symbol_state fresh br' s) = base_more (symbol_state fresh br s)"
  using assms
proof (cases rule: br_should_enter_cases)
  case (armed p br1 ss')
  then show ?thesis using more_observe_candle [OF armed(1)] more_armed [OF armed(3)] by simp
next
  case (idle p br1)
  then show ?thesis using more_observe_candle [OF idle(1)] by simp
qed

lemma more_should_exit:
  assumes "br_should_exit fresh br u c ind po = Inr (r, br')"
  shows "base_more (symbol_state fresh br' s) = base_more (symbol_state fresh br s)"
proof -
  obtain x br1 where o: "observe_candle fresh br c = (x, br1)" by force
  with assms have "trend_should_exit br1 u c ind po = Inr (r, br')" by (simp add: br_should_exit_def)
  then have "br_state br' = br_state br1"
    using trend_should_exit_keeps br_fields_cong by blast
  with more_observe_candle [OF o, of s] show ?thesis by (simp add: symbol_state_def)
qed

lemma more_on_fill:
  assumes "br_on_fill br g f = Inr br'"
  shows "symbol_state fresh br' s = symbol_state fresh br s"
  using assms by (auto simp: br_on_fill_def symbol_state_def)

lemma v2_fields_cong:
  "base_more ss' = base_more ss \<Longrightarrow>
     vs_position_state ss' = vs_position_state ss \<and> vs_breakout_level ss' = vs_breakout_level ss \<and>
     vs_age_bars ss' = vs_age_bars ss \<and> vs_last_position_time ss' = vs_last_position_time ss \<and>
     vs_watch_used ss' = vs_watch_used ss \<and> vs_watch_bars ss' = vs_watch_bars ss \<and>
     vs_resolution ss' = vs_resolution ss \<and> vs_transition_events ss' = vs_transition_events ss"
  by (cases ss; cases ss') simp

section \<open>The invariant of the failure watch\<close>

definition event_count :: "string \<Rightarrow> v2_symbol_state \<Rightarrow> nat" where
  "event_count event ss = length (filter (\<lambda>e. te_event e = event) (vs_transition_events ss))"

definition vs_ok :: "v2_symbol_state \<Rightarrow> bool" where
  "vs_ok ss \<longleftrightarrow>
     (vs_position_state ss = Some FAILURE_WATCH \<longrightarrow> vs_watch_used ss) \<and>
     (vs_position_state ss \<noteq> None \<longrightarrow> (\<exists>level. vs_breakout_level ss = Some level \<and> 0 < level)) \<and>
     (vs_position_state ss \<noteq> Some FAILURE_WATCH \<longrightarrow> vs_watch_bars ss = 0) \<and> 0 \<le> vs_watch_bars ss \<and>
     event_count ''FAILURE_WATCH_STARTED'' ss +
       (if vs_position_state ss \<noteq> None \<and> \<not> vs_watch_used ss then 1 else 0)
       \<le> event_count ''POSITION_NORMAL_STARTED'' ss"

definition v2_ok :: "breakout_retest_v2 \<Rightarrow> bool" where
  "v2_ok v \<longleftrightarrow> br_ok new_v2_symbol_state v \<and> (\<forall>s. vs_ok (v2_state v s))"

lemma vs_ok_cong: "base_more ss' = base_more ss \<Longrightarrow> vs_ok ss' = vs_ok ss"
  by (drule v2_fields_cong) (simp add: vs_ok_def event_count_def)

lemma append_event_simps [simp]:
  "bs_phase (append_event v e t m ss) = bs_phase ss"
  "bs_breakout (append_event v e t m ss) = bs_breakout ss"
  "bs_recent_highs (append_event v e t m ss) = bs_recent_highs ss"
  "vs_position_state (append_event v e t m ss) = vs_position_state ss"
  "vs_breakout_level (append_event v e t m ss) = vs_breakout_level ss"
  "vs_watch_used (append_event v e t m ss) = vs_watch_used ss"
  "vs_watch_bars (append_event v e t m ss) = vs_watch_bars ss"
  "event_count k (append_event v e t m ss) = event_count k ss + (if e = k then 1 else 0)"
  by (simp_all add: append_event_def event_count_def)

lemma reset_simps [simp]:
  "bs_phase (reset_position_management ss) = bs_phase ss"
  "bs_breakout (reset_position_management ss) = bs_breakout ss"
  "bs_recent_highs (reset_position_management ss) = bs_recent_highs ss"
  "vs_position_state (reset_position_management ss) = None"
  "vs_watch_used (reset_position_management ss) = False"
  "vs_watch_bars (reset_position_management ss) = 0"
  "event_count k (reset_position_management ss) = event_count k ss"
  by (simp_all add: reset_position_management_def clear_watch_fields_def event_count_def)

lemma event_count_update [simp]:
  "event_count k (ss\<lparr>vs_position_state := a\<rparr>) = event_count k ss"
  "event_count k (ss\<lparr>vs_watch_bars := i\<rparr>) = event_count k ss"
  "event_count k (ss\<lparr>vs_age_bars := j\<rparr>) = event_count k ss"
  "event_count k (ss\<lparr>vs_last_position_time := b\<rparr>) = event_count k ss"
  "event_count k (ss\<lparr>vs_watch_used := w\<rparr>) = event_count k ss"
  "event_count k (ss\<lparr>vs_resolution := x\<rparr>) = event_count k ss"
  "event_count k (ss\<lparr>vs_resolution_time := c\<rparr>) = event_count k ss"
  "event_count k (ss\<lparr>vs_entry_fill_time := d\<rparr>) = event_count k ss"
  "event_count k (ss\<lparr>vs_entry_price := e\<rparr>) = event_count k ss"
  "event_count k (ss\<lparr>vs_breakout_level := f\<rparr>) = event_count k ss"
  "event_count k (ss\<lparr>vs_watch_start_time := g\<rparr>) = event_count k ss"
  "event_count k (ss\<lparr>vs_trigger_close := p\<rparr>) = event_count k ss"
  "event_count k (ss\<lparr>vs_trigger_ema20 := q\<rparr>) = event_count k ss"
  "event_count k (ss\<lparr>vs_trigger_ema50 := r\<rparr>) = event_count k ss"
  "event_count k (ss\<lparr>vs_trigger_breakout_level := u\<rparr>) = event_count k ss"
  by (simp_all add: event_count_def)

text \<open>A management step keeps the fields of the base class.\<close>

definition same_setup :: "v2_symbol_state \<Rightarrow> v2_symbol_state \<Rightarrow> bool" where
  "same_setup ss' ss \<longleftrightarrow>
     bs_phase ss' = bs_phase ss \<and> bs_breakout ss' = bs_breakout ss \<and> bs_recent_highs ss' = bs_recent_highs ss"

lemma v2_ok_put:
  assumes "v2_ok v" "same_setup ss' (v2_state v s)" "vs_ok ss'"
  shows "v2_ok (put_symbol_state s ss' v)"
proof -
  have "ss_ok (br_resistance_lookback_bars v) (br_retest_timeout_bars v) ss'"
    using assms(1,2) by (simp add: v2_ok_def br_ok_def same_setup_def ss_ok_def)
  with assms(1,3) show ?thesis by (auto simp: v2_ok_def intro: br_ok_put)
qed

lemma vs_ok_reset: "vs_ok ss \<Longrightarrow> vs_ok (reset_position_management ss)"
  by (auto simp: vs_ok_def split: if_splits)

lemma same_setup_reset: "same_setup (reset_position_management ss) ss"
  by (simp add: same_setup_def)

lemma event_names [simp]:
  "''FAILURE_WATCH_RESOLVED_BY_'' @ x \<noteq> ''FAILURE_WATCH_STARTED''"
  "''FAILURE_WATCH_RESOLVED_BY_'' @ x \<noteq> ''POSITION_NORMAL_STARTED''"
  by simp_all

lemma mark_watch_hard_exit_ok:
  "vs_ok ss \<Longrightarrow> vs_ok (mark_watch_hard_exit v g t ss) \<and> same_setup (mark_watch_hard_exit v g t ss) ss"
  by (simp add: mark_watch_hard_exit_def Let_def vs_ok_def same_setup_def)

lemma observe_position_ok:
  "vs_ok ss \<Longrightarrow> observe_position_candle t ss = (b, ss') \<Longrightarrow>
     vs_ok ss' \<and> same_setup ss' ss \<and> vs_position_state ss' = vs_position_state ss"
  by (auto simp: observe_position_candle_def vs_ok_def same_setup_def split: if_splits)

lemma normal_bar_ok:
  "vs_ok ss \<Longrightarrow> vs_position_state ss = Some NORMAL_POSITION \<Longrightarrow> normal_bar v c ind ss = Inr ss' \<Longrightarrow>
     vs_ok ss' \<and> same_setup ss' ss"
  by (auto simp: normal_bar_def Let_def vs_ok_def same_setup_def split: if_splits option.splits)

lemma watch_bar_ok:
  "vs_ok ss \<Longrightarrow> vs_position_state ss = Some FAILURE_WATCH \<Longrightarrow> watch_bar v u c ind po ss = Inr (r, ss') \<Longrightarrow>
     vs_ok ss' \<and> same_setup ss' ss"
  by (auto simp: watch_bar_def Let_def vs_ok_def same_setup_def bind_result_Inr_iff split: if_splits)

section \<open>Every operation keeps the invariant\<close>

lemma v2_ok_base:
  assumes "v2_ok v" "br_ok new_v2_symbol_state v \<Longrightarrow> br_ok new_v2_symbol_state v'"
    "\<And>s. base_more (v2_state v' s) = base_more (v2_state v s)"
  shows "v2_ok v'"
  using assms(1,2) vs_ok_cong [OF assms(3)] by (simp add: v2_ok_def)

lemma v2_should_enter_ok:
  assumes "v2_ok v" "v2_should_enter v u c ind ps = Inr (r, v')"
  shows "v2_ok v'"
proof -
  let ?ss = "v2_state v (cd_symbol c)"
  define w where "w = (if \<not> ps_has_position ps \<and> vs_position_state ?ss \<noteq> None
      then put_symbol_state (cd_symbol c) (reset_position_management ?ss) v else v)"
  have run: "br_should_enter new_v2_symbol_state w u c ind ps = Inr (r, v')"
    using assms(2) by (simp add: v2_should_enter_def w_def Let_def)
  have "v2_ok (put_symbol_state (cd_symbol c) (reset_position_management ?ss) v)"
    using assms(1) by (intro v2_ok_put same_setup_reset vs_ok_reset) (simp_all add: v2_ok_def)
  then have w: "v2_ok w" using assms(1) by (simp add: w_def)
  from v2_ok_base [OF w br_should_enter_ok [OF _ run] more_should_enter [OF run]] show ?thesis .
qed

lemma v2_ok_should_exit_base:
  assumes "v2_ok v" "br_should_exit new_v2_symbol_state v u c ind po = Inr (r, v')"
  shows "v2_ok v'"
  by (rule v2_ok_base [OF assms(1) br_should_exit_ok [OF _ assms(2)] more_should_exit [OF assms(2)]])

lemma v2_should_exit_cases:
  assumes "v2_should_exit v u c ind po = Inr (r, v')"
  obtains (hard) g v1 where "br_should_exit new_v2_symbol_state v u c ind po = Inr (Some g, v1)" "r = Some g"
      "v' = put_symbol_state (cd_symbol c)
         (mark_watch_hard_exit v1 g (cd_open_time c) (v2_state v1 (cd_symbol c))) v1"
    | (repeated) v1 ss1 phase where "br_should_exit new_v2_symbol_state v u c ind po = Inr (None, v1)"
      "vs_position_state (v2_state v1 (cd_symbol c)) = Some phase"
      "observe_position_candle (cd_open_time c) (v2_state v1 (cd_symbol c)) = (False, ss1)"
      "r = None" "v' = v1"
    | (normal) v1 ss1 ss2 where "br_should_exit new_v2_symbol_state v u c ind po = Inr (None, v1)"
      "vs_position_state (v2_state v1 (cd_symbol c)) = Some NORMAL_POSITION"
      "observe_position_candle (cd_open_time c) (v2_state v1 (cd_symbol c)) = (True, ss1)"
      "normal_bar v1 c ind ss1 = Inr ss2" "r = None" "v' = put_symbol_state (cd_symbol c) ss2 v1"
    | (watch) v1 ss1 ss2 where "br_should_exit new_v2_symbol_state v u c ind po = Inr (None, v1)"
      "vs_position_state (v2_state v1 (cd_symbol c)) = Some FAILURE_WATCH"
      "observe_position_candle (cd_open_time c) (v2_state v1 (cd_symbol c)) = (True, ss1)"
      "watch_bar v1 u c ind po ss1 = Inr (r, ss2)" "v' = put_symbol_state (cd_symbol c) ss2 v1"
proof -
  obtain h v1 where base: "br_should_exit new_v2_symbol_state v u c ind po = Inr (h, v1)"
    using assms by (auto simp: v2_should_exit_def bind_result_Inr_iff Let_def)
  obtain b ss1 where seen: "observe_position_candle (cd_open_time c) (v2_state v1 (cd_symbol c)) = (b, ss1)"
    by force
  show thesis
  proof (cases h)
    case (Some g)
    then show thesis
      using assms base by (intro hard [of g v1]) (simp_all add: v2_should_exit_def Let_def)
  next
    case None
    then obtain phase where phase: "vs_position_state (v2_state v1 (cd_symbol c)) = Some phase"
      using assms base by (auto simp: v2_should_exit_def Let_def split: option.splits)
    show thesis
    proof (cases b)
      case False
      then show thesis
        using assms base None phase seen
        by (intro repeated [of v1 phase ss1]) (simp_all add: v2_should_exit_def Let_def)
    next
      case True
      with assms base None phase seen normal watch show thesis
        by (cases phase) (auto simp: v2_should_exit_def Let_def bind_result_Inr_iff)
    qed
  qed
qed

lemma v2_should_exit_ok:
  assumes "v2_ok v" "v2_should_exit v u c ind po = Inr (r, v')"
  shows "v2_ok v'"
  using assms(2)
proof (cases rule: v2_should_exit_cases)
  case (hard g v1)
  have "v2_ok v1" using assms(1) hard(1) by (rule v2_ok_should_exit_base)
  then show ?thesis unfolding hard(3)
    by (intro v2_ok_put) (simp_all add: v2_ok_def mark_watch_hard_exit_ok)
next
  case (repeated v1 ss1 phase)
  then show ?thesis using v2_ok_should_exit_base [OF assms(1)] by simp
next
  case (normal v1 ss1 ss2)
  have v1: "v2_ok v1" using assms(1) normal(1) by (rule v2_ok_should_exit_base)
  then have "vs_ok (v2_state v1 (cd_symbol c))" by (simp add: v2_ok_def)
  from observe_position_ok [OF this normal(3)] normal(2) normal_bar_ok [OF _ _ normal(4)]
  have "vs_ok ss2 \<and> same_setup ss2 (v2_state v1 (cd_symbol c))" by (simp add: same_setup_def)
  with v1 show ?thesis unfolding normal(6) by (intro v2_ok_put) simp_all
next
  case (watch v1 ss1 ss2)
  have v1: "v2_ok v1" using assms(1) watch(1) by (rule v2_ok_should_exit_base)
  then have "vs_ok (v2_state v1 (cd_symbol c))" by (simp add: v2_ok_def)
  from observe_position_ok [OF this watch(3)] watch(2) watch_bar_ok [OF _ _ watch(4)]
  have "vs_ok ss2 \<and> same_setup ss2 (v2_state v1 (cd_symbol c))" by (simp add: same_setup_def)
  with v1 show ?thesis unfolding watch(5) by (intro v2_ok_put) simp_all
qed

lemma v2_should_add_dca_ok:
  assumes "v2_ok v"
  shows "v2_ok (snd (observe_candle new_v2_symbol_state v c))"
proof (rule v2_ok_base [OF assms br_ok_observe_snd])
  show "base_more (v2_state (snd (observe_candle new_v2_symbol_state v c)) s) = base_more (v2_state v s)" for s
    by (cases "observe_candle new_v2_symbol_state v c") (simp add: more_observe_candle)
qed

lemma v2_on_fill_ok:
  assumes "v2_ok v" "v2_on_fill v g f = Inr v'"
  shows "v2_ok v'"
proof -
  obtain v1 where v1: "br_on_fill v g f = Inr v1"
    using assms(2) by (auto simp: v2_on_fill_def bind_result_Inr_iff)
  have "base_more (v2_state v1 s) = base_more (v2_state v s)" for s
    using more_on_fill [OF v1] by simp
  from v2_ok_base [OF assms(1) br_on_fill_ok [OF _ v1] this] have ok1: "v2_ok v1" .
  let ?ss = "v2_state v1 (sig_symbol g)"
  have ss: "vs_ok ?ss" using ok1 by (simp add: v2_ok_def)
  from assms(2) v1 consider (buy) level where "0 < level"
      "v' = put_symbol_state (sig_symbol g)
         (append_event v1 ''POSITION_NORMAL_STARTED'' (fill_timestamp f)
            [(''entry_price'', MDec (fill_price f)), (''breakout_level'', MDec level)]
            ((reset_position_management ?ss)\<lparr>vs_position_state := Some NORMAL_POSITION,
               vs_entry_fill_time := Some (fill_timestamp f),
               vs_entry_price := Some (fill_price f), vs_breakout_level := Some level,
               vs_age_bars := 0, vs_watch_used := False\<rparr>)) v1"
    | (sell) "v' = put_symbol_state (sig_symbol g)
         (reset_position_management (append_event v1 ''POSITION_CLOSED'' (fill_timestamp f)
            [(''reason'', MStr (sig_reason g)), (''fill_price'', MDec (fill_price f))] ?ss)) v1"
    | (other) "v' = v1"
    by (auto simp: v2_on_fill_def Let_def bind_result_Inr_iff not_le split: if_splits)
  then show ?thesis
  proof cases
    case buy
    show ?thesis unfolding buy(2)
      by (rule v2_ok_put [OF ok1])
        (use ss buy(1) in \<open>auto simp: same_setup_def vs_ok_def split: if_splits\<close>)
  next
    case sell
    show ?thesis unfolding sell
      by (rule v2_ok_put [OF ok1]) (use ss in \<open>auto simp: same_setup_def vs_ok_def split: if_splits\<close>)
  next
    case other
    with ok1 show ?thesis by simp
  qed
qed

lemma v2_ok_new:
  assumes "new_breakout_retest_v2 cfg n t a m e symbols = Inr v"
  shows "v2_ok v"
proof -
  have "ss_ok n t new_v2_symbol_state" by (simp add: ss_ok_def new_v2_symbol_state_def)
  moreover have "vs_ok new_v2_symbol_state" by (simp add: vs_ok_def event_count_def new_v2_symbol_state_def)
  ultimately show ?thesis
    using assms symbol_state_init [of v new_v2_symbol_state symbols]
    by (auto simp: new_breakout_retest_v2_def v2_ok_def br_ok_def RETEST_TIMEOUT_BARS_def split: if_splits)
qed

section \<open>The signals\<close>

lemma v2_should_enter_signal:
  assumes "v2_should_enter v u c ind ps = Inr (Some g, v')"
  shows "sig_action g = ''open_long'' \<and> sig_symbol g = cd_symbol c \<and>
     sig_timestamp g = cd_open_time c \<and> sig_signal_id g = u \<and> sig_price g = cd_close c \<and>
     \<not> ps_has_position ps"
  using assms unfolding v2_should_enter_def Let_def by (rule br_should_enter_fields)

lemma watch_recovered_bars [simp]:
  "watch_recovered c ind (ss\<lparr>vs_watch_bars := n\<rparr>) = watch_recovered c ind ss"
  by (simp add: watch_recovered_def split: option.split)

lemma watch_bar_cases:
  assumes "watch_bar v u c ind po ss = Inr (r, ss')"
  obtains (recovered) "watch_recovered c ind ss = Inr True" "r = None"
      "vs_position_state ss' = Some NORMAL_POSITION"
    | (waiting) "watch_recovered c ind ss = Inr False" "r = None" "vs_watch_bars ss + 1 < v2_watch_max_bars v"
      "ss' = ss\<lparr>vs_watch_bars := vs_watch_bars ss + 1\<rparr>"
    | (timeout) "watch_recovered c ind ss = Inr False" "v2_watch_max_bars v \<le> vs_watch_bars ss + 1"
      "r = Some (build_watch_timeout_signal v u c ind po (ss\<lparr>vs_watch_bars := vs_watch_bars ss + 1\<rparr>))"
      "vs_position_state ss' = vs_position_state ss"
proof -
  obtain b where b: "watch_recovered c ind ss = Inr b"
    using assms by (auto simp: watch_bar_def Let_def bind_result_Inr_iff)
  show thesis
  proof (cases b)
    case True
    then show thesis using assms b by (intro recovered) (auto simp: watch_bar_def Let_def)
  next
    case False
    show thesis
    proof (cases "v2_watch_max_bars v \<le> vs_watch_bars ss + 1")
      case True
      with False assms b show thesis by (intro timeout) (auto simp: watch_bar_def Let_def append_event_def)
    next
      case not_yet: False
      with False assms b show thesis by (intro waiting) (auto simp: watch_bar_def Let_def)
    qed
  qed
qed

lemma v2_should_exit_signal:
  assumes "v2_should_exit v u c ind po = Inr (Some g, v')"
  shows "sig_action g = ''close'' \<and> sig_symbol g = cd_symbol c \<and>
     sig_timestamp g = cd_open_time c \<and> sig_signal_id g = u"
  using assms
proof (cases rule: v2_should_exit_cases)
  case (hard g' v1)
  then show ?thesis using br_should_exit_signal by blast
next
  case (watch v1 ss1 ss2)
  from watch(4) show ?thesis
    by (cases rule: watch_bar_cases) (simp_all add: build_watch_timeout_signal_def close_signal_def)
qed simp_all

interpretation breakout_retest_v2:
  spot_strategy breakout_retest_v2_strategy v2_ok
  by unfold_locales
    (auto simp: breakout_retest_v2_strategy_def v2_should_add_dca_def v2_should_add_dca_ok
      dest: v2_should_enter_signal v2_should_exit_signal v2_should_enter_ok
        v2_should_exit_ok v2_on_fill_ok)

end
