(* ===== verification/Trend_Pullback.thy ===== *)
theory Trend_Pullback
  imports Trend_DCA
begin

text \<open>
  \<open>TrendPullbackConfirmationStrategy\<close>, \<open>app/strategies/trend_pullback_confirmation.py\<close>: the base entry
  of the trend strategy replaced by a two-stage one. A pullback is armed when the RSI is low inside an
  up-trend, and a later candle on which the RSI crosses back above the level enters. Exits, safety orders
  and fills are inherited. The state strings of the code are kept as times and decimals.
\<close>

section \<open>Configuration and state\<close>

definition SETUP_TIMEOUT_BARS :: int where
  "SETUP_TIMEOUT_BARS = 12"

datatype pullback_phase = PULLBACK_IDLE | PULLBACK_ARMED

record pullback_setup =
  su_time :: timestamp
  su_rsi :: decimal
  su_close :: decimal
  su_ema20 :: decimal
  su_ema50 :: decimal
  su_ema200 :: decimal
  su_regime :: string
  su_bars :: int

record pullback_symbol_state =
  pb_phase :: pullback_phase
  pb_previous_rsi :: "decimal option"
  pb_setup :: "pullback_setup option"

definition new_pullback_state :: pullback_symbol_state where
  "new_pullback_state = \<lparr>pb_phase = PULLBACK_IDLE, pb_previous_rsi = None, pb_setup = None\<rparr>"

record trend_pullback = trend_dca +
  tp_setup_timeout_bars :: int
  tp_state :: "pullback_symbol_state dict"

definition new_trend_pullback :: "dca_config \<Rightarrow> int \<Rightarrow> string list \<Rightarrow> trend_pullback result" where
  "new_trend_pullback cfg timeout symbols =
     (if timeout \<noteq> SETUP_TIMEOUT_BARS then Inl (ValueError ''setup_timeout_bars is frozen at 12 for v1'')
      else Inr \<lparr>td_name = ''TrendDCA'', td_config = cfg, td_dca_levels = [], td_trailing_highs = [],
             tp_setup_timeout_bars = timeout,
             tp_state = foldl (\<lambda>d s. AList.update s new_pullback_state d) [] symbols\<rparr>)"

definition pullback_state :: "trend_pullback \<Rightarrow> string \<Rightarrow> pullback_symbol_state" where
  "pullback_state tp symbol =
     (case map_of (tp_state tp) symbol of None \<Rightarrow> new_pullback_state | Some ss \<Rightarrow> ss)"

definition put_pullback_state ::
    "string \<Rightarrow> pullback_symbol_state \<Rightarrow> trend_pullback \<Rightarrow> trend_pullback" where
  "put_pullback_state symbol ss tp = tp\<lparr>tp_state := AList.update symbol ss (tp_state tp)\<rparr>"

definition clear_setup :: "pullback_symbol_state \<Rightarrow> pullback_symbol_state" where
  "clear_setup ss = ss\<lparr>pb_phase := PULLBACK_IDLE, pb_setup := None\<rparr>"

section \<open>Entry\<close>

definition arm_setup ::
    "candle \<Rightarrow> decimal \<Rightarrow> decimal \<Rightarrow> decimal \<Rightarrow> decimal \<Rightarrow> string \<Rightarrow> pullback_symbol_state
     \<Rightarrow> pullback_symbol_state" where
  "arm_setup c ema20 ema50 ema200 rsi_value reg ss =
     ss\<lparr>pb_phase := PULLBACK_ARMED,
        pb_setup := Some \<lparr>su_time = cd_open_time c, su_rsi = rsi_value, su_close = cd_close c,
          su_ema20 = ema20, su_ema50 = ema50, su_ema200 = ema200, su_regime = reg, su_bars = 0\<rparr>\<rparr>"

definition build_confirmed_signal ::
    "trend_pullback \<Rightarrow> string \<Rightarrow> candle \<Rightarrow> indicators \<Rightarrow> portfolio_state \<Rightarrow> decimal \<Rightarrow> decimal \<Rightarrow> decimal
     \<Rightarrow> decimal \<Rightarrow> string \<Rightarrow> pullback_setup \<Rightarrow> signal result" where
  "build_confirmed_signal tp u c ind ps ema20 ema50 ema200 rsi_value reg setup =
     (let close = cd_close c; cfg = td_config tp
      in bind_result (base_order_quantity cfg (ps_capital ps) close)
           (\<lambda>quantity. Inr
              \<lparr>sig_action = ''open_long'', sig_symbol = cd_symbol c, sig_price = close,
               sig_quantity = quantity, sig_timestamp = cd_open_time c,
               sig_reason = ''Trend pullback recovery confirmed'',
               sig_stop_loss = Some (dmul close (dsub 1 (stop_loss_pct cfg))),
               sig_take_profit = Some (dmul close (dadd 1 (take_profit_pct cfg))),
               sig_strategy = td_name tp, sig_parameters_version = dc_parameters_version cfg,
               sig_indicators = ind, sig_regime = Some reg,
               sig_metadata =
                 [(''dca_level'', MInt 0), (''setup_time'', MTime (su_time setup)),
                  (''confirmation_time'', MTime (cd_open_time c)), (''setup_rsi'', MDec (su_rsi setup)),
                  (''confirmation_rsi'', MDec rsi_value), (''bars_since_setup'', MInt (su_bars setup)),
                  (''confirmation_close'', MDec close), (''confirmation_ema20'', MDec ema20),
                  (''confirmation_ema50'', MDec ema50), (''confirmation_ema200'', MDec ema200)],
               sig_signal_id = u, sig_run_id = ''''\<rparr>))"

definition high_volatility_bar :: "indicators \<Rightarrow> bool" where
  "high_volatility_bar ind = (case volatility ind of None \<Rightarrow> False | Some v \<Rightarrow> 8 / 10 < v)"

definition crossed_up :: "decimal option \<Rightarrow> decimal \<Rightarrow> bool" where
  "crossed_up previous_rsi rsi_value = (case previous_rsi of None \<Rightarrow> False | Some p \<Rightarrow> p \<le> 45 \<and> 45 < rsi_value)"

text \<open>A candle while armed: cancellation is evaluated before confirmation.\<close>

definition pullback_armed_candle ::
    "trend_pullback \<Rightarrow> string \<Rightarrow> candle \<Rightarrow> indicators \<Rightarrow> portfolio_state \<Rightarrow> decimal \<Rightarrow> decimal \<Rightarrow> decimal
     \<Rightarrow> decimal \<Rightarrow> string \<Rightarrow> decimal option \<Rightarrow> pullback_symbol_state
     \<Rightarrow> (signal option \<times> pullback_symbol_state) result" where
  "pullback_armed_candle tp u c ind ps ema20 ema50 ema200 rsi_value reg previous_rsi ss =
     (case pb_setup ss of
        None \<Rightarrow> Inl (ValueError ''PULLBACK_ARMED state has no setup payload'')
      | Some setup0 \<Rightarrow>
          let setup = setup0\<lparr>su_bars := su_bars setup0 + 1\<rparr>;
              ss1 = ss\<lparr>pb_setup := Some setup\<rparr>;
              close = cd_close c
          in if reg \<noteq> TREND_UP \<or> close \<le> ema200 \<or> ema50 \<le> ema200 \<or> ps_has_position ps \<or>
                tp_setup_timeout_bars tp \<le> su_bars setup
             then Inr (None, clear_setup ss1)
             else if \<not> (crossed_up previous_rsi rsi_value \<and> ema20 < close \<and> \<not> high_volatility_bar ind)
             then Inr (None, ss1)
             else bind_result (build_confirmed_signal tp u c ind ps ema20 ema50 ema200 rsi_value reg setup)
               (\<lambda>g. Inr (Some g, clear_setup ss1)))"

text \<open>A candle while idle: a low RSI inside an up-trend arms the setup.\<close>

definition pullback_idle_candle ::
    "candle \<Rightarrow> indicators \<Rightarrow> portfolio_state \<Rightarrow> decimal \<Rightarrow> decimal \<Rightarrow> decimal \<Rightarrow> decimal \<Rightarrow> string
     \<Rightarrow> pullback_symbol_state \<Rightarrow> pullback_symbol_state" where
  "pullback_idle_candle c ind ps ema20 ema50 ema200 rsi_value reg ss =
     (if ps_has_position ps \<or> reg \<noteq> TREND_UP \<or> cd_close c \<le> ema200 \<or> ema50 \<le> ema200 \<or>
         45 < rsi_value \<or> high_volatility_bar ind
      then ss else arm_setup c ema20 ema50 ema200 rsi_value reg ss)"

definition pullback_should_enter ::
    "trend_pullback \<Rightarrow> string \<Rightarrow> candle \<Rightarrow> indicators \<Rightarrow> portfolio_state
     \<Rightarrow> (signal option \<times> trend_pullback) result" where
  "pullback_should_enter tp u c ind ps =
     (let symbol = cd_symbol c; ss0 = pullback_state tp symbol;
          previous_rsi = pb_previous_rsi ss0;
          ss = (case rsi ind of None \<Rightarrow> ss0 | Some r \<Rightarrow> ss0\<lparr>pb_previous_rsi := Some r\<rparr>)
      in (case (ema_20 ind, ema_50 ind, ema_200 ind, rsi ind, regime ind) of
            (Some ema20, Some ema50, Some ema200, Some rsi_value, Some reg) \<Rightarrow>
              (case pb_phase ss of
                 PULLBACK_ARMED \<Rightarrow>
                   bind_result
                     (pullback_armed_candle tp u c ind ps ema20 ema50 ema200 rsi_value reg previous_rsi ss)
                     (\<lambda>(g, ss'). Inr (g, put_pullback_state symbol ss' tp))
               | PULLBACK_IDLE \<Rightarrow>
                   Inr (None, put_pullback_state symbol
                     (pullback_idle_candle c ind ps ema20 ema50 ema200 rsi_value reg ss) tp))
          | _ \<Rightarrow> Inr (None, put_pullback_state symbol ss tp)))"

definition trend_pullback_strategy :: "trend_pullback strategy" where
  "trend_pullback_strategy =
     \<lparr>st_should_enter = pullback_should_enter, st_should_exit = trend_should_exit,
      st_should_add_dca = Some trend_should_add_dca, st_on_fill = trend_on_fill\<rparr>"

section \<open>State access\<close>

lemma pullback_state_put [simp]:
  "pullback_state (put_pullback_state s ss tp) s' = (if s' = s then ss else pullback_state tp s')"
  by (simp add: pullback_state_def put_pullback_state_def)

lemma put_pullback_keeps [simp]:
  "td_config (put_pullback_state s ss tp) = td_config tp"
  "tp_setup_timeout_bars (put_pullback_state s ss tp) = tp_setup_timeout_bars tp"
  by (simp_all add: put_pullback_state_def)

section \<open>The invariant of a setup\<close>

text \<open>An armed setup was made on an up-trend candle with a low RSI, and is younger than its timeout.\<close>

definition setup_ok :: "int \<Rightarrow> pullback_setup \<Rightarrow> bool" where
  "setup_ok timeout su \<longleftrightarrow>
     su_regime su = TREND_UP \<and> su_ema200 su < su_close su \<and> su_ema200 su < su_ema50 su \<and> su_rsi su \<le> 45 \<and>
     0 \<le> su_bars su \<and> su_bars su < timeout"

definition pullback_state_ok :: "int \<Rightarrow> pullback_symbol_state \<Rightarrow> bool" where
  "pullback_state_ok timeout ss \<longleftrightarrow>
     (pb_phase ss = PULLBACK_ARMED \<longleftrightarrow> pb_setup ss \<noteq> None) \<and>
     (\<forall>su. pb_setup ss = Some su \<longrightarrow> setup_ok timeout su)"

definition pullback_ok :: "trend_pullback \<Rightarrow> bool" where
  "pullback_ok tp \<longleftrightarrow> 0 < tp_setup_timeout_bars tp \<and>
     (\<forall>s. pullback_state_ok (tp_setup_timeout_bars tp) (pullback_state tp s))"

lemma pullback_ok_put:
  "pullback_ok tp \<Longrightarrow> pullback_state_ok (tp_setup_timeout_bars tp) ss \<Longrightarrow>
     pullback_ok (put_pullback_state s ss tp)"
  by (simp add: pullback_ok_def)

lemma clear_setup_ok: "pullback_state_ok t (clear_setup ss)"
  by (simp add: pullback_state_ok_def clear_setup_def)

lemma idle_candle_ok:
  "0 < t \<Longrightarrow> pullback_state_ok t ss \<Longrightarrow>
     pullback_state_ok t (pullback_idle_candle c ind ps e20 e50 e200 r reg ss)"
  by (auto simp: pullback_idle_candle_def arm_setup_def pullback_state_ok_def setup_ok_def)

lemma pullback_armed_cases:
  assumes "pullback_armed_candle tp u c ind ps e20 e50 e200 r reg prev ss = Inr (g, ss')"
  obtains (cancelled) su where "pb_setup ss = Some su" "g = None" "pb_phase ss' = PULLBACK_IDLE" "pb_setup ss' = None"
      "reg \<noteq> TREND_UP \<or> cd_close c \<le> e200 \<or> e50 \<le> e200 \<or> ps_has_position ps \<or>
         tp_setup_timeout_bars tp \<le> su_bars su + 1"
    | (waiting) su where "pb_setup ss = Some su" "g = None" "su_bars su + 1 < tp_setup_timeout_bars tp"
      "\<not> (crossed_up prev r \<and> e20 < cd_close c \<and> \<not> high_volatility_bar ind)"
      "ss' = ss\<lparr>pb_setup := Some (su\<lparr>su_bars := su_bars su + 1\<rparr>)\<rparr>"
    | (confirmed) su sg where "pb_setup ss = Some su" "g = Some sg" "pb_phase ss' = PULLBACK_IDLE" "pb_setup ss' = None"
      "reg = TREND_UP" "e200 < cd_close c" "e200 < e50" "\<not> ps_has_position ps"
      "su_bars su + 1 < tp_setup_timeout_bars tp" "crossed_up prev r" "e20 < cd_close c"
      "\<not> high_volatility_bar ind"
      "build_confirmed_signal tp u c ind ps e20 e50 e200 r reg (su\<lparr>su_bars := su_bars su + 1\<rparr>) = Inr sg"
  using assms
  by (auto simp: pullback_armed_candle_def Let_def bind_result_Inr_iff clear_setup_def not_le
      split: if_splits option.splits)

lemma pullback_armed_ok:
  assumes "pullback_armed_candle tp u c ind ps e20 e50 e200 r reg prev ss = Inr (g, ss')"
    "pullback_state_ok (tp_setup_timeout_bars tp) ss" "pb_phase ss = PULLBACK_ARMED"
  shows "pullback_state_ok (tp_setup_timeout_bars tp) ss'"
  using assms(1)
  by (cases rule: pullback_armed_cases) (use assms(2,3) in \<open>auto simp: pullback_state_ok_def setup_ok_def\<close>)

text \<open>The state of a symbol after the RSI of a candle is noted.\<close>

definition note_rsi :: "indicators \<Rightarrow> pullback_symbol_state \<Rightarrow> pullback_symbol_state" where
  "note_rsi ind ss = (case rsi ind of None \<Rightarrow> ss | Some r \<Rightarrow> ss\<lparr>pb_previous_rsi := Some r\<rparr>)"

lemma note_rsi_simps [simp]:
  "pb_phase (note_rsi ind ss) = pb_phase ss" "pb_setup (note_rsi ind ss) = pb_setup ss"
  "pullback_state_ok t (note_rsi ind ss) = pullback_state_ok t ss"
  by (simp_all add: note_rsi_def pullback_state_ok_def split: option.split)

lemma pullback_should_enter_cases:
  assumes "pullback_should_enter tp u c ind ps = Inr (g, tp')"
  obtains (incomplete) "ema_20 ind = None \<or> ema_50 ind = None \<or> ema_200 ind = None \<or> rsi ind = None \<or> regime ind = None"
      "g = None" "tp' = put_pullback_state (cd_symbol c) (note_rsi ind (pullback_state tp (cd_symbol c))) tp"
    | (idle) e20 e50 e200 r reg where "ema_20 ind = Some e20" "ema_50 ind = Some e50" "ema_200 ind = Some e200"
      "rsi ind = Some r" "regime ind = Some reg" "pb_phase (pullback_state tp (cd_symbol c)) = PULLBACK_IDLE" "g = None"
      "tp' = put_pullback_state (cd_symbol c) (pullback_idle_candle c ind ps e20 e50 e200 r reg
         (note_rsi ind (pullback_state tp (cd_symbol c)))) tp"
    | (armed) e20 e50 e200 r reg ss' where "ema_20 ind = Some e20" "ema_50 ind = Some e50" "ema_200 ind = Some e200"
      "rsi ind = Some r" "regime ind = Some reg" "pb_phase (pullback_state tp (cd_symbol c)) = PULLBACK_ARMED"
      "pullback_armed_candle tp u c ind ps e20 e50 e200 r reg (pb_previous_rsi (pullback_state tp (cd_symbol c)))
         (note_rsi ind (pullback_state tp (cd_symbol c))) = Inr (g, ss')"
      "tp' = put_pullback_state (cd_symbol c) ss' tp"
proof (cases "ema_20 ind = None \<or> ema_50 ind = None \<or> ema_200 ind = None \<or> rsi ind = None \<or> regime ind = None")
  case True
  with assms show thesis
    by (intro incomplete) (auto simp: pullback_should_enter_def Let_def note_rsi_def split: option.splits)
next
  case False
  then obtain e20 e50 e200 r reg where ind: "ema_20 ind = Some e20" "ema_50 ind = Some e50"
      "ema_200 ind = Some e200" "rsi ind = Some r" "regime ind = Some reg" by auto
  have ss: "pb_phase (note_rsi ind (pullback_state tp (cd_symbol c))) = pb_phase (pullback_state tp (cd_symbol c))"
    "note_rsi ind (pullback_state tp (cd_symbol c)) =
       (pullback_state tp (cd_symbol c))\<lparr>pb_previous_rsi := Some r\<rparr>"
    by (simp_all add: note_rsi_def ind)
  show thesis
  proof (cases "pb_phase (pullback_state tp (cd_symbol c))")
    case PULLBACK_IDLE
    with assms ind ss show thesis
      by (intro idle) (auto simp: pullback_should_enter_def Let_def)
  next
    case PULLBACK_ARMED
    with assms ind ss obtain ss' where "pullback_armed_candle tp u c ind ps e20 e50 e200 r reg
        (pb_previous_rsi (pullback_state tp (cd_symbol c))) (note_rsi ind (pullback_state tp (cd_symbol c)))
        = Inr (g, ss')" "tp' = put_pullback_state (cd_symbol c) ss' tp"
      by (auto simp: pullback_should_enter_def Let_def bind_result_Inr_iff)
    with ind PULLBACK_ARMED show thesis by (rule armed)
  qed
qed

lemma pullback_should_enter_ok:
  assumes "pullback_ok tp" "pullback_should_enter tp u c ind ps = Inr (g, tp')"
  shows "pullback_ok tp'"
proof -
  have ok: "pullback_state_ok (tp_setup_timeout_bars tp) (pullback_state tp (cd_symbol c))"
      "0 < tp_setup_timeout_bars tp"
    using assms(1) by (simp_all add: pullback_ok_def)
  show ?thesis
    using assms(2)
  proof (cases rule: pullback_should_enter_cases)
    case incomplete
    with assms(1) ok show ?thesis by (simp add: pullback_ok_put)
  next
    case (idle e20 e50 e200 r reg)
    show ?thesis unfolding idle(8) using ok by (intro pullback_ok_put [OF assms(1)] idle_candle_ok) simp_all
  next
    case (armed e20 e50 e200 r reg ss')
    from pullback_armed_ok [OF armed(7)] ok armed(6) show ?thesis
      unfolding armed(8) by (intro pullback_ok_put [OF assms(1)]) simp_all
  qed
qed

lemma build_confirmed_signal_fields:
  "build_confirmed_signal tp u c ind ps e20 e50 e200 r reg su = Inr g \<Longrightarrow>
     sig_action g = ''open_long'' \<and> sig_symbol g = cd_symbol c \<and>
     sig_timestamp g = cd_open_time c \<and> sig_signal_id g = u \<and> sig_price g = cd_close c \<and>
     map_of (sig_metadata g) ''setup_rsi'' = Some (MDec (su_rsi su)) \<and>
     map_of (sig_metadata g) ''bars_since_setup'' = Some (MInt (su_bars su))"
  by (auto simp: build_confirmed_signal_def Let_def bind_result_Inr_iff)

text \<open>What an entry rests on: the armed setup, the crossing, and the context of this candle.\<close>

lemma pullback_should_enter_signal:
  assumes "pullback_should_enter tp u c ind ps = Inr (Some g, tp')"
  obtains su e20 e50 e200 r where "pb_phase (pullback_state tp (cd_symbol c)) = PULLBACK_ARMED"
    "pb_setup (pullback_state tp (cd_symbol c)) = Some su" "su_bars su + 1 < tp_setup_timeout_bars tp"
    "ema_20 ind = Some e20" "ema_50 ind = Some e50" "ema_200 ind = Some e200" "rsi ind = Some r"
    "regime ind = Some TREND_UP" "e200 < cd_close c" "e200 < e50" "e20 < cd_close c" "\<not> ps_has_position ps"
    "crossed_up (pb_previous_rsi (pullback_state tp (cd_symbol c))) r" "\<not> high_volatility_bar ind"
    "build_confirmed_signal tp u c ind ps e20 e50 e200 r TREND_UP (su\<lparr>su_bars := su_bars su + 1\<rparr>) = Inr g"
    "pb_phase (pullback_state tp' (cd_symbol c)) = PULLBACK_IDLE"
  using assms
proof (cases rule: pullback_should_enter_cases)
  case (armed e20 e50 e200 r reg ss')
  from armed(7) show thesis
  proof (cases rule: pullback_armed_cases)
    case (confirmed su sg)
    show thesis
      by (rule that [of su e20 e50 e200 r]) (use armed confirmed in simp_all)
  qed simp_all
qed simp_all

lemma pullback_should_enter_fields:
  assumes "pullback_should_enter tp u c ind ps = Inr (Some g, tp')"
  shows "sig_action g = ''open_long'' \<and> sig_symbol g = cd_symbol c \<and>
     sig_timestamp g = cd_open_time c \<and> sig_signal_id g = u \<and> sig_price g = cd_close c \<and>
     \<not> ps_has_position ps"
  using assms by (rule pullback_should_enter_signal) (auto dest: build_confirmed_signal_fields)

lemma pullback_ok_cong:
  assumes "trend_dca.more tp' = trend_dca.more tp"
  shows "pullback_ok tp' = pullback_ok tp"
proof -
  have "tp_state tp' = tp_state tp \<and> tp_setup_timeout_bars tp' = tp_setup_timeout_bars tp"
    using assms by (cases tp; cases tp') simp
  then show ?thesis by (simp add: pullback_ok_def pullback_state_def)
qed

lemma trend_on_fill_more: "trend_on_fill tp g f = Inr tp' \<Longrightarrow> trend_dca.more tp' = trend_dca.more tp"
  by (auto simp: trend_on_fill_def Let_def split: option.splits meta_value.splits if_splits)

lemma pullback_inherited_ok:
  "pullback_ok tp \<Longrightarrow> trend_should_exit tp u c ind po = Inr (r, tp') \<Longrightarrow> pullback_ok tp'"
  "pullback_ok tp \<Longrightarrow> trend_should_add_dca tp u c ind po = Inr (r, tp') \<Longrightarrow> pullback_ok tp'"
  "pullback_ok tp \<Longrightarrow> trend_on_fill tp g f = Inr tp' \<Longrightarrow> pullback_ok tp'"
proof -
  show "pullback_ok tp \<Longrightarrow> trend_should_exit tp u c ind po = Inr (r, tp') \<Longrightarrow> pullback_ok tp'"
    using trend_should_exit_keeps pullback_ok_cong by blast
  show "pullback_ok tp \<Longrightarrow> trend_should_add_dca tp u c ind po = Inr (r, tp') \<Longrightarrow> pullback_ok tp'"
    using trend_should_add_dca_state by blast
  show "pullback_ok tp \<Longrightarrow> trend_on_fill tp g f = Inr tp' \<Longrightarrow> pullback_ok tp'"
    using trend_on_fill_more pullback_ok_cong by blast
qed

lemma pullback_ok_new:
  assumes "new_trend_pullback cfg timeout symbols = Inr tp"
  shows "pullback_ok tp"
proof -
  have "map_of d0 s \<in> {None, Some new_pullback_state} \<Longrightarrow>
      map_of (foldl (\<lambda>d s. AList.update s new_pullback_state d) d0 symbols) s \<in> {None, Some new_pullback_state}"
    for d0 s
    by (induction symbols arbitrary: d0) auto
  moreover have "tp_state tp = foldl (\<lambda>d s. AList.update s new_pullback_state d) [] symbols"
    using assms by (auto simp: new_trend_pullback_def split: if_splits)
  ultimately have "map_of (tp_state tp) s \<in> {None, Some new_pullback_state}" for s by simp
  then have "map_of (tp_state tp) s = None \<or> map_of (tp_state tp) s = Some new_pullback_state" for s by blast
  then have "pullback_state tp s = new_pullback_state" for s
    by (metis option.simps(4,5) pullback_state_def)
  moreover have "tp_setup_timeout_bars tp = 12"
    using assms by (auto simp: new_trend_pullback_def SETUP_TIMEOUT_BARS_def split: if_splits)
  ultimately show ?thesis by (simp add: pullback_ok_def pullback_state_ok_def new_pullback_state_def)
qed

interpretation trend_pullback: spot_strategy trend_pullback_strategy pullback_ok
  by unfold_locales
    (auto simp: trend_pullback_strategy_def
      dest: pullback_should_enter_fields pullback_should_enter_ok trend_should_exit_signal
        trend_should_add_dca_signal pullback_inherited_ok)

end
