(* ===== verification/Properties_Setups.thy ===== *)
theory Properties_Setups
  imports Breakout_Retest_V2 Trend_Pullback Properties_Backtest
begin

text \<open>
  The properties of the two strategies with their own position or setup machine, with witnesses: the failure
  watch of the second breakout strategy and the pullback confirmation.
\<close>

section \<open>The failure watch\<close>

lemma v2_fields_base:
  assumes "br_should_exit new_v2_symbol_state v u c ind po = Inr (r, v1)"
  shows "vs_position_state (v2_state v1 s) = vs_position_state (v2_state v s)"
    "vs_breakout_level (v2_state v1 s) = vs_breakout_level (v2_state v s)"
    "vs_age_bars (v2_state v1 s) = vs_age_bars (v2_state v s)"
    "vs_last_position_time (v2_state v1 s) = vs_last_position_time (v2_state v s)"
    "vs_watch_used (v2_state v1 s) = vs_watch_used (v2_state v s)"
    "vs_watch_bars (v2_state v1 s) = vs_watch_bars (v2_state v s)"
  using v2_fields_cong [OF more_should_exit [OF assms, of s]] by simp_all

lemma v2_config_base:
  assumes "br_should_exit new_v2_symbol_state v u c ind po = Inr (r, v1)"
  shows "v2_watch_max_bars v1 = v2_watch_max_bars v \<and> v2_detection_age_bars v1 = v2_detection_age_bars v"
proof -
  obtain x v0 where o: "observe_candle new_v2_symbol_state v c = (x, v0)" by force
  with assms have "trend_should_exit v0 u c ind po = Inr (r, v1)" by (simp add: br_should_exit_def)
  then have "trend_dca.more v1 = trend_dca.more v0" by (simp add: trend_should_exit_keeps)
  moreover have "breakout_retest.more v0 = breakout_retest.more v"
    using observe_candle_state [OF o] by (auto simp: put_symbol_state_def)
  ultimately have "breakout_retest.more v1 = breakout_retest.more v" by (cases v; cases v0; cases v1) simp
  then show ?thesis by (cases v; cases v1) simp
qed

lemma watch_recovered_cong:
  "vs_breakout_level ss' = vs_breakout_level ss \<Longrightarrow> watch_recovered c ind ss' = watch_recovered c ind ss"
  by (simp add: watch_recovered_def split: option.split)

lemma observe_position_fields:
  assumes "observe_position_candle t ss = (True, ss')"
  shows "vs_last_position_time ss \<noteq> Some t" "vs_age_bars ss' = vs_age_bars ss + 1"
    "vs_position_state ss' = vs_position_state ss" "vs_breakout_level ss' = vs_breakout_level ss"
    "vs_watch_used ss' = vs_watch_used ss" "vs_watch_bars ss' = vs_watch_bars ss"
  using assms by (auto simp: observe_position_candle_def split: if_splits)


text \<open>
  A position has at most one failure watch: after any backtest there are, for every symbol, no more watch
  starts than position starts, a running watch is marked as used, and an open position has a positive
  breakout level.
\<close>

theorem failure_watch_once_per_position:
  assumes "new_breakout_retest_v2 dca lookback timeout age watch_max episodes symbols = Inr v"
    "run_backtest be candles (BaseStrategy breakout_retest_v2_strategy) v provider = Inr (res, be', v')"
  shows "event_count ''FAILURE_WATCH_STARTED'' (v2_state v' s) \<le> event_count ''POSITION_NORMAL_STARTED'' (v2_state v' s) \<and>
     (vs_position_state (v2_state v' s) = Some FAILURE_WATCH \<longrightarrow> vs_watch_used (v2_state v' s)) \<and>
     (vs_position_state (v2_state v' s) \<noteq> None \<longrightarrow>
        (\<exists>level. vs_breakout_level (v2_state v' s) = Some level \<and> 0 < level))"
proof -
  have "v2_ok v'" by (rule breakout_retest_v2.run_backtest_inv [OF assms(2) v2_ok_new [OF assms(1)]])
  then have "vs_ok (v2_state v' s)" by (simp add: v2_ok_def)
  then show ?thesis by (auto simp: vs_ok_def split: if_splits)
qed

section \<open>The pullback confirmation\<close>

text \<open>
  C33: A pullback entry is confirmed. It comes only from a setup armed on an earlier candle of an up-trend with an RSI
  of at most 45, younger than the timeout; on the entry candle the RSI crosses back above 45 while the
  close is above the short and the long average, the trend still holds, and no position is held. The
  setup is consumed.
\<close>

theorem pullback_entry_is_confirmed:
  assumes "pullback_ok tp" "pullback_should_enter tp u c ind ps = Inr (Some g, tp')"
  shows "\<exists>su e20 e50 e200 p r. pb_setup (pullback_state tp (cd_symbol c)) = Some su \<and>
     su_regime su = TREND_UP \<and> su_rsi su \<le> 45 \<and> su_ema200 su < su_close su \<and>
     su_bars su + 1 < tp_setup_timeout_bars tp \<and>
     pb_previous_rsi (pullback_state tp (cd_symbol c)) = Some p \<and> rsi ind = Some r \<and> p \<le> 45 \<and> 45 < r \<and>
     ema_20 ind = Some e20 \<and> ema_50 ind = Some e50 \<and> ema_200 ind = Some e200 \<and>
     e20 < cd_close c \<and> e200 < cd_close c \<and> e200 < e50 \<and> regime ind = Some TREND_UP \<and> \<not> ps_has_position ps \<and>
     map_of (sig_metadata g) ''setup_rsi'' = Some (MDec (su_rsi su)) \<and>
     map_of (sig_metadata g) ''bars_since_setup'' = Some (MInt (su_bars su + 1)) \<and>
     pb_phase (pullback_state tp' (cd_symbol c)) = PULLBACK_IDLE"
  using assms(2)
proof (rule pullback_should_enter_signal)
  fix su e20 e50 e200 r
  assume su: "pb_setup (pullback_state tp (cd_symbol c)) = Some su"
    and crossed: "crossed_up (pb_previous_rsi (pullback_state tp (cd_symbol c))) r"
    and signal: "build_confirmed_signal tp u c ind ps e20 e50 e200 r TREND_UP (su\<lparr>su_bars := su_bars su + 1\<rparr>) = Inr g"
    and rest: "su_bars su + 1 < tp_setup_timeout_bars tp" "ema_20 ind = Some e20" "ema_50 ind = Some e50"
      "ema_200 ind = Some e200" "rsi ind = Some r" "regime ind = Some TREND_UP" "e200 < cd_close c" "e200 < e50"
      "e20 < cd_close c" "\<not> ps_has_position ps" "pb_phase (pullback_state tp' (cd_symbol c)) = PULLBACK_IDLE"
  have "setup_ok (tp_setup_timeout_bars tp) su"
    using assms(1) su by (simp add: pullback_ok_def pullback_state_ok_def)
  moreover obtain p where "pb_previous_rsi (pullback_state tp (cd_symbol c)) = Some p" "p \<le> 45" "45 < r"
    using crossed by (auto simp: crossed_up_def split: option.splits)
  ultimately show ?thesis
    using su rest build_confirmed_signal_fields [OF signal]
    by (intro exI [of _ su] exI [of _ e20] exI [of _ e50] exI [of _ e200] exI [of _ p] exI [of _ r])
      (simp add: setup_ok_def)
qed

text \<open>A position of the second breakout strategy on the last bar of its failure watch.\<close>

definition ex_watch :: breakout_retest_v2 where
  "ex_watch = \<lparr>td_name = ''BreakoutRetestV2'', td_config = default_dca_config, td_dca_levels = [],
     td_trailing_highs = [], br_resistance_lookback_bars = 20, br_retest_timeout_bars = 24,
     br_state = [(''BTCUSDT'', new_v2_symbol_state
       \<lparr>vs_position_state := Some FAILURE_WATCH, vs_breakout_level := Some 100, vs_watch_used := True,
        vs_watch_bars := 23, vs_age_bars := 50\<rparr>)],
     v2_detection_age_bars = 24, v2_watch_max_bars = 24\<rparr>"

definition ex_watch_position :: position_state where
  "ex_watch_position = \<lparr>po_symbol = ''BTCUSDT'', po_side = ''long'', po_entry_price = 100, po_quantity = 1,
     po_unrealized_pnl_pct = - 1 / 100, po_holding_periods = 50, po_capital = 1000, po_high_water_mark = None\<rparr>"

lemmas ex_watch_simps =
  ex_watch_def ex_watch_position_def ex_bt_candle_def new_v2_symbol_state_def default_dca_config_def
  br_should_exit_def observe_candle_def observe_high_def symbol_state_def put_symbol_state_def
  trend_should_exit_def trailing_step_def candle_get_def no_indicators_def decimal_ops Let_def
  v2_should_exit_def observe_position_candle_def watch_bar_def watch_recovered_def last_n_def


lemma failure_watch_once_per_position_witness:
  "\<exists>v res be' v'. new_breakout_retest_v2 default_dca_config 20 24 24 24 1 [''BTCUSDT''] = Inr v \<and>
     run_backtest ex_backtest [ex_bt_candle 1 100] (BaseStrategy breakout_retest_v2_strategy) v None
       = Inr (res, be', v') \<and>
     event_count ''FAILURE_WATCH_STARTED'' (v2_state v' ''BTCUSDT'')
       \<le> event_count ''POSITION_NORMAL_STARTED'' (v2_state v' ''BTCUSDT'')"
proof -
  obtain v where v: "new_breakout_retest_v2 default_dca_config 20 24 24 24 1 [''BTCUSDT''] = Inr v"
    "br_state v = [(''BTCUSDT'', new_v2_symbol_state)]" "br_resistance_lookback_bars v = 20"
    by (simp add: new_breakout_retest_v2_def RESISTANCE_LOOKBACK_BARS_def RETEST_TIMEOUT_BARS_def
        FAILURE_DETECTION_AGE_BARS_def FAILURE_WATCH_MAX_BARS_def br_fresh_states_def)
  obtain res be' v' where run: "run_backtest ex_backtest [ex_bt_candle 1 100]
      (BaseStrategy breakout_retest_v2_strategy) v None = Inr (res, be', v')"
    by (simp add: ex_run_simps breakout_retest_v2_strategy_def base_strategy_signals_def
        get_position_def v2_should_enter_def br_should_enter_def observe_candle_def observe_high_def
        symbol_state_def put_symbol_state_def v new_v2_symbol_state_def idle_candle_def raw_of_option_def
        candle_indicators_def no_indicators_def)
  from failure_watch_once_per_position [OF v(1) run, of "''BTCUSDT''"] v(1) run show ?thesis by blast
qed

text \<open>A setup armed one candle ago, and the candle that confirms it.\<close>

definition ex_pullback :: trend_pullback where
  "ex_pullback = \<lparr>td_name = ''TrendDCA'', td_config = default_dca_config, td_dca_levels = [],
     td_trailing_highs = [], tp_setup_timeout_bars = 12,
     tp_state = [(''BTCUSDT'', \<lparr>pb_phase = PULLBACK_ARMED, pb_previous_rsi = Some 40,
       pb_setup = Some \<lparr>su_time = 0, su_rsi = 40, su_close = 99, su_ema20 = 98, su_ema50 = 95, su_ema200 = 90,
         su_regime = TREND_UP, su_bars = 0\<rparr>\<rparr>)]\<rparr>"

definition ex_recovery :: indicators where
  "ex_recovery = no_indicators\<lparr>ema_20 := Some 98, ema_50 := Some 95, ema_200 := Some 90, rsi := Some 50,
     regime := Some TREND_UP\<rparr>"

lemma pullback_entry_is_confirmed_witness:
  "\<exists>g tp'. pullback_should_enter ex_pullback ''u'' (ex_bt_candle 1 100) ex_recovery
       \<lparr>ps_has_position = False, ps_capital = 1000, ps_available_balance = 1000\<rparr> = Inr (Some g, tp') \<and>
     map_of (sig_metadata g) ''setup_rsi'' = Some (MDec 40) \<and>
     pb_phase (pullback_state tp' ''BTCUSDT'') = PULLBACK_IDLE"
proof -
  let ?ps = "\<lparr>ps_has_position = False, ps_capital = 1000, ps_available_balance = 1000\<rparr>"
  obtain g tp' where enter: "pullback_should_enter ex_pullback ''u'' (ex_bt_candle 1 100) ex_recovery ?ps
      = Inr (Some g, tp')"
    by (simp add: pullback_should_enter_def ex_pullback_def ex_recovery_def ex_bt_candle_def pullback_state_def
        pullback_armed_candle_def crossed_up_def high_volatility_bar_def no_indicators_def
        build_confirmed_signal_def base_order_quantity_def ddiv_or_raise_def Let_def)
  have "pullback_ok ex_pullback"
    by (simp add: pullback_ok_def pullback_state_ok_def pullback_state_def ex_pullback_def setup_ok_def
        new_pullback_state_def)
  from pullback_entry_is_confirmed [OF this enter] enter show ?thesis
    by (auto simp: ex_pullback_def pullback_state_def ex_bt_candle_def)
qed

end
