(* ===== verification/Engine_Invariant.thy ===== *)
theory Engine_Invariant
  imports Backtest_Audit
begin

text \<open>
  Invariants of the engine through a whole backtest, stated once: a predicate that survives a change of
  what the audit does not see, a new signal, an executed order, a mark to market and a new maximum
  drawdown holds at the end of every run that starts with it.
\<close>

locale engine_invariant =
  fixes I :: "backtest_engine \<Rightarrow> bool"
  assumes view: "audit_view be' = audit_view be \<Longrightarrow> I be \<Longrightarrow> I be'"
    and signals: "I be \<Longrightarrow> I (be\<lparr>be_signals := gs\<rparr>)"
    and execute: "I be \<Longrightarrow> create_and_execute_order be g p t v = Inr (r, be') \<Longrightarrow> I be'"
    and mark: "I be \<Longrightarrow> I (mark_to_market c h be)"
    and drawdown: "I be \<Longrightarrow> I (be\<lparr>be_portfolio := (be_portfolio be)\<lparr>pf_max_drawdown := d\<rparr>\<rparr>)"
begin

lemma process: "process_signal candles i g t be = Inr (r, be') \<Longrightarrow> I be \<Longrightarrow> I be'"
  by (auto simp: process_signal_def bind_result_Inr_iff intro: execute signals)

lemma pending:
  "execute_pending strategy candles i p t g (be, s) = Inr (be', s') \<Longrightarrow> I be \<Longrightarrow> I be'"
  by (auto simp: execute_pending_def bind_result_Inr_iff intro: execute)

lemma pendings:
  "fold_result (execute_pending strategy candles i p t) gs (be, s) = Inr (be', s') \<Longrightarrow> I be \<Longrightarrow> I be'"
proof (induction gs arbitrary: be s)
  case (Cons g gs)
  obtain be1 s1 where q: "execute_pending strategy candles i p t g (be, s) = Inr (be1, s1)"
      "fold_result (execute_pending strategy candles i p t) gs (be1, s1) = Inr (be', s')"
    using Cons.prems(1) by (auto simp: bind_result_Inr_iff)
  from Cons.IH [OF q(2) pending [OF q(1) Cons.prems(2)]] show ?case .
qed simp

lemma level:
  assumes "execute_level candles i t run_id e (c, be) = Inr (c', be')" "I be"
  shows "I be'"
proof -
  obtain u be1 where u: "draw_uuid be = (u, be1)" by force
  from assms(1) u have "be' = be \<or> (\<exists>g f. process_signal candles i g t be1 = Inr (f, be'))"
    by (auto simp: execute_level_def bind_result_Inr_iff split: option.splits)
  with assms(2) view [OF draw_uuid_view [OF u]] show ?thesis by (auto intro: process)
qed

lemma levels:
  "fold_result (execute_level candles i t run_id) es (c, be) = Inr (c', be') \<Longrightarrow> I be \<Longrightarrow> I be'"
proof (induction es arbitrary: c be)
  case (Cons e es)
  obtain c1 be1 where q: "execute_level candles i t run_id e (c, be) = Inr (c1, be1)"
      "fold_result (execute_level candles i t run_id) es (c1, be1) = Inr (c', be')"
    using Cons.prems(1) by (auto simp: bind_result_Inr_iff)
  from Cons.IH [OF q(2) level [OF q(1) Cons.prems(2)]] show ?case .
qed simp

lemma queue:
  assumes "queue_signal c t run_id raw (ps, be) = Inr (ps', be')" "I be"
  shows "I be'"
proof -
  obtain g be1 where "normalize_signal raw c t run_id be = Inr (g, be1)"
      "be' = be1\<lparr>be_signals := be_signals be1 @ [g]\<rparr>"
    using assms(1) by (auto simp: queue_signal_def bind_result_Inr_iff)
  with assms(2) normalize_signal_view view show ?thesis by (metis signals)
qed

lemma queues:
  "fold_result (queue_signal c t run_id) raws (ps, be) = Inr (ps', be') \<Longrightarrow> I be \<Longrightarrow> I be'"
proof (induction raws arbitrary: ps be)
  case (Cons raw raws)
  obtain ps1 be1 where q: "queue_signal c t run_id raw (ps, be) = Inr (ps1, be1)"
      "fold_result (queue_signal c t run_id) raws (ps1, be1) = Inr (ps', be')"
    using Cons.prems(1) by (auto simp: bind_result_Inr_iff)
  from Cons.IH [OF q(2) queue [OF q(1) Cons.prems(2)]] show ?case .
qed simp

lemma ask:
  assumes "ask_strategy strategy provider run_id i c b st = Inr st'" "I (bt_engine st)"
  shows "I (bt_engine st')"
proof -
  obtain raw s be raws ps be' where a:
      "(if b then Inr (RawNone, bt_strategy_state st, bt_engine st)
        else strategy_signals strategy c (candle_indicators provider c i)
               (bt_strategy_state st) (bt_engine st)) = Inr (raw, s, be)"
      "fold_result (queue_signal c (cd_open_time c) run_id) raws ([], be) = Inr (ps, be')"
      "st' = st\<lparr>bt_engine := be', bt_strategy_state := s, bt_pending := ps\<rparr>"
    using assms(1) by (auto simp: ask_strategy_def bind_result_Inr_iff)
  have "audit_view be = audit_view (bt_engine st)"
    using a(1) by (auto dest: strategy_signals_view split: if_splits)
  from queues [OF a(2) view [OF this assms(2)]] a(3) show ?thesis by simp
qed

lemma candle:
  assumes "run_candle strategy provider run_id candles (i, c) st = Inr st'" "I (bt_engine st)"
  shows "I (bt_engine st')"
  using assms(1)
proof (cases rule: run_candle_cases)
  case (1 be1 s1 b be2 st1)
  from ask [OF 1(3)] levels [OF 1(2) pendings [OF 1(1) assms(2)]] have "I (bt_engine st1)"
    by (simp add: mark)
  with 1(4) show ?thesis by (auto simp: track_drawdown_def Let_def bind_result_Inr_iff intro: drawdown)
qed

lemma liquidate: "liquidate_position candles run_id c sp be = Inr be' \<Longrightarrow> I be \<Longrightarrow> I be'"
  using view [OF draw_uuid_view]
  by (auto simp: liquidate_position_def bind_result_Inr_iff intro: process split: prod.splits)

lemma run:
  assumes "run_backtest be candles strategy s provider = Inr (res, be', s')" "I be"
  shows "I be'"
proof -
  obtain run_id be1 where u: "draw_uuid be = (run_id, be1)" by force
  obtain st where st: "run_candles strategy provider run_id candles (initial_bt_state be1 s) = Inr st"
      "finish_run candles run_id (bt_engine st) = Inr be'"
    using assms(1) u by (auto simp: run_backtest_def bind_result_Inr_iff)
  have "I (bt_engine st)"
    by (rule run_candles_invariant [OF st(1), of "\<lambda>st. I (bt_engine st)"])
      (use view [OF draw_uuid_view [OF u] assms(2)] candle in \<open>auto simp: initial_bt_state_def\<close>)
  with st(2) show ?thesis
    by (auto simp: finish_run_def split: if_splits elim!: fold_result_invariant intro: liquidate)
qed

end

end
