(* ===== verification/Attribution.thy ===== *)
theory Attribution
  imports Engine_Invariant "HOL-Library.Char_ord" "HOL-Library.List_Lexorder"
begin

text \<open>
  The attribution of a persisted backtest, \<open>app/reporting/backtest_attribution.py\<close>: the closed trades are
  reconstructed from the fill rows alone, reconciled with the persisted totals and grouped into buckets.
  The rows come from the audit tables (theory \<open>Audit_Store\<close>). This theory holds the operations and what
  the buckets are; \<open>Attribution_Facts\<close> relates the reconstruction to the engine's own portfolio.
\<close>

section \<open>Data\<close>

text \<open>A fill joined with the signal of its order: the signal's regime and reason, when it has them.\<close>

record audit_row =
  ar_symbol :: string
  ar_side :: string
  ar_quantity :: decimal
  ar_price :: decimal
  ar_commission :: decimal
  ar_fill_time :: timestamp
  ar_regime :: "string option"
  ar_reason :: "string option"

record closed_trade =
  clt_symbol :: string
  clt_entry_time :: timestamp
  clt_exit_time :: timestamp
  clt_entry_regime :: string
  clt_exit_reason :: string
  clt_quantity :: decimal
  clt_entry_price :: decimal
  clt_exit_price :: decimal
  clt_entry_commission :: decimal
  clt_exit_commission :: decimal
  clt_pnl :: decimal

record open_lot =
  ol_quantity :: decimal
  ol_entry_price :: decimal
  ol_entry_commission :: decimal
  ol_entry_time :: timestamp
  ol_entry_regime :: string

record attribution_bucket =
  ab_key :: string
  ab_trades :: nat
  ab_wins :: nat
  ab_losses :: nat
  ab_pnl :: decimal
  ab_gross_profit :: decimal
  ab_gross_loss :: decimal

definition ab_win_rate :: "attribution_bucket \<Rightarrow> decimal" where
  "ab_win_rate b = (if ab_trades b = 0 then 0 else ddiv (dec_of_nat (ab_wins b)) (dec_of_nat (ab_trades b)))"

text \<open>\<open>None\<close> is \<open>Decimal("Infinity")\<close>.\<close>

definition ab_profit_factor :: "attribution_bucket \<Rightarrow> decimal option" where
  "ab_profit_factor b =
     (if ab_gross_loss b = 0 then (if ab_gross_profit b = 0 then Some 0 else None)
      else Some (ddiv (ab_gross_profit b) (dabs (ab_gross_loss b))))"

section \<open>Reconstruction of the closed trades\<close>

definition QUANTITY_RECONCILIATION_TOLERANCE :: decimal where
  "QUANTITY_RECONCILIATION_TOLERANCE = 1 / 10 ^ 17"

text \<open>\<open>str(x or "UNKNOWN")\<close>.\<close>

definition or_unknown :: "string option \<Rightarrow> string" where
  "or_unknown x = (case x of None \<Rightarrow> ''UNKNOWN'' | Some s \<Rightarrow> if s = '''' then ''UNKNOWN'' else s)"

definition lot_of_row :: "audit_row \<Rightarrow> open_lot" where
  "lot_of_row r =
     \<lparr>ol_quantity = ar_quantity r, ol_entry_price = ar_price r, ol_entry_commission = ar_commission r,
      ol_entry_time = ar_fill_time r, ol_entry_regime = or_unknown (ar_regime r)\<rparr>"

definition add_to_lot :: "audit_row \<Rightarrow> open_lot \<Rightarrow> open_lot result" where
  "add_to_lot r l =
     (let total_quantity = dadd (ol_quantity l) (ar_quantity r)
      in if total_quantity \<le> 0
         then Inl (ValueError ''Invalid non-positive position quantity after buy'')
         else bind_result
           (ddiv_or_raise (dadd (dmul (ol_entry_price l) (ol_quantity l)) (dmul (ar_price r) (ar_quantity r)))
              total_quantity)
           (\<lambda>price. Inr (l\<lparr>ol_entry_price := price, ol_quantity := total_quantity,
              ol_entry_commission := dadd (ol_entry_commission l) (ar_commission r)\<rparr>)))"

definition close_lot :: "audit_row \<Rightarrow> open_lot \<Rightarrow> closed_trade" where
  "close_lot r l =
     \<lparr>clt_symbol = ar_symbol r, clt_entry_time = ol_entry_time l, clt_exit_time = ar_fill_time r,
      clt_entry_regime = ol_entry_regime l, clt_exit_reason = or_unknown (ar_reason r),
      clt_quantity = ol_quantity l, clt_entry_price = ol_entry_price l, clt_exit_price = ar_price r,
      clt_entry_commission = ol_entry_commission l, clt_exit_commission = ar_commission r,
      clt_pnl = dsub (dsub (dmul (dsub (ar_price r) (ol_entry_price l)) (ol_quantity l))
                       (ol_entry_commission l)) (ar_commission r)\<rparr>"

definition reconstruct_row ::
    "audit_row \<Rightarrow> open_lot option \<times> closed_trade list \<Rightarrow> (open_lot option \<times> closed_trade list) result"
    where
  "reconstruct_row r x =
     (case x of
        (lot, trades) \<Rightarrow>
          let side = str_lower (ar_side r)
          in if side = ''buy''
             then (case lot of
                     None \<Rightarrow> Inr (Some (lot_of_row r), trades)
                   | Some l \<Rightarrow> bind_result (add_to_lot r l) (\<lambda>l'. Inr (Some l', trades)))
             else if side \<noteq> ''sell'' then Inl (ValueError ''Unsupported fill side'')
             else (case lot of
                     None \<Rightarrow> Inl (ValueError ''Sell fill without an open spot position'')
                   | Some l \<Rightarrow>
                       if QUANTITY_RECONCILIATION_TOLERANCE < dabs (dsub (ar_quantity r) (ol_quantity l))
                       then Inl (ValueError ''Partial/oversized sell is not supported'')
                       else Inr (None, trades @ [close_lot r l])))"

definition reconstruct_closed_trades :: "audit_row list \<Rightarrow> closed_trade list result" where
  "reconstruct_closed_trades rows =
     bind_result (fold_result reconstruct_row rows (None, []))
       (\<lambda>(lot, trades).
          if lot \<noteq> None
          then Inl (ValueError ''Audit contains an open position without a closing fill'')
          else Inr trades)"

section \<open>Buckets\<close>

definition add_to_group :: "(closed_trade \<Rightarrow> string) \<Rightarrow> closed_trade \<Rightarrow> closed_trade list dict \<Rightarrow> closed_trade list dict"
    where
  "add_to_group key t d =
     AList.update (key t) ((case map_of d (key t) of None \<Rightarrow> [] | Some g \<Rightarrow> g) @ [t]) d"

definition bucket_of :: "string \<Rightarrow> closed_trade list \<Rightarrow> attribution_bucket" where
  "bucket_of key g =
     (let pnls = map clt_pnl g; wins = filter (\<lambda>p. 0 < p) pnls; losses = filter (\<lambda>p. p < 0) pnls
      in \<lparr>ab_key = key, ab_trades = length g, ab_wins = length wins, ab_losses = length losses,
          ab_pnl = dsum pnls, ab_gross_profit = dsum wins, ab_gross_loss = dsum losses\<rparr>)"

definition bucket_trades :: "closed_trade list \<Rightarrow> (closed_trade \<Rightarrow> string) \<Rightarrow> attribution_bucket list" where
  "bucket_trades trades key =
     (let grouped = fold (add_to_group key) trades []
      in map (\<lambda>k. bucket_of k (case map_of grouped k of None \<Rightarrow> [] | Some g \<Rightarrow> g)) (sort (map fst grouped)))"

section \<open>The calendar month of an instant\<close>

text \<open>The proleptic Gregorian year and month of a day counted from 1970-01-01.\<close>

definition civil_month :: "int \<Rightarrow> int \<times> int" where
  "civil_month day =
     (let z = day + 719468; era = z div 146097; doe = z mod 146097;
          yoe = (doe - doe div 1460 + doe div 36524 - doe div 146096) div 365;
          doy = doe - (365 * yoe + yoe div 4 - yoe div 100);
          mp = (5 * doy + 2) div 153; m = (if mp < 10 then mp + 3 else mp - 9)
      in (yoe + era * 400 + (if m \<le> 2 then 1 else 0), m))"

definition month_key :: "timestamp \<Rightarrow> string" where
  "month_key t =
     (case civil_month (t div days 1) of
        (y, m) \<Rightarrow> zero_pad 4 (nat y) @ ''-'' @ zero_pad 2 (nat m))"

section \<open>The report\<close>

record backtest_attribution =
  ba_run_id :: string
  ba_symbol :: string
  ba_total_pnl :: decimal
  ba_attributed_pnl :: decimal
  ba_reconciliation_delta :: decimal
  ba_total_trades :: nat
  ba_trades :: "closed_trade list"
  ba_by_month :: "attribution_bucket list"
  ba_by_entry_regime :: "attribution_bucket list"
  ba_by_exit_reason :: "attribution_bucket list"

definition RECONCILIATION_TOLERANCE :: decimal where
  "RECONCILIATION_TOLERANCE = 1 / 10 ^ 9"

text \<open>
  \<open>build_backtest_attribution\<close> on the answers of its two queries: symbol, profit and number of trades of
  the run, if there is one, and its joined fill rows in sequence.
\<close>

definition build_backtest_attribution ::
    "string \<Rightarrow> (string \<times> decimal \<times> nat) option \<Rightarrow> audit_row list \<Rightarrow> decimal \<Rightarrow> backtest_attribution result"
    where
  "build_backtest_attribution run_id run rows tolerance =
     (case run of
        None \<Rightarrow> Inl (ValueError ''Backtest run not found'')
      | Some (symbol, total_pnl, total_trades) \<Rightarrow>
          bind_result (reconstruct_closed_trades rows)
            (\<lambda>trades.
               let attributed = dsum (map clt_pnl trades); delta = dsub attributed total_pnl
               in if length trades \<noteq> total_trades
                  then Inl (ValueError ''Trade count reconciliation failed'')
                  else if tolerance < dabs delta
                  then Inl (ValueError ''PnL reconciliation failed'')
                  else Inr \<lparr>ba_run_id = run_id, ba_symbol = symbol, ba_total_pnl = total_pnl,
                     ba_attributed_pnl = attributed, ba_reconciliation_delta = delta,
                     ba_total_trades = total_trades, ba_trades = trades,
                     ba_by_month = bucket_trades trades (month_key \<circ> clt_exit_time),
                     ba_by_entry_regime = bucket_trades trades clt_entry_regime,
                     ba_by_exit_reason = bucket_trades trades clt_exit_reason\<rparr>))"

section \<open>What the buckets are\<close>

lemma fold_group:
  "map_of (fold (add_to_group key) ts d) k =
     (case (map_of d k, filter (\<lambda>t. key t = k) ts) of
        (None, []) \<Rightarrow> None | (None, g) \<Rightarrow> Some g | (Some h, g) \<Rightarrow> Some (h @ g))"
  by (induction ts arbitrary: d) (auto simp: add_to_group_def split: option.splits list.splits)

lemma fold_group_wf: "dict_wf d \<Longrightarrow> dict_wf (fold (add_to_group key) ts d)"
  by (induction ts arbitrary: d) (simp_all add: add_to_group_def)

lemma fold_group_keys: "fst ` set (fold (add_to_group key) ts d) = fst ` set d \<union> key ` set ts"
  by (induction ts arbitrary: d) (auto simp: add_to_group_def dict_keys_update)

lemma bucket_trades_eq:
  "bucket_trades ts key =
     map (\<lambda>k. bucket_of k (filter (\<lambda>t. key t = k) ts)) (sorted_list_of_set (key ` set ts))"
proof -
  let ?d = "fold (add_to_group key) ts []"
  have "sort (map fst ?d) = sorted_list_of_set (fst ` set ?d)"
    using fold_group_wf [of "[]" key ts] by (simp add: dict_wf_def sorted_list_of_set_sort_remdups
        distinct_remdups_id flip: set_map)
  then have "sort (map fst ?d) = sorted_list_of_set (key ` set ts)" by (simp add: fold_group_keys)
  then show ?thesis
    by (auto simp: bucket_trades_def Let_def fold_group split: list.splits option.splits
        intro!: map_cong arg_cong [where f = "bucket_of _"])
qed

lemma sum_length_filter_keys:
  "finite K \<Longrightarrow> key ` set ts \<subseteq> K \<Longrightarrow> (\<Sum>k\<in>K. length (filter (\<lambda>t. key t = k) ts)) = length ts"
proof (induction ts)
  case (Cons t ts)
  then have "(\<Sum>k\<in>K. length (filter (\<lambda>t. key t = k) (t # ts)))
      = (\<Sum>k\<in>K. (if key t = k then 1 else 0) + length (filter (\<lambda>t. key t = k) ts))"
    by (intro sum.cong) simp_all
  with Cons show ?case by (simp add: sum.distrib)
qed simp

lemma bucket_trades_count: "sum_list (map ab_trades (bucket_trades ts key)) = length ts"
proof -
  have "sum_list (map ab_trades (bucket_trades ts key))
      = (\<Sum>k\<in>key ` set ts. length (filter (\<lambda>t. key t = k) ts))"
    by (simp add: bucket_trades_eq comp_def bucket_of_def Let_def sum_list_distinct_conv_sum_set)
  then show ?thesis by (simp add: sum_length_filter_keys)
qed

end
