(* ===== verification/Attribution_Facts.thy ===== *)
theory Attribution_Facts
  imports Attribution
begin

text \<open>
  Reconstruction refines the portfolio: replaying the fills of a run on one symbol gives the portfolio's
  closed trades and its open position, until a fill whose quantity is not that of its order. The relation
  is an invariant of the engine (an interpretation of \<open>engine_invariant\<close>), so it holds after every run.
\<close>

section \<open>Fills as rows\<close>

definition row_of_fill :: "string option \<Rightarrow> string option \<Rightarrow> fill \<Rightarrow> audit_row" where
  "row_of_fill g r f =
     \<lparr>ar_symbol = fill_symbol f, ar_side = fill_side f, ar_quantity = fill_quantity f,
      ar_price = fill_price f, ar_commission = fill_commission f, ar_fill_time = fill_timestamp f,
      ar_regime = g, ar_reason = r\<rparr>"

text \<open>
  What a reconstructed trade shares with the portfolio's closing trade, and an open lot with the position.
\<close>

definition closed_core :: "closed_trade \<Rightarrow> close_trade" where
  "closed_core t =
     \<lparr>ct_symbol = clt_symbol t, ct_side = ''long'', ct_entry_price = clt_entry_price t,
      ct_exit_price = clt_exit_price t, ct_quantity = clt_quantity t, ct_pnl = clt_pnl t,
      ct_commission = clt_exit_commission t, ct_entry_time = clt_entry_time t,
      ct_exit_time = clt_exit_time t, ct_duration = clt_exit_time t - clt_entry_time t\<rparr>"

fun close_trade_of :: "trade \<Rightarrow> close_trade option" where
  "close_trade_of (TradeOpen t) = None"
| "close_trade_of (TradeClose t) = Some t"

definition portfolio_closes :: "portfolio \<Rightarrow> close_trade list" where
  "portfolio_closes pf = List.map_filter close_trade_of (pf_trade_history pf)"

definition lot_core :: "position \<Rightarrow> decimal \<times> decimal \<times> decimal \<times> timestamp" where
  "lot_core p = (pos_quantity p, pos_entry_price p, pos_entry_commission p, pos_entry_time p)"

definition lot_view :: "open_lot \<Rightarrow> decimal \<times> decimal \<times> decimal \<times> timestamp" where
  "lot_view l = (ol_quantity l, ol_entry_price l, ol_entry_commission l, ol_entry_time l)"

definition replayed_books :: "string \<Rightarrow> portfolio \<Rightarrow> open_lot option \<times> closed_trade list \<Rightarrow> bool" where
  "replayed_books s pf x \<longleftrightarrow>
     map closed_core (snd x) = portfolio_closes pf \<and>
     (case fst x of
        None \<Rightarrow> pf_positions pf = []
      | Some l \<Rightarrow> \<exists>p. pf_positions pf = [(s, p)] \<and> pos_side p = ''long'' \<and> 0 < pos_quantity p \<and>
          lot_view l = lot_core p)"

lemma portfolio_closes_pnls: "map ct_pnl (portfolio_closes pf) = close_pnls pf"
proof -
  have "map ct_pnl (List.map_filter close_trade_of ts) = List.map_filter close_trade_pnl ts" for ts
  proof (induction ts)
    case (Cons t ts)
    then show ?case by (cases t) (simp_all add: List.map_filter_def)
  qed (simp add: List.map_filter_def)
  then show ?thesis by (simp add: portfolio_closes_def close_pnls_def)
qed

lemma replayed_books_pnls: "replayed_books s pf x \<Longrightarrow> map clt_pnl (snd x) = close_pnls pf"
proof -
  assume "replayed_books s pf x"
  then have "map ct_pnl (map closed_core (snd x)) = map ct_pnl (portfolio_closes pf)"
    by (simp add: replayed_books_def)
  then show ?thesis by (simp add: portfolio_closes_pnls comp_def closed_core_def)
qed

section \<open>One fill\<close>

lemma str_lower_sides [simp]: "str_lower ''buy'' = ''buy''" "str_lower ''sell'' = ''sell''"
  by (simp_all add: str_lower_def lower_char_def)

lemma reconstruct_open:
  assumes "replayed_books s pf x" "open_position pf s ''long'' price q t sl tp c = Inr (True, pf')"
    "str_lower (ar_side r) = ''buy''" "ar_quantity r = q" "ar_price r = price" "ar_commission r = c"
    "ar_fill_time r = t"
  shows "\<exists>x'. reconstruct_row r x = Inr x' \<and> replayed_books s pf' x'"
proof -
  obtain lot trades where x: "x = (lot, trades)" by force
  note acc = open_position_accepted [OF assms(2)]
  have closes: "portfolio_closes pf' = portfolio_closes pf"
    by (simp add: portfolio_closes_def acc(8) List.map_filter_def)
  show ?thesis
  proof (cases lot)
    case None
    then have "pf_positions pf' = [(s, new_position s ''long'' price q t sl tp c)]"
      using assms(1,2) x by (auto simp: replayed_books_def open_position_def Let_def split: if_splits)
    with assms x None acc(2) closes show ?thesis
      by (auto simp: reconstruct_row_def replayed_books_def lot_of_row_def new_position_def lot_view_def lot_core_def)
  next
    case (Some l)
    then obtain p where p: "pf_positions pf = [(s, p)]" "pos_side p = ''long''" "0 < pos_quantity p"
        "lot_view l = lot_core p"
      using assms(1) x by (auto simp: replayed_books_def)
    obtain p' where p': "add_to_position p price q sl tp c = Inr p'" "pf_positions pf' = [(s, p')]"
      using assms(2) p(1) by (auto simp: open_position_def Let_def bind_result_Inr_iff split: if_splits)
    have pos: "0 < dadd (pos_quantity p) q" using p(3) acc(2) by (intro dadd_pos) simp_all
    have "\<exists>l'. add_to_lot r l = Inr l' \<and> lot_view l' = lot_core p'"
      using p'(1) p(4) pos assms(4-7)
      by (auto simp: add_to_lot_def add_to_position_def Let_def ddiv_or_raise_def lot_view_def lot_core_def
          split: if_splits)
    moreover have "pos_side p' = ''long''" "0 < pos_quantity p'"
      using p'(1) p(2) pos by (auto simp: add_to_position_def Let_def bind_result_Inr_iff)
    ultimately show ?thesis
      using assms(1,3) x Some p'(2) closes by (auto simp: reconstruct_row_def replayed_books_def)
  qed
qed

lemma reconstruct_close:
  assumes "replayed_books s pf x" "close_position pf s price t c = (Some pnl, pf')"
    "str_lower (ar_side r) = ''sell''" "ar_price r = price" "ar_commission r = c" "ar_fill_time r = t"
    "ar_symbol r = s" "map_of (pf_positions pf) s = Some p"
  shows "(ar_quantity r \<noteq> pos_quantity p) \<and> (\<exists>e. reconstruct_row r x = Inl e) \<or>
     (\<exists>x'. reconstruct_row r x = Inr x' \<and> replayed_books s pf' x')"
proof -
  obtain l trades where x: "x = (Some l, trades)"
    using assms(1,8) by (cases x; cases "fst x") (auto simp: replayed_books_def)
  then have p: "pf_positions pf = [(s, p)]" "lot_view l = lot_core p" "pos_side p = ''long''"
    using assms(1,8) by (auto simp: replayed_books_def)
  have "\<not> QUANTITY_RECONCILIATION_TOLERANCE < dabs (dsub (pos_quantity p) (pos_quantity p))"
    by (simp add: QUANTITY_RECONCILIATION_TOLERANCE_def dabs_def)
  moreover have "replayed_books s pf' (None, trades @ [close_lot r l])"
    using assms p x
    by (auto simp: replayed_books_def close_position_def Let_def portfolio_closes_def List.map_filter_def
        closed_core_def close_lot_def close_pnl_def lot_view_def lot_core_def)
  ultimately show ?thesis
    using assms(3) x p(2) by (auto simp: reconstruct_row_def lot_view_def lot_core_def)
qed

section \<open>A whole run\<close>

definition resized :: "backtest_engine \<Rightarrow> bool" where
  "resized be \<longleftrightarrow>
     (\<exists>f \<in> set (be_fills be). \<exists>o1 \<in> set (be_orders be).
        ord_order_id o1 = fill_order_id f \<and> ord_quantity o1 \<noteq> fill_quantity f)"

definition replay_fills :: "(fill \<Rightarrow> string option \<times> string option) \<Rightarrow> backtest_engine
    \<Rightarrow> (open_lot option \<times> closed_trade list) result" where
  "replay_fills g be = fold_result reconstruct_row
     (map (\<lambda>f. row_of_fill (fst (g f)) (snd (g f)) f) (be_fills be)) (None, [])"

definition replayable :: "string \<Rightarrow> backtest_engine \<Rightarrow> bool" where
  "replayable s be \<longleftrightarrow>
     (\<forall>f \<in> set (be_fills be). fill_symbol f = s) \<longrightarrow>
     (\<forall>g. case replay_fills g be of Inl e \<Rightarrow> resized be | Inr x \<Rightarrow> replayed_books s (be_portfolio be) x)"

lemma resized_more:
  "resized be \<Longrightarrow> set (be_fills be) \<subseteq> set (be_fills be') \<Longrightarrow> set (be_orders be) \<subseteq> set (be_orders be') \<Longrightarrow>
     resized be'"
  unfolding resized_def by blast

lemma replayed_books_portfolio:
  "pf_positions pf' = pf_positions pf \<Longrightarrow> pf_trade_history pf' = pf_trade_history pf \<Longrightarrow>
     replayed_books s pf' x = replayed_books s pf x"
  by (cases "fst x") (simp_all add: replayed_books_def portfolio_closes_def)

lemma replayed_books_drawdown: "replayed_books s (pf\<lparr>pf_max_drawdown := d\<rparr>) x = replayed_books s pf x"
  by (rule replayed_books_portfolio) simp_all

lemma fold_result_one: "fold_result f [x] = f x"
  by (intro ext) (simp add: fold_result_Nil_fun)

lemma replayable_keep:
  assumes "replayable s be" "be_fills be' = be_fills be" "set (be_orders be) \<subseteq> set (be_orders be')"
    "\<And>x. replayed_books s (be_portfolio be) x \<Longrightarrow> replayed_books s (be_portfolio be') x"
  shows "replayable s be'"
proof -
  have "replay_fills g be' = replay_fills g be" for g using assms(2) by (simp add: replay_fills_def)
  then show ?thesis
    using assms resized_more [of be be'] by (auto simp: replayable_def split: sum.splits)
qed

lemma replayable_fill:
  assumes "replayable s be" "be_fills be' = be_fills be @ [f]" "set (be_orders be) \<subseteq> set (be_orders be')"
    "\<And>a b x. fill_symbol f = s \<Longrightarrow> replayed_books s (be_portfolio be) x \<Longrightarrow>
       (\<exists>e. reconstruct_row (row_of_fill a b f) x = Inl e) \<and> resized be' \<or>
       (\<exists>x'. reconstruct_row (row_of_fill a b f) x = Inr x' \<and> replayed_books s (be_portfolio be') x')"
  shows "replayable s be'"
  unfolding replayable_def
proof (intro impI allI)
  fix g
  assume syms: "\<forall>f \<in> set (be_fills be'). fill_symbol f = s"
  then have f: "fill_symbol f = s" and old: "case replay_fills g be of Inl e \<Rightarrow> resized be
      | Inr x \<Rightarrow> replayed_books s (be_portfolio be) x"
    using assms(1,2) by (simp_all add: replayable_def)
  have step: "replay_fills g be' = bind_result (replay_fills g be) (reconstruct_row (row_of_fill (fst (g f)) (snd (g f)) f))"
    by (simp add: replay_fills_def assms(2) fold_result_append fold_result_one del: fold_result.simps)
  show "case replay_fills g be' of Inl e \<Rightarrow> resized be' | Inr x \<Rightarrow> replayed_books s (be_portfolio be') x"
  proof (cases "replay_fills g be")
    case (Inl e)
    with old step resized_more [of be be'] assms(2,3) show ?thesis by auto
  next
    case (Inr x)
    with old assms(4) [OF f, of x "fst (g f)" "snd (g f)"] step show ?thesis by auto
  qed
qed

lemma settle_cases:
  assumes "settle be o1 p q c = Inr (Some be')"
  obtains (bought) pf where "ord_side o1 = ''buy''" "be' = be\<lparr>be_portfolio := pf\<rparr>"
      "open_position (be_portfolio be) (order_symbol o1) ''long'' p q (ord_created_at o1)
         (sig_stop_loss (ord_signal o1)) (sig_take_profit (ord_signal o1)) c = Inr (True, pf)"
    | (sold) pf pnl where "ord_side o1 \<noteq> ''buy''" "be' = be\<lparr>be_portfolio := pf\<rparr>"
      "close_position (be_portfolio be) (order_symbol o1) p (ord_created_at o1) c = (Some pnl, pf)"
  using assms
  by (auto simp: settle_def bind_result_Inr_iff split: if_splits prod.splits option.splits)

text \<open>
  An order is a buy, or a sell of the whole position; placing it changes neither fills nor portfolio.
\<close>

lemma create_and_execute_order_cases:
  assumes "create_and_execute_order be g p t v = Inr (r, be')"
  obtains (refused) d where "be' = be\<lparr>be_risk_decisions := be_risk_decisions be @ [d]\<rparr>"
    | (placed) o1 be1 where "be_orders be1 = be_orders be @ [o1]" "be_fills be1 = be_fills be"
      "be_portfolio be1 = be_portfolio be" "execute_order be1 o1 v = Inr (r, be')"
      "ord_side o1 = ''buy'' \<or> ord_side o1 = ''sell'' \<and>
         (\<exists>pos. map_of (pf_positions (be_portfolio be)) (order_symbol o1) = Some pos \<and>
            ord_quantity o1 = pos_quantity pos)"
proof -
  obtain action where a: "parse_signal_action (sig_action g) = Inr action"
    using assms by (auto simp: create_and_execute_order_def bind_result_Inr_iff)
  have place: thesis
    if "place_order be g side q p t = (o1, be1)" "execute_order be1 o1 v = Inr (r, be')"
      "side = ''buy'' \<or> side = ''sell'' \<and> (\<exists>pos. map_of (pf_positions (be_portfolio be)) (sig_symbol g) = Some pos
         \<and> q = pos_quantity pos)" for side q o1 be1
    using that by (intro placed [of be1 o1])
      (auto simp: place_order_def Let_def next_id_def order_symbol_def)
  show thesis
  proof (cases "is_entry action \<or> get_position (be_portfolio be) (sig_symbol g) \<noteq> None")
    case True
    with assms a place show thesis
      by (auto simp: create_and_execute_order_def get_position_def split: prod.splits if_splits option.splits)
  next
    case False
    with assms a refused [of "no_position_decision g"] show thesis
      by (auto simp: create_and_execute_order_def)
  qed
qed

lemma replayable_execute:
  assumes "replayable s be" "create_and_execute_order be g p t v = Inr (r, be')"
  shows "replayable s be'"
  using assms(2)
proof (cases rule: create_and_execute_order_cases)
  case (refused d)
  with assms(1) show ?thesis by (auto intro: replayable_keep)
next
  case (placed o1 be1)
  from placed(4) show ?thesis
  proof (cases rule: execute_order_cases)
    case (refused result price q be2)
    have "audit_view be2 = audit_view be1" using decide_order_view [OF refused(1)] by simp
    with assms(1) placed refused(3) show ?thesis by (auto simp: audit_view_eq intro: replayable_keep)
  next
    case (filled result price q be2 be3 fid be4)
    let ?c = "calculate_commission (bc_commission_config (be_config be2)) q price False"
    let ?f = "make_fill fid o1 q price ?c"
    have v: "audit_view be2 = audit_view be1" using decide_order_view [OF filled(1)] by simp
    note n = next_id_view [OF filled(4)]
    from filled(3) show ?thesis
    proof (cases rule: settle_cases)
      case (bought pf)
      have be': "be_fills be' = be_fills be @ [?f]" "be_orders be' = be_orders be @ [o1]" "be_portfolio be' = pf"
        using bought v n placed filled(6) by (simp_all add: audit_view_eq)
      show ?thesis
      proof (rule replayable_fill [OF assms(1) be'(1)], goal_cases)
        case (2 a b x)
        then show ?case
          using reconstruct_open [OF 2(2), of price q _ _ _ ?c pf "row_of_fill a b ?f"] bought placed(3) v be'(3)
          by (auto simp: row_of_fill_def make_fill_def audit_view_eq)
      qed (auto simp: be'(2))
    next
      case (sold pf pnl)
      have be': "be_fills be' = be_fills be @ [?f]" "be_orders be' = be_orders be @ [o1]" "be_portfolio be' = pf"
        using sold v n placed filled(6) by (simp_all add: audit_view_eq)
      have resized: "resized be'" if "q \<noteq> ord_quantity o1"
        unfolding resized_def be'(1,2) using that by (intro bexI [of _ ?f] bexI [of _ o1]) (auto simp: make_fill_def)
      show ?thesis
      proof (rule replayable_fill [OF assms(1) be'(1)], goal_cases)
        case (2 a b x)
        obtain pos where "map_of (pf_positions (be_portfolio be)) (order_symbol o1) = Some pos"
            "ord_quantity o1 = pos_quantity pos"
          using placed(5) sold(1) by auto
        then show ?case
          using reconstruct_close [OF 2(2), of price _ ?c pnl pf "row_of_fill a b ?f" pos] 2(1) sold placed(3,5)
            v be'(3) resized
          by (auto simp: row_of_fill_def make_fill_def audit_view_eq)
      qed (auto simp: be'(2))
    qed
  qed
qed

lemma replayable_mark:
  assumes "replayable s be"
  shows "replayable s (mark_to_market c h be)"
proof (rule replayable_keep [OF assms])
  fix x
  assume "replayed_books s (be_portfolio be) x"
  then show "replayed_books s (be_portfolio (mark_to_market c h be)) x"
    by (auto simp: replayed_books_def mark_to_market_def update_positions_def Let_def portfolio_closes_def
        lot_core_def split: option.splits)
qed (simp_all add: mark_to_market_def Let_def)

interpretation replayed: engine_invariant "replayable s" for s
proof
  show "replayable s be'" if "audit_view be' = audit_view be" "replayable s be" for be' be
    using that by (auto simp: audit_view_eq intro: replayable_keep)
  show "replayable s (be\<lparr>be_signals := gs\<rparr>)" if "replayable s be" for be gs
    using that by (auto intro: replayable_keep)
  show "replayable s be'" if "replayable s be" "create_and_execute_order be g p t v = Inr (r, be')"
    for be g p t v r be' using that by (rule replayable_execute)
  show "replayable s (mark_to_market c h be)" if "replayable s be" for be c h
    using that by (rule replayable_mark)
  show "replayable s (be\<lparr>be_portfolio := (be_portfolio be)\<lparr>pf_max_drawdown := d\<rparr>\<rparr>)" if "replayable s be" for be d
    by (rule replayable_keep [OF that]) (simp_all add: replayed_books_drawdown)
qed

lemma replayable_new: "replayable s (new_backtest_engine cfg re rng uuid clock)"
  by (simp add: replayable_def replay_fills_def replayed_books_def new_backtest_engine_def new_portfolio_def
      portfolio_closes_def List.map_filter_def)

end
