(* ===== verification/Audit_Store.thy ===== *)
theory Audit_Store
  imports Attribution_Facts
begin

text \<open>
  The audit tables of a backtest: \<open>scripts/run_backtest.py\<close> builds the payload of a run,
  \<open>app/backtest/persistence.py\<close> stores it in one transaction, and the queries of
  \<open>app/reporting/backtest_attribution.py\<close> read it back. A table is the list of its rows; the conflict
  clauses of the statements and the constraints and column types of
  \<open>database/migrations/008_create_backtest_audit.sql\<close> decide what an insert does. The digest (SHA-256 of
  the canonical JSON) and \<open>uuid5\<close> are parameters, and a JSON column holds the value it encodes.
\<close>

section \<open>Columns\<close>

text \<open>\<open>numeric(p, s)\<close>: rounded half away from zero to \<open>s\<close> places, refused when it has too many digits.\<close>

definition sql_round :: "nat \<Rightarrow> decimal \<Rightarrow> decimal" where
  "sql_round s x = sgn x * of_int \<lfloor>\<bar>x\<bar> * 10 ^ s + 1 / 2\<rfloor> / 10 ^ s"

lemma floor_quotient: "\<lfloor>numeral a / numeral b :: rat\<rfloor> = numeral a div numeral b"
  by (metis floor_divide_of_int_eq of_int_numeral)

definition numeric_column :: "nat \<Rightarrow> nat \<Rightarrow> decimal \<Rightarrow> decimal result" where
  "numeric_column p s x =
     (let r = sql_round s x
      in if 10 ^ (p - s) \<le> \<bar>r\<bar> then Inl (DatabaseError ''numeric field overflow'') else Inr r)"

definition check_constraint :: "bool \<Rightarrow> unit result" where
  "check_constraint b = (if b then Inr () else Inl (DatabaseError ''violates check constraint''))"

section \<open>The payload of a run\<close>

text \<open>The period is given as text; next to it stands the instant that the text denotes.\<close>

record run_metadata =
  md_created_at :: timestamp
  md_git_commit :: "string option"
  md_exchange :: string
  md_symbol :: string
  md_interval :: string
  md_start :: "string \<times> timestamp"
  md_end :: "string \<times> timestamp"
  md_candle_count :: nat
  md_random_seed :: int
  md_dataset_fingerprint :: "string option"
  md_indicator_model_version :: "string option"
  md_regime_model_version :: "string option"
  md_execution_model_version :: "string option"

record audit_payload =
  ap_metadata :: run_metadata
  ap_strategy_name :: string
  ap_parameters_version :: string
  ap_strategy_parameters :: string
  ap_configuration :: string
  ap_initial_balance :: decimal
  ap_final_equity :: decimal
  ap_backtest :: backtest_result

text \<open>
  The figures of the payload are those of the result; strategy parameters and configuration are kept as
  their JSON text.
\<close>

definition build_output ::
    "backtest_result \<Rightarrow> run_metadata \<Rightarrow> string \<Rightarrow> string \<Rightarrow> string \<Rightarrow> string \<Rightarrow> decimal \<Rightarrow> audit_payload" where
  "build_output res md name version parameters configuration initial_balance =
     \<lparr>ap_metadata = md, ap_strategy_name = name, ap_parameters_version = version,
      ap_strategy_parameters = parameters, ap_configuration = configuration,
      ap_initial_balance = initial_balance, ap_final_equity = total_equity (br_portfolio res),
      ap_backtest = res\<rparr>"

section \<open>Fingerprint\<close>

definition required_metadata :: "string option \<Rightarrow> string \<Rightarrow> string result" where
  "required_metadata v key =
     (case v of
        None \<Rightarrow> Inl (ValueError (''Backtest metadata requires '' @ key))
      | Some s \<Rightarrow> if s = '''' then Inl (ValueError (''Backtest metadata requires '' @ key)) else Inr s)"

record reproducibility_inputs =
  ri_git_commit :: "string option"
  ri_exchange :: string
  ri_symbol :: string
  ri_interval :: string
  ri_start :: "string \<times> timestamp"
  ri_end :: "string \<times> timestamp"
  ri_candle_count :: nat
  ri_random_seed :: int
  ri_dataset_fingerprint :: string
  ri_indicator_model_version :: string
  ri_regime_model_version :: string
  ri_execution_model_version :: string
  ri_strategy :: "string \<times> string \<times> string"
  ri_configuration :: string

definition reproducibility_of :: "audit_payload \<Rightarrow> reproducibility_inputs result" where
  "reproducibility_of ap =
     (let md = ap_metadata ap in
      bind_result (required_metadata (md_dataset_fingerprint md) ''dataset_fingerprint'') (\<lambda>d.
      bind_result (required_metadata (md_indicator_model_version md) ''indicator_model_version'') (\<lambda>i.
      bind_result (required_metadata (md_regime_model_version md) ''regime_model_version'') (\<lambda>r.
      bind_result (required_metadata (md_execution_model_version md) ''execution_model_version'') (\<lambda>x.
        Inr \<lparr>ri_git_commit = md_git_commit md, ri_exchange = md_exchange md, ri_symbol = md_symbol md,
          ri_interval = md_interval md, ri_start = md_start md, ri_end = md_end md,
          ri_candle_count = md_candle_count md, ri_random_seed = md_random_seed md,
          ri_dataset_fingerprint = d, ri_indicator_model_version = i, ri_regime_model_version = r,
          ri_execution_model_version = x,
          ri_strategy = (ap_strategy_name ap, ap_parameters_version ap, ap_strategy_parameters ap),
          ri_configuration = ap_configuration ap\<rparr>)))))"

definition build_run_fingerprint ::
    "(reproducibility_inputs \<Rightarrow> string) \<Rightarrow> audit_payload \<Rightarrow> string result" where
  "build_run_fingerprint digest ap = bind_result (reproducibility_of ap) (\<lambda>ri. Inr (digest ri))"

definition run_id_from_fingerprint :: "(string \<Rightarrow> string) \<Rightarrow> string \<Rightarrow> string" where
  "run_id_from_fingerprint uuid5 fingerprint = uuid5 (''crypto_trading_system/backtest/'' @ fingerprint)"

section \<open>Tables\<close>

record run_row =
  rr_run_id :: string
  rr_run_fingerprint :: string
  rr_metadata :: run_metadata
  rr_strategy_name :: string
  rr_parameters_version :: string
  rr_strategy_parameters :: string
  rr_backtest_config :: string
  rr_initial_balance :: decimal
  rr_final_equity :: decimal
  rr_total_pnl :: decimal
  rr_total_trades :: nat
  rr_winning_trades :: nat
  rr_losing_trades :: nat
  rr_win_rate :: decimal
  rr_profit_factor :: decimal
  rr_average_trade :: decimal
  rr_average_win :: decimal
  rr_average_loss :: decimal
  rr_max_drawdown :: decimal
  rr_max_consecutive_losses :: nat
  rr_audit_file :: "string option"

record 'p detail_row =
  dr_run_id :: string
  dr_sequence_no :: nat
  dr_payload :: 'p

record fill_row = "fill detail_row" +
  fr_quantity :: decimal
  fr_price :: decimal
  fr_commission :: decimal

record audit_db =
  db_runs :: "run_row list"
  db_signals :: "signal detail_row list"
  db_risk_decisions :: "risk_decision detail_row list"
  db_orders :: "order detail_row list"
  db_fills :: "fill_row list"

definition empty_audit_db :: audit_db where
  "empty_audit_db =
     \<lparr>db_runs = [], db_signals = [], db_risk_decisions = [], db_orders = [], db_fills = []\<rparr>"

section \<open>Statements\<close>

text \<open>
  \<open>INSERT ... ON CONFLICT (run_id, sequence_no) DO NOTHING\<close>: only that key is forgiven, any other
  unique constraint still raises.
\<close>

definition detail_key :: "('p, 'm) detail_row_scheme \<Rightarrow> string \<times> nat" where
  "detail_key r = (dr_run_id r, dr_sequence_no r)"

definition insert_detail ::
    "('p \<Rightarrow> string) \<Rightarrow> ('p, 'm) detail_row_scheme \<Rightarrow> ('p, 'm) detail_row_scheme list
     \<Rightarrow> ('p, 'm) detail_row_scheme list result" where
  "insert_detail uniq r rows =
     (if detail_key r \<in> set (map detail_key rows) then Inr rows
      else if (dr_run_id r, uniq (dr_payload r)) \<in> set (map (\<lambda>x. (dr_run_id x, uniq (dr_payload x))) rows)
      then Inl (DatabaseError ''duplicate key value violates unique constraint'')
      else Inr (rows @ [r]))"

definition insert_signal :: "signal detail_row \<Rightarrow> signal detail_row list \<Rightarrow> signal detail_row list result" where
  "insert_signal r rows =
     (if detail_key r \<in> set (map detail_key rows) then Inr rows else Inr (rows @ [r]))"

definition insert_risk_decision ::
    "risk_decision detail_row \<Rightarrow> risk_decision detail_row list \<Rightarrow> risk_decision detail_row list result" where
  "insert_risk_decision r rows = insert_detail rd_order_id r rows"

definition valid_side :: "string \<Rightarrow> bool" where
  "valid_side side \<longleftrightarrow> side = ''buy'' \<or> side = ''sell''"

definition insert_order :: "order detail_row \<Rightarrow> order detail_row list \<Rightarrow> order detail_row list result" where
  "insert_order r rows =
     bind_result (check_constraint (valid_side (ord_side (dr_payload r))))
       (\<lambda>u. insert_detail ord_order_id r rows)"

definition insert_fill :: "fill detail_row \<Rightarrow> fill_row list \<Rightarrow> fill_row list result" where
  "insert_fill r rows =
     (let f = dr_payload r in
      bind_result (numeric_column 38 18 (fill_quantity f)) (\<lambda>q.
      bind_result (numeric_column 38 12 (fill_price f)) (\<lambda>p.
      bind_result (numeric_column 38 12 (fill_commission f)) (\<lambda>c.
      bind_result (check_constraint (valid_side (fill_side f) \<and> 0 < q \<and> 0 < p \<and> 0 \<le> c)) (\<lambda>u.
        insert_detail fill_fill_id
          \<lparr>dr_run_id = dr_run_id r, dr_sequence_no = dr_sequence_no r, dr_payload = f,
           fr_quantity = q, fr_price = p, fr_commission = c\<rparr> rows)))))"

text \<open>The run itself: a known fingerprint keeps its row, but for the audit file.\<close>

definition insert_run :: "run_row \<Rightarrow> run_row list \<Rightarrow> run_row list result" where
  "insert_run r rows =
     bind_result (check_constraint
         (0 < md_candle_count (rr_metadata r) \<and> 0 < rr_initial_balance r \<and>
          snd (md_start (rr_metadata r)) < snd (md_end (rr_metadata r)) \<and>
          rr_winning_trades r + rr_losing_trades r = rr_total_trades r))
       (\<lambda>u.
          if rr_run_fingerprint r \<in> set (map rr_run_fingerprint rows)
          then Inr (map (\<lambda>x. if rr_run_fingerprint x = rr_run_fingerprint r
                           then x\<lparr>rr_audit_file := (if rr_audit_file r = None then rr_audit_file x
                                                       else rr_audit_file r)\<rparr>
                           else x) rows)
          else if rr_run_id r \<in> set (map rr_run_id rows)
          then Inl (DatabaseError ''duplicate key value violates unique constraint'')
          else Inr (rows @ [r]))"

definition run_values ::
    "string \<Rightarrow> string \<Rightarrow> audit_payload \<Rightarrow> string option \<Rightarrow> run_row result" where
  "run_values run_id fingerprint ap audit_file =
     (let b = ap_backtest ap in
      bind_result (numeric_column 38 12 (ap_initial_balance ap)) (\<lambda>balance.
      bind_result (numeric_column 38 12 (ap_final_equity ap)) (\<lambda>equity.
      bind_result (numeric_column 38 12 (br_total_pnl b)) (\<lambda>pnl.
      bind_result (numeric_column 18 12 (br_win_rate b)) (\<lambda>win_rate.
      bind_result (numeric_column 38 12 (br_profit_factor b)) (\<lambda>profit_factor.
      bind_result (numeric_column 38 12 (br_average_trade b)) (\<lambda>average_trade.
      bind_result (numeric_column 38 12 (br_average_win b)) (\<lambda>average_win.
      bind_result (numeric_column 38 12 (br_average_loss b)) (\<lambda>average_loss.
      bind_result (numeric_column 18 12 (br_max_drawdown b)) (\<lambda>max_drawdown.
        Inr \<lparr>rr_run_id = run_id, rr_run_fingerprint = fingerprint, rr_metadata = ap_metadata ap,
          rr_strategy_name = ap_strategy_name ap, rr_parameters_version = ap_parameters_version ap,
          rr_strategy_parameters = ap_strategy_parameters ap, rr_backtest_config = ap_configuration ap,
          rr_initial_balance = balance, rr_final_equity = equity, rr_total_pnl = pnl,
          rr_total_trades = br_total_trades b, rr_winning_trades = br_winning_trades b,
          rr_losing_trades = br_losing_trades b, rr_win_rate = win_rate, rr_profit_factor = profit_factor,
          rr_average_trade = average_trade, rr_average_win = average_win, rr_average_loss = average_loss,
          rr_max_drawdown = max_drawdown, rr_max_consecutive_losses = br_max_consecutive_losses b,
          rr_audit_file = audit_file\<rparr>))))))))))"

text \<open>\<open>enumerate(items, start=1)\<close> under the run id.\<close>

definition detail_rows :: "string \<Rightarrow> 'p list \<Rightarrow> 'p detail_row list" where
  "detail_rows run_id items =
     map2 (\<lambda>n x. \<lparr>dr_run_id = run_id, dr_sequence_no = n, dr_payload = x\<rparr>) [1..<Suc (length items)] items"

text \<open>One transaction: an error leaves the tables as they were.\<close>

definition persist_backtest_audit ::
    "(reproducibility_inputs \<Rightarrow> string) \<Rightarrow> (string \<Rightarrow> string) \<Rightarrow> audit_payload \<Rightarrow> string option \<Rightarrow> audit_db
     \<Rightarrow> (string \<times> audit_db) result" where
  "persist_backtest_audit digest uuid5 ap audit_file db =
     bind_result (build_run_fingerprint digest ap) (\<lambda>fingerprint.
       let run_id = run_id_from_fingerprint uuid5 fingerprint; b = ap_backtest ap in
       bind_result (run_values run_id fingerprint ap audit_file) (\<lambda>row.
       bind_result (insert_run row (db_runs db)) (\<lambda>runs.
       bind_result (fold_result insert_signal (detail_rows run_id (br_signals b)) (db_signals db)) (\<lambda>gs.
       bind_result (fold_result insert_risk_decision (detail_rows run_id (br_risk_decisions b))
                      (db_risk_decisions db)) (\<lambda>ds.
       bind_result (fold_result insert_order (detail_rows run_id (br_orders b)) (db_orders db)) (\<lambda>os.
       bind_result (fold_result insert_fill (detail_rows run_id (br_fills b)) (db_fills db)) (\<lambda>fs.
         Inr (run_id, \<lparr>db_runs = runs, db_signals = gs, db_risk_decisions = ds, db_orders = os,
                       db_fills = fs\<rparr>))))))))"

section \<open>Queries\<close>

definition select_run :: "string \<Rightarrow> audit_db \<Rightarrow> (string \<times> decimal \<times> nat) option" where
  "select_run run_id db =
     map_option (\<lambda>r. (md_symbol (rr_metadata r), rr_total_pnl r, rr_total_trades r))
       (find (\<lambda>r. rr_run_id r = run_id) (db_runs db))"

text \<open>The fills of a run in sequence, joined with their orders; \<open>o.payload -> 'signal'\<close>.\<close>

definition joined_row :: "fill_row \<Rightarrow> order \<Rightarrow> audit_row" where
  "joined_row r o1 =
     \<lparr>ar_symbol = fill_symbol (dr_payload r), ar_side = fill_side (dr_payload r),
      ar_quantity = fr_quantity r, ar_price = fr_price r, ar_commission = fr_commission r,
      ar_fill_time = fill_timestamp (dr_payload r), ar_regime = sig_regime (ord_signal o1),
      ar_reason = Some (sig_reason (ord_signal o1))\<rparr>"

definition select_fills :: "string \<Rightarrow> audit_db \<Rightarrow> audit_row list" where
  "select_fills run_id db =
     concat (map (\<lambda>r. map (joined_row r \<circ> dr_payload)
         (filter (\<lambda>o1. dr_run_id o1 = run_id \<and> ord_order_id (dr_payload o1) = fill_order_id (dr_payload r))
            (db_orders db)))
       (sort_key dr_sequence_no (filter (\<lambda>r. dr_run_id r = run_id) (db_fills db))))"

definition attribution_of_run :: "string \<Rightarrow> audit_db \<Rightarrow> backtest_attribution result" where
  "attribution_of_run run_id db =
     build_backtest_attribution run_id (select_run run_id db) (select_fills run_id db)
       RECONCILIATION_TOLERANCE"

end
