(* ===== verification/Audit_Store_Facts.thy ===== *)
theory Audit_Store_Facts
  imports Audit_Store
begin

text \<open>
  What storing a run does to the tables. The four detail tables obey one contract, stated as a locale: an
  insert under a new key appends the stored form of the row, and under a known key changes nothing. From it
  follow that a run stored under a fresh id can be read back, and that storing a payload again changes no
  row but the audit file of the run.
\<close>

section \<open>The contract of a detail table\<close>

locale detail_table =
  fixes ins :: "'p detail_row \<Rightarrow> ('p, 'm) detail_row_scheme list \<Rightarrow> ('p, 'm) detail_row_scheme list result"
    and stored :: "'p detail_row \<Rightarrow> ('p, 'm) detail_row_scheme"
  assumes stored_key: "detail_key (stored r) = detail_key r"
    and new: "ins r t = Inr t' \<Longrightarrow> detail_key r \<notin> detail_key ` set t \<Longrightarrow> t' = t @ [stored r]"
    and known: "ins r t = Inr t' \<Longrightarrow> detail_key r \<in> detail_key ` set t \<Longrightarrow> t' = t"
    and again: "ins r t = Inr t' \<Longrightarrow> detail_key r \<in> detail_key ` set u \<Longrightarrow> ins r u = Inr u"
begin

lemma insert_keys:
  assumes "ins r t = Inr t'"
  shows "detail_key ` set t' = insert (detail_key r) (detail_key ` set t)"
proof (cases "detail_key r \<in> detail_key ` set t")
  case True
  with known [OF assms] show ?thesis by auto
next
  case False
  from new [OF assms False] show ?thesis by (simp add: stored_key)
qed

lemma fresh:
  "fold_result ins rows t = Inr t' \<Longrightarrow> distinct (map detail_key rows) \<Longrightarrow>
     detail_key ` set rows \<inter> detail_key ` set t = {} \<Longrightarrow> t' = t @ map stored rows"
proof (induction rows arbitrary: t)
  case (Cons r rows)
  obtain t1 where t1: "ins r t = Inr t1" "fold_result ins rows t1 = Inr t'"
    using Cons.prems(1) by (auto simp: bind_result_Inr_iff)
  have "t1 = t @ [stored r]" using new [OF t1(1)] Cons.prems(3) by auto
  with Cons.IH [OF t1(2)] Cons.prems(2,3) show ?case by (auto simp: stored_key)
qed simp

lemma keys:
  "fold_result ins rows t = Inr t' \<Longrightarrow>
     detail_key ` set t' = detail_key ` set rows \<union> detail_key ` set t"
proof (induction rows arbitrary: t)
  case (Cons r rows)
  obtain t1 where t1: "ins r t = Inr t1" "fold_result ins rows t1 = Inr t'"
    using Cons.prems(1) by (auto simp: bind_result_Inr_iff)
  from Cons.IH [OF t1(2)] insert_keys [OF t1(1)] show ?case by auto
qed simp

lemma repeated:
  "fold_result ins rows t = Inr t' \<Longrightarrow> detail_key ` set rows \<subseteq> detail_key ` set u \<Longrightarrow>
     fold_result ins rows u = Inr u"
proof (induction rows arbitrary: t)
  case (Cons r rows)
  obtain t1 where t1: "ins r t = Inr t1" "fold_result ins rows t1 = Inr t'"
    using Cons.prems(1) by (auto simp: bind_result_Inr_iff)
  from Cons.IH [OF t1(2)] again [OF t1(1), of u] Cons.prems(2) show ?case by simp
qed simp

lemma stored_again:
  "fold_result ins rows t = Inr t' \<Longrightarrow> fold_result ins rows t' = Inr t'"
  by (rule repeated, assumption) (simp add: keys)

end

lemma insert_detail_new:
  "insert_detail uniq r t = Inr t' \<Longrightarrow> detail_key r \<notin> detail_key ` set t \<Longrightarrow> t' = t @ [r]"
  by (auto simp: insert_detail_def split: if_splits)

lemma insert_detail_known: "detail_key r \<in> detail_key ` set t \<Longrightarrow> insert_detail uniq r t = Inr t"
  by (simp add: insert_detail_def)

lemma check_constraint_Inr_iff: "check_constraint b = Inr u \<longleftrightarrow> b"
  by (simp add: check_constraint_def)

definition stored_fill :: "fill detail_row \<Rightarrow> fill_row" where
  "stored_fill r =
     \<lparr>dr_run_id = dr_run_id r, dr_sequence_no = dr_sequence_no r, dr_payload = dr_payload r,
      fr_quantity = sql_round 18 (fill_quantity (dr_payload r)),
      fr_price = sql_round 12 (fill_price (dr_payload r)),
      fr_commission = sql_round 12 (fill_commission (dr_payload r))\<rparr>"

lemma numeric_column_Inr: "numeric_column p s x = Inr y \<Longrightarrow> y = sql_round s x"
  by (auto simp: numeric_column_def Let_def split: if_splits)

lemma stored_fill_key: "detail_key (stored_fill r) = detail_key r"
  by (simp add: stored_fill_def detail_key_def)

text \<open>An accepted fill passes its checks, whatever the table holds.\<close>

lemma insert_fill_cases:
  assumes "insert_fill r t = Inr t'"
  shows "insert_fill r u = insert_detail fill_fill_id (stored_fill r) u"
proof -
  let ?f = "dr_payload r"
  obtain q p c where casts: "numeric_column 38 18 (fill_quantity ?f) = Inr q"
      "numeric_column 38 12 (fill_price ?f) = Inr p" "numeric_column 38 12 (fill_commission ?f) = Inr c"
      "valid_side (fill_side ?f) \<and> 0 < q \<and> 0 < p \<and> 0 \<le> c"
    using assms by (auto simp: insert_fill_def Let_def bind_result_Inr_iff check_constraint_Inr_iff)
  moreover from this have "stored_fill r = \<lparr>dr_run_id = dr_run_id r, dr_sequence_no = dr_sequence_no r,
      dr_payload = ?f, fr_quantity = q, fr_price = p, fr_commission = c\<rparr>"
    by (auto simp: stored_fill_def dest!: numeric_column_Inr)
  ultimately show ?thesis by (simp add: insert_fill_def Let_def check_constraint_def)
qed

interpretation signal_table: detail_table insert_signal "\<lambda>r. r"
  by unfold_locales (auto simp: insert_signal_def split: if_splits)

interpretation risk_decision_table: detail_table insert_risk_decision "\<lambda>r. r"
  by unfold_locales
    (auto simp: insert_risk_decision_def insert_detail_known dest: insert_detail_new)

interpretation order_table: detail_table insert_order "\<lambda>r. r"
proof
  show "t' = t @ [r]" if "insert_order r t = Inr t'" "detail_key r \<notin> detail_key ` set t" for r t t'
    using that by (auto simp: insert_order_def bind_result_Inr_iff dest: insert_detail_new)
  show "t' = t" if "insert_order r t = Inr t'" "detail_key r \<in> detail_key ` set t" for r t t'
    using that by (auto simp: insert_order_def bind_result_Inr_iff insert_detail_known)
  show "insert_order r u = Inr u" if "insert_order r t = Inr t'" "detail_key r \<in> detail_key ` set u" for r t t' u
    using that by (auto simp: insert_order_def bind_result_Inr_iff insert_detail_known)
qed simp

interpretation fill_table: detail_table insert_fill stored_fill
proof
  show "t' = t @ [stored_fill r]" if "insert_fill r t = Inr t'" "detail_key r \<notin> detail_key ` set t" for r t t'
    using that insert_fill_cases [OF that(1), of t]
    by (auto simp: stored_fill_key dest!: insert_detail_new)
  show "t' = t" if "insert_fill r t = Inr t'" "detail_key r \<in> detail_key ` set t" for r t t'
    using that insert_fill_cases [OF that(1), of t] by (simp add: insert_detail_known stored_fill_key)
  show "insert_fill r u = Inr u" if "insert_fill r t = Inr t'" "detail_key r \<in> detail_key ` set u" for r t t' u
    using insert_fill_cases [OF that(1), of u] that(2) by (simp add: insert_detail_known stored_fill_key)
qed (simp add: stored_fill_key)

section \<open>Storing a run\<close>

lemma persist_cases:
  assumes "persist_backtest_audit digest uuid5 ap file db = Inr (run_id, db')"
  obtains fingerprint row where
    "build_run_fingerprint digest ap = Inr fingerprint" "run_id = run_id_from_fingerprint uuid5 fingerprint"
    "run_values run_id fingerprint ap file = Inr row" "insert_run row (db_runs db) = Inr (db_runs db')"
    "fold_result insert_signal (detail_rows run_id (br_signals (ap_backtest ap))) (db_signals db)
       = Inr (db_signals db')"
    "fold_result insert_risk_decision (detail_rows run_id (br_risk_decisions (ap_backtest ap)))
       (db_risk_decisions db) = Inr (db_risk_decisions db')"
    "fold_result insert_order (detail_rows run_id (br_orders (ap_backtest ap))) (db_orders db)
       = Inr (db_orders db')"
    "fold_result insert_fill (detail_rows run_id (br_fills (ap_backtest ap))) (db_fills db)
       = Inr (db_fills db')"
  using assms by (auto simp: persist_backtest_audit_def Let_def bind_result_Inr_iff)

lemma run_values_Inr:
  "run_values run_id fingerprint ap file = Inr row \<Longrightarrow>
     rr_run_id row = run_id \<and> rr_run_fingerprint row = fingerprint \<and> rr_metadata row = ap_metadata ap \<and>
     rr_audit_file row = file \<and> rr_total_pnl row = sql_round 12 (br_total_pnl (ap_backtest ap)) \<and>
     rr_total_trades row = br_total_trades (ap_backtest ap)"
  by (auto simp: run_values_def Let_def bind_result_Inr_iff dest!: numeric_column_Inr)

lemma run_values_file:
  "run_values run_id fingerprint ap file = Inr row \<Longrightarrow>
     run_values run_id fingerprint ap file' = Inr (row\<lparr>rr_audit_file := file'\<rparr>)"
  by (auto simp: run_values_def Let_def bind_result_Inr_iff)

lemma detail_rows_keys:
  "map detail_key (detail_rows run_id xs) = map (Pair run_id) [1..<Suc (length xs)]"
  by (rule nth_equalityI) (simp_all add: detail_rows_def detail_key_def del: upt_Suc)

lemma detail_rows_distinct: "distinct (map detail_key (detail_rows run_id xs))"
  unfolding detail_rows_keys by (simp add: distinct_map inj_on_def)

lemma detail_rows_payloads: "map dr_payload (detail_rows run_id xs) = xs"
  by (rule nth_equalityI) (simp_all add: detail_rows_def del: upt_Suc)

lemma detail_rows_payload: "r \<in> set (detail_rows run_id xs) \<Longrightarrow> dr_payload r \<in> set xs"
  using detail_rows_payloads [of run_id xs] by (metis image_eqI set_map)

lemma detail_rows_run: "r \<in> set (detail_rows run_id xs) \<Longrightarrow> dr_run_id r = run_id"
  by (auto simp: detail_rows_def set_zip)

definition no_rows_of :: "string \<Rightarrow> audit_db \<Rightarrow> bool" where
  "no_rows_of run_id db \<longleftrightarrow>
     run_id \<notin> rr_run_id ` set (db_runs db) \<and> run_id \<notin> dr_run_id ` set (db_signals db) \<and>
     run_id \<notin> dr_run_id ` set (db_risk_decisions db) \<and> run_id \<notin> dr_run_id ` set (db_orders db) \<and>
     run_id \<notin> dr_run_id ` set (db_fills db)"

text \<open>The run id is a function of the fingerprint, in every table that was filled by storing runs.\<close>

definition run_ids_ok :: "(string \<Rightarrow> string) \<Rightarrow> audit_db \<Rightarrow> bool" where
  "run_ids_ok uuid5 db \<longleftrightarrow>
     (\<forall>r \<in> set (db_runs db). rr_run_id r = run_id_from_fingerprint uuid5 (rr_run_fingerprint r))"

definition coalesce_file :: "run_row \<Rightarrow> run_row \<Rightarrow> run_row" where
  "coalesce_file row x =
     (if rr_run_fingerprint x = rr_run_fingerprint row
      then x\<lparr>rr_audit_file := (if rr_audit_file row = None then rr_audit_file x else rr_audit_file row)\<rparr>
      else x)"

lemma coalesce_file_keeps [simp]:
  "rr_run_fingerprint (coalesce_file row x) = rr_run_fingerprint x"
  "rr_run_id (coalesce_file row x) = rr_run_id x"
  by (simp_all add: coalesce_file_def)

lemma insert_run_known:
  assumes "insert_run row t = Inr u" "rr_run_fingerprint row \<in> rr_run_fingerprint ` set t'"
  shows "insert_run row t' = Inr (map (coalesce_file row) t')"
  using assms by (auto simp: insert_run_def bind_result_Inr_iff check_constraint_def coalesce_file_def)

lemma insert_run_new:
  assumes "insert_run row t = Inr t'" "rr_run_fingerprint row \<notin> rr_run_fingerprint ` set t"
  shows "t' = t @ [row] \<and> rr_run_id row \<notin> rr_run_id ` set t"
  using assms by (auto simp: insert_run_def bind_result_Inr_iff split: if_splits)

lemma run_ids_ok_empty: "run_ids_ok uuid5 empty_audit_db"
  by (simp add: run_ids_ok_def empty_audit_db_def)

lemma run_ids_ok_persist:
  assumes "run_ids_ok uuid5 db" "persist_backtest_audit digest uuid5 ap file db = Inr (run_id, db')"
  shows "run_ids_ok uuid5 db'"
  using assms(2)
proof (cases rule: persist_cases)
  case (1 fingerprint row)
  note v = run_values_Inr [OF 1(3)]
  show ?thesis
  proof (cases "rr_run_fingerprint row \<in> rr_run_fingerprint ` set (db_runs db)")
    case True
    with insert_run_known [OF 1(4), of "db_runs db"] 1(4) have "db_runs db' = map (coalesce_file row) (db_runs db)"
      by simp
    with assms(1) show ?thesis by (simp add: run_ids_ok_def)
  next
    case False
    with insert_run_new [OF 1(4)] v 1(2) assms(1) show ?thesis by (auto simp: run_ids_ok_def)
  qed
qed

lemma no_rows_fresh:
  "run_id \<notin> dr_run_id ` set t \<Longrightarrow> detail_key ` set (detail_rows run_id xs) \<inter> detail_key ` set t = {}"
  by (auto simp: detail_key_def dest: detail_rows_run)

lemma persist_fresh:
  assumes "persist_backtest_audit digest uuid5 ap file db = Inr (run_id, db')" "no_rows_of run_id db"
    "run_ids_ok uuid5 db"
  shows "\<exists>row. db_runs db' = db_runs db @ [row] \<and> rr_run_id row = run_id \<and>
       rr_metadata row = ap_metadata ap \<and> rr_total_pnl row = sql_round 12 (br_total_pnl (ap_backtest ap)) \<and>
       rr_total_trades row = br_total_trades (ap_backtest ap)"
    "db_orders db' = db_orders db @ detail_rows run_id (br_orders (ap_backtest ap))"
    "db_fills db' = db_fills db @ map stored_fill (detail_rows run_id (br_fills (ap_backtest ap)))"
proof -
  obtain fingerprint row where p: "run_id = run_id_from_fingerprint uuid5 fingerprint"
    "run_values run_id fingerprint ap file = Inr row" "insert_run row (db_runs db) = Inr (db_runs db')"
    "fold_result insert_order (detail_rows run_id (br_orders (ap_backtest ap))) (db_orders db)
       = Inr (db_orders db')"
    "fold_result insert_fill (detail_rows run_id (br_fills (ap_backtest ap))) (db_fills db)
       = Inr (db_fills db')"
    using assms(1) by (auto elim!: persist_cases)
  have "fingerprint \<notin> rr_run_fingerprint ` set (db_runs db)"
    using assms(2,3) p(1) by (force simp: run_ids_ok_def no_rows_of_def)
  with p(3) run_values_Inr [OF p(2)] assms(2)
  show "\<exists>row. db_runs db' = db_runs db @ [row] \<and> rr_run_id row = run_id \<and>
       rr_metadata row = ap_metadata ap \<and> rr_total_pnl row = sql_round 12 (br_total_pnl (ap_backtest ap)) \<and>
       rr_total_trades row = br_total_trades (ap_backtest ap)"
    using insert_run_new [OF p(3)] by auto
  show "db_orders db' = db_orders db @ detail_rows run_id (br_orders (ap_backtest ap))"
    using order_table.fresh [OF p(4) detail_rows_distinct no_rows_fresh] assms(2)
    by (simp add: no_rows_of_def)
  show "db_fills db' = db_fills db @ map stored_fill (detail_rows run_id (br_fills (ap_backtest ap)))"
    using fill_table.fresh [OF p(5) detail_rows_distinct no_rows_fresh] assms(2)
    by (simp add: no_rows_of_def)
qed

text \<open>Storing a payload again: only the audit file of the run may change.\<close>

definition set_audit_file :: "string \<Rightarrow> string option \<Rightarrow> run_row list \<Rightarrow> run_row list" where
  "set_audit_file fingerprint file rows =
     map (\<lambda>r. if rr_run_fingerprint r = fingerprint \<and> file \<noteq> None then r\<lparr>rr_audit_file := file\<rparr> else r) rows"

lemma insert_run_again:
  assumes "insert_run row t = Inr t'"
  shows "insert_run (row\<lparr>rr_audit_file := file\<rparr>) t' = Inr (set_audit_file (rr_run_fingerprint row) file t')"
proof -
  have known: "rr_run_fingerprint row \<in> rr_run_fingerprint ` set t'"
  proof (cases "rr_run_fingerprint row \<in> rr_run_fingerprint ` set t")
    case True
    with insert_run_known [OF assms, of t] assms show ?thesis by (simp add: image_image)
  next
    case False
    with insert_run_new [OF assms] show ?thesis by simp
  qed
  have "insert_run (row\<lparr>rr_audit_file := file\<rparr>) t' = Inr (map (coalesce_file (row\<lparr>rr_audit_file := file\<rparr>)) t')"
    using assms known by (auto simp: insert_run_def bind_result_Inr_iff check_constraint_def coalesce_file_def)
  then show ?thesis by (auto simp: set_audit_file_def coalesce_file_def)
qed

lemma persist_again:
  assumes "persist_backtest_audit digest uuid5 ap file db = Inr (run_id, db')"
  shows "\<exists>fingerprint. build_run_fingerprint digest ap = Inr fingerprint \<and>
     persist_backtest_audit digest uuid5 ap file' db' =
       Inr (run_id, db'\<lparr>db_runs := set_audit_file fingerprint file' (db_runs db')\<rparr>)"
  using assms
proof (cases rule: persist_cases)
  case (1 fingerprint row)
  note again = signal_table.stored_again [OF 1(5)] risk_decision_table.stored_again [OF 1(6)]
    order_table.stored_again [OF 1(7)] fill_table.stored_again [OF 1(8)]
  with 1(1,2) run_values_file [OF 1(3)] insert_run_again [OF 1(4)] run_values_Inr [OF 1(3)]
  show ?thesis by (simp add: persist_backtest_audit_def Let_def)
qed

text \<open>The second unique constraint of a table is not forgiven: new rows need pairwise different identifiers.\<close>

lemma insert_details_distinct:
  "fold_result (insert_detail uniq) rows t = Inr t' \<Longrightarrow> distinct (map detail_key rows) \<Longrightarrow>
     detail_key ` set rows \<inter> detail_key ` set t = {} \<Longrightarrow>
     distinct (map (\<lambda>r. (dr_run_id r, uniq (dr_payload r))) rows) \<and>
     (\<lambda>r. (dr_run_id r, uniq (dr_payload r))) ` set rows \<inter>
       (\<lambda>r. (dr_run_id r, uniq (dr_payload r))) ` set t = {}"
proof (induction rows arbitrary: t)
  case (Cons r rows)
  obtain t1 where t1: "insert_detail uniq r t = Inr t1" "fold_result (insert_detail uniq) rows t1 = Inr t'"
    using Cons.prems(1) by (auto simp: bind_result_Inr_iff)
  have new: "detail_key r \<notin> detail_key ` set t" using Cons.prems(3) by auto
  note t1_eq = insert_detail_new [OF t1(1) new]
  have "(dr_run_id r, uniq (dr_payload r)) \<notin> (\<lambda>r. (dr_run_id r, uniq (dr_payload r))) ` set t"
    using t1(1) new by (auto simp: insert_detail_def split: if_splits)
  moreover have "detail_key ` set rows \<inter> detail_key ` set t1 = {}"
    using Cons.prems(2,3) t1_eq by auto
  ultimately show ?case using Cons.IH [OF t1(2)] Cons.prems(2) t1_eq by auto
qed simp

lemma map_detail_rows: "map (\<lambda>r. (dr_run_id r, f (dr_payload r))) (detail_rows run_id xs) = map (\<lambda>x. (run_id, f x)) xs"
proof -
  have "map (\<lambda>r. (dr_run_id r, f (dr_payload r))) (detail_rows run_id xs)
      = map (\<lambda>x. (run_id, f x)) (map dr_payload (detail_rows run_id xs))"
    unfolding map_map by (rule map_cong) (auto dest: detail_rows_run)
  then show ?thesis by (simp add: detail_rows_payloads)
qed

lemma stored_decisions_distinct:
  assumes "persist_backtest_audit digest uuid5 ap file db = Inr (run_id, db')" "no_rows_of run_id db"
  shows "distinct (map rd_order_id (br_risk_decisions (ap_backtest ap)))"
  using assms(1)
proof (cases rule: persist_cases)
  case (1 fingerprint row)
  have "fold_result (insert_detail rd_order_id) (detail_rows run_id (br_risk_decisions (ap_backtest ap)))
      (db_risk_decisions db) = Inr (db_risk_decisions db')"
    using 1(6) by (simp add: insert_risk_decision_def [abs_def])
  from insert_details_distinct [OF this detail_rows_distinct no_rows_fresh] assms(2)
  have "distinct (map (\<lambda>d. (run_id, rd_order_id d)) (br_risk_decisions (ap_backtest ap)))"
    by (simp add: no_rows_of_def map_detail_rows)
  then show ?thesis by (simp add: distinct_map inj_on_def)
qed

section \<open>Reading a stored run back\<close>

lemma filter_unique:
  "distinct (map f xs) \<Longrightarrow> x \<in> set xs \<Longrightarrow> filter (\<lambda>y. f y = f x) xs = [x]"
proof (induction xs)
  case (Cons a xs)
  show ?case
  proof (cases "x = a")
    case True
    with Cons.prems(1) have "\<forall>y \<in> set xs. f y \<noteq> f x" by (auto simp: image_iff)
    then have "filter (\<lambda>y. f y = f x) xs = []" by (simp add: filter_empty_conv)
    with True show ?thesis by simp
  next
    case False
    with Cons.prems have "x \<in> set xs" "f a \<noteq> f x" by force+
    with Cons show ?thesis by simp
  qed
qed simp

text \<open>The column types lose nothing of these fills.\<close>

definition exact_fill :: "fill \<Rightarrow> bool" where
  "exact_fill f \<longleftrightarrow>
     sql_round 18 (fill_quantity f) = fill_quantity f \<and> sql_round 12 (fill_price f) = fill_price f \<and>
     sql_round 12 (fill_commission f) = fill_commission f"

definition signal_columns :: "order list \<Rightarrow> fill \<Rightarrow> string option \<times> string option" where
  "signal_columns os f =
     (case find (\<lambda>o1. ord_order_id o1 = fill_order_id f) os of
        None \<Rightarrow> (None, None)
      | Some o1 \<Rightarrow> (sig_regime (ord_signal o1), Some (sig_reason (ord_signal o1))))"

lemma filter_detail_rows:
  "map dr_payload (filter (\<lambda>r. dr_run_id r = run_id \<and> P (dr_payload r)) (detail_rows run_id xs)) = filter P xs"
proof -
  have "map dr_payload (filter (\<lambda>r. dr_run_id r = run_id \<and> P (dr_payload r)) (detail_rows run_id xs))
      = map dr_payload (filter (P \<circ> dr_payload) (detail_rows run_id xs))"
    by (intro arg_cong [where f = "map dr_payload"] filter_cong) (auto dest: detail_rows_run)
  then show ?thesis by (simp flip: filter_map add: detail_rows_payloads)
qed

lemma find_filter: "filter P xs = x # ys \<Longrightarrow> find P xs = Some x"
  by (induction xs) (auto split: if_splits)

lemma select_fills_fresh:
  assumes "db_orders db' = t @ detail_rows run_id os" "db_fills db' = u @ map stored_fill (detail_rows run_id fs)"
    "run_id \<notin> dr_run_id ` set t" "run_id \<notin> dr_run_id ` set u" "distinct (map ord_order_id os)"
    "\<forall>f \<in> set fs. exact_fill f \<and> fill_order_id f \<in> ord_order_id ` set os"
  shows "select_fills run_id db' =
     map (\<lambda>f. row_of_fill (fst (signal_columns os f)) (snd (signal_columns os f)) f) fs"
proof -
  have fills: "sort_key dr_sequence_no (filter (\<lambda>r. dr_run_id r = run_id) (db_fills db'))
      = map stored_fill (detail_rows run_id fs)"
  proof -
    have "filter (\<lambda>r. dr_run_id r = run_id) u = []" using assms(4) by (auto simp: filter_empty_conv)
    moreover have "filter (\<lambda>r. dr_run_id r = run_id) (map stored_fill (detail_rows run_id fs))
        = map stored_fill (detail_rows run_id fs)"
      by (auto simp: filter_id_conv stored_fill_def dest: detail_rows_run)
    moreover have "map dr_sequence_no (map stored_fill (detail_rows run_id fs)) = [1..<Suc (length fs)]"
    proof -
      have "map dr_sequence_no (map stored_fill (detail_rows run_id fs)) = map snd (map detail_key (detail_rows run_id fs))"
        by (simp add: stored_fill_def detail_key_def)
      then show ?thesis unfolding detail_rows_keys by (simp add: comp_def del: upt_Suc)
    qed
    ultimately show ?thesis using assms(2) by (simp add: sort_key_id_if_sorted del: upt_Suc)
  qed
  have join: "map (joined_row (stored_fill r) \<circ> dr_payload)
        (filter (\<lambda>o1. dr_run_id o1 = run_id \<and> ord_order_id (dr_payload o1) = fill_order_id (dr_payload (stored_fill r)))
           (db_orders db'))
      = [row_of_fill (fst (signal_columns os (dr_payload r))) (snd (signal_columns os (dr_payload r))) (dr_payload r)]"
    if "dr_payload r \<in> set fs" for r
  proof -
    let ?f = "dr_payload r"
    have "filter (\<lambda>o1. dr_run_id o1 = run_id \<and> ord_order_id (dr_payload o1) = fill_order_id ?f) t = []"
      using assms(3) by (auto simp: filter_empty_conv)
    then have "map (joined_row (stored_fill r) \<circ> dr_payload)
        (filter (\<lambda>o1. dr_run_id o1 = run_id \<and> ord_order_id (dr_payload o1) = fill_order_id ?f) (db_orders db'))
      = map (joined_row (stored_fill r)) (filter (\<lambda>o1. ord_order_id o1 = fill_order_id ?f) os)"
      using filter_detail_rows [of run_id "\<lambda>o1. ord_order_id o1 = fill_order_id ?f" os] assms(1)
      by (simp flip: map_map)
    moreover have "fill_order_id ?f \<in> ord_order_id ` set os" using assms(6) that by blast
    then obtain o1 where o1: "o1 \<in> set os" "ord_order_id o1 = fill_order_id ?f" by auto
    moreover from filter_unique [OF assms(5) o1(1)] o1(2)
    have f: "filter (\<lambda>o1. ord_order_id o1 = fill_order_id ?f) os = [o1]" by simp
    moreover have "signal_columns os ?f = (sig_regime (ord_signal o1), Some (sig_reason (ord_signal o1)))"
      using find_filter [OF f] by (simp add: signal_columns_def)
    ultimately show ?thesis
      using assms(6) that by (simp add: joined_row_def row_of_fill_def stored_fill_def exact_fill_def)
  qed
  have "select_fills run_id db' =
      concat (map (\<lambda>r. [row_of_fill (fst (signal_columns os (dr_payload r))) (snd (signal_columns os (dr_payload r)))
         (dr_payload r)]) (detail_rows run_id fs))"
    unfolding select_fills_def fills map_map
    by (intro arg_cong [where f = concat] map_cong refl)
      (simp add: join [unfolded comp_def] comp_def detail_rows_payload)
  also have "\<dots> = map (\<lambda>f. row_of_fill (fst (signal_columns os f)) (snd (signal_columns os f)) f)
      (map dr_payload (detail_rows run_id fs))"
    by (simp add: concat_map_singleton comp_def)
  finally show ?thesis by (simp add: detail_rows_payloads)
qed

end
