(* ===== verification/Paper_Reports.thy ===== *)
theory Paper_Reports
  imports Paper_PnL
begin

text \<open>
  The reports over the profit-and-loss tracker, \<open>app/reporting/paper_metrics.py\<close>: the collector of
  trade and candle events, the equity curve report with its own drawdown computation, the performance
  summary and the content of the exported report. Writing the file is left out.
\<close>

section \<open>Data\<close>

record equity_report =
  eq_start_date :: timestamp
  eq_end_date :: timestamp
  eq_starting_equity :: decimal
  eq_ending_equity :: decimal
  eq_peak_equity :: decimal
  eq_trough_equity :: decimal
  eq_total_return :: decimal
  eq_total_return_pct :: decimal
  eq_max_drawdown :: decimal
  eq_max_drawdown_pct :: decimal
  eq_num_points :: nat
  eq_points :: "equity_point list"

record performance_summary =
  ps_period_start :: timestamp
  ps_period_end :: timestamp
  ps_initial_capital :: decimal
  ps_final_equity :: decimal
  ps_net_pnl :: decimal
  ps_net_pnl_pct :: decimal
  ps_metrics :: trading_metrics

record trade_event =
  tv_timestamp :: timestamp
  tv_symbol :: string
  tv_side :: string
  tv_quantity :: decimal
  tv_price :: decimal
  tv_fee :: decimal
  tv_slippage :: decimal
  tv_expected_price :: "decimal option"

record metrics_collector =
  mc_tracker :: pnl_tracker
  mc_trade_events :: "trade_event list"
  mc_candle_events :: "(timestamp \<times> int \<times> string) list"

definition new_metrics_collector :: "pnl_tracker \<Rightarrow> metrics_collector" where
  "new_metrics_collector pt = \<lparr>mc_tracker = pt, mc_trade_events = [], mc_candle_events = []\<rparr>"

section \<open>Collecting\<close>

definition record_trade :: "trade_event \<Rightarrow> metrics_collector \<Rightarrow> metrics_collector" where
  "record_trade e mc =
     (let pt = mc_tracker mc;
          pt1 = (if 0 < tv_fee e then pt\<lparr>pt_fees_paid := dadd (pt_fees_paid pt) (tv_fee e)\<rparr> else pt);
          pt2 = (if 0 < tv_slippage e
                 then pt1\<lparr>pt_slippage_total := dadd (pt_slippage_total pt1) (tv_slippage e)\<rparr> else pt1)
      in mc\<lparr>mc_trade_events := mc_trade_events mc @ [e], mc_tracker := pt2\<rparr>)"

definition record_candle_processed ::
    "timestamp \<Rightarrow> int \<Rightarrow> string \<Rightarrow> metrics_collector \<Rightarrow> metrics_collector" where
  "record_candle_processed t sequence symbol mc =
     mc\<lparr>mc_candle_events := mc_candle_events mc @ [(t, sequence, symbol)]\<rparr>"

definition snapshot_equity ::
    "timestamp \<Rightarrow> int \<Rightarrow> decimal option \<Rightarrow> decimal option \<Rightarrow> metrics_collector
     \<Rightarrow> pnl_record \<times> metrics_collector" where
  "snapshot_equity t sequence realized unrealized mc =
     (case record_snapshot t sequence None realized unrealized (mc_tracker mc) of
        (r, pt) \<Rightarrow> (r, mc\<lparr>mc_tracker := pt\<rparr>))"

definition reset_collector :: "metrics_collector \<Rightarrow> metrics_collector" where
  "reset_collector mc =
     \<lparr>mc_tracker = reset_tracker (mc_tracker mc), mc_trade_events = [], mc_candle_events = []\<rparr>"

section \<open>Reports\<close>

text \<open>One point of the drawdown loop: running peak, largest drawdown, largest percentage.\<close>

definition drawdown_step :: "decimal \<Rightarrow> decimal \<times> decimal \<times> decimal \<Rightarrow> decimal \<times> decimal \<times> decimal" where
  "drawdown_step equity acc =
     (case acc of
        (running_peak, max_drawdown, max_pct) \<Rightarrow>
          let peak = (if running_peak < equity then equity else running_peak);
              drawdown = dsub peak equity;
              pct = (if 0 < peak then dmul (ddiv drawdown peak) 100 else 0)
          in (peak, if max_drawdown < drawdown then drawdown else max_drawdown,
              if max_pct < pct then pct else max_pct))"

definition generate_equity_curve_report :: "metrics_collector \<Rightarrow> equity_report option" where
  "generate_equity_curve_report mc =
     (let points = pt_equity_curve (mc_tracker mc)
      in if points = [] then None
         else
           (let starting = ep_equity (hd points); ending = ep_equity (last points);
                total_return = dsub ending starting;
                (peak, max_drawdown, max_pct) = fold drawdown_step (map ep_equity points) (starting, 0, 0)
            in Some \<lparr>eq_start_date = ep_timestamp (hd points), eq_end_date = ep_timestamp (last points),
                 eq_starting_equity = starting, eq_ending_equity = ending,
                 eq_peak_equity = Max (set (map ep_equity points)),
                 eq_trough_equity = Min (set (map ep_equity points)),
                 eq_total_return = total_return,
                 eq_total_return_pct =
                   (if 0 < starting then dmul (ddiv total_return starting) 100 else 0),
                 eq_max_drawdown = max_drawdown, eq_max_drawdown_pct = max_pct,
                 eq_num_points = length points, eq_points = points\<rparr>))"

definition generate_performance_summary :: "metrics_collector \<Rightarrow> performance_summary option" where
  "generate_performance_summary mc =
     (let pt = mc_tracker mc; points = pt_equity_curve pt
      in if points = [] then None
         else
           (let initial = pt_initial_capital pt; final = ep_equity (last points); net = dsub final initial
            in Some \<lparr>ps_period_start = ep_timestamp (hd points), ps_period_end = ep_timestamp (last points),
                 ps_initial_capital = initial, ps_final_equity = final, ps_net_pnl = net,
                 ps_net_pnl_pct = (if 0 < initial then dmul (ddiv net initial) 100 else 0),
                 ps_metrics = calculate_metrics pt\<rparr>))"

record exported_report =
  xr_performance :: "performance_summary option"
  xr_equity_curve :: "equity_report option"
  xr_recent_points :: "equity_point list"
  xr_trade_count :: nat
  xr_candle_count :: nat

definition export_report :: "bool \<Rightarrow> metrics_collector \<Rightarrow> exported_report" where
  "export_report include_equity_curve mc =
     (let curve = (if include_equity_curve then generate_equity_curve_report mc else None)
      in \<lparr>xr_performance = generate_performance_summary mc, xr_equity_curve = curve,
          xr_recent_points = (case curve of None \<Rightarrow> [] | Some r \<Rightarrow> last_n 100 (eq_points r)),
          xr_trade_count = length (mc_trade_events mc), xr_candle_count = length (mc_candle_events mc)\<rparr>)"

section \<open>The drawdown of the report\<close>

text \<open>The loop computes the running maximum and the largest distance from it.\<close>

lemma drawdown_fold:
  assumes "fold drawdown_step es (p, d, q) = (p', d', q')" "0 \<le> d"
  shows "p' = foldl max p es \<and> 0 \<le> d' \<and> d \<le> d' \<and>
     (\<forall>i < length es. dsub (foldl max p (take (Suc i) es)) (es ! i) \<le> d') \<and>
     (d' = d \<or> (\<exists>i < length es. d' = dsub (foldl max p (take (Suc i) es)) (es ! i)))"
  using assms
proof (induction es arbitrary: p d q)
  case (Cons e es)
  define p1 where "p1 = max p e"
  define d1 where "d1 = (if d < dsub p1 e then dsub p1 e else d)"
  define q1 where "q1 = (let pct = (if 0 < p1 then dmul (ddiv (dsub p1 e) p1) 100 else 0) in if q < pct then pct else q)"
  have step: "drawdown_step e (p, d, q) = (p1, d1, q1)"
    by (simp add: drawdown_step_def Let_def p1_def d1_def q1_def max_def)
  have d1: "0 \<le> d1" "d \<le> d1" "dsub p1 e \<le> d1" using Cons.prems(2) by (auto simp: d1_def p1_def)
  have run: "fold drawdown_step es (p1, d1, q1) = (p', d', q')" using Cons.prems(1) step by simp
  from Cons.IH [OF run d1(1)]
  have IH: "p' = foldl max p1 es" "0 \<le> d'" "d1 \<le> d'"
      "\<And>i. i < length es \<Longrightarrow> dsub (foldl max p1 (take (Suc i) es)) (es ! i) \<le> d'"
      "d' = d1 \<or> (\<exists>i < length es. d' = dsub (foldl max p1 (take (Suc i) es)) (es ! i))" by blast+
  have "dsub (foldl max p (take (Suc i) (e # es))) ((e # es) ! i) \<le> d'" if "i < length (e # es)" for i
    using that IH(3,4) d1(3) by (cases i) (simp_all flip: p1_def)
  moreover have "d' = d \<or> (\<exists>i < length (e # es). d' = dsub (foldl max p (take (Suc i) (e # es))) ((e # es) ! i))"
  proof (cases "d' = d1")
    case True
    then show ?thesis by (cases "d < dsub p1 e") (force simp: d1_def p1_def)+
  next
    case False
    with IH(5) obtain i where "i < length es" "d' = dsub (foldl max p1 (take (Suc i) es)) (es ! i)" by blast
    then show ?thesis by (intro disjI2 exI [of _ "Suc i"]) (simp add: p1_def)
  qed
  ultimately show ?case using IH(1-3) d1(2) by (simp flip: p1_def)
qed simp

text \<open>
  The largest drawdown of the report is that of the recorded points, unless the first equity is below
  the initial capital, from which the tracker also measures.
\<close>

lemma report_drawdown:
  assumes "generate_equity_curve_report mc = Some r" "curve_ok (mc_tracker mc)"
    "pt_initial_capital (mc_tracker mc) \<le> eq_starting_equity r"
  shows "eq_max_drawdown r = Max (set (map ep_drawdown (pt_equity_curve (mc_tracker mc))))"
proof -
  define points where "points = pt_equity_curve (mc_tracker mc)"
  define capital where "capital = pt_initial_capital (mc_tracker mc)"
  let ?es = "map ep_equity points" and ?e0 = "ep_equity (hd points)"
  obtain p' d' q' where run: "fold drawdown_step ?es (?e0, 0, 0) = (p', d', q')" by (metis prod_cases3)
  have ne: "points \<noteq> []" and r: "eq_max_drawdown r = d'" "eq_starting_equity r = ?e0"
    using assms(1) run
    by (auto simp: generate_equity_curve_report_def Let_def points_def split: if_splits prod.splits)
  have peak: "foldl max ?e0 (take (Suc i) ?es) = peak_of capital (take (Suc i) points)" for i
    using ne assms(3) r(2) by (cases points) (simp_all add: peak_of_def capital_def max_def take_map)
  have drawdown: "ep_drawdown (points ! i) = dsub (foldl max ?e0 (take (Suc i) ?es)) (?es ! i)"
    if "i < length points" for i
  proof -
    have "points ! i \<in> set (take (Suc i) points)" using that by (simp add: take_Suc_conv_app_nth)
    then have "?es ! i \<le> foldl max ?e0 (take (Suc i) ?es)"
      unfolding peak using peak_of_ge(2) that by simp
    moreover have "ep_drawdown (points ! i)
        = max 0 (dsub (peak_of capital (take (Suc i) points)) (ep_equity (points ! i)))"
      using assms(2) that
      unfolding curve_ok_def points_def [symmetric] capital_def [symmetric] by blast
    ultimately show ?thesis using that by (simp add: peak)
  qed
  note f = drawdown_fold [OF run]
  have "Max (set (map ep_drawdown points)) = d'"
  proof (rule Max_eqI)
    show "y \<le> d'" if "y \<in> set (map ep_drawdown points)" for y
      using that f drawdown by (auto simp: in_set_conv_nth)
    show "d' \<in> set (map ep_drawdown points)"
    proof (cases "d' = 0")
      case True
      have "ep_drawdown (points ! 0) = 0" using drawdown [of 0] ne by (cases points) simp_all
      with True ne show ?thesis by (cases points) auto
    next
      case False
      then obtain i where "i < length points" "d' = dsub (foldl max ?e0 (take (Suc i) ?es)) (?es ! i)"
        using f by auto
      with drawdown [of i] have "d' = ep_drawdown (points ! i)" "points ! i \<in> set points" by simp_all
      then show ?thesis by simp
    qed
  qed simp
  with r(1) show ?thesis by (simp add: points_def)
qed

end
