(* ===== verification/Paper_Exchange.thy ===== *)
theory Paper_Exchange
  imports Paper_Ledger
begin

text \<open>
  The exchange adapter of paper trading, \<open>app/exchange/paper_exchange.py\<close>, with its state
  (\<open>paper_state.py\<close>) and its in-memory repository (\<open>paper_repository.py\<close>), on top of the execution
  engine. The order and fill dictionaries are records; the \<open>uuid4\<close> values and the clock are arguments.
\<close>

section \<open>State\<close>

record px_order =
  pxo_order_id :: string
  pxo_client_order_id :: string
  pxo_symbol :: string
  pxo_side :: string
  pxo_quantity :: decimal
  pxo_price :: "decimal option"
  pxo_status :: string
  pxo_created_at :: timestamp

record px_fill =
  pxf_fill_id :: string
  pxf_order_id :: string
  pxf_symbol :: string
  pxf_side :: string
  pxf_quantity :: decimal
  pxf_price :: decimal
  pxf_commission :: decimal
  pxf_status :: string
  pxf_executed_at :: timestamp

record paper_state =
  pst_balances :: "decimal dict"
  pst_orders :: "px_order dict"
  pst_executions :: "px_fill list"
  pst_positions :: "decimal dict"

definition pst_get_balance :: "paper_state \<Rightarrow> string \<Rightarrow> decimal" where
  "pst_get_balance st asset = (case map_of (pst_balances st) asset of None \<Rightarrow> 0 | Some b \<Rightarrow> b)"

record paper_repository =
  pr_orders :: "px_order list"
  pr_fills :: "px_fill list"

record paper_exchange =
  px_state :: paper_state
  px_engine :: paper_engine
  px_repository :: paper_repository

definition default_paper_state :: paper_state where
  "default_paper_state =
     \<lparr>pst_balances = [(''USDT'', 10000)], pst_orders = [], pst_executions = [], pst_positions = []\<rparr>"

definition new_paper_exchange :: "paper_state option \<Rightarrow> paper_engine option \<Rightarrow> paper_exchange" where
  "new_paper_exchange st pe =
     \<lparr>px_state = (case st of None \<Rightarrow> default_paper_state | Some s \<Rightarrow> s),
      px_engine = (case pe of None \<Rightarrow> new_paper_engine None | Some e \<Rightarrow> e),
      px_repository = \<lparr>pr_orders = [], pr_fills = []\<rparr>\<rparr>"

section \<open>The repository\<close>

definition repo_save_order :: "px_order \<Rightarrow> paper_repository \<Rightarrow> paper_repository" where
  "repo_save_order o1 r = r\<lparr>pr_orders := pr_orders r @ [o1]\<rparr>"

text \<open>The first stored order with the id is replaced; an unknown one is appended.\<close>

fun replace_order :: "px_order \<Rightarrow> px_order list \<Rightarrow> px_order list" where
  "replace_order o1 [] = [o1]"
| "replace_order o1 (x # xs) =
     (if pxo_order_id x = pxo_order_id o1 then o1 # xs else x # replace_order o1 xs)"

definition repo_update_order :: "px_order \<Rightarrow> paper_repository \<Rightarrow> paper_repository" where
  "repo_update_order o1 r = r\<lparr>pr_orders := replace_order o1 (pr_orders r)\<rparr>"

definition repo_save_fill :: "px_fill \<Rightarrow> paper_repository \<Rightarrow> paper_repository" where
  "repo_save_fill f r = r\<lparr>pr_fills := pr_fills r @ [f]\<rparr>"

section \<open>Operations\<close>

definition put_order :: "px_order \<Rightarrow> paper_state \<Rightarrow> paper_state" where
  "put_order o1 st = st\<lparr>pst_orders := AList.update (pxo_order_id o1) o1 (pst_orders st)\<rparr>"

definition px_place_order ::
    "string \<Rightarrow> timestamp \<Rightarrow> string \<Rightarrow> string \<Rightarrow> decimal \<Rightarrow> string \<Rightarrow> decimal option \<Rightarrow> paper_exchange
     \<Rightarrow> px_order \<times> paper_exchange" where
  "px_place_order oid now symbol side quantity client_order_id price px =
     (let o1 = \<lparr>pxo_order_id = oid, pxo_client_order_id = client_order_id, pxo_symbol = symbol,
                pxo_side = side, pxo_quantity = quantity, pxo_price = price, pxo_status = ''NEW'',
                pxo_created_at = now\<rparr>
      in (o1, px\<lparr>px_repository := repo_save_order o1 (px_repository px),
                 px_state := put_order o1 (px_state px)\<rparr>))"

text \<open>The engine is called without a client order id; \<open>x\<close> holds the ids and the time it draws.\<close>

definition px_execute_order ::
    "string \<Rightarrow> timestamp \<Rightarrow> execution_context \<Rightarrow> string \<Rightarrow> decimal \<Rightarrow> paper_exchange
     \<Rightarrow> (px_fill \<times> paper_exchange) result" where
  "px_execute_order fid now x order_id market_price px =
     (case map_of (pst_orders (px_state px)) order_id of
        None \<Rightarrow> Inl (KeyError order_id)
      | Some o1 \<Rightarrow>
          bind_result (parse_order_side (pxo_side o1)) (\<lambda>side.
          bind_result (execute_request
              \<lparr>er_symbol = pxo_symbol o1, er_side = side, er_quantity = pxo_quantity o1\<rparr>
              (Some market_price)
              (x\<lparr>xc_client_order_id := None, xc_run_id := None, xc_signal_id := None\<rparr>) (px_engine px))
            (\<lambda>(execution, pe).
               let f = \<lparr>pxf_fill_id = fid, pxf_order_id = order_id, pxf_symbol = ex_symbol execution,
                        pxf_side = side_value (ex_side execution), pxf_quantity = ex_quantity execution,
                        pxf_price = ex_price execution, pxf_commission = 0, pxf_status = ''FILLED'',
                        pxf_executed_at = now\<rparr>;
                   updated = o1\<lparr>pxo_status := ''FILLED'', pxo_price := Some (ex_price execution)\<rparr>;
                   st = px_state px
               in Inr (f, px\<lparr>px_engine := pe,
                    px_repository := repo_update_order updated (repo_save_fill f (px_repository px)),
                    px_state := (st\<lparr>pst_orders := AList.update order_id updated (pst_orders st)\<rparr>)
                      \<lparr>pst_executions := pst_executions st @ [f]\<rparr>\<rparr>))))"

definition px_cancel_order :: "string \<Rightarrow> paper_exchange \<Rightarrow> (px_order \<times> paper_exchange) result" where
  "px_cancel_order order_id px =
     (case map_of (pst_orders (px_state px)) order_id of
        None \<Rightarrow> Inl (KeyError order_id)
      | Some o1 \<Rightarrow>
          let o2 = o1\<lparr>pxo_status := ''CANCELED''\<rparr>; st = px_state px
          in Inr (o2, px\<lparr>px_repository := repo_update_order o2 (px_repository px),
               px_state := st\<lparr>pst_orders := AList.update order_id o2 (pst_orders st)\<rparr>\<rparr>))"

text \<open>The queries ignore the symbol and the start time they are given.\<close>

definition px_get_balance :: "paper_exchange \<Rightarrow> decimal dict" where
  "px_get_balance px = pst_balances (px_state px)"

definition px_get_open_orders :: "string option \<Rightarrow> paper_exchange \<Rightarrow> px_order list" where
  "px_get_open_orders symbol px = map snd (pst_orders (px_state px))"

definition px_get_executions :: "string option \<Rightarrow> timestamp option \<Rightarrow> paper_exchange \<Rightarrow> px_fill list" where
  "px_get_executions symbol start_time px = pst_executions (px_state px)"

section \<open>The books\<close>

definition px_ok :: "paper_exchange \<Rightarrow> bool" where
  "px_ok px \<longleftrightarrow>
     self_keyed pxo_order_id (pst_orders (px_state px)) \<and>
     pr_orders (px_repository px) = map snd (pst_orders (px_state px)) \<and>
     pr_fills (px_repository px) = pst_executions (px_state px) \<and>
     (\<forall>f \<in> set (pst_executions (px_state px)). 0 < pxf_quantity f \<and> 0 < pxf_price f \<and>
        (\<exists>o1. map_of (pst_orders (px_state px)) (pxf_order_id f) = Some o1 \<and>
           pxf_symbol f = pxo_symbol o1 \<and> pxf_side f = pxo_side o1 \<and> pxf_quantity f = pxo_quantity o1)) \<and>
     map (\<lambda>f. (pf_symbol f, pf_quantity f, pf_price f)) (map snd (pe_fills (px_engine px))) =
       map (\<lambda>f. (pxf_symbol f, pxf_quantity f, pxf_price f)) (pst_executions (px_state px)) \<and>
     paper_ok (px_engine px)"

lemma replace_order_keyed:
  assumes "self_keyed pxo_order_id d"
  shows "replace_order o1 (map snd d) = map snd (AList.update (pxo_order_id o1) o1 d)"
  using assms by (induction d) (auto simp: self_keyed_def dict_wf_def)

lemma px_ok_new: "px_ok (new_paper_exchange None None)"
  by (simp add: px_ok_def new_paper_exchange_def default_paper_state_def self_keyed_def paper_ok_new)
    (simp add: new_paper_engine_def)

text \<open>Operations with fresh identifiers, in any order; the engine may also be fed market events.\<close>

inductive px_run :: "paper_exchange \<Rightarrow> bool" where
  px_start: "px_run (new_paper_exchange None None)"
| px_place: "px_run px \<Longrightarrow> map_of (pst_orders (px_state px)) oid = None \<Longrightarrow>
     px_place_order oid now symbol side quantity cid price px = (o1, px') \<Longrightarrow> px_run px'"
| px_execute: "px_run px \<Longrightarrow>
     fresh_ids (x\<lparr>xc_client_order_id := None, xc_run_id := None, xc_signal_id := None\<rparr>) (px_engine px) \<Longrightarrow>
     px_execute_order fid now x order_id market_price px = Inr (f, px') \<Longrightarrow> px_run px'"
| px_cancel: "px_run px \<Longrightarrow> px_cancel_order order_id px = Inr (o1, px') \<Longrightarrow> px_run px'"
| px_event: "px_run px \<Longrightarrow> on_market_event e (px_engine px) = Inr (b, pe) \<Longrightarrow>
     px_run (px\<lparr>px_engine := pe\<rparr>)"

lemma parse_order_side_value: "parse_order_side s = Inr side \<Longrightarrow> side_value side = s"
  by (auto simp: parse_order_side_def split: if_splits)

lemma px_execute_cases:
  assumes "px_execute_order fid now x order_id market_price px = Inr (f, px')"
  obtains o1 side pe where "map_of (pst_orders (px_state px)) order_id = Some o1"
    "parse_order_side (pxo_side o1) = Inr side"
    "execute_request \<lparr>er_symbol = pxo_symbol o1, er_side = side, er_quantity = pxo_quantity o1\<rparr>
       (Some market_price) (x\<lparr>xc_client_order_id := None, xc_run_id := None, xc_signal_id := None\<rparr>)
       (px_engine px)
     = Inr (\<lparr>ex_symbol = pxo_symbol o1, ex_side = side, ex_quantity = pxo_quantity o1,
             ex_price = pxf_price f\<rparr>, pe)"
    "0 < pxo_quantity o1" "0 < pxf_price f"
    "f = \<lparr>pxf_fill_id = fid, pxf_order_id = order_id, pxf_symbol = pxo_symbol o1, pxf_side = pxo_side o1,
          pxf_quantity = pxo_quantity o1, pxf_price = pxf_price f, pxf_commission = 0,
          pxf_status = ''FILLED'', pxf_executed_at = now\<rparr>"
    "px_engine px' = pe"
    "map_of (pe_fills (px_engine px)) (xc_fill_uuid x) = None \<Longrightarrow>
       \<exists>g. pe_fills pe = pe_fills (px_engine px) @ [(xc_fill_uuid x, g)] \<and> pf_symbol g = pxo_symbol o1 \<and>
         pf_quantity g = pxo_quantity o1 \<and> pf_price g = pxf_price f"
    "px_repository px' = repo_update_order (o1\<lparr>pxo_status := ''FILLED'', pxo_price := Some (pxf_price f)\<rparr>)
       (repo_save_fill f (px_repository px))"
    "pst_orders (px_state px') =
       AList.update order_id (o1\<lparr>pxo_status := ''FILLED'', pxo_price := Some (pxf_price f)\<rparr>)
         (pst_orders (px_state px))"
    "pst_executions (px_state px') = pst_executions (px_state px) @ [f]"
    "pst_balances (px_state px') = pst_balances (px_state px)"
proof -
  let ?x = "x\<lparr>xc_client_order_id := None, xc_run_id := None, xc_signal_id := None\<rparr>"
  obtain o1 side execution pe where run: "map_of (pst_orders (px_state px)) order_id = Some o1"
      "parse_order_side (pxo_side o1) = Inr side"
      "execute_request \<lparr>er_symbol = pxo_symbol o1, er_side = side, er_quantity = pxo_quantity o1\<rparr>
         (Some market_price) ?x (px_engine px) = Inr (execution, pe)"
    using assms by (auto simp: px_execute_order_def bind_result_Inr_iff Let_def split: option.splits)
  have "execute_new \<lparr>er_symbol = pxo_symbol o1, er_side = side, er_quantity = pxo_quantity o1\<rparr>
      (Some market_price) ?x (px_engine px) = Inr (execution, pe)"
    using run(3) by (simp add: execute_request_def)
  then obtain price where "0 < pxo_quantity o1" "0 < price"
      "execution = \<lparr>ex_symbol = pxo_symbol o1, ex_side = side, ex_quantity = pxo_quantity o1, ex_price = price\<rparr>"
      "map_of (pe_fills (px_engine px)) (xc_fill_uuid x) = None \<Longrightarrow>
        \<exists>g. pe_fills pe = pe_fills (px_engine px) @ [(xc_fill_uuid x, g)] \<and> pf_symbol g = pxo_symbol o1 \<and>
          pf_quantity g = pxo_quantity o1 \<and> pf_price g = price"
    by (cases rule: execute_new_cases) (auto simp: alist_update_fresh)
  with run assms parse_order_side_value [OF run(2)] that show thesis
    by (auto simp: px_execute_order_def Let_def)
qed

lemma executions_updated:
  assumes "\<forall>f \<in> set fs. 0 < pxf_quantity f \<and> 0 < pxf_price f \<and>
      (\<exists>o1. map_of d (pxf_order_id f) = Some o1 \<and>
         pxf_symbol f = pxo_symbol o1 \<and> pxf_side f = pxo_side o1 \<and> pxf_quantity f = pxo_quantity o1)"
    "map_of d i = None \<or> (\<exists>o1. map_of d i = Some o1 \<and>
       pxo_symbol o2 = pxo_symbol o1 \<and> pxo_side o2 = pxo_side o1 \<and> pxo_quantity o2 = pxo_quantity o1)"
  shows "\<forall>f \<in> set fs. 0 < pxf_quantity f \<and> 0 < pxf_price f \<and>
      (\<exists>o1. map_of (AList.update i o2 d) (pxf_order_id f) = Some o1 \<and>
         pxf_symbol f = pxo_symbol o1 \<and> pxf_side f = pxo_side o1 \<and> pxf_quantity f = pxo_quantity o1)"
proof
  fix f
  assume "f \<in> set fs"
  with assms(1) obtain o1 where "0 < pxf_quantity f" "0 < pxf_price f"
      "map_of d (pxf_order_id f) = Some o1" "pxf_symbol f = pxo_symbol o1" "pxf_side f = pxo_side o1"
      "pxf_quantity f = pxo_quantity o1" by blast
  with assms(2) show "0 < pxf_quantity f \<and> 0 < pxf_price f \<and>
      (\<exists>o1. map_of (AList.update i o2 d) (pxf_order_id f) = Some o1 \<and>
         pxf_symbol f = pxo_symbol o1 \<and> pxf_side f = pxo_side o1 \<and> pxf_quantity f = pxo_quantity o1)"
    by (cases "pxf_order_id f = i") auto
qed

lemma px_ok_place:
  assumes "px_ok px" "map_of (pst_orders (px_state px)) oid = None"
    "px_place_order oid now symbol side quantity cid price px = (o1, px')"
  shows "px_ok px' \<and> pst_balances (px_state px') = pst_balances (px_state px)"
proof -
  have o1: "pxo_order_id o1 = oid" "px_engine px' = px_engine px"
      "pst_orders (px_state px') = AList.update oid o1 (pst_orders (px_state px))"
      "pst_executions (px_state px') = pst_executions (px_state px)"
      "pst_balances (px_state px') = pst_balances (px_state px)"
      "px_repository px' = repo_save_order o1 (px_repository px)"
    using assms(3) by (auto simp: px_place_order_def put_order_def Let_def)
  have "self_keyed pxo_order_id (pst_orders (px_state px'))"
    using assms(1) o1 self_keyed_update [of pxo_order_id "pst_orders (px_state px)" o1] by (simp add: px_ok_def)
  moreover have "\<forall>f \<in> set (pst_executions (px_state px')). 0 < pxf_quantity f \<and> 0 < pxf_price f \<and>
        (\<exists>o2. map_of (pst_orders (px_state px')) (pxf_order_id f) = Some o2 \<and>
           pxf_symbol f = pxo_symbol o2 \<and> pxf_side f = pxo_side o2 \<and> pxf_quantity f = pxo_quantity o2)"
    unfolding o1(3,4) using assms(1,2) by (intro executions_updated) (simp_all add: px_ok_def)
  ultimately show ?thesis
    using assms(1,2) o1 by (simp add: px_ok_def repo_save_order_def alist_update_fresh)
qed

lemma px_ok_execute:
  assumes "px_ok px" "px_execute_order fid now x order_id market_price px = Inr (f, px')"
    "fresh_ids (x\<lparr>xc_client_order_id := None, xc_run_id := None, xc_signal_id := None\<rparr>) (px_engine px)"
  shows "px_ok px' \<and> pst_balances (px_state px') = pst_balances (px_state px)"
  using assms(2)
proof (cases rule: px_execute_cases)
  case (1 o1 side pe)
  define o2 where "o2 = o1\<lparr>pxo_status := ''FILLED'', pxo_price := Some (pxf_price f)\<rparr>"
  have keyed: "self_keyed pxo_order_id (pst_orders (px_state px))" using assms(1) by (simp add: px_ok_def)
  have id: "pxo_order_id o1 = order_id"
    using keyed 1(1) by (auto simp: self_keyed_def dest: map_of_SomeD)
  have engine: "paper_ok pe" using assms(1,3) 1(3) by (auto simp: px_ok_def intro: execute_request_ok)
  obtain g where g: "pe_fills pe = pe_fills (px_engine px) @ [(xc_fill_uuid x, g)]" "pf_symbol g = pxo_symbol o1"
      "pf_quantity g = pxo_quantity o1" "pf_price g = pxf_price f"
    using 1(8) assms(3) by (auto simp: fresh_ids_def)
  have orders: "pst_orders (px_state px') = AList.update (pxo_order_id o2) o2 (pst_orders (px_state px))"
    using 1(10) id by (simp add: o2_def)
  have "\<forall>f \<in> set (pst_executions (px_state px)). 0 < pxf_quantity f \<and> 0 < pxf_price f \<and>
        (\<exists>o2. map_of (pst_orders (px_state px')) (pxf_order_id f) = Some o2 \<and>
           pxf_symbol f = pxo_symbol o2 \<and> pxf_side f = pxo_side o2 \<and> pxf_quantity f = pxo_quantity o2)"
    unfolding orders using assms(1) 1(1) id by (intro executions_updated) (simp_all add: px_ok_def o2_def)
  moreover have f: "pxf_order_id f = order_id" "pxf_symbol f = pxo_symbol o1" "pxf_side f = pxo_side o1"
      "pxf_quantity f = pxo_quantity o1"
    by (subst 1(6), simp)+
  moreover have "self_keyed pxo_order_id (pst_orders (px_state px'))"
    unfolding orders using keyed by (rule self_keyed_update [OF _ refl])
  moreover have "pr_orders (px_repository px') = map snd (pst_orders (px_state px'))"
    using assms(1) replace_order_keyed [OF keyed, of o2] 1(9)
    by (simp add: px_ok_def orders repo_update_order_def repo_save_fill_def flip: o2_def)
  ultimately show ?thesis
    using assms(1) 1(4,5,7,9,11,12) engine g id
    by (simp add: px_ok_def orders repo_update_order_def repo_save_fill_def o2_def)
qed

lemma px_ok_cancel:
  assumes "px_ok px" "px_cancel_order order_id px = Inr (o2, px')"
  shows "px_ok px' \<and> pst_balances (px_state px') = pst_balances (px_state px)"
proof -
  have keyed: "self_keyed pxo_order_id (pst_orders (px_state px))" using assms(1) by (simp add: px_ok_def)
  obtain o1 where o1: "map_of (pst_orders (px_state px)) order_id = Some o1" "o2 = o1\<lparr>pxo_status := ''CANCELED''\<rparr>"
      "px' = px\<lparr>px_repository := repo_update_order o2 (px_repository px),
         px_state := (px_state px)\<lparr>pst_orders := AList.update order_id o2 (pst_orders (px_state px))\<rparr>\<rparr>"
    using assms(2) by (auto simp: px_cancel_order_def Let_def split: option.splits)
  have id: "pxo_order_id o2 = order_id"
    using keyed o1(1,2) by (auto simp: self_keyed_def dest: map_of_SomeD)
  have "\<forall>f \<in> set (pst_executions (px_state px)). 0 < pxf_quantity f \<and> 0 < pxf_price f \<and>
        (\<exists>o3. map_of (AList.update order_id o2 (pst_orders (px_state px))) (pxf_order_id f) = Some o3 \<and>
           pxf_symbol f = pxo_symbol o3 \<and> pxf_side f = pxo_side o3 \<and> pxf_quantity f = pxo_quantity o3)"
    using assms(1) o1(1,2) by (intro executions_updated) (simp_all add: px_ok_def)
  moreover have "self_keyed pxo_order_id (AList.update order_id o2 (pst_orders (px_state px)))"
    using self_keyed_update [OF keyed, of o2] id by simp
  ultimately show ?thesis
    using assms(1) replace_order_keyed [OF keyed, of o2] id
    by (simp add: px_ok_def o1(3) repo_update_order_def)
qed

lemma px_run_ok: "px_run px \<Longrightarrow> px_ok px \<and> px_get_balance px = [(''USDT'', 10000)]"
proof (induction rule: px_run.induct)
  case px_start
  show ?case by (simp add: px_ok_new) (simp add: px_get_balance_def new_paper_exchange_def default_paper_state_def)
next
  case (px_place px oid now symbol side quantity cid price o1 px')
  with px_ok_place [OF _ px_place.hyps(2,3)] show ?case by (simp add: px_get_balance_def)
next
  case (px_execute px x fid now order_id market_price f px')
  with px_ok_execute [OF _ px_execute.hyps(3,2)] show ?case by (simp add: px_get_balance_def)
next
  case (px_cancel px order_id o1 px')
  with px_ok_cancel [OF _ px_cancel.hyps(2)] show ?case by (simp add: px_get_balance_def)
next
  case (px_event px e b pe)
  then show ?case
    using on_market_event_ok on_market_event_keeps [OF px_event.hyps(2)] by (auto simp: px_ok_def px_get_balance_def)
qed

text \<open>An execution does not look at the status of its order.\<close>

lemma execute_ignores_status:
  assumes "map_of (pst_orders (px_state px)) i = Some o1" "px_cancel_order i px = Inr (o2, px')"
  shows "map_option fst (case px_execute_order fid now x i p px' of Inl e \<Rightarrow> None | Inr r \<Rightarrow> Some r) =
     map_option fst (case px_execute_order fid now x i p px of Inl e \<Rightarrow> None | Inr r \<Rightarrow> Some r)"
proof -
  have "map_of (pst_orders (px_state px')) i = Some (o1\<lparr>pxo_status := ''CANCELED''\<rparr>)" "px_engine px' = px_engine px"
    using assms by (auto simp: px_cancel_order_def Let_def)
  with assms(1) show ?thesis
    by (simp add: px_execute_order_def bind_result_def Let_def split: sum.split prod.split)
qed

end
