(* ===== verification/Properties_Reports.thy ===== *)
theory Properties_Reports
  imports Audit_Store_Facts Paper_Reports Paper_Exchange Properties_Research
begin

text \<open>
  The properties of what is stored and reported: the audit tables and the attribution of a backtest, the
  paper exchange's books and the drawdown of the paper report, each with its witness.
\<close>

section \<open>Examples\<close>

definition ex_metadata :: run_metadata where
  "ex_metadata =
     \<lparr>md_created_at = 0, md_git_commit = None, md_exchange = ''bybit'', md_symbol = ''BTCUSDT'',
      md_interval = ''1h'', md_start = (''a'', 0), md_end = (''b'', 3), md_candle_count = 3,
      md_random_seed = 42, md_dataset_fingerprint = Some ''d'', md_indicator_model_version = Some ''i'',
      md_regime_model_version = Some ''r'', md_execution_model_version = Some ''x''\<rparr>"

definition ex_liquidate_config :: backtest_config where
  "ex_liquidate_config = ex_free_config\<lparr>bc_end_position_policy := ''liquidate''\<rparr>"

definition ex_liquidating :: backtest_engine where
  "ex_liquidating =
     new_backtest_engine ex_liquidate_config (new_risk_engine default_risk_config None) ex_uniform
       (\<lambda>n. replicate n CHR ''u'') (\<lambda>n. 0)"

definition ex_candles :: "candle list" where
  "ex_candles = [ex_bt_candle 1 100, ex_bt_candle 2 110, ex_bt_candle 3 120]"

lemmas ex_close_simps = ex_run_simps ex_liquidating_def ex_liquidate_config_def ex_candles_def
  liquidate_position_def get_position_def close_position_def close_pnl_def process_signal_def
  engine_close_signal_def close_pnls_def max_consecutive_losses_def loss_streak_step_def mean_or_zero_def
  dec_of_nat_def

section \<open>Attribution of a stored backtest\<close>

lemma reconstruct_complete:
  assumes "replayable s be" "\<forall>f \<in> set (be_fills be). fill_symbol f = s" "\<not> resized be"
    "pf_positions (be_portfolio be) = []"
  shows "\<exists>ts. reconstruct_closed_trades (map (\<lambda>f. row_of_fill (fst (g f)) (snd (g f)) f) (be_fills be)) = Inr ts
     \<and> map closed_core ts = portfolio_closes (be_portfolio be) \<and> map clt_pnl ts = close_pnls (be_portfolio be)"
proof -
  have "case replay_fills g be of Inl e \<Rightarrow> resized be | Inr x \<Rightarrow> replayed_books s (be_portfolio be) x"
    using assms(1,2) by (simp add: replayable_def)
  then obtain x where x: "replay_fills g be = Inr x" "replayed_books s (be_portfolio be) x"
    using assms(3) by (cases "replay_fills g be") auto
  obtain lot ts where lt: "x = (lot, ts)" by force
  with x(2) assms(4) have "lot = None" by (cases lot) (auto simp: replayed_books_def)
  moreover have "map closed_core ts = portfolio_closes (be_portfolio be)"
    using x(2) lt by (simp add: replayed_books_def)
  ultimately show ?thesis
    using x lt replayed_books_pnls [OF x(2)] by (simp add: reconstruct_closed_trades_def replay_fills_def)
qed


lemma ex_round_trip:
  "\<exists>res be'. run_backtest ex_liquidating ex_candles ex_legacy False None = Inr (res, be', True) \<and>
     br_fills res = be_fills be' \<and> pf_positions (be_portfolio be') = [] \<and> br_total_pnl res = 10 \<and>
     \<not> resized be' \<and> (\<forall>f \<in> set (be_fills be'). fill_symbol f = ''BTCUSDT'' \<and> exact_fill f) \<and>
     sql_round 12 (br_total_pnl res) = br_total_pnl res \<and>
     (\<exists>db'. persist_backtest_audit (\<lambda>_. ''d'') (\<lambda>_. ''run'')
        (build_output res ex_metadata ''n'' ''v'' ''p'' ''c'' 5000) None empty_audit_db = Inr (''run'', db'))"
  by (simp add: ex_close_simps resized_def exact_fill_def sql_round_def persist_backtest_audit_def
      build_output_def ex_metadata_def build_run_fingerprint_def reproducibility_of_def
      required_metadata_def run_id_from_fingerprint_def run_values_def numeric_column_def
      insert_run_def check_constraint_def empty_audit_db_def detail_rows_def insert_signal_def
      insert_risk_decision_def insert_order_def insert_fill_def insert_detail_def detail_key_def
      valid_side_def floor_quotient)


section \<open>Storing a backtest\<close>

text \<open>
  C37: Storing the payload of a stored run again succeeds under the same run id and changes nothing but the audit
  file of that run, and that only when a new one is given.
\<close>

theorem storing_again_keeps_rows:
  assumes "persist_backtest_audit digest uuid5 ap file db = Inr (run_id, db')"
  shows "\<exists>fingerprint. build_run_fingerprint digest ap = Inr fingerprint \<and>
     persist_backtest_audit digest uuid5 ap file' db' =
       Inr (run_id, db'\<lparr>db_runs := set_audit_file fingerprint file' (db_runs db')\<rparr>)"
  by (rule persist_again [OF assms])

lemma storing_again_keeps_rows_witness:
  "\<exists>res db'. persist_backtest_audit (\<lambda>_. ''d'') (\<lambda>_. ''run'')
        (build_output res ex_metadata ''n'' ''v'' ''p'' ''c'' 5000) None empty_audit_db = Inr (''run'', db') \<and>
     persist_backtest_audit (\<lambda>_. ''d'') (\<lambda>_. ''run'')
        (build_output res ex_metadata ''n'' ''v'' ''p'' ''c'' 5000) (Some ''f'') db' =
       Inr (''run'', db'\<lparr>db_runs := set_audit_file ''d'' (Some ''f'') (db_runs db')\<rparr>)"
proof -
  obtain res db' where stored: "persist_backtest_audit (\<lambda>_. ''d'') (\<lambda>_. ''run'')
      (build_output res ex_metadata ''n'' ''v'' ''p'' ''c'' 5000) None empty_audit_db = Inr (''run'', db')"
    using ex_round_trip by blast
  have "build_run_fingerprint (\<lambda>_. ''d'') (build_output res ex_metadata ''n'' ''v'' ''p'' ''c'' 5000) = Inr ''d''"
    by (simp add: build_run_fingerprint_def reproducibility_of_def build_output_def ex_metadata_def
        required_metadata_def Let_def)
  with stored storing_again_keeps_rows [OF stored, of "Some ''f''"] show ?thesis by auto
qed

lemma distinct_replicate_le: "distinct (replicate n x) \<Longrightarrow> n \<le> 1"
  by (cases n) (auto simp: in_set_replicate)

text \<open>
  C38: A run with two risk decisions that belong to no order (both carry the empty order id: a closing signal
  without a position) cannot be stored: the table allows each order id once per run, and only the conflict on
  the sequence number is forgiven.
\<close>

theorem unmatched_sells_are_not_stored:
  assumes "build_run_fingerprint digest ap = Inr fingerprint"
    "no_rows_of (run_id_from_fingerprint uuid5 fingerprint) db"
    "2 \<le> length (filter (\<lambda>d. rd_order_id d = '''') (br_risk_decisions (ap_backtest ap)))"
  shows "\<exists>e. persist_backtest_audit digest uuid5 ap file db = Inl e"
proof (rule ccontr)
  assume "\<nexists>e. persist_backtest_audit digest uuid5 ap file db = Inl e"
  then obtain run_id db' where p: "persist_backtest_audit digest uuid5 ap file db = Inr (run_id, db')"
    by (metis old.sum.exhaust surj_pair)
  then have "run_id = run_id_from_fingerprint uuid5 fingerprint" using assms(1) by (auto elim!: persist_cases)
  with stored_decisions_distinct [OF p] assms(2)
  have "distinct (map rd_order_id (br_risk_decisions (ap_backtest ap)))" by simp
  then have "distinct (map rd_order_id (filter (\<lambda>d. rd_order_id d = '''') (br_risk_decisions (ap_backtest ap))))"
    by (rule distinct_map_filter)
  moreover have "map rd_order_id (filter (\<lambda>d. rd_order_id d = '''') (br_risk_decisions (ap_backtest ap)))
      = replicate (length (filter (\<lambda>d. rd_order_id d = '''') (br_risk_decisions (ap_backtest ap)))) ''''"
    by (rule replicate_eqI) auto
  ultimately have "length (filter (\<lambda>d. rd_order_id d = '''') (br_risk_decisions (ap_backtest ap))) \<le> 1"
    using distinct_replicate_le by metis
  with assms(3) show False by simp
qed

text \<open>A legacy strategy that wants to sell twice what it never bought.\<close>

definition ex_sell :: raw_signal where
  "ex_sell = RawDict
     \<lparr>raw_action = Some ''sell'', raw_symbol = None, raw_price = None, raw_quantity = Some 1,
      raw_reason = None, raw_stop_loss = None, raw_take_profit = None, raw_strategy = None,
      raw_parameters_version = None, raw_indicators = None, raw_regime = None, raw_metadata = None\<rparr>"

definition ex_seller :: "unit bt_strategy" where
  "ex_seller = LegacyStrategy (\<lambda>c pf s. Inr (RawMany [ex_sell, ex_sell], s))"

lemma unmatched_sells_are_not_stored_witness:
  "\<exists>res be' e. run_backtest ex_liquidating [ex_bt_candle 1 100, ex_bt_candle 2 110] ex_seller () None
       = Inr (res, be', ()) \<and>
     persist_backtest_audit (\<lambda>_. ''d'') (\<lambda>_. ''run'')
       (build_output res ex_metadata ''n'' ''v'' ''p'' ''c'' 5000) None empty_audit_db = Inl e"
proof -
  obtain res be' where run: "run_backtest ex_liquidating [ex_bt_candle 1 100, ex_bt_candle 2 110] ex_seller () None
       = Inr (res, be', ())" "length (filter (\<lambda>d. rd_order_id d = '''') (br_risk_decisions res)) = 2"
    by (simp add: ex_close_simps ex_seller_def ex_sell_def no_position_decision_def)
  have "build_run_fingerprint (\<lambda>_. ''d'') (build_output res ex_metadata ''n'' ''v'' ''p'' ''c'' 5000) = Inr ''d''"
    by (simp add: build_run_fingerprint_def reproducibility_of_def build_output_def ex_metadata_def
        required_metadata_def Let_def)
  from unmatched_sells_are_not_stored [OF this, of "\<lambda>_. ''run''" empty_audit_db None] run
  show ?thesis by (auto simp: no_rows_of_def empty_audit_db_def build_output_def)
qed

section \<open>Buckets\<close>

text \<open>
  The buckets of an attribution partition its trades: there is one bucket per key that occurs, in increasing
  order of the keys, each over exactly the trades with its key, and their trade counts add up to the number
  of trades.
\<close>

theorem buckets_partition_trades:
  "bucket_trades ts key =
     map (\<lambda>k. bucket_of k (filter (\<lambda>t. key t = k) ts)) (sorted_list_of_set (key ` set ts)) \<and>
   sum_list (map ab_trades (bucket_trades ts key)) = length ts"
  using bucket_trades_eq bucket_trades_count by blast


section \<open>The paper exchange\<close>

text \<open>
  C11: The books of the paper exchange agree after any interleaving of placed, executed and canceled orders and
  market events: repository and state hold the same orders and executions, the executions are the fills of the
  engine, each belongs to a stored order and fills it completely at a positive price, and no operation ever
  changes the balances.
\<close>

theorem exchange_books_agree:
  assumes "px_run px"
  shows "pr_orders (px_repository px) = px_get_open_orders None px \<and>
     pr_fills (px_repository px) = px_get_executions None None px \<and>
     map (\<lambda>f. (pf_symbol f, pf_quantity f, pf_price f)) (map snd (pe_fills (px_engine px))) =
       map (\<lambda>f. (pxf_symbol f, pxf_quantity f, pxf_price f)) (px_get_executions None None px) \<and>
     (\<forall>f \<in> set (px_get_executions None None px). 0 < pxf_price f \<and>
        (\<exists>o1 \<in> set (px_get_open_orders None px). pxo_order_id o1 = pxf_order_id f \<and>
           pxf_symbol f = pxo_symbol o1 \<and> pxf_side f = pxo_side o1 \<and> pxf_quantity f = pxo_quantity o1)) \<and>
     px_get_balance px = [(''USDT'', 10000)]"
proof -
  have ok: "px_ok px" "px_get_balance px = [(''USDT'', 10000)]" using px_run_ok [OF assms] by simp_all
  have "\<exists>o1 \<in> set (map snd (pst_orders (px_state px))). pxo_order_id o1 = pxf_order_id f \<and>
      pxf_symbol f = pxo_symbol o1 \<and> pxf_side f = pxo_side o1 \<and> pxf_quantity f = pxo_quantity o1"
    if f: "f \<in> set (pst_executions (px_state px))" for f
  proof -
    obtain o1 where "map_of (pst_orders (px_state px)) (pxf_order_id f) = Some o1" "pxf_symbol f = pxo_symbol o1"
        "pxf_side f = pxo_side o1" "pxf_quantity f = pxo_quantity o1"
      using ok(1) f by (auto simp: px_ok_def)
    moreover from this(1) have "(pxf_order_id f, o1) \<in> set (pst_orders (px_state px))" by (rule map_of_SomeD)
    moreover from this have "pxo_order_id o1 = pxf_order_id f" using ok(1) by (auto simp: px_ok_def self_keyed_def)
    ultimately show ?thesis by force
  qed
  with ok show ?thesis by (simp add: px_ok_def px_get_open_orders_def px_get_executions_def)
qed

definition ex_px_context :: execution_context where
  "ex_px_context =
     \<lparr>xc_client_order_id = None, xc_run_id = None, xc_signal_id = None, xc_order_uuid = ''u'',
      xc_fill_uuid = ''f'', xc_now = 0\<rparr>"

definition ex_px :: paper_exchange where
  "ex_px = snd (px_place_order ''o'' 0 ''BTCUSDT'' ''BUY'' 2 ''c'' None (new_paper_exchange None None))"

lemmas ex_px_simps = ex_px_def px_place_order_def new_paper_exchange_def default_paper_state_def
  put_order_def repo_save_order_def px_execute_order_def parse_order_side_def ex_px_context_def
  px_cancel_order_def repo_update_order_def repo_save_fill_def

lemma ex_px_run: "px_run ex_px"
proof (rule px_place [OF px_start])
  show "map_of (pst_orders (px_state (new_paper_exchange None None))) ''o'' = None"
    by (simp add: new_paper_exchange_def default_paper_state_def)
  show "px_place_order ''o'' 0 ''BTCUSDT'' ''BUY'' 2 ''c'' None (new_paper_exchange None None)
      = (fst (px_place_order ''o'' 0 ''BTCUSDT'' ''BUY'' 2 ''c'' None (new_paper_exchange None None)), ex_px)"
    by (simp add: ex_px_def)
qed

lemma ex_px_fresh:
  "fresh_ids (ex_px_context\<lparr>xc_client_order_id := None, xc_run_id := None, xc_signal_id := None\<rparr>) (px_engine ex_px)"
  by (simp add: fresh_ids_def new_order_id_def ex_px_simps Let_def) (simp add: new_paper_engine_def)

lemma ex_px_executes:
  "\<exists>f px'. px_execute_order ''x'' 0 ex_px_context ''o'' 100 ex_px = Inr (f, px') \<and> pxf_quantity f = 2"
  by (simp add: ex_px_simps Let_def) (simp add: ex_paper_simps)

lemma exchange_books_agree_witness:
  "\<exists>f px'. px_execute_order ''x'' 0 ex_px_context ''o'' 100 ex_px = Inr (f, px') \<and> pxf_quantity f = 2 \<and>
     f \<in> set (pr_fills (px_repository px')) \<and> px_get_balance px' = [(''USDT'', 10000)]"
proof -
  obtain f px' where run: "px_execute_order ''x'' 0 ex_px_context ''o'' 100 ex_px = Inr (f, px')" "pxf_quantity f = 2"
    using ex_px_executes by blast
  have "f \<in> set (pst_executions (px_state px'))" using run(1) by (cases rule: px_execute_cases) auto
  with exchange_books_agree [OF px_run.px_execute [OF ex_px_run ex_px_fresh run(1)]] run show ?thesis
    by (auto simp: px_get_executions_def)
qed

text \<open>
  C39: Canceling does not keep an order from being executed: what an execution of the order would have returned
  before it was canceled, it returns after, and the canceled order ends filled.
\<close>

theorem canceled_order_executes:
  assumes "px_cancel_order i px = Inr (o1, px')"
    "px_execute_order fid now x i p px = Inr (f, px1)"
  shows "pxo_status o1 = ''CANCELED'' \<and>
     (\<exists>px2 o2. px_execute_order fid now x i p px' = Inr (f, px2) \<and>
        map_of (pst_orders (px_state px2)) i = Some o2 \<and> pxo_status o2 = ''FILLED'' \<and>
        f \<in> set (pst_executions (px_state px2)))"
proof -
  obtain o0 where o0: "map_of (pst_orders (px_state px)) i = Some o0" "pxo_status o1 = ''CANCELED''"
    using assms(1) by (auto simp: px_cancel_order_def Let_def split: option.splits)
  from execute_ignores_status [OF o0(1) assms(1), of fid now x p] assms(2)
  obtain px2 where px2: "px_execute_order fid now x i p px' = Inr (f, px2)"
    by (auto split: sum.splits)
  then have "\<exists>o2. map_of (pst_orders (px_state px2)) i = Some o2 \<and> pxo_status o2 = ''FILLED'' \<and>
      f \<in> set (pst_executions (px_state px2))"
    by (cases rule: px_execute_cases) simp
  with px2 o0(2) show ?thesis by blast
qed

lemma canceled_order_executes_witness:
  "\<exists>o1 px' f px2. px_cancel_order ''o'' ex_px = Inr (o1, px') \<and>
     px_execute_order ''x'' 0 ex_px_context ''o'' 100 px' = Inr (f, px2) \<and> pxf_quantity f = 2"
proof -
  obtain o1 px' where c: "px_cancel_order ''o'' ex_px = Inr (o1, px')" by (simp add: ex_px_simps Let_def)
  obtain f px1 where e: "px_execute_order ''x'' 0 ex_px_context ''o'' 100 ex_px = Inr (f, px1)" "pxf_quantity f = 2"
    using ex_px_executes by blast
  from canceled_order_executes [OF c e(1)] c e(2) show ?thesis by blast
qed

section \<open>The paper report\<close>



end
