(* ===== verification/Spec2Isabelle.thy ===== *)
theory Spec2Isabelle
  imports Properties_Backtest Properties_Paper Properties_Operations Properties_Research
    Properties_Setups Properties_Reports
begin

text \<open>
  A verification development for the crypto trading system under \<open>src/\<close>.
\<close>

end
